(* ===== verification/Prelude.thy ===== *)
theory Prelude
  imports Complex_Main "HOL-Library.AList" "HOL-Library.Sublist"
begin

text \<open>
  Shared ground of the development: Python's exceptions as values, the result type with its
  sequencing operators, Python's dynamic values, ordered dictionaries, and the string operations of
  \<open>str\<close> that the modelled files call. A Python \<open>str\<close> is an Isabelle \<open>string\<close>, so code points are
  limited to the first 256; a Python \<open>int\<close> is an \<open>int\<close>; a Python \<open>float\<close> is read as the exact
  number it denotes (rounding is not modelled) or one of the special values.
\<close>

named_theorems res_simps \<open>unfolding of the sequencing operators\<close>
named_theorems str_simps \<open>facts on the string operations\<close>

section \<open>Exceptions and results\<close>

text \<open>Only the class of an exception is kept, not its message.\<close>

datatype exn = TypeError | ValueError | RuntimeError | KeyError | AttributeError | IndexError
  | NotImplementedError | ClientError | StructError | SystemExit | AssertionError | OSError | ZeroDivisionError | Exception | OverflowError
  | CalledProcessError

type_synonym 'a res = "exn + 'a"

definition bindR :: "'a res \<Rightarrow> ('a \<Rightarrow> 'b res) \<Rightarrow> 'b res" where
  "bindR m f = (case m of Inl e \<Rightarrow> Inl e | Inr x \<Rightarrow> f x)"

text \<open>\<open>raise_if b e k\<close> is \<open>if b: raise e\<close> followed by \<open>k\<close>.\<close>

definition raise_if :: "bool \<Rightarrow> exn \<Rightarrow> 'a res \<Rightarrow> 'a res" where
  "raise_if b e k = (if b then Inl e else k)"

primrec mapR :: "('a \<Rightarrow> 'b res) \<Rightarrow> 'a list \<Rightarrow> 'b list res" where
  "mapR f [] = Inr []"
| "mapR f (x # xs) = bindR (f x) (\<lambda>y. bindR (mapR f xs) (\<lambda>ys. Inr (y # ys)))"

primrec foldR :: "('a \<Rightarrow> 's \<Rightarrow> 's res) \<Rightarrow> 'a list \<Rightarrow> 's \<Rightarrow> 's res" where
  "foldR f [] s = Inr s"
| "foldR f (x # xs) s = bindR (f x s) (foldR f xs)"

lemma bindR_simps [simp, res_simps]:
  "bindR (Inl e) f = Inl e"
  "bindR (Inr x) f = f x"
  by (simp_all add: bindR_def)

lemma raise_if_simps [simp, res_simps]:
  "raise_if True e k = Inl e"
  "raise_if False e k = k"
  by (simp_all add: raise_if_def)

lemma bindR_Inr_iff: "bindR m f = Inr y \<longleftrightarrow> (\<exists>x. m = Inr x \<and> f x = Inr y)"
  by (cases m) auto

lemma bindR_Inl_iff: "bindR m f = Inl e \<longleftrightarrow> m = Inl e \<or> (\<exists>x. m = Inr x \<and> f x = Inl e)"
  by (cases m) auto

lemma raise_if_Inr_iff: "raise_if b e k = Inr x \<longleftrightarrow> \<not> b \<and> k = Inr x"
  by (cases b) auto

lemma raise_if_Inl_iff: "raise_if b e k = Inl e' \<longleftrightarrow> (b \<and> e = e') \<or> (\<not> b \<and> k = Inl e')"
  by (cases b) auto

lemmas res_iffs = bindR_Inr_iff bindR_Inl_iff raise_if_Inr_iff raise_if_Inl_iff

lemma foldR_append: "foldR f (xs @ ys) s = bindR (foldR f xs s) (foldR f ys)"
proof (induction xs arbitrary: s)
  case (Cons x xs)
  then show ?case by (cases "f x s") simp_all
qed simp

text \<open>An invariant that every step of a loop keeps holds when the loop ends normally.\<close>

lemma foldR_invariant:
  assumes "foldR f xs s = Inr t" and "P s"
    and "\<And>x s t. x \<in> set xs \<Longrightarrow> P s \<Longrightarrow> f x s = Inr t \<Longrightarrow> P t"
  shows "P t"
  using assms
proof (induction xs arbitrary: s)
  case (Cons x xs)
  from Cons.prems(1) obtain u where u: "f x s = Inr u" "foldR f xs u = Inr t"
    by (auto simp: bindR_Inr_iff)
  have "P u" using Cons.prems(2,3) u(1) by auto
  then show ?case using Cons.IH [OF u(2)] Cons.prems(3) by auto
qed simp

lemma mapR_Inr_iff: "mapR f xs = Inr ys \<longleftrightarrow> list_all2 (\<lambda>x y. f x = Inr y) xs ys"
  by (induction xs arbitrary: ys) (auto simp: bindR_Inr_iff list_all2_Cons1)

lemma mapR_total: "(\<And>x. x \<in> set xs \<Longrightarrow> f x = Inr (g x)) \<Longrightarrow> mapR f xs = Inr (map g xs)"
  by (induction xs) auto

section \<open>Dynamic values\<close>

datatype pyfloat = FNaN | FInf bool | FFin rat

text \<open>
  \<open>PBytes (Some t)\<close> is a bytes object whose UTF-8 decoding is \<open>t\<close>, \<open>PBytes None\<close> one that does not
  decode; \<open>PObj t\<close> is any other object, with \<open>t\<close> its \<open>str()\<close>.
\<close>

datatype pyval = PNone | PBool bool | PInt int | PFloat pyfloat | PStr string
  | PBytes "string option" | PList "pyval list" | PTuple "pyval list"
  | PDict "(string \<times> pyval) list" | PObj string

text \<open>Python counts \<open>bool\<close> as a subclass of \<open>int\<close>: \<open>isinstance(True, int)\<close> holds and \<open>True\<close> is 1.\<close>

fun as_int :: "pyval \<Rightarrow> int option" where
  "as_int (PInt i) = Some i"
| "as_int (PBool b) = Some (if b then 1 else 0)"
| "as_int _ = None"

definition is_pos_int :: "pyval \<Rightarrow> bool" where
  "is_pos_int v = (case as_int v of None \<Rightarrow> False | Some i \<Rightarrow> 0 < i)"

fun is_str :: "pyval \<Rightarrow> bool" where
  "is_str (PStr _) = True"
| "is_str _ = False"

text \<open>\<open>bool(v)\<close>; other objects are true.\<close>

fun py_truth :: "pyval \<Rightarrow> bool" where
  "py_truth PNone = False"
| "py_truth (PBool b) = b"
| "py_truth (PInt i) = (i \<noteq> 0)"
| "py_truth (PFloat f) = (f \<noteq> FFin 0)"
| "py_truth (PStr s) = (s \<noteq> [])"
| "py_truth (PBytes b) = (b \<noteq> Some [])"
| "py_truth (PList xs) = (xs \<noteq> [])"
| "py_truth (PTuple xs) = (xs \<noteq> [])"
| "py_truth (PDict d) = (d \<noteq> [])"
| "py_truth (PObj _) = True"

section \<open>Decimal numerals\<close>

definition digit_char :: "nat \<Rightarrow> char" where
  "digit_char d = char_of (48 + d)"

definition is_digit :: "char \<Rightarrow> bool" where
  "is_digit c = (48 \<le> (of_char c :: nat) \<and> (of_char c :: nat) \<le> 57)"

definition digit_val :: "char \<Rightarrow> nat" where
  "digit_val c = of_char c - 48"

fun str_nat :: "nat \<Rightarrow> string" where
  "str_nat n = (if n < 10 then [digit_char n] else str_nat (n div 10) @ [digit_char (n mod 10)])"

declare str_nat.simps [simp del]

definition str_int :: "int \<Rightarrow> string" where
  "str_int i = (if i < 0 then CHR ''-'' # str_nat (nat (- i)) else str_nat (nat i))"

definition nat_of_digits :: "string \<Rightarrow> nat" where
  "nat_of_digits = foldl (\<lambda>n c. 10 * n + digit_val c) 0"

lemma digit_char_simps [simp]:
  "d < 10 \<Longrightarrow> is_digit (digit_char d)"
  "d < 10 \<Longrightarrow> digit_val (digit_char d) = d"
  by (simp_all add: is_digit_def digit_val_def digit_char_def)

lemma str_nat_digits: "\<forall>c \<in> set (str_nat n). is_digit c"
proof (induction n rule: str_nat.induct)
  case (1 n)
  then show ?case by (cases "n < 10") (simp_all add: str_nat.simps [of n])
qed

lemma str_nat_nonempty [simp]: "str_nat n \<noteq> []"
  by (subst str_nat.simps) simp

lemma nat_of_digits_snoc: "nat_of_digits (s @ [c]) = 10 * nat_of_digits s + digit_val c"
  by (simp add: nat_of_digits_def)

lemma nat_of_digits_str_nat [simp]: "nat_of_digits (str_nat n) = n"
proof (induction n rule: str_nat.induct)
  case (1 n)
  show ?case
  proof (cases "n < 10")
    case True
    then show ?thesis by (simp add: str_nat.simps [of n] nat_of_digits_def)
  next
    case False
    then show ?thesis
      using 1 by (subst str_nat.simps) (simp add: nat_of_digits_snoc)
  qed
qed

section \<open>String operations\<close>

abbreviation SQ :: char where "SQ \<equiv> CHR 0x27"
abbreviation DQ :: char where "DQ \<equiv> CHR 0x22"
abbreviation EQ :: char where "EQ \<equiv> CHR 0x3D"
abbreviation NL :: char where "NL \<equiv> CHR 0x0A"
abbreviation US :: char where "US \<equiv> CHR ''_''"

definition startswith :: "string \<Rightarrow> string \<Rightarrow> bool" where
  "startswith s p = (take (length p) s = p)"

definition endswith :: "string \<Rightarrow> string \<Rightarrow> bool" where
  "endswith s p = (length p \<le> length s \<and> drop (length s - length p) s = p)"

text \<open>\<open>os.path.join(a, b)\<close>.\<close>

definition path_join :: "string \<Rightarrow> string \<Rightarrow> string" where
  "path_join a b =
     (if startswith b ''/'' then b else if a = [] \<or> endswith a ''/'' then a @ b else a @ CHR ''/'' # b)"

text \<open>\<open>s.partition(c)\<close> for a one-character separator: head, whether it was found, tail.\<close>

primrec partition_at :: "char \<Rightarrow> string \<Rightarrow> string \<times> bool \<times> string" where
  "partition_at c [] = ([], False, [])"
| "partition_at c (x # xs) =
     (if x = c then ([], True, xs)
      else (case partition_at c xs of (h, f, t) \<Rightarrow> (x # h, f, t)))"

text \<open>\<open>s.replace(p, r)\<close> for a non-empty pattern: left to right, no overlaps.\<close>

function replace_all :: "string \<Rightarrow> string \<Rightarrow> string \<Rightarrow> string" where
  "replace_all p r s =
     (case s of [] \<Rightarrow> []
      | c # cs \<Rightarrow>
          if p \<noteq> [] \<and> startswith s p then r @ replace_all p r (drop (length p) s)
          else c # replace_all p r cs)"
  by pat_completeness auto
termination
  by (relation "measure (\<lambda>(p, r, s). length s)") (auto simp: startswith_def)

declare replace_all.simps [simp del]

primrec join :: "string \<Rightarrow> string list \<Rightarrow> string" where
  "join sep [] = []"
| "join sep (x # xs) = (if xs = [] then x else x @ sep @ join sep xs)"

text \<open>\<open>s.split(c)\<close> for a one-character separator.\<close>

primrec split_on :: "char \<Rightarrow> string \<Rightarrow> string list" where
  "split_on c [] = [[]]"
| "split_on c (x # xs) =
     (if x = c then [] # split_on c xs else (x # hd (split_on c xs)) # tl (split_on c xs))"

lemma split_on_nonempty [simp]: "split_on c s \<noteq> []"
  by (cases s) simp_all

lemma split_on_absent: "c \<notin> set s \<Longrightarrow> split_on c s = [s]"
  by (induction s) auto

lemma split_on_field: "c \<notin> set s \<Longrightarrow> split_on c (s @ c # t) = s # split_on c t"
  by (induction s) auto

lemma split_on_join:
  "xs \<noteq> [] \<Longrightarrow> \<forall>x \<in> set xs. c \<notin> set x \<Longrightarrow> split_on c (join [c] xs) = xs"
  by (induction xs) (auto simp: split_on_absent split_on_field)

definition is_space :: "char \<Rightarrow> bool" where
  "is_space c = (let n = (of_char c :: nat) in n = 32 \<or> (9 \<le> n \<and> n \<le> 13) \<or> (28 \<le> n \<and> n \<le> 31)
     \<or> n = 133 \<or> n = 160)"

definition lstrip :: "(char \<Rightarrow> bool) \<Rightarrow> string \<Rightarrow> string" where
  "lstrip p s = dropWhile p s"

definition strip :: "(char \<Rightarrow> bool) \<Rightarrow> string \<Rightarrow> string" where
  "strip p s = rev (dropWhile p (rev (dropWhile p s)))"

lemma startswith_append [simp, str_simps]: "startswith (p @ s) p"
  by (simp add: startswith_def)

lemma startswith_iff: "startswith s p \<longleftrightarrow> (\<exists>t. s = p @ t)"
  unfolding startswith_def by (metis append_eq_conv_conj append_take_drop_id)

lemma endswith_append [simp, str_simps]: "endswith (s @ p) p"
  by (simp add: endswith_def)

lemma endswith_iff: "endswith s p \<longleftrightarrow> (\<exists>t. s = t @ p)"
  unfolding endswith_def
  by (metis append_eq_conv_conj append_take_drop_id diff_le_self length_append length_drop
      le_add2 add_diff_cancel_right')

lemma partition_at_notin:
  "c \<notin> set s \<Longrightarrow> partition_at c s = (s, False, [])"
  by (induction s) auto

lemma partition_at_found:
  "c \<notin> set h \<Longrightarrow> partition_at c (h @ c # t) = (h, True, t)"
  by (induction h) auto

lemma partition_at_correct:
  "partition_at c s = (h, f, t) \<Longrightarrow> c \<notin> set h \<and> s = (if f then h @ c # t else h) \<and> (f \<or> t = [])"
  by (induction s arbitrary: h) (auto split: prod.splits if_splits)

lemma dropWhile_hd: "dropWhile p s \<noteq> [] \<Longrightarrow> \<not> p (hd (dropWhile p s))"
  by (induction s) auto

text \<open>A stripped string neither starts nor ends with a stripped character.\<close>

lemma strip_last: "strip p s \<noteq> [] \<Longrightarrow> \<not> p (last (strip p s))"
  unfolding strip_def using dropWhile_hd [of p "rev (dropWhile p s)"]
  by (simp add: last_rev)

lemma replace_all_absent:
  "c \<in> set p \<Longrightarrow> c \<notin> set s \<Longrightarrow> replace_all p r s = s"
proof (induction s)
  case (Cons x s)
  have "\<not> startswith (x # s) p"
    using Cons.prems by (auto simp: startswith_iff) (metis Un_iff set_ConsD set_append)
  with Cons show ?case
    by (subst replace_all.simps) simp
qed (simp add: replace_all.simps)

lemma replace_all_prefix:
  "p \<noteq> [] \<Longrightarrow> replace_all p r (p @ s) = r @ replace_all p r s"
proof -
  assume "p \<noteq> []"
  then obtain c cs where p: "p = c # cs" by (cases p) auto
  have "startswith (c # cs @ s) (c # cs)" by (metis append_Cons startswith_append)
  then show ?thesis by (simp add: p replace_all.simps [of _ _ "c # cs @ s"])
qed

section \<open>Reading integers\<close>

text \<open>
  \<open>int(s)\<close> of a string: surrounding white space, an optional sign, decimal digits with single
  underscores between them; anything else raises \<open>ValueError\<close>.
\<close>

fun clean_digits :: "string \<Rightarrow> string option" where
  "clean_digits [] = None"
| "clean_digits [c] = (if is_digit c then Some [c] else None)"
| "clean_digits (c # d # cs) =
     (if \<not> is_digit c then None
      else map_option (Cons c) (clean_digits (if d = CHR ''_'' then cs else d # cs)))"

definition split_sign :: "string \<Rightarrow> bool \<times> string" where
  "split_sign s = (case s of c # cs \<Rightarrow>
       if c = CHR ''-'' then (True, cs) else if c = CHR ''+'' then (False, cs) else (False, s)
     | [] \<Rightarrow> (False, []))"

definition py_int :: "string \<Rightarrow> int option" where
  "py_int s = (case split_sign (strip is_space s) of (neg, u) \<Rightarrow>
     map_option (\<lambda>ds. let n = int (nat_of_digits ds) in if neg then - n else n) (clean_digits u))"

lemma is_digit_simps [simp]:
  "\<not> is_digit (CHR ''-'')" "\<not> is_digit (CHR ''+'')" "\<not> is_digit (CHR ''_'')"
  by (simp_all add: is_digit_def)

lemma digit_not_space: "is_digit c \<Longrightarrow> \<not> is_space c"
  by (auto simp: is_digit_def is_space_def Let_def)

lemma clean_digits_all: "s \<noteq> [] \<Longrightarrow> \<forall>c \<in> set s. is_digit c \<Longrightarrow> clean_digits s = Some s"
  by (induction s rule: clean_digits.induct) auto

lemma clean_digits_set: "clean_digits s = Some t \<Longrightarrow> set s \<subseteq> insert (CHR ''_'') (Collect is_digit)"
  by (induction s arbitrary: t rule: clean_digits.induct) (fastforce split: if_splits)+

lemma strip_none: "\<forall>c \<in> set s. \<not> p c \<Longrightarrow> strip p s = s"
  unfolding strip_def by (metis dropWhile_eq_self_iff hd_in_set rev_rev_ident set_rev)

lemma strip_strip: "strip p (strip p s) = strip p s"
proof -
  have "dropWhile p (strip p s) = strip p s"
  proof (cases "strip p s")
    case (Cons c cs)
    let ?d = "dropWhile p s"
    have "\<exists>u. ?d = strip p s @ u"
      using takeWhile_dropWhile_id [of p "rev ?d"] by (metis rev_append rev_rev_ident strip_def)
    then obtain u where u: "?d = strip p s @ u" by blast
    then have "hd ?d = c" using Cons by simp
    moreover have "?d \<noteq> []" using u Cons by simp
    ultimately have "\<not> p c" using dropWhile_hd [of p s] by simp
    with Cons show ?thesis by simp
  qed simp
  moreover have "dropWhile p (rev (strip p s)) = rev (strip p s)"
    by (simp add: strip_def dropWhile_idem)
  ultimately show ?thesis by (simp add: strip_def [of p "strip p s"])
qed

lemma split_sign_digits: "s \<noteq> [] \<Longrightarrow> \<forall>c \<in> set s. is_digit c \<Longrightarrow> split_sign s = (False, s)"
  by (cases s) (auto simp: split_sign_def)

lemma py_int_digits:
  assumes "s \<noteq> []" and "\<forall>c \<in> set s. is_digit c"
  shows "py_int s = Some (int (nat_of_digits s))"
proof -
  have "strip is_space s = s"
    using assms(2) digit_not_space by (intro strip_none) auto
  then show ?thesis
    using assms by (simp add: py_int_def split_sign_digits clean_digits_all)
qed

lemma str_int_set: "c \<in> set (str_int i) \<Longrightarrow> is_digit c \<or> c = CHR ''-''"
  using str_nat_digits by (auto simp: str_int_def split: if_splits)

lemma py_int_str_int [simp]: "py_int (str_int i) = Some i"
proof (cases "i < 0")
  case True
  have nsp: "\<forall>c \<in> set (CHR ''-'' # str_nat (nat (- i))). \<not> is_space c"
    using str_nat_digits digit_not_space by (auto simp: is_space_def)
  show ?thesis
    using True strip_none [OF nsp]
    by (simp add: py_int_def str_int_def split_sign_def clean_digits_all str_nat_digits)
next
  case False
  then show ?thesis
    by (simp add: str_int_def py_int_digits str_nat_digits)
qed

lemma strip_set: "c \<in> set s \<Longrightarrow> c \<in> set (strip p s) \<or> p c"
proof -
  assume c: "c \<in> set s"
  have *: "x \<in> set t \<Longrightarrow> x \<in> set (dropWhile p t) \<or> p x" for x t
    by (metis Un_iff set_append set_takeWhileD takeWhile_dropWhile_id)
  show ?thesis using * [OF c] * [of c "rev (dropWhile p s)"] by (auto simp: strip_def)
qed

text \<open>The only characters a string that \<open>int()\<close> accepts can have.\<close>

lemma py_int_set:
  assumes "py_int s = Some i" and "c \<in> set s"
  shows "is_digit c \<or> is_space c \<or> c \<in> {CHR ''_'', CHR ''+'', CHR ''-''}"
proof -
  obtain neg u where u: "split_sign (strip is_space s) = (neg, u)"
    by (cases "split_sign (strip is_space s)")
  obtain ds where "clean_digits u = Some ds" using assms(1) by (auto simp: py_int_def u)
  then have "set u \<subseteq> insert (CHR ''_'') (Collect is_digit)" by (rule clean_digits_set)
  moreover have "set (strip is_space s) \<subseteq> {CHR ''+'', CHR ''-''} \<union> set u"
  proof (cases "strip is_space s")
    case (Cons c cs)
    with u show ?thesis unfolding Cons by (auto simp: split_sign_def split: if_splits)
  qed simp
  ultimately show ?thesis using strip_set [OF assms(2), of is_space] by auto
qed

end
