(* ===== verification/Shell.thy ===== *)
theory Shell
  imports Prelude
begin

text \<open>
  \<open>python/metaspore/shell_utils.py\<close>: quoting of command lines for bash, used when a
  command is logged. The loop of \<open>escape_bash_string\<close> is \<open>escape_loop\<close>, whose Boolean is
  \<open>prev_index is not None\<close>. The specification is a reader of bash words (\<open>bash_words\<close>) that
  knows unquoted text, single quotes and double quotes and refuses every character bash would
  interpret.
\<close>

section \<open>The code\<close>

definition bash_safe :: "char \<Rightarrow> bool" where
  "bash_safe c = (let n = (of_char c :: nat) in
     (97 \<le> n \<and> n \<le> 122) \<or> (65 \<le> n \<and> n \<le> 90) \<or> (48 \<le> n \<and> n \<le> 57) \<or> c \<in> set ''+-_=/%@:,.'')"

text \<open>\<open>fstr\<close> is \<open>str\<close> of a float, whose shortest-digits algorithm is not modelled.\<close>

fun check_bash_string :: "(pyfloat \<Rightarrow> string) \<Rightarrow> pyval \<Rightarrow> string res" where
  "check_bash_string fstr (PStr s) = Inr s"
| "check_bash_string fstr (PBytes (Some s)) = Inr s"
| "check_bash_string fstr (PBytes None) = Inl ValueError"
| "check_bash_string fstr (PInt i) = Inr (str_int i)"
| "check_bash_string fstr (PBool b) = Inr (if b then ''True'' else ''False'')"
| "check_bash_string fstr (PFloat x) = Inr (fstr x)"
| "check_bash_string fstr _ = Inl TypeError"

text \<open>
  The quoting loop. On a quote inside an open single-quoted run the code appends the closing quote
  to \<open>item\<close> (which the loop no longer reads) and not to \<open>string\<close>: nothing is emitted.
\<close>

fun escape_loop :: "bool \<Rightarrow> string \<Rightarrow> string" where
  "escape_loop op [] = (if op then [SQ] else [])"
| "escape_loop op (c # cs) =
     (if c = SQ then [DQ, SQ, DQ] @ escape_loop False cs
      else (if op then [] else [SQ]) @ c # escape_loop True cs)"

definition escape_text :: "string \<Rightarrow> string" where
  "escape_text item =
     (if item = [] then [SQ, SQ]
      else if list_all bash_safe item then item
      else if length item = 1 then (if item = [SQ] then [DQ, SQ, DQ] else SQ # item @ [SQ])
      else (case partition_at EQ item of (h, found, t) \<Rightarrow>
        if found \<and> list_all bash_safe h then h @ EQ # escape_loop False t
        else escape_loop False item))"

definition escape_bash_string :: "(pyfloat \<Rightarrow> string) \<Rightarrow> pyval \<Rightarrow> string res" where
  "escape_bash_string fstr item = bindR (check_bash_string fstr item) (\<lambda>s. Inr (escape_text s))"

fun is_list_or_tuple :: "pyval \<Rightarrow> bool" where
  "is_list_or_tuple (PList _) = True"
| "is_list_or_tuple (PTuple _) = True"
| "is_list_or_tuple _ = False"

fun items_of :: "pyval \<Rightarrow> pyval list" where
  "items_of (PList xs) = xs"
| "items_of (PTuple xs) = xs"
| "items_of _ = []"

definition escape_bash_command :: "(pyfloat \<Rightarrow> string) \<Rightarrow> pyval \<Rightarrow> string res" where
  "escape_bash_command fstr command =
     raise_if (\<not> is_list_or_tuple command) TypeError
     (raise_if (items_of command = []) ValueError
     (case items_of command of
        [x] \<Rightarrow> escape_bash_string fstr x
      | xs \<Rightarrow> bindR (mapR (escape_bash_string fstr) xs) (\<lambda>ys. Inr (join '' '' ys))))"

definition bash_escape :: "(pyfloat \<Rightarrow> string) \<Rightarrow> pyval \<Rightarrow> string res" where
  "bash_escape fstr args =
     (if \<not> is_list_or_tuple args then escape_bash_string fstr args
      else if list_all (\<lambda>x. \<not> is_list_or_tuple x) (items_of args) then escape_bash_command fstr args
      else bindR (mapR (escape_bash_command fstr) (items_of args)) (\<lambda>ys. Inr (join ''; '' ys)))"

section \<open>How bash reads words\<close>

text \<open>
  \<open>words_unq acc s\<close> reads \<open>s\<close> outside quotes, \<open>acc\<close> being the word under construction, if any;
  \<open>words_sq\<close> and \<open>words_dq\<close> read inside single and double quotes. \<open>None\<close> is an unterminated quote
  or a character that bash does not take literally there.
\<close>

definition dq_plain :: "char \<Rightarrow> bool" where
  "dq_plain c = (c \<notin> {CHR ''$'', CHR 0x60, CHR 0x5C, CHR ''!''})"

fun words_unq :: "string option \<Rightarrow> string \<Rightarrow> string list option"
  and words_sq :: "string \<Rightarrow> string \<Rightarrow> string list option"
  and words_dq :: "string \<Rightarrow> string \<Rightarrow> string list option" where
  "words_unq None [] = Some []"
| "words_unq (Some w) [] = Some [w]"
| "words_unq acc (c # cs) =
     (if c = CHR '' '' then
        (case acc of None \<Rightarrow> words_unq None cs | Some w \<Rightarrow> map_option (Cons w) (words_unq None cs))
      else if c = SQ then words_sq (case acc of None \<Rightarrow> [] | Some w \<Rightarrow> w) cs
      else if c = DQ then words_dq (case acc of None \<Rightarrow> [] | Some w \<Rightarrow> w) cs
      else if bash_safe c then words_unq (Some ((case acc of None \<Rightarrow> [] | Some w \<Rightarrow> w) @ [c])) cs
      else None)"
| "words_sq w [] = None"
| "words_sq w (c # cs) = (if c = SQ then words_unq (Some w) cs else words_sq (w @ [c]) cs)"
| "words_dq w [] = None"
| "words_dq w (c # cs) =
     (if c = DQ then words_unq (Some w) cs
      else if dq_plain c then words_dq (w @ [c]) cs else None)"

definition bash_words :: "string \<Rightarrow> string list option" where
  "bash_words s = words_unq None s"

section \<open>Reading back what was quoted\<close>

lemma bash_safe_plain [simp]:
  "\<not> bash_safe SQ" "\<not> bash_safe DQ" "\<not> bash_safe (CHR '' '')" "bash_safe EQ"
  by (simp_all add: bash_safe_def)

lemma words_unq_safe:
  "list_all bash_safe s \<Longrightarrow> s \<noteq> [] \<Longrightarrow>
   words_unq acc (s @ r) = words_unq (Some ((case acc of None \<Rightarrow> [] | Some w \<Rightarrow> w) @ s)) r"
proof (induction s arbitrary: acc)
  case (Cons c s)
  have "c \<noteq> SQ \<and> c \<noteq> DQ \<and> c \<noteq> CHR '' ''" using Cons.prems(1) by auto
  then show ?case
    using Cons by (cases "s = []") (auto split: option.splits)
qed simp

lemma words_sq_plain:
  "SQ \<notin> set s \<Longrightarrow> words_sq w (s @ SQ # r) = words_unq (Some (w @ s)) r"
  by (induction s arbitrary: w) auto

lemma words_sq_open: "SQ \<notin> set s \<Longrightarrow> words_sq w s = None"
  by (induction s arbitrary: w) auto

lemma words_dq_open: "DQ \<notin> set s \<Longrightarrow> words_dq w s = None"
  by (induction s arbitrary: w) auto

lemma escape_loop_open: "SQ \<notin> set s \<Longrightarrow> escape_loop True s = s @ [SQ]"
  by (induction s) auto

lemma escape_loop_closed: "SQ \<notin> set s \<Longrightarrow> s \<noteq> [] \<Longrightarrow> escape_loop False s = SQ # s @ [SQ]"
  by (cases s) (auto simp: escape_loop_open)

lemma words_escape_loop:
  "SQ \<notin> set s \<Longrightarrow> s \<noteq> [] \<Longrightarrow> words_unq acc (escape_loop False s @ r) =
     words_unq (Some ((case acc of None \<Rightarrow> [] | Some w \<Rightarrow> w) @ s)) r"
  by (simp add: escape_loop_closed words_sq_plain)

text \<open>One word, in front of anything: the reader gets exactly the word back.\<close>

lemma words_escape_text:
  assumes "SQ \<notin> set s"
  shows "words_unq None (escape_text s @ r) = words_unq (Some s) r"
proof (cases "s = [] \<or> list_all bash_safe s \<or> length s = 1")
  case True
  then show ?thesis
    using assms words_unq_safe [of s None r] words_sq_plain [of s "[]" r]
    by (auto simp: escape_text_def length_Suc_conv)
next
  case False
  then have big: "s \<noteq> []" "\<not> list_all bash_safe s" "length s \<noteq> 1" by auto
  obtain h f t where p: "partition_at EQ s = (h, f, t)" by (cases "partition_at EQ s")
  show ?thesis
  proof (cases "f \<and> list_all bash_safe h")
    case True
    then have s: "s = h @ EQ # t" using partition_at_correct [OF p] by simp
    then have "t \<noteq> []" using big(2) True by auto
    moreover have "SQ \<notin> set t" using assms s by simp
    moreover have "list_all bash_safe (h @ [EQ])" using True by simp
    ultimately show ?thesis
      using big True words_unq_safe [of "h @ [EQ]" None "escape_loop False t @ r"]
      by (simp add: escape_text_def p [unfolded s] s words_escape_loop)
  next
    case False
    then show ?thesis
      using big assms by (auto simp: escape_text_def p words_escape_loop)
  qed
qed

lemma words_join_escaped:
  assumes "xs \<noteq> []" and "\<forall>s \<in> set xs. SQ \<notin> set s"
  shows "words_unq None (join '' '' (map escape_text xs)) = Some xs"
  using assms
proof (induction xs)
  case (Cons x xs)
  show ?case
  proof (cases "xs = []")
    case True
    then show ?thesis using Cons.prems words_escape_text [of x "[]"] by simp
  next
    case False
    then show ?thesis
      using Cons words_escape_text [of x "CHR '' '' # join '' '' (map escape_text xs)"] by simp
  qed
qed simp

text \<open>A quote that follows quoted text leaves the reader inside an unterminated quote.\<close>

lemma words_broken_quote:
  assumes "SQ \<notin> set a" "a \<noteq> []" "DQ \<notin> set a" "SQ \<notin> set b" "DQ \<notin> set b"
  shows "words_unq acc (escape_loop False (a @ SQ # b)) = None"
proof -
  have op: "escape_loop True (a @ SQ # b) = a @ [DQ, SQ, DQ] @ escape_loop False b"
    if "SQ \<notin> set a" for a using that by (induction a) auto
  obtain c a' where a: "a = c # a'" using assms(2) by (cases a) auto
  have "escape_loop False (a @ SQ # b) = SQ # a @ [DQ, SQ, DQ] @ escape_loop False b"
    using assms(1) op [of a'] by (auto simp: a)
  moreover have "words_sq w (a @ [DQ, SQ, DQ] @ escape_loop False b) = None" for w
  proof -
    have "words_sq w ((a @ [DQ]) @ SQ # DQ # escape_loop False b) =
        words_unq (Some (w @ a @ [DQ])) (DQ # escape_loop False b)"
      using words_sq_plain [of "a @ [DQ]" w "DQ # escape_loop False b"] assms(1) by simp
    moreover have "DQ \<notin> set (escape_loop False b)"
      using assms(4,5) by (cases "b = []") (auto simp: escape_loop_closed)
    ultimately show ?thesis by (simp add: words_dq_open)
  qed
  ultimately show ?thesis by (simp split: option.splits)
qed

section \<open>Properties\<close>

text \<open>for a command whose items are strings without a single quote, the line that
  \<open>escape_bash_command\<close> builds is read by bash as exactly those words, in order: nothing is split,
  joined or interpreted. The one-item command and the \<open>NAME=value\<close> prefix are covered.\<close>

theorem escape_bash_command_words:
  assumes "xs \<noteq> []" and "\<forall>s \<in> set xs. SQ \<notin> set s"
  shows "\<exists>line. escape_bash_command fstr (PList (map PStr xs)) = Inr line \<and> bash_words line = Some xs"
proof -
  have m: "mapR (escape_bash_string fstr) (map PStr ys) = Inr (map escape_text ys)" for ys
    by (induction ys) (simp_all add: escape_bash_string_def)
  have "escape_bash_command fstr (PList (map PStr xs)) = Inr (join '' '' (map escape_text xs))"
  proof (cases xs rule: remdups_adj.cases)
    case (3 x y ys)
    then show ?thesis using m [of xs] by (simp add: escape_bash_command_def)
  qed (use assms(1) in \<open>auto simp: escape_bash_command_def escape_bash_string_def\<close>)
  then show ?thesis using words_join_escaped [OF assms] by (simp add: bash_words_def)
qed

theorem escape_bash_command_words_witness:
  "\<exists>line. escape_bash_command (\<lambda>_. []) (PList (map PStr [''env'', ''A=b c'', ''x;y''])) = Inr line
     \<and> bash_words line = Some [''env'', ''A=b c'', ''x;y'']"
  by (rule escape_bash_command_words) simp_all

text \<open>a string whose only single quote comes after other characters (and that has no double
  quote or \<open>=\<close>) is escaped to text with an unterminated quote: bash reads no word from it, because the
  loop never emits the quote that closes the run before the embedded one.\<close>

theorem escape_embedded_quote_broken:
  assumes "a \<noteq> []" and "SQ \<notin> set (a @ b)" and "DQ \<notin> set (a @ b)" and "EQ \<notin> set (a @ b)"
  shows "\<exists>t. escape_bash_string fstr (PStr (a @ SQ # b)) = Inr t \<and> bash_words t = None"
proof -
  have p: "partition_at EQ (a @ SQ # b) = (a @ SQ # b, False, [])"
    using assms(4) by (intro partition_at_notin) auto
  have "escape_text (a @ SQ # b) = escape_loop False (a @ SQ # b)"
    using assms(1) by (simp add: escape_text_def p)
  moreover have "words_unq None (escape_loop False (a @ SQ # b)) = None"
    using assms by (intro words_broken_quote) auto
  ultimately show ?thesis by (simp add: escape_bash_string_def bash_words_def)
qed

theorem escape_embedded_quote_broken_witness:
  "\<exists>t. escape_bash_string (\<lambda>_. []) (PStr (''it'' @ SQ # ''s'')) = Inr t \<and> bash_words t = None"
  by (rule escape_embedded_quote_broken) simp_all

end
