(* ===== verification/Utils.thy ===== *)
theory Utils
  imports Prelude
begin

text \<open>
  The small helpers of \<open>python/metaspore\<close>: \<open>name_utils.py\<close> (qualified names, the differing middle of
  two names, snake case), \<open>url_utils.py\<close> (S3 scheme rewriting) and \<open>job_utils.py\<close> (memory sizes).
  Each regular expression is written as the scanner of its language; Python's \<open>$\<close> also matches
  before a final newline, and the scanners say so.
\<close>

section \<open>Qualified names\<close>

definition is_upper :: "char \<Rightarrow> bool" where
  "is_upper c = (65 \<le> (of_char c :: nat) \<and> (of_char c :: nat) \<le> 90)"

definition is_lower :: "char \<Rightarrow> bool" where
  "is_lower c = (97 \<le> (of_char c :: nat) \<and> (of_char c :: nat) \<le> 122)"

definition to_lower :: "char \<Rightarrow> char" where
  "to_lower c = (if is_upper c then char_of (of_char c + 32 :: nat) else c)"

definition name_start :: "char \<Rightarrow> bool" where
  "name_start c = (is_upper c \<or> is_lower c \<or> c \<in> set ''_.-'')"

definition name_part :: "char \<Rightarrow> bool" where
  "name_part c = (name_start c \<or> is_digit c)"

definition is_valid_qualified_name :: "string \<Rightarrow> bool" where
  "is_valid_qualified_name name =
     (case name of [] \<Rightarrow> False
      | c # cs \<Rightarrow> name_start c \<and> (let r = dropWhile name_part cs in r = [] \<or> r = [NL]))"

section \<open>The differing middle of two names\<close>

text \<open>The two loops of \<open>simplify_name\<close>, on the code's indices \<open>i\<close>, \<open>j\<close>, \<open>k\<close>.\<close>

function scan_forward :: "string \<Rightarrow> string \<Rightarrow> nat \<Rightarrow> nat" where
  "scan_forward name ref i =
     (if i < length name \<and> i < length ref \<and> name ! i = ref ! i then scan_forward name ref (Suc i)
      else i)"
  by pat_completeness auto
termination
  by (relation "measure (\<lambda>(name, ref, i). length name - i)") auto

declare scan_forward.simps [simp del]

fun scan_backward :: "string \<Rightarrow> string \<Rightarrow> nat \<Rightarrow> nat \<Rightarrow> nat \<Rightarrow> nat \<times> nat" where
  "scan_backward name ref i (Suc j) (Suc k) =
     (if i < Suc j \<and> i < Suc k \<and> name ! j = ref ! k then scan_backward name ref i j k
      else (Suc j, Suc k))"
| "scan_backward name ref i j k = (j, k)"

definition simplify_name :: "string \<Rightarrow> string \<Rightarrow> string" where
  "simplify_name name ref_name =
     (let i = scan_forward name ref_name 0;
          (j, k) = scan_backward name ref_name i (length name) (length ref_name)
      in drop i (take j name))"

lemma scan_forward_spec:
  "i \<le> length name \<Longrightarrow> i \<le> length ref \<Longrightarrow> take i name = take i ref \<Longrightarrow>
   (let n = scan_forward name ref i in
      n \<le> length name \<and> n \<le> length ref \<and> take n name = take n ref \<and>
      (n = length name \<or> n = length ref \<or> name ! n \<noteq> ref ! n))"
proof (induction name ref i rule: scan_forward.induct)
  case (1 name ref i)
  show ?case
  proof (cases "i < length name \<and> i < length ref \<and> name ! i = ref ! i")
    case True
    then have "take (Suc i) name = take (Suc i) ref"
      using "1.prems"(3) by (simp add: take_Suc_conv_app_nth)
    with True show ?thesis using "1.IH" by (simp add: scan_forward.simps [of name ref i])
  next
    case False
    with "1.prems" show ?thesis by (auto simp: scan_forward.simps [of name ref i])
  qed
qed

lemma drop_Suc_nth: "j < length xs \<Longrightarrow> drop j xs = xs ! j # drop (Suc j) xs"
  by (rule Cons_nth_drop_Suc [symmetric])

lemma scan_backward_spec:
  "j \<le> length name \<Longrightarrow> k \<le> length ref \<Longrightarrow> i \<le> j \<Longrightarrow> i \<le> k \<Longrightarrow> drop j name = drop k ref \<Longrightarrow>
   scan_backward name ref i j k = (j', k') \<Longrightarrow>
   i \<le> j' \<and> i \<le> k' \<and> j' \<le> length name \<and> k' \<le> length ref \<and> drop j' name = drop k' ref \<and>
   (j' = i \<or> k' = i \<or> name ! (j' - 1) \<noteq> ref ! (k' - 1))"
proof (induction name ref i j k rule: scan_backward.induct)
  case (1 name ref i j k)
  show ?case
  proof (cases "i < Suc j \<and> i < Suc k \<and> name ! j = ref ! k")
    case True
    then have "drop j name = drop k ref"
      using "1.prems"(1,2,5) by (simp add: drop_Suc_nth)
    with True show ?thesis using "1.IH" "1.prems" by simp
  next
    case False
    with "1.prems" show ?thesis by auto
  qed
qed auto

section \<open>Snake case\<close>

text \<open>\<open>re.findall('[A-Z]+', s)\<close> and \<open>re.findall('[A-Za-z][a-z0-9]*', s)\<close>.\<close>

function upper_runs :: "string \<Rightarrow> string list" where
  "upper_runs [] = []"
| "upper_runs (c # cs) =
     (if is_upper c then (c # takeWhile is_upper cs) # upper_runs (dropWhile is_upper cs)
      else upper_runs cs)"
  by pat_completeness auto
termination
  by (relation "measure length") (auto simp: le_imp_less_Suc length_dropWhile_le)

definition word_part :: "char \<Rightarrow> bool" where
  "word_part c = (is_lower c \<or> is_digit c)"

function camel_words :: "string \<Rightarrow> string list" where
  "camel_words [] = []"
| "camel_words (c # cs) =
     (if is_upper c \<or> is_lower c
      then (c # takeWhile word_part cs) # camel_words (dropWhile word_part cs)
      else camel_words cs)"
  by pat_completeness auto
termination
  by (relation "measure length") (auto simp: le_imp_less_Suc length_dropWhile_le)

text \<open>
  \<open>_*[A-Z]+(_+[A-Z]+)*_*$\<close> accepts the strings of capitals and underscores with at least one
  capital, and such a string followed by a newline.
\<close>

definition upper_case_identifier :: "string \<Rightarrow> bool" where
  "upper_case_identifier s =
     (let p = (\<lambda>c. is_upper c \<or> c = US); r = dropWhile p s
      in list_ex is_upper (takeWhile p s) \<and> (r = [] \<or> r = [NL]))"

definition get_words :: "string \<Rightarrow> string list" where
  "get_words name = (if upper_case_identifier name then upper_runs name else camel_words name)"

definition to_lower_snake_case :: "string \<Rightarrow> string" where
  "to_lower_snake_case name = join ''_'' (map (map to_lower) (get_words name))"

definition snake_word :: "string \<Rightarrow> bool" where
  "snake_word w = (w \<noteq> [] \<and> is_lower (hd w) \<and> list_all word_part w)"

lemma char_classes [simp]:
  "\<not> word_part US" "\<not> is_upper US" "\<not> is_lower US"
  by (simp_all add: word_part_def is_lower_def is_upper_def is_digit_def)

lemma to_lower_upper: "is_upper c \<Longrightarrow> is_lower (to_lower c)"
  by (simp add: to_lower_def is_upper_def is_lower_def)

lemma to_lower_part: "word_part c \<Longrightarrow> to_lower c = c"
  by (auto simp: to_lower_def word_part_def is_upper_def is_lower_def is_digit_def)

lemma to_lower_start: "is_upper c \<or> is_lower c \<Longrightarrow> is_lower (to_lower c)"
  using to_lower_upper [of c] to_lower_part [of c] by (auto simp: word_part_def)

lemma takeWhile_all: "list_all p (takeWhile p s)"
  by (induction s) auto

lemma camel_words_snake: "w \<in> set (camel_words s) \<Longrightarrow> snake_word (map to_lower w)"
proof (induction s rule: camel_words.induct)
  case (2 c cs)
  have "snake_word (map to_lower (c # takeWhile word_part cs))" if "is_upper c \<or> is_lower c"
  proof -
    have "map to_lower (takeWhile word_part cs) = takeWhile word_part cs"
      by (rule map_idI) (auto dest: set_takeWhileD to_lower_part)
    then show ?thesis
      using to_lower_start [OF that] takeWhile_all [of word_part cs]
      by (simp add: snake_word_def word_part_def)
  qed
  then show ?case using 2 by (auto split: if_splits)
qed simp

lemma upper_runs_snake: "w \<in> set (upper_runs s) \<Longrightarrow> snake_word (map to_lower w)"
proof (induction s rule: upper_runs.induct)
  case (2 c cs)
  have "snake_word (map to_lower (c # takeWhile is_upper cs))" if "is_upper c"
    using that to_lower_upper
    by (auto simp: snake_word_def list_all_iff word_part_def dest: set_takeWhileD)
  then show ?case using 2 by (auto split: if_splits)
qed simp

lemma get_words_snake: "\<forall>w \<in> set (map (map to_lower) (get_words s)). snake_word w"
  by (auto simp: get_words_def camel_words_snake upper_runs_snake)

lemma camel_words_one:
  assumes "snake_word w"
  shows "camel_words w = [w]" and "camel_words (w @ US # r) = w # camel_words r"
proof -
  obtain c cs where w: "w = c # cs" "is_lower c" "list_all word_part cs"
    using assms by (cases w) (auto simp: snake_word_def)
  have *: "takeWhile word_part cs = cs" "dropWhile word_part cs = []"
    "takeWhile word_part (cs @ US # r) = cs" "dropWhile word_part (cs @ US # r) = US # r"
    using w(3) by (auto simp: list_all_iff takeWhile_append dropWhile_append)
  show "camel_words w = [w]" "camel_words (w @ US # r) = w # camel_words r"
    unfolding w(1) using w(2) * by (simp_all del: dropWhile_eq_Nil_conv)
qed

lemma camel_words_join: "\<forall>w \<in> set ws. snake_word w \<Longrightarrow> camel_words (join ''_'' ws) = ws"
proof (induction ws)
  case (Cons w ws)
  then show ?case by (cases "ws = []") (auto simp: camel_words_one)
qed simp

lemma snake_join_chars:
  "\<forall>w \<in> set ws. snake_word w \<Longrightarrow> c \<in> set (join ''_'' ws) \<Longrightarrow> word_part c \<or> c = US"
  by (induction ws) (auto simp: snake_word_def list_all_iff split: if_splits)

section \<open>URLs\<close>

definition use_s3 :: "string \<Rightarrow> string" where
  "use_s3 url = replace_all ''s3a://'' ''s3://'' url"

definition use_s3a :: "string \<Rightarrow> string" where
  "use_s3a url = replace_all ''s3://'' ''s3a://'' url"

definition is_url :: "string \<Rightarrow> bool" where
  "is_url s =
     (if startswith s ''s3://'' \<or> startswith s ''s3a://'' then True
      else if startswith s ''file://'' then True
      else if startswith s ''./'' \<or> startswith s ''/'' then True
      else False)"

section \<open>Memory sizes\<close>

text \<open>
  \<open>re.match\<close> anchors only the start, so trailing characters pass the pattern and are left to \<open>int\<close>.
  The result counts megabytes.
\<close>

definition storage_pattern :: "string \<Rightarrow> bool" where
  "storage_pattern s =
     (let r = dropWhile is_digit s in
      takeWhile is_digit s \<noteq> [] \<and> r \<noteq> [] \<and> hd r \<in> {CHR ''M'', CHR ''G''})"

definition normalize_storage_size :: "pyval \<Rightarrow> int res" where
  "normalize_storage_size sz =
     (case sz of
        PStr s \<Rightarrow>
          raise_if (\<not> storage_pattern s) ValueError
          (case py_int (butlast s) of None \<Rightarrow> Inl ValueError
           | Some v \<Rightarrow> Inr (if last s = CHR ''G'' then v * 1024 else v))
      | _ \<Rightarrow> Inl ValueError)"

definition merge_storage_size :: "pyval \<Rightarrow> pyval \<Rightarrow> string res" where
  "merge_storage_size worker_memory server_memory =
     bindR (normalize_storage_size worker_memory) (\<lambda>mem1.
     bindR (normalize_storage_size server_memory) (\<lambda>mem2.
     let mem = max mem1 mem2 in
     Inr (if mem mod 1024 = 0 then str_int (mem div 1024) @ ''G'' else str_int mem @ ''M'')))"

lemma is_digit_unit [simp]: "\<not> is_digit (CHR ''M'')" "\<not> is_digit (CHR ''G'')"
  by (simp_all add: is_digit_def)

lemma storage_pattern_unit:
  assumes "d \<noteq> []" "\<forall>c \<in> set d. is_digit c" "u \<in> {CHR ''M'', CHR ''G''}"
  shows "storage_pattern (d @ [u])"
  using assms by (auto simp: storage_pattern_def)

lemma normalize_storage_size_unit:
  assumes "d \<noteq> []" "\<forall>c \<in> set d. is_digit c" "u \<in> {CHR ''M'', CHR ''G''}"
  shows "normalize_storage_size (PStr (d @ [u])) =
    Inr (int (nat_of_digits d) * (if u = CHR ''G'' then 1024 else 1))"
  using storage_pattern_unit [OF assms] assms
  by (auto simp: normalize_storage_size_def py_int_digits)

lemma normalize_storage_size_inv:
  assumes "normalize_storage_size v = Inr m"
  obtains d u where "v = PStr (d @ [u])" "d \<noteq> []" "\<forall>c \<in> set d. is_digit c"
    "u \<in> {CHR ''M'', CHR ''G''}"
proof -
  obtain s i where v: "v = PStr s" and pat: "storage_pattern s" and i: "py_int (butlast s) = Some i"
    using assms by (auto simp: normalize_storage_size_def raise_if_Inr_iff
        split: pyval.splits option.splits)
  define d where "d = takeWhile is_digit s"
  obtain u r where ur: "dropWhile is_digit s = u # r"
    using pat by (auto simp: storage_pattern_def Let_def neq_Nil_conv)
  then have s: "s = d @ u # r" by (metis d_def takeWhile_dropWhile_id)
  have d: "d \<noteq> []" "\<forall>c \<in> set d. is_digit c" and u: "u \<in> {CHR ''M'', CHR ''G''}"
    using pat ur by (auto simp: storage_pattern_def d_def dest: set_takeWhileD)
  have "r = []"
  proof (rule ccontr)
    assume r: "r \<noteq> []"
    then have "u \<in> set (butlast s)" by (simp add: s butlast_append)
    then have "is_digit u \<or> is_space u \<or> u \<in> {US, CHR ''+'', CHR ''-''}"
      by (rule py_int_set [OF i])
    with u show False by (auto simp: is_digit_def is_space_def Let_def)
  qed
  then show ?thesis using that v s d u by simp
qed

section \<open>Properties\<close>

text \<open>\<open>simplify_name\<close> removes exactly the common start and the common end of the two names: the
  result and what the reference has in the same place share no first and no last character, and the
  two removed parts never overlap in either name.\<close>

theorem simplify_name_middle:
  "\<exists>p q m. name = p @ simplify_name name ref @ q \<and> ref = p @ m @ q \<and>
     (simplify_name name ref = [] \<or> m = [] \<or>
      hd (simplify_name name ref) \<noteq> hd m \<and> last (simplify_name name ref) \<noteq> last m)"
proof -
  define i where "i = scan_forward name ref 0"
  obtain j k where jk: "scan_backward name ref i (length name) (length ref) = (j, k)"
    by (cases "scan_backward name ref i (length name) (length ref)")
  have f: "i \<le> length name" "i \<le> length ref" "take i name = take i ref"
    "i = length name \<or> i = length ref \<or> name ! i \<noteq> ref ! i"
    using scan_forward_spec [of 0 name ref] by (simp_all add: i_def Let_def)
  have b: "i \<le> j" "i \<le> k" "j \<le> length name" "k \<le> length ref" "drop j name = drop k ref"
    "j = i \<or> k = i \<or> name ! (j - 1) \<noteq> ref ! (k - 1)"
    using scan_backward_spec [OF _ _ f(1,2) _ jk] by auto
  define r where "r = drop i (take j name)"
  define m where "m = drop i (take k ref)"
  have split: "xs = take i xs @ drop i (take n xs) @ drop n xs" if "i \<le> n" for xs :: string and n
  proof -
    have "take i xs @ drop i (take n xs) = take n xs"
      using that append_take_drop_id [of i "take n xs"] by (simp add: min_def)
    then show ?thesis by (metis append.assoc append_take_drop_id)
  qed
  have "name = take i name @ r @ drop j name" "ref = take i name @ m @ drop j name"
    using split [OF b(1), of name] split [OF b(2), of ref] f(3) b(5) by (simp_all add: r_def m_def)
  moreover have "hd r \<noteq> hd m \<and> last r \<noteq> last m" if "r \<noteq> []" "m \<noteq> []"
  proof -
    have lt: "i < j" "i < k" using that by (auto simp: r_def m_def)
    then have "hd r = name ! i" "hd m = ref ! i" "last r = name ! (j - 1)" "last m = ref ! (k - 1)"
      using b by (simp_all add: r_def m_def hd_drop_conv_nth last_conv_nth)
    then show ?thesis using f(4) b lt by auto
  qed
  moreover have "simplify_name name ref = r"
    using jk by (simp add: simplify_name_def Let_def r_def flip: i_def)
  ultimately show ?thesis by blast
qed

text \<open>a name that has been stripped of white space, as \<open>Model\<close> does, passes
  \<open>is_valid_qualified_name\<close> exactly when it is non-empty, all its characters are letters, digits,
  underscores, dots or dashes, and the first is no digit; without the stripping the check also lets a
  final newline through.\<close>

theorem qualified_name_stripped:
  "is_valid_qualified_name (strip is_space s) \<longleftrightarrow>
     strip is_space s \<noteq> [] \<and> list_all name_part (strip is_space s) \<and> name_start (hd (strip is_space s))"
proof -
  let ?t = "strip is_space s"
  have nl: "last ?t \<noteq> NL" if "?t \<noteq> []"
    using strip_last [OF that] by (auto simp: is_space_def)
  show ?thesis
  proof (cases ?t)
    case (Cons c cs)
    have "dropWhile name_part cs \<noteq> [NL]"
    proof
      assume d: "dropWhile name_part cs = [NL]"
      have "cs = takeWhile name_part cs @ [NL]" using takeWhile_dropWhile_id [of name_part cs] d by simp
      then have "last (c # cs) = NL" by (metis append_is_Nil_conv last_ConsR last_snoc list.discI)
      then show False using nl Cons by simp
    qed
    moreover have "name_start c \<Longrightarrow> name_part c" by (simp add: name_part_def)
    ultimately show ?thesis
      unfolding Cons is_valid_qualified_name_def by (auto simp: list_all_iff)
  qed (simp add: is_valid_qualified_name_def)
qed

theorem qualified_name_newline:
  "is_valid_qualified_name (''model'' @ [NL])"
  by (simp add: is_valid_qualified_name_def name_start_def name_part_def is_upper_def is_lower_def
      is_digit_def)

text \<open>\<open>to_lower_snake_case\<close> produces snake case, and is idempotent: only lower-case letters,
  digits and underscores come out, and a second application changes nothing.\<close>

theorem snake_case_idempotent:
  "to_lower_snake_case (to_lower_snake_case name) = to_lower_snake_case name
   \<and> list_all (\<lambda>c. word_part c \<or> c = US) (to_lower_snake_case name)"
proof -
  define ws where "ws = map (map to_lower) (get_words name)"
  have ws: "\<forall>w \<in> set ws. snake_word w" using get_words_snake by (simp add: ws_def)
  have chars: "\<forall>c \<in> set (join ''_'' ws). word_part c \<or> c = US" using snake_join_chars [OF ws] by blast
  have "\<not> upper_case_identifier (join ''_'' ws)"
    using chars by (auto simp: upper_case_identifier_def Let_def list_ex_iff word_part_def is_upper_def
        is_lower_def is_digit_def dest!: set_takeWhileD)
  then have "get_words (join ''_'' ws) = ws" by (simp add: get_words_def camel_words_join [OF ws])
  moreover have "map (map to_lower) ws = ws"
    using ws by (intro map_idI) (auto simp: snake_word_def list_all_iff to_lower_part)
  ultimately show ?thesis
    using chars by (simp add: to_lower_snake_case_def list_all_iff flip: ws_def)
qed

text \<open>\<open>normalize_storage_size\<close> accepts exactly the strings of digits followed by one \<open>M\<close> or
  \<open>G\<close>, and counts them in megabytes; every other value, whatever its type, is a \<open>ValueError\<close>.\<close>

theorem normalize_storage_size_spec:
  "normalize_storage_size v = Inr m \<longleftrightarrow>
     (\<exists>d u. v = PStr (d @ [u]) \<and> d \<noteq> [] \<and> list_all is_digit d \<and> u \<in> {CHR ''M'', CHR ''G''} \<and>
        m = int (nat_of_digits d) * (if u = CHR ''G'' then 1024 else 1))" (is "?L \<longleftrightarrow> ?R")
proof
  assume ?L
  then obtain d u where du: "v = PStr (d @ [u])" "d \<noteq> []" "\<forall>c \<in> set d. is_digit c"
    "u \<in> {CHR ''M'', CHR ''G''}" by (rule normalize_storage_size_inv)
  with \<open>?L\<close> normalize_storage_size_unit [OF du(2-4)]
  have "m = int (nat_of_digits d) * (if u = CHR ''G'' then 1024 else 1)" by simp
  with du show ?R by (intro exI [of _ d] exI [of _ u]) (simp add: list_all_iff)
next
  assume ?R
  then obtain d u where "v = PStr (d @ [u])" "d \<noteq> []" "\<forall>c \<in> set d. is_digit c"
    "u \<in> {CHR ''M'', CHR ''G''}" "m = int (nat_of_digits d) * (if u = CHR ''G'' then 1024 else 1)"
    by (auto simp: list_all_iff)
  then show ?L by (simp add: normalize_storage_size_unit)
qed

text \<open>the executor memory of a job is the larger of the two requests: when both sizes are valid,
  \<open>merge_storage_size\<close> returns a string that is itself a valid size and denotes the maximum, and when
  one is invalid the error is passed on.\<close>

theorem merge_storage_size_max:
  "case (normalize_storage_size w, normalize_storage_size s) of
     (Inr m1, Inr m2) \<Rightarrow>
       \<exists>r. merge_storage_size w s = Inr r \<and> normalize_storage_size (PStr r) = Inr (max m1 m2)
   | _ \<Rightarrow> merge_storage_size w s = Inl ValueError"
proof -
  have err: "normalize_storage_size v = Inl e \<Longrightarrow> e = ValueError" for v e
    by (auto simp: normalize_storage_size_def raise_if_Inl_iff split: pyval.splits option.splits)
  have ok: "\<exists>r. merge_storage_size w s = Inr r \<and> normalize_storage_size (PStr r) = Inr (max m1 m2)"
    if n: "normalize_storage_size w = Inr m1" "normalize_storage_size s = Inr m2" for m1 m2
  proof -
    have "0 \<le> m" if "normalize_storage_size v = Inr m" for v m
      using that by (rule normalize_storage_size_inv)
        (use that in \<open>auto simp: normalize_storage_size_unit split: if_splits\<close>)
    then have pos: "0 \<le> max m1 m2" using n(1) by (simp add: le_max_iff_disj)
    then have "\<forall>c \<in> set (str_int i). is_digit c" "str_int i \<noteq> []" "int (nat_of_digits (str_int i)) = i"
      if "0 \<le> i" for i using that str_nat_digits by (auto simp: str_int_def)
    then show ?thesis
      using n pos normalize_storage_size_unit [of "str_int (max m1 m2 div 1024)" "CHR ''G''"]
        normalize_storage_size_unit [of "str_int (max m1 m2)" "CHR ''M''"]
      by (auto simp: merge_storage_size_def Let_def)
  qed
  show ?thesis
    using ok err by (auto simp: merge_storage_size_def split: sum.splits)
qed

end
