(* ===== verification/Dict.thy ===== *)
theory Dict
  imports Prelude
begin

text \<open>
  Python dictionaries with string keys, as association lists in insertion order: assignment to an
  existing key keeps its place, assignment to a new one appends. The contract of a key-value store
  is the locale \<open>kv_store\<close>; what follows from it about sequences of assignments is proved there once
  and used through its interpretation on the dictionaries.
\<close>

locale kv_store =
  fixes get :: "'m \<Rightarrow> 'k \<Rightarrow> 'v option"
    and put :: "'k \<Rightarrow> 'v \<Rightarrow> 'm \<Rightarrow> 'm"
  assumes get_put: "get (put k v m) k' = (if k' = k then Some v else get m k')"
begin

lemma get_put_same: "get (put k v m) k = Some v"
  by (simp add: get_put)

lemma get_put_other: "k' \<noteq> k \<Longrightarrow> get (put k v m) k' = get m k'"
  by (simp add: get_put)

text \<open>A sequence of assignments: the last one to a key wins, the other keys keep their value.\<close>

lemma get_put_all:
  "get (foldl (\<lambda>m (k, v). put k v m) m kvs) k =
     (case map_of (rev kvs) k of Some v \<Rightarrow> Some v | None \<Rightarrow> get m k)"
proof (induction kvs arbitrary: m)
  case (Cons kv kvs)
  then show ?case
    by (cases kv) (auto simp: get_put map_add_def split: option.split)
qed simp

lemma get_put_all_absent:
  "k \<notin> fst ` set kvs \<Longrightarrow> get (foldl (\<lambda>m (k, v). put k v m) m kvs) k = get m k"
proof -
  assume "k \<notin> fst ` set kvs"
  then have "map_of (rev kvs) k = None" by (simp add: map_of_eq_None_iff)
  then show ?thesis by (simp add: get_put_all)
qed

lemma get_put_all_pred:
  assumes "\<And>k v. (k, v) \<in> set kvs \<Longrightarrow> P k v" and "\<And>k v. get m k = Some v \<Longrightarrow> P k v"
    and "get (foldl (\<lambda>m (k, v). put k v m) m kvs) k = Some v"
  shows "P k v"
  using assms by (auto simp: get_put_all split: option.splits dest: map_of_SomeD)

end

type_synonym 'v dict = "(string \<times> 'v) list"

definition dict_get :: "'v dict \<Rightarrow> string \<Rightarrow> 'v option" where
  "dict_get d k = map_of d k"

definition dict_set :: "string \<Rightarrow> 'v \<Rightarrow> 'v dict \<Rightarrow> 'v dict" where
  "dict_set k v d = AList.update k v d"

definition dict_update :: "'v dict \<Rightarrow> 'v dict \<Rightarrow> 'v dict" where
  "dict_update d kvs = foldl (\<lambda>d (k, v). dict_set k v d) d kvs"

interpretation pydict: kv_store dict_get dict_set
  by unfold_locales (simp add: dict_get_def dict_set_def update_conv')

lemma dict_update_Nil [simp]: "dict_update d [] = d"
  by (simp add: dict_update_def)

lemma dict_update_Cons [simp]: "dict_update d ((k, v) # kvs) = dict_update (dict_set k v d) kvs"
  by (simp add: dict_update_def)

lemma dict_update_append: "dict_update d (xs @ ys) = dict_update (dict_update d xs) ys"
  by (simp add: dict_update_def)

lemma dict_keys_set: "distinct (map fst d) \<Longrightarrow> distinct (map fst (dict_set k v d))"
  by (simp add: dict_set_def distinct_update)

lemma dict_keys_update: "distinct (map fst d) \<Longrightarrow> distinct (map fst (dict_update d kvs))"
  by (induction kvs arbitrary: d) (auto simp: dict_keys_set)

lemma dict_set_new: "k \<notin> fst ` set d \<Longrightarrow> dict_set k v d = d @ [(k, v)]"
  by (induction d) (auto simp: dict_set_def)

text \<open>Copying a dictionary item by item, applying a function to its values, gives the mapped one.\<close>

lemma dict_rebuild:
  "distinct (map fst d @ map fst kvs) \<Longrightarrow>
   foldl (\<lambda>d (k, v). dict_set k (f v) d) d kvs = d @ map (\<lambda>(k, v). (k, f v)) kvs"
  by (induction kvs arbitrary: d) (auto simp: dict_set_new)

text \<open>\<open>v.get(k)\<close> and \<open>dict.update(v)\<close> of a dynamic value, which must be a dictionary.\<close>

fun py_get :: "pyval \<Rightarrow> string \<Rightarrow> pyval option res" where
  "py_get (PDict d) k = Inr (dict_get d k)"
| "py_get _ k = Inl AttributeError"

text \<open>A key bound to \<open>None\<close> reads like a missing one.\<close>

definition not_none :: "pyval option \<Rightarrow> pyval option" where
  "not_none v = (case v of Some PNone \<Rightarrow> None | _ \<Rightarrow> v)"

fun py_items :: "pyval \<Rightarrow> pyval dict res" where
  "py_items (PDict d) = Inr d"
| "py_items _ = Inl AttributeError"

end
