(* ===== verification/Launcher.thy ===== *)
theory Launcher
  imports Utils Dict
begin

text \<open>
  \<open>python/metaspore/ps_launcher.py\<close>: the process that \<open>spark-submit\<close> runs. \<open>ps_args\<close> is the result of
  \<open>argparse\<close> (whose types and required options it reflects), \<open>launcher\<close> the object. The PySpark
  session, the module loader and the launched PS run are outside: their calls are events, their
  outcomes arguments.
\<close>

section \<open>Option values\<close>

definition opt_digits :: "string \<Rightarrow> string option" where
  "opt_digits s = (if s = [] then Some [] else clean_digits s)"

definition py_exponent :: "bool \<Rightarrow> string \<Rightarrow> int option" where
  "py_exponent found e =
     (if \<not> found then Some 0
      else case split_sign e of (neg, d) \<Rightarrow>
        map_option (\<lambda>ds. let n = int (nat_of_digits ds) in if neg then - n else n) (clean_digits d))"

text \<open>\<open>float(s)\<close>: \<open>inf\<close>, \<open>infinity\<close>, \<open>nan\<close> in any case, or a decimal with an optional exponent.\<close>

definition py_float :: "string \<Rightarrow> pyfloat option" where
  "py_float s =
     (case split_sign (strip is_space s) of (neg, u) \<Rightarrow>
      let l = map to_lower u in
      if l = ''inf'' \<or> l = ''infinity'' then Some (FInf neg)
      else if l = ''nan'' then Some FNaN
      else case partition_at (CHR ''e'') l of (m, fe, e) \<Rightarrow>
        case partition_at (CHR ''.'') m of (ip, fd, fp) \<Rightarrow>
        case (opt_digits ip, opt_digits fp, py_exponent fe e) of
          (Some ds, Some fs, Some x) \<Rightarrow>
            if ds = [] \<and> fs = [] then None
            else Some (FFin ((if neg then - 1 else 1) * of_nat (nat_of_digits (ds @ fs))
                             * 10 powi (x - int (length fs))))
        | _ \<Rightarrow> None)"

definition unnormalize_option_value :: "string \<Rightarrow> pyval" where
  "unnormalize_option_value v =
     (if v = ''null'' then PNone
      else if v = ''true'' then PBool True
      else if v = ''false'' then PBool False
      else case py_int v of Some i \<Rightarrow> PInt i
      | None \<Rightarrow> (case py_float v of Some x \<Rightarrow> PFloat x | None \<Rightarrow> PStr v))"

section \<open>Arguments\<close>

record ps_args =
  pa_agent_class :: string
  pa_worker_count :: int
  pa_server_count :: int
  pa_job_name :: string
  pa_keep_session :: bool
  pa_spark_log_level :: string
  pa_conf :: "string list option"

record launcher =
  l_agent_class :: string
  l_worker_count :: int
  l_server_count :: int
  l_job_name :: "string option"
  l_keep_session :: bool
  l_spark_log_level :: "string option"
  l_agent_attributes :: "pyval dict"

definition ps_node_count :: "int \<Rightarrow> int res" where
  "ps_node_count v = raise_if (v \<le> 0) ValueError (Inr v)"

definition set_agent_attribute :: "string \<Rightarrow> pyval dict \<Rightarrow> pyval dict res" where
  "set_agent_attribute item attrs =
     (case partition_at EQ item of (name, sep, v) \<Rightarrow>
        raise_if (\<not> sep) ValueError (Inr (dict_set name (unnormalize_option_value v) attrs)))"

definition get_agent_attributes :: "string list option \<Rightarrow> pyval dict res" where
  "get_agent_attributes conf =
     (case conf of None \<Rightarrow> Inr [] | Some items \<Rightarrow> foldR set_agent_attribute items [])"

definition ps_parse_args :: "ps_args \<Rightarrow> launcher res" where
  "ps_parse_args a =
     bindR (ps_node_count (pa_worker_count a)) (\<lambda>w.
     bindR (ps_node_count (pa_server_count a)) (\<lambda>s.
     bindR (get_agent_attributes (pa_conf a)) (\<lambda>attrs.
     Inr \<lparr>l_agent_class = pa_agent_class a, l_worker_count = w, l_server_count = s,
          l_job_name = Some (pa_job_name a), l_keep_session = pa_keep_session a,
          l_spark_log_level = Some (pa_spark_log_level a), l_agent_attributes = attrs\<rparr>)))"

section \<open>The command line\<close>

text \<open>
  The part of \<open>argparse\<close> that the options declared in \<open>parse_args\<close> use: option names long and short,
  one argument each (none for \<open>--keep-session\<close>), integers read by \<open>int\<close>, the choices of the log
  level, the last occurrence winning except for \<open>--conf\<close>, which collects. An argument that starts
  with a dash is refused, as \<open>argparse\<close> takes it for an option; errors end the process.
\<close>

definition option_name :: "string \<Rightarrow> string res" where
  "option_name s =
     (if s \<in> {''-a'', ''--agent-class''} then Inr ''--agent-class''
      else if s \<in> {''-w'', ''--worker-count''} then Inr ''--worker-count''
      else if s \<in> {''-s'', ''--server-count''} then Inr ''--server-count''
      else if s \<in> {''-j'', ''--job-name''} then Inr ''--job-name''
      else if s \<in> {''-k'', ''--keep-session''} then Inr ''--keep-session''
      else if s \<in> {''-L'', ''--spark-log-level''} then Inr ''--spark-log-level''
      else if s = ''--conf'' then Inr ''--conf''
      else Inl SystemExit)"

fun argv_pairs :: "string list \<Rightarrow> string dict res" where
  "argv_pairs [] = Inr []"
| "argv_pairs (opt # rest) =
     bindR (option_name opt) (\<lambda>n.
       if n = ''--keep-session'' then bindR (argv_pairs rest) (\<lambda>ps. Inr ((n, []) # ps))
       else case rest of [] \<Rightarrow> Inl SystemExit
         | v # rest' \<Rightarrow> raise_if (startswith v ''-'') SystemExit
             (bindR (argv_pairs rest') (\<lambda>ps. Inr ((n, v) # ps))))"

definition required_option :: "string dict \<Rightarrow> string \<Rightarrow> string res" where
  "required_option ps n = (case map_of (rev ps) n of None \<Rightarrow> Inl SystemExit | Some v \<Rightarrow> Inr v)"

definition required_int :: "string dict \<Rightarrow> string \<Rightarrow> int res" where
  "required_int ps n = bindR (required_option ps n)
     (\<lambda>v. case py_int v of None \<Rightarrow> Inl SystemExit | Some i \<Rightarrow> Inr i)"

definition SPARK_LOG_LEVELS :: "string list" where
  "SPARK_LOG_LEVELS = [''ALL'', ''DEBUG'', ''ERROR'', ''FATAL'', ''INFO'', ''OFF'', ''TRACE'', ''WARN'']"

definition ps_argv :: "string list \<Rightarrow> ps_args res" where
  "ps_argv argv =
     bindR (argv_pairs argv) (\<lambda>ps.
     bindR (required_option ps ''--agent-class'') (\<lambda>cls.
     bindR (required_int ps ''--worker-count'') (\<lambda>w.
     bindR (required_int ps ''--server-count'') (\<lambda>s.
     bindR (required_option ps ''--job-name'') (\<lambda>job.
     let level = (case map_of (rev ps) ''--spark-log-level'' of None \<Rightarrow> ''WARN'' | Some v \<Rightarrow> v);
         conf = map snd (filter (\<lambda>(n, v). n = ''--conf'') ps)
     in raise_if (level \<notin> set SPARK_LOG_LEVELS) SystemExit
       (Inr \<lparr>pa_agent_class = cls, pa_worker_count = w, pa_server_count = s, pa_job_name = job,
             pa_keep_session = (''--keep-session'' \<in> fst ` set ps), pa_spark_log_level = level,
             pa_conf = (if conf = [] then None else Some conf)\<rparr>))))))"

section \<open>The agent class\<close>

text \<open>\<open>rfind('.')\<close> and the two slices around it.\<close>

definition split_agent_class_name :: "string \<Rightarrow> (string \<times> string) res" where
  "split_agent_class_name s =
     (case partition_at (CHR ''.'') (rev s) of (c, found, m) \<Rightarrow>
        raise_if (\<not> found) RuntimeError (Inr (rev m, rev c)))"

datatype attr_kind = NotAClass | OtherClass | AgentClass

text \<open>\<open>modules\<close> is \<open>importlib.import_module\<close>: an import error, or the attributes of the module.\<close>

definition get_agent_class ::
  "(string \<Rightarrow> (string \<rightharpoonup> attr_kind) res) \<Rightarrow> string \<Rightarrow> (string \<times> string) res" where
  "get_agent_class modules agent_class =
     bindR (split_agent_class_name agent_class) (\<lambda>(module_name, class_name).
     bindR (modules module_name) (\<lambda>module.
     case module class_name of
       None \<Rightarrow> Inl RuntimeError
     | Some k \<Rightarrow> raise_if (k \<noteq> AgentClass) RuntimeError (Inr (module_name, class_name))))"

section \<open>Running the agent\<close>

datatype ps_event = AppName string | GetSession | SetLogLevel string
  | RunLaunch "string \<times> string" int int "pyval dict" | StopSession

text \<open>
  \<open>set_level\<close> and \<open>run\<close> are the exceptions, if any, of \<open>setLogLevel\<close> and of the awaited launch; the
  \<open>finally\<close> clause runs in each case.
\<close>

definition launch_agent ::
  "(string \<Rightarrow> (string \<rightharpoonup> attr_kind) res) \<Rightarrow> exn option \<Rightarrow> exn option \<Rightarrow> launcher \<Rightarrow>
   ps_event list \<times> unit res" where
  "launch_agent modules set_level run l =
     (case get_agent_class modules (l_agent_class l) of
        Inl e \<Rightarrow> ([], Inl e)
      | Inr cls \<Rightarrow>
          let start = (case l_job_name l of None \<Rightarrow> [] | Some n \<Rightarrow> [AppName n]) @ [GetSession];
              level = (case l_spark_log_level l of None \<Rightarrow> [] | Some v \<Rightarrow> [SetLogLevel v]);
              go = [RunLaunch cls (l_worker_count l) (l_server_count l) (l_agent_attributes l)];
              fin = (if l_keep_session l then [] else [StopSession]);
              failed = (if level = [] then None else set_level)
          in (case failed of
                Some e \<Rightarrow> (start @ level @ fin, Inl e)
              | None \<Rightarrow> (start @ level @ go @ fin, case run of Some e \<Rightarrow> Inl e | None \<Rightarrow> Inr ())))"

definition ps_launch ::
  "(string \<Rightarrow> (string \<rightharpoonup> attr_kind) res) \<Rightarrow> exn option \<Rightarrow> exn option \<Rightarrow> ps_args \<Rightarrow>
   ps_event list \<times> unit res" where
  "ps_launch modules set_level run a =
     (case ps_parse_args a of Inl e \<Rightarrow> ([], Inl e) | Inr l \<Rightarrow> launch_agent modules set_level run l)"

section \<open>Lemmas\<close>

lemma unnormalize_keywords [simp]:
  "unnormalize_option_value ''null'' = PNone"
  "unnormalize_option_value ''true'' = PBool True"
  "unnormalize_option_value ''false'' = PBool False"
  by (simp_all add: unnormalize_option_value_def)

lemma unnormalize_str_int [simp]: "unnormalize_option_value (str_int i) = PInt i"
proof -
  have "s \<noteq> str_int i" if "c \<in> set s" "\<not> is_digit c" "c \<noteq> CHR ''-''" for s c
    using str_int_set [of c i] that by auto
  from this [of "CHR ''l''" "''null''"] this [of "CHR ''t''" "''true''"] this [of "CHR ''f''" "''false''"]
  show ?thesis by (auto simp: unnormalize_option_value_def is_digit_def)
qed

lemma set_agent_attribute_item:
  "EQ \<notin> set n \<Longrightarrow> set_agent_attribute (n @ EQ # v) d = Inr (dict_set n (unnormalize_option_value v) d)"
  by (simp add: set_agent_attribute_def partition_at_found)

lemma get_agent_attributes_items:
  assumes "\<forall>(n, v) \<in> set kvs. EQ \<notin> set n"
  shows "foldR set_agent_attribute (map (\<lambda>(n, v). n @ EQ # v) kvs) d =
    Inr (foldl (\<lambda>d (n, v). dict_set n (unnormalize_option_value v) d) d kvs)"
  using assms by (induction kvs arbitrary: d) (auto simp: set_agent_attribute_item)

section \<open>Properties\<close>

text \<open>splitting \<open>--agent-class\<close> succeeds exactly for names with a dot, and cuts at the last one:
  the two parts with a dot between them are the name, and the class part has no dot.\<close>

theorem split_agent_class_name_spec:
  "split_agent_class_name s = Inr (m, c) \<longleftrightarrow> s = m @ CHR ''.'' # c \<and> CHR ''.'' \<notin> set c"
proof -
  obtain c' f m' where p: "partition_at (CHR ''.'') (rev s) = (c', f, m')"
    by (cases "partition_at (CHR ''.'') (rev s)")
  note q = partition_at_correct [OF p]
  show ?thesis
  proof
    assume "split_agent_class_name s = Inr (m, c)"
    with p q show "s = m @ CHR ''.'' # c \<and> CHR ''.'' \<notin> set c"
      by (auto simp: split_agent_class_name_def raise_if_Inr_iff rev_swap)
  next
    assume "s = m @ CHR ''.'' # c \<and> CHR ''.'' \<notin> set c"
    then show "split_agent_class_name s = Inr (m, c)"
      using partition_at_found [of "CHR ''.''" "rev c" "rev m"]
      by (simp add: split_agent_class_name_def)
  qed
qed

text \<open>the launcher never leaves a Spark session behind: whenever it has obtained a session, and
  whatever then fails, the session is stopped as the last event unless \<open>--keep-session\<close> was given; and
  the run is started at most once, with positive node counts.\<close>

theorem ps_launch_session:
  assumes "ps_launch modules set_level run a = (evs, r)"
  shows "(GetSession \<in> set evs \<longrightarrow>
            (if pa_keep_session a then StopSession \<notin> set evs else last evs = StopSession))
       \<and> count_list evs StopSession \<le> 1
       \<and> (\<forall>cls w s attrs. RunLaunch cls w s attrs \<in> set evs \<longrightarrow> 0 < w \<and> 0 < s)"
  using assms
  by (auto simp: ps_launch_def launch_agent_def ps_parse_args_def ps_node_count_def Let_def res_iffs
      split: sum.splits option.splits if_splits)

theorem ps_launch_session_witness:
  "let a = \<lparr>pa_agent_class = ''m.A'', pa_worker_count = 1, pa_server_count = 1, pa_job_name = ''j'',
            pa_keep_session = False, pa_spark_log_level = ''WARN'', pa_conf = None\<rparr>;
       evs = [AppName ''j'', GetSession, SetLogLevel ''WARN'', RunLaunch (''m'', ''A'') 1 1 [], StopSession]
   in ps_launch (\<lambda>_. Inr (\<lambda>_. Some AgentClass)) None (Some RuntimeError) a = (evs, Inl RuntimeError)
      \<and> (GetSession \<in> set evs \<longrightarrow>
            (if pa_keep_session a then StopSession \<notin> set evs else last evs = StopSession))"
proof -
  let ?a = "\<lparr>pa_agent_class = ''m.A'', pa_worker_count = 1, pa_server_count = 1, pa_job_name = ''j'',
            pa_keep_session = False, pa_spark_log_level = ''WARN'', pa_conf = None\<rparr>"
  let ?evs = "[AppName ''j'', GetSession, SetLogLevel ''WARN'', RunLaunch (''m'', ''A'') 1 1 [], StopSession]"
  have "ps_launch (\<lambda>_. Inr (\<lambda>_. Some AgentClass)) None (Some RuntimeError) ?a = (?evs, Inl RuntimeError)"
    by (simp add: ps_launch_def ps_parse_args_def ps_node_count_def get_agent_attributes_def
        launch_agent_def get_agent_class_def split_agent_class_name_def)
  from ps_launch_session [OF this] this show ?thesis by (simp only: Let_def) blast
qed

end
