(* ===== verification/JobRunner.thy ===== *)
theory JobRunner
  imports Utils Dict
begin

text \<open>
  \<open>python/ps/job.py\<close>: the command-line front end that merges the options of the command line with
  those of a YAML file and builds the \<open>spark-submit\<close> command. \<open>job_args\<close> is the result of \<open>argparse\<close>,
  \<open>runner\<close> the object after \<open>parse_args\<close> (\<open>r_\<close> fields) and \<open>find_files\<close> (its last four fields),
  \<open>job_env\<close> what the operating system answers. YAML mappings have string keys here. A method that
  reads \<open>self\<close> takes the runner; \<open>ostr\<close> is \<open>str()\<close> of the values whose text is not modelled (floats
  and containers).
\<close>

section \<open>State\<close>

datatype role = Worker | Server

record job_args =
  debug_mode :: bool
  agent_class :: "string option"
  user_name :: string
  job_name :: "string option"
  job_config :: "string option"
  batch_size :: "int option"
  worker_count :: "int option"
  server_count :: "int option"
  worker_cpu :: "int option"
  server_cpu :: "int option"
  worker_memory :: "string option"
  server_memory :: "string option"
  python_env :: "string option"
  python_ver :: "string option"
  a_conf :: "string list option"
  spark_conf :: "string list option"
  spark_env :: "string list option"
  spark_archives :: "string list option"
  spark_py_files :: "string list option"
  spark_files :: "string list option"
  spark_jars :: "string list option"
  spark_log_level :: string
  a_chdir :: "string option"
  a_local :: bool
  a_cluster :: bool
  extra_args :: "string list"

datatype fs = FFile | FDir "(string \<times> fs) list" | FOther

record job_env =
  sys_executable :: string
  sys_version :: string
  ps_version :: string
  host_ip :: string
  launcher_path :: string
  os_chdir :: "string \<Rightarrow> exn option"
  load_yaml :: "string \<Rightarrow> pyval res"
  isfile :: "string \<Rightarrow> bool"
  isdir :: "string \<Rightarrow> bool"
  getmtime :: "string \<Rightarrow> rat"
  tar_czf :: "string \<Rightarrow> exn option"
  cwd :: "(string \<times> fs) list"
  ostr :: "pyval \<Rightarrow> string"

record runner =
  r_args :: job_args
  r_job_config :: pyval
  r_local :: bool
  r_batch_size :: pyval
  r_worker_count :: pyval
  r_server_count :: pyval
  r_worker_cpu :: pyval
  r_server_cpu :: pyval
  r_worker_memory :: pyval
  r_server_memory :: pyval
  r_python_env :: pyval
  r_python_ver :: pyval
  r_archives :: "pyval list"
  r_py_files :: "pyval list"
  r_files :: "pyval list"
  r_jars :: "pyval list"

section \<open>Merging the command line with the file\<close>

fun arg_count :: "role \<Rightarrow> job_args \<Rightarrow> int option" where
  "arg_count Worker a = worker_count a"
| "arg_count Server a = server_count a"

fun arg_cpu :: "role \<Rightarrow> job_args \<Rightarrow> int option" where
  "arg_cpu Worker a = worker_cpu a"
| "arg_cpu Server a = server_cpu a"

fun arg_memory :: "role \<Rightarrow> job_args \<Rightarrow> string option" where
  "arg_memory Worker a = worker_memory a"
| "arg_memory Server a = server_memory a"

fun role_name :: "role \<Rightarrow> string" where
  "role_name Worker = ''worker''"
| "role_name Server = ''server''"

text \<open>\<open>conf.get(key)\<close>, with a missing key and a null value both \<open>None\<close>.\<close>

definition conf_get :: "pyval \<Rightarrow> string \<Rightarrow> pyval option res" where
  "conf_get conf key = bindR (py_get conf key) (\<lambda>v. Inr (not_none v))"

definition get_spark_config :: "job_args \<Rightarrow> pyval \<Rightarrow> pyval res" where
  "get_spark_config a cfg =
     (if a_local a then
        bindR (conf_get cfg ''local'') (\<lambda>c. Inr (case c of None \<Rightarrow> PDict [] | Some v \<Rightarrow> v))
      else
        bindR (conf_get cfg ''cluster'') (\<lambda>c. case c of Some v \<Rightarrow> Inr v
          | None \<Rightarrow> bindR (conf_get cfg ''distributed'')
                     (\<lambda>d. Inr (case d of None \<Rightarrow> PDict [] | Some v \<Rightarrow> v))))"

text \<open>The check of a number given on the command line, and of one given in the file.\<close>

definition positive_arg :: "int \<Rightarrow> pyval res" where
  "positive_arg v = raise_if (v \<le> 0) ValueError (Inr (PInt v))"

definition positive_conf :: "pyval \<Rightarrow> pyval res" where
  "positive_conf v = raise_if (\<not> is_pos_int v) ValueError (Inr v)"

definition get_batch_size :: "job_args \<Rightarrow> pyval \<Rightarrow> pyval res" where
  "get_batch_size a conf =
     (case batch_size a of
        Some v \<Rightarrow> positive_arg v
      | None \<Rightarrow> bindR (conf_get conf ''batch_size'') (\<lambda>c. case c of
          None \<Rightarrow> Inl RuntimeError
        | Some v \<Rightarrow> positive_conf v))"

definition get_node_count :: "role \<Rightarrow> job_args \<Rightarrow> pyval \<Rightarrow> pyval res" where
  "get_node_count role a conf =
     (case arg_count role a of
        Some v \<Rightarrow> positive_arg v
      | None \<Rightarrow> bindR (conf_get conf (role_name role @ ''_count'')) (\<lambda>c. case c of
          Some v \<Rightarrow> positive_conf v
        | None \<Rightarrow> bindR (conf_get conf (role_name role @ ''s'')) (\<lambda>c. case c of
            None \<Rightarrow> Inl RuntimeError
          | Some v \<Rightarrow> positive_conf v)))"

definition get_node_cpu :: "role \<Rightarrow> job_args \<Rightarrow> pyval \<Rightarrow> pyval res" where
  "get_node_cpu role a conf =
     (case arg_cpu role a of
        Some v \<Rightarrow> positive_arg v
      | None \<Rightarrow> bindR (conf_get conf (role_name role @ ''_cpu'')) (\<lambda>c. case c of
          None \<Rightarrow> if a_local a then Inr (PInt 1) else Inl RuntimeError
        | Some v \<Rightarrow> positive_conf v))"

definition get_node_memory :: "role \<Rightarrow> job_args \<Rightarrow> pyval \<Rightarrow> pyval res" where
  "get_node_memory role a conf =
     (case arg_memory role a of
        Some v \<Rightarrow> Inr (PStr v)
      | None \<Rightarrow> bindR (conf_get conf (role_name role @ ''_memory'')) (\<lambda>c. case c of
          None \<Rightarrow> if a_local a then Inr (PStr ''1G'') else Inl RuntimeError
        | Some v \<Rightarrow> Inr v))"

definition get_node_python_env :: "job_args \<Rightarrow> pyval \<Rightarrow> pyval res" where
  "get_node_python_env a conf =
     (case python_env a of
        Some v \<Rightarrow> Inr (PStr v)
      | None \<Rightarrow> bindR (conf_get conf ''python_env'') (\<lambda>c. case c of
          Some v \<Rightarrow> Inr v
        | None \<Rightarrow> bindR (conf_get conf ''python-env'') (\<lambda>c. case c of
            None \<Rightarrow> Inl RuntimeError
          | Some v \<Rightarrow> Inr v)))"

definition get_node_python_ver :: "job_env \<Rightarrow> job_args \<Rightarrow> pyval \<Rightarrow> pyval res" where
  "get_node_python_ver env a conf =
     (case python_ver a of
        Some v \<Rightarrow> Inr (PStr v)
      | None \<Rightarrow> bindR (conf_get conf ''python_ver'') (\<lambda>c. case c of
          Some v \<Rightarrow> Inr v
        | None \<Rightarrow> Inr (PStr (sys_version env))))"

text \<open>Truth of an optional string.\<close>

definition truthy :: "string option \<Rightarrow> bool" where
  "truthy s = (case s of None \<Rightarrow> False | Some t \<Rightarrow> t \<noteq> [])"

definition parse_args :: "job_env \<Rightarrow> job_args \<Rightarrow> runner res" where
  "parse_args env a =
     raise_if (\<not> a_local a \<and> \<not> a_cluster a) RuntimeError
     (raise_if (a_local a \<and> a_cluster a) RuntimeError
     (raise_if (\<not> truthy (agent_class a) \<and> extra_args a = []) RuntimeError
     (raise_if (truthy (agent_class a) \<and> extra_args a \<noteq> []) RuntimeError
     (case (if truthy (a_chdir a) then os_chdir env (the (a_chdir a)) else None) of
        Some e \<Rightarrow> Inl e
      | None \<Rightarrow>
     bindR (case job_config a of None \<Rightarrow> Inr (PDict []) | Some f \<Rightarrow> load_yaml env f) (\<lambda>cfg.
     bindR (get_spark_config a cfg) (\<lambda>conf.
     bindR (get_batch_size a conf) (\<lambda>bs.
     bindR (get_node_count Worker a conf) (\<lambda>wn.
     bindR (get_node_count Server a conf) (\<lambda>sn.
     bindR (get_node_cpu Worker a conf) (\<lambda>wc.
     bindR (get_node_cpu Server a conf) (\<lambda>sc.
     bindR (get_node_memory Worker a conf) (\<lambda>wm.
     bindR (get_node_memory Server a conf) (\<lambda>sm.
     bindR (if a_local a then Inr PNone else get_node_python_env a conf) (\<lambda>pe.
     bindR (if a_local a then Inr PNone else get_node_python_ver env a conf) (\<lambda>pv.
     Inr \<lparr>r_args = a, r_job_config = cfg, r_local = a_local a, r_batch_size = bs,
          r_worker_count = wn, r_server_count = sn, r_worker_cpu = wc, r_server_cpu = sc,
          r_worker_memory = wm, r_server_memory = sm, r_python_env = pe, r_python_ver = pv,
          r_archives = [], r_py_files = [], r_files = [], r_jars = []\<rparr>)))))))))))))))"

section \<open>Small parts of the command\<close>

definition py_str :: "job_env \<Rightarrow> pyval \<Rightarrow> string" where
  "py_str env v = (case v of PStr s \<Rightarrow> s | PInt i \<Rightarrow> str_int i | PNone \<Rightarrow> ''None''
     | PBool b \<Rightarrow> (if b then ''True'' else ''False'') | PObj t \<Rightarrow> t | _ \<Rightarrow> ostr env v)"

definition normalize_option_value :: "job_env \<Rightarrow> pyval \<Rightarrow> string" where
  "normalize_option_value env v = (case v of PStr s \<Rightarrow> s | PNone \<Rightarrow> ''null''
     | PBool b \<Rightarrow> (if b then ''true'' else ''false'') | _ \<Rightarrow> py_str env v)"

definition get_driver_memory :: string where
  "get_driver_memory = ''5G''"

definition get_executor_memory :: "runner \<Rightarrow> string res" where
  "get_executor_memory r = merge_storage_size (r_worker_memory r) (r_server_memory r)"

text \<open>\<open>str(worker_count + server_count)\<close>; both are integers (or Booleans) once \<open>parse_args\<close> is done.\<close>

definition get_executor_count :: "runner \<Rightarrow> string res" where
  "get_executor_count r =
     (case (as_int (r_worker_count r), as_int (r_server_count r)) of
        (Some w, Some s) \<Rightarrow> Inr (str_int (w + s))
      | _ \<Rightarrow> Inl TypeError)"

definition get_executor_cores :: "job_env \<Rightarrow> runner \<Rightarrow> string" where
  "get_executor_cores env r = py_str env (r_worker_cpu r)"

definition get_python_executable_path :: "job_env \<Rightarrow> runner \<Rightarrow> string" where
  "get_python_executable_path env r =
     (if r_local r then sys_executable env else ''./python-env/bin/python'')"

definition get_cluster_ld_library_path :: string where
  "get_cluster_ld_library_path = ''./python-env/lib''"

definition get_spark_submit_command :: "job_env \<Rightarrow> runner \<Rightarrow> string list" where
  "get_spark_submit_command env r =
     (let p = get_python_executable_path env r in
      [''env'', ''PYSPARK_PYTHON='' @ p, ''PYSPARK_DRIVER_PYTHON='' @ p, ''spark-submit''])"

text \<open>\<open>re.sub(r'\W', '_', s)\<close>: everything but letters, digits and underscores becomes one.\<close>

definition is_word_char :: "char \<Rightarrow> bool" where
  "is_word_char c = (is_upper c \<or> is_lower c \<or> is_digit c \<or> c = US \<or>
     (let n = (of_char c :: nat) in n \<in> {170, 178, 179, 181, 185, 186, 188, 189, 190}
        \<or> (192 \<le> n \<and> n \<noteq> 215 \<and> n \<noteq> 247)))"

definition sub_nonword :: "string \<Rightarrow> string" where
  "sub_nonword s = map (\<lambda>c. if is_word_char c then c else US) s"

text \<open>Every call takes the time anew; \<open>timestamp\<close> is the formatted time of this call.\<close>

definition get_job_name :: "job_env \<Rightarrow> string \<Rightarrow> runner \<Rightarrow> string" where
  "get_job_name env timestamp r =
     (case job_name (r_args r) of Some n \<Rightarrow> n
      | None \<Rightarrow>
        let cls = (if truthy (agent_class (r_args r)) then sub_nonword (the (agent_class (r_args r)))
                   else ''NoAgentClass'')
        in ''ML__'' @ timestamp @ ''__'' @ sub_nonword (host_ip env) @ ''__''
           @ sub_nonword (user_name (r_args r)) @ ''__'' @ cls @ ''__PS_'' @ sub_nonword (ps_version env))"

definition get_spark_master_config :: "job_env \<Rightarrow> string \<Rightarrow> runner \<Rightarrow> string list res" where
  "get_spark_master_config env timestamp r =
     (if r_local r then bindR (get_executor_count r) (\<lambda>n. Inr [''--master'', ''local['' @ n @ '']''])
      else Inr [''--master'', ''yarn'', ''--deploy-mode'', ''cluster'', ''--name'',
                get_job_name env timestamp r])"

section \<open>The configuration layers\<close>

definition default_executors_conf :: "job_env \<Rightarrow> runner \<Rightarrow> pyval dict" where
  "default_executors_conf env r =
     (let p = PStr (get_python_executable_path env r); l = PStr get_cluster_ld_library_path in
      [(''spark.sql.execution.arrow.maxRecordsPerBatch'', r_batch_size r),
       (''spark.yarn.appMasterEnv.PYSPARK_PYTHON'', p),
       (''spark.yarn.appMasterEnv.PYSPARK_DRIVER_PYTHON'', p),
       (''spark.executorEnv.PYSPARK_PYTHON'', p),
       (''spark.executorEnv.PYSPARK_DRIVER_PYTHON'', p)] @
      (if r_local r then []
       else [(''spark.yarn.appMasterEnv.LD_LIBRARY_PATH'', l),
             (''spark.executorEnv.LD_LIBRARY_PATH'', l),
             (''spark.executorEnv.PYTHONPATH'', PStr []),
             (''spark.executorEnv.PYTHONNOUSERSITE'', PStr ''1'')]) @
      [(''spark.python.worker.reuse'', PStr ''true''),
       (''spark.dynamicAllocation.enabled'', PStr ''false''),
       (''spark.shuffle.service.enabled'', PStr ''false''),
       (''spark.sql.execution.arrow.pyspark.enabled'', PStr ''true''),
       (''spark.task.maxFailures'', PStr ''1''),
       (''spark.yarn.maxAppAttempts'', PStr ''1''),
       (''spark.scheduler.minRegisteredResourcesRatio'', PStr ''1.0''),
       (''spark.scheduler.maxRegisteredResourcesWaitingTime'', PStr ''1800s'')])"

text \<open>One environment variable: the two assignments it makes, none for a local \<open>PYTHONPATH\<close>.\<close>

definition env_entries :: "bool \<Rightarrow> string \<Rightarrow> pyval \<Rightarrow> pyval dict" where
  "env_entries is_local name v =
     (if is_local \<and> name = ''PYTHONPATH'' then []
      else [(''spark.yarn.appMasterEnv.'' @ name, v), (''spark.executorEnv.'' @ name, v)])"

text \<open>\<open>NAME=VALUE\<close> items of the command line.\<close>

definition option_item :: "string \<Rightarrow> (string \<times> string) res" where
  "option_item item =
     (case partition_at EQ item of (name, sep, v) \<Rightarrow> raise_if (\<not> sep) ValueError (Inr (name, v)))"

definition add_conf_item :: "string \<Rightarrow> pyval dict \<Rightarrow> pyval dict res" where
  "add_conf_item item conf =
     bindR (option_item item) (\<lambda>(name, v). Inr (dict_set name (PStr v) conf))"

definition add_env_item :: "bool \<Rightarrow> string \<Rightarrow> pyval dict \<Rightarrow> pyval dict res" where
  "add_env_item is_local item conf =
     bindR (option_item item) (\<lambda>(name, v).
       Inr (dict_update conf (env_entries is_local name (PStr v))))"

definition opt_items :: "'a list option \<Rightarrow> 'a list" where
  "opt_items xs = (case xs of None \<Rightarrow> [] | Some ys \<Rightarrow> ys)"

text \<open>An optional mapping of the file: \<open>None\<close> skips the layer, what is no mapping raises.\<close>

definition conf_layer :: "pyval \<Rightarrow> string \<Rightarrow> pyval dict res" where
  "conf_layer cfg key = bindR (conf_get cfg key) (\<lambda>c. case c of None \<Rightarrow> Inr [] | Some v \<Rightarrow> py_items v)"

text \<open>
  The argument of \<open>dict.update\<close>: a mapping, or a sequence of pairs (pairs whose key is no string are
  treated like sequences of another length).
\<close>

definition pair_of :: "pyval \<Rightarrow> (string \<times> pyval) res" where
  "pair_of v = (case v of PList [PStr k, x] \<Rightarrow> Inr (k, x) | PTuple [PStr k, x] \<Rightarrow> Inr (k, x)
     | PStr [a, b] \<Rightarrow> Inr ([a], PStr [b])
     | PList _ \<Rightarrow> Inl ValueError | PTuple _ \<Rightarrow> Inl ValueError | PStr _ \<Rightarrow> Inl ValueError
     | PDict _ \<Rightarrow> Inl ValueError | _ \<Rightarrow> Inl TypeError)"

definition update_source :: "pyval \<Rightarrow> pyval dict res" where
  "update_source v = (case v of PDict d \<Rightarrow> Inr d | PList xs \<Rightarrow> mapR pair_of xs
     | PTuple xs \<Rightarrow> mapR pair_of xs | PStr s \<Rightarrow> (if s = [] then Inr [] else Inl ValueError)
     | _ \<Rightarrow> Inl TypeError)"

definition update_layer :: "pyval \<Rightarrow> string \<Rightarrow> pyval dict res" where
  "update_layer cfg key =
     bindR (conf_get cfg key) (\<lambda>c. case c of None \<Rightarrow> Inr [] | Some v \<Rightarrow> update_source v)"

definition executors_conf :: "job_env \<Rightarrow> runner \<Rightarrow> pyval dict res" where
  "executors_conf env r =
     bindR (update_layer (r_job_config r) ''spark_conf'') (\<lambda>sc.
     bindR (conf_layer (r_job_config r) ''spark_env'') (\<lambda>se.
     let conf = dict_update (dict_update [] (default_executors_conf env r)) sc;
         conf = foldl (\<lambda>d (name, v). dict_update d (env_entries (r_local r) name v)) conf se
     in bindR (foldR add_conf_item (opt_items (spark_conf (r_args r))) conf)
          (foldR (add_env_item (r_local r)) (opt_items (spark_env (r_args r))))))"

definition conf_args :: "job_env \<Rightarrow> pyval dict \<Rightarrow> string list" where
  "conf_args env conf =
     concat (map (\<lambda>(name, v). [''--conf'', name @ EQ # normalize_option_value env v]) conf)"

definition get_spark_executors_config :: "job_env \<Rightarrow> runner \<Rightarrow> string list res" where
  "get_spark_executors_config env r = bindR (executors_conf env r) (\<lambda>d. Inr (conf_args env d))"

definition get_spark_resources_config :: "job_env \<Rightarrow> runner \<Rightarrow> string list res" where
  "get_spark_resources_config env r =
     (if r_local r then Inr []
      else bindR (get_executor_count r) (\<lambda>num. bindR (get_executor_memory r) (\<lambda>mem.
        let cores = get_executor_cores env r in
        Inr ([''--driver-memory'', get_driver_memory, ''--num-executors'', num,
              ''--executor-memory'', mem, ''--executor-cores'', cores,
              ''--conf'', ''spark.task.cpus='' @ cores,
              ''--conf'', ''spark.kubernetes.executor.request.cores='' @ cores,
              ''--conf'', ''spark.executorEnv.OMP_NUM_THREADS='' @ cores]))))"

text \<open>\<open>','.join(xs)\<close> raises for an item that is no string.\<close>

definition join_items :: "pyval list \<Rightarrow> string res" where
  "join_items xs = bindR (mapR (\<lambda>x. case x of PStr s \<Rightarrow> Inr s | _ \<Rightarrow> Inl TypeError) xs)
     (\<lambda>ss. Inr (join '','' ss))"

definition get_spark_files_config :: "runner \<Rightarrow> string list res" where
  "get_spark_files_config r =
     bindR (if r_local r then Inr []
            else bindR (join_items (r_archives r)) (\<lambda>a.
                 bindR (join_items (r_py_files r)) (\<lambda>p.
                 bindR (join_items (r_files r)) (\<lambda>f.
                 Inr [''--archives'', use_s3a a, ''--py-files'', use_s3a p, ''--files'', use_s3a f]))))
       (\<lambda>args. if r_jars r = [] then Inr args
               else bindR (join_items (r_jars r)) (\<lambda>j. Inr (args @ [''--jars'', use_s3a j])))"

definition launcher_conf :: "runner \<Rightarrow> pyval dict res" where
  "launcher_conf r =
     bindR (update_layer (r_job_config r) ''agent'') (\<lambda>agent.
     foldR add_conf_item (opt_items (a_conf (r_args r))) (dict_update [] agent))"

definition get_ps_launcher_config :: "job_env \<Rightarrow> string \<Rightarrow> runner \<Rightarrow> string list res" where
  "get_ps_launcher_config env timestamp r =
     (if \<not> truthy (agent_class (r_args r)) then Inr (extra_args (r_args r))
      else bindR (launcher_conf r) (\<lambda>conf.
        Inr ([launcher_path env, ''--agent-class'', the (agent_class (r_args r)),
              ''--worker-count'', py_str env (r_worker_count r),
              ''--server-count'', py_str env (r_server_count r),
              ''--job-name'', get_job_name env timestamp r,
              ''--spark-log-level'', spark_log_level (r_args r)] @ conf_args env conf)))"

section \<open>Files\<close>

text \<open>
  \<open>_check_python_env\<close>: a file is taken as it is; a directory must contain MetaSpore and is packed
  unless the archive beside it is at least as new; the result is the path used from then on.
\<close>

definition check_python_env :: "job_env \<Rightarrow> pyval \<Rightarrow> pyval \<Rightarrow> string res" where
  "check_python_env env pe ver =
     (case pe of PStr path \<Rightarrow>
        if isfile env path then Inr path
        else if isdir env path then
          (case ver of PStr v \<Rightarrow>
             let py_ver = (case partition_at (CHR ''.'') (rev v) of (_, found, m) \<Rightarrow>
                             if found then rev m else []);
                 ma_path = path_join path (''lib/python'' @ py_ver @ ''/site-packages/metaspore'');
                 tgz_path = path @ ''.tgz'';
                 tgz_mtime = (if isfile env tgz_path then getmtime env tgz_path else 0)
             in raise_if (\<not> isdir env ma_path) RuntimeError
                (if tgz_mtime < getmtime env path
                 then (case tar_czf env tgz_path of Some e \<Rightarrow> Inl e | None \<Rightarrow> Inr tgz_path)
                 else Inr tgz_path)
           | _ \<Rightarrow> Inl AttributeError)
        else Inl RuntimeError
      | _ \<Rightarrow> Inl TypeError)"

function scan_files :: "string \<Rightarrow> (string \<times> fs) list \<Rightarrow> string list \<times> string list" where
  "scan_files dir [] = ([], [])"
| "scan_files dir ((item, node) # rest) =
     (let path = path_join dir item;
          (py1, f1) =
            (case node of
               FDir kids \<Rightarrow>
                 if item \<in> {''python-env'', ''.pyenv'', ''.git''} \<or> startswith item ''spark-''
                 then ([], []) else scan_files path kids
             | FFile \<Rightarrow>
                 if endswith item ''.py'' then ([path @ CHR ''#'' # path], [])
                 else if endswith item ''.yaml'' then ([], [path @ CHR ''#'' # path])
                 else if endswith item ''.txt'' \<and>
                   (startswith item ''column_name'' \<or> startswith item ''combine_schema'')
                 then ([], [path @ CHR ''#'' # path]) else ([], [])
             | FOther \<Rightarrow> ([], []));
          (py2, f2) = scan_files dir rest
      in (py1 @ py2, f1 @ f2))"
  by pat_completeness auto
termination
  by (relation "measure (\<lambda>(d, t). size_list (size_prod (\<lambda>_. 0) size) t)") auto

definition extend_jars :: "pyval \<Rightarrow> pyval list res" where
  "extend_jars v = (case v of PStr s \<Rightarrow> Inr [PStr s] | PList xs \<Rightarrow> Inr xs | PTuple xs \<Rightarrow> Inr xs
     | PDict d \<Rightarrow> Inr (map (PStr \<circ> fst) d) | _ \<Rightarrow> Inl TypeError)"

text \<open>Named files of the configuration: \<open>path#name\<close>.\<close>

definition named_files :: "job_env \<Rightarrow> pyval \<Rightarrow> string \<Rightarrow> pyval list res" where
  "named_files env cfg key =
     bindR (conf_layer cfg key) (\<lambda>d. Inr (map (\<lambda>(name, path). PStr (py_str env path @ CHR ''#'' # name)) d))"

definition find_files :: "job_env \<Rightarrow> runner \<Rightarrow> runner res" where
  "find_files env r =
     bindR (conf_get (r_job_config r) ''spark_jars'') (\<lambda>cj.
     bindR (case cj of None \<Rightarrow> Inr [] | Some v \<Rightarrow> extend_jars v) (\<lambda>js.
     let r = r\<lparr>r_jars := r_jars r @ js @ map PStr (opt_items (spark_jars (r_args r)))\<rparr> in
     if r_local r then Inr r
     else bindR (check_python_env env (r_python_env r) (r_python_ver r)) (\<lambda>pe.
       let (py, fs) = scan_files ''.'' (cwd env) in
       bindR (named_files env (r_job_config r) ''spark_archives'') (\<lambda>na.
       bindR (named_files env (r_job_config r) ''spark_py_files'') (\<lambda>np.
       bindR (named_files env (r_job_config r) ''spark_files'') (\<lambda>nf.
       Inr (r\<lparr>r_python_env := PStr pe,
              r_archives := PStr (pe @ ''#python-env'') # na @ map PStr (opt_items (spark_archives (r_args r))),
              r_py_files := map PStr py @ np @ map PStr (opt_items (spark_py_files (r_args r))),
              r_files := map PStr fs @ nf @ map PStr (opt_items (spark_files (r_args r)))\<rparr>)))))))"

section \<open>Submitting\<close>

definition spark_submit_args :: "job_env \<Rightarrow> string \<Rightarrow> string \<Rightarrow> runner \<Rightarrow> string list res" where
  "spark_submit_args env ts1 ts2 r =
     bindR (get_spark_master_config env ts1 r) (\<lambda>ms.
     bindR (get_spark_executors_config env r) (\<lambda>ex.
     bindR (get_spark_resources_config env r) (\<lambda>res.
     bindR (get_spark_files_config r) (\<lambda>fs.
     bindR (get_ps_launcher_config env ts2 r) (\<lambda>la.
     Inr (get_spark_submit_command env r @ ms @ ex @ res @ fs @ la))))))"

text \<open>\<open>exit_code\<close> is the exit code of the command it is given.\<close>

definition spark_submit ::
  "job_env \<Rightarrow> (string list \<Rightarrow> int) \<Rightarrow> string \<Rightarrow> string \<Rightarrow> runner \<Rightarrow> string list res" where
  "spark_submit env exit_code ts1 ts2 r =
     bindR (spark_submit_args env ts1 ts2 r) (\<lambda>args.
       raise_if (exit_code args \<noteq> 0) RuntimeError (Inr args))"

definition job_run ::
  "job_env \<Rightarrow> (string list \<Rightarrow> int) \<Rightarrow> string \<Rightarrow> string \<Rightarrow> job_args \<Rightarrow> string list res" where
  "job_run env exit_code ts1 ts2 a =
     bindR (parse_args env a) (\<lambda>r. bindR (find_files env r) (spark_submit env exit_code ts1 ts2))"

section \<open>Lemmas\<close>

named_theorems job_defs \<open>the merging functions of the command line and the file\<close>

declare get_batch_size_def [job_defs] get_node_count_def [job_defs] get_node_cpu_def [job_defs]
  positive_arg_def [job_defs] positive_conf_def [job_defs]

lemma is_pos_int_PInt [simp]: "is_pos_int (PInt i) \<longleftrightarrow> 0 < i"
  by (simp add: is_pos_int_def)

lemma checked_numbers_positive:
  "get_batch_size a conf = Inr v \<Longrightarrow> is_pos_int v"
  "get_node_count role a conf = Inr v \<Longrightarrow> is_pos_int v"
  "get_node_cpu role a conf = Inr v \<Longrightarrow> is_pos_int v"
  by (auto simp: job_defs res_iffs split: option.splits if_splits)

lemma parse_args_facts:
  assumes "parse_args env a = Inr r"
  shows "a_local a \<noteq> a_cluster a" "truthy (agent_class a) \<noteq> (extra_args a \<noteq> [])" "r_args r = a"
    "is_pos_int (r_batch_size r)" "is_pos_int (r_worker_count r)" "is_pos_int (r_server_count r)"
    "is_pos_int (r_worker_cpu r)" "is_pos_int (r_server_cpu r)"
  using assms
  by (auto simp: parse_args_def res_iffs checked_numbers_positive split: option.splits)

lemma empty_layers [simp]: "update_layer (PDict []) k = Inr []" "conf_layer (PDict []) k = Inr []"
  by (simp_all add: update_layer_def conf_layer_def conf_get_def dict_get_def not_none_def)

lemma option_item_ok: "EQ \<notin> set n \<Longrightarrow> option_item (n @ EQ # v) = Inr (n, v)"
  by (simp add: option_item_def partition_at_found)

text \<open>The assignments a list of command-line items makes, when each is well formed.\<close>

definition item_pairs :: "string list \<Rightarrow> (string \<times> string) list res" where
  "item_pairs items = mapR option_item items"

definition env_layer :: "bool \<Rightarrow> (string \<times> pyval) list \<Rightarrow> pyval dict" where
  "env_layer is_local kvs = concat (map (\<lambda>(n, v). env_entries is_local n v) kvs)"

lemma foldR_add_conf_item:
  "foldR add_conf_item items d = Inr d' \<Longrightarrow>
   \<exists>kvs. item_pairs items = Inr kvs \<and> d' = dict_update d (map (\<lambda>(n, v). (n, PStr v)) kvs)"
  by (induction items arbitrary: d)
    (fastforce simp: item_pairs_def add_conf_item_def bindR_Inr_iff)+

lemma add_env_item_Inr_iff:
  "add_env_item l x d = Inr d' \<longleftrightarrow>
     (\<exists>n v. option_item x = Inr (n, v) \<and> d' = dict_update d (env_entries l n (PStr v)))"
  by (auto simp: add_env_item_def bindR_Inr_iff)

lemma foldR_add_env_item:
  "foldR (add_env_item l) items d = Inr d' \<Longrightarrow>
   \<exists>kvs. item_pairs items = Inr kvs \<and> d' = dict_update d (env_layer l (map (\<lambda>(n, v). (n, PStr v)) kvs))"
proof (induction items arbitrary: d)
  case (Cons x xs)
  then obtain n v where nv: "option_item x = Inr (n, v)"
    and r: "foldR (add_env_item l) xs (dict_update d (env_entries l n (PStr v))) = Inr d'"
    by (auto simp: bindR_Inr_iff add_env_item_Inr_iff)
  obtain kvs where "item_pairs xs = Inr kvs"
    "d' = dict_update (dict_update d (env_entries l n (PStr v))) (env_layer l (map (\<lambda>(n, v). (n, PStr v)) kvs))"
    using Cons.IH [OF r] by blast
  with nv show ?case
    by (intro exI [of _ "(n, v) # kvs"]) (simp add: item_pairs_def env_layer_def dict_update_append)
qed (simp add: item_pairs_def env_layer_def)

lemma foldl_env_entries:
  "foldl (\<lambda>d (n, v). dict_update d (env_entries l n v)) d kvs = dict_update d (env_layer l kvs)"
  by (induction kvs arbitrary: d) (auto simp: env_layer_def dict_update_append)

lemma executors_conf_layers:
  assumes "executors_conf env r = Inr d"
  obtains sc se cc ce where
    "update_layer (r_job_config r) ''spark_conf'' = Inr sc"
    "conf_layer (r_job_config r) ''spark_env'' = Inr se"
    "item_pairs (opt_items (spark_conf (r_args r))) = Inr cc"
    "item_pairs (opt_items (spark_env (r_args r))) = Inr ce"
    "d = dict_update [] (default_executors_conf env r @ sc @ env_layer (r_local r) se
           @ map (\<lambda>(n, v). (n, PStr v)) cc
           @ env_layer (r_local r) (map (\<lambda>(n, v). (n, PStr v)) ce))"
  using assms that
  by (auto simp: executors_conf_def Let_def bindR_Inr_iff foldl_env_entries dict_update_append
      dest!: foldR_add_conf_item foldR_add_env_item)

section \<open>Properties\<close>

text \<open>what \<open>parse_args\<close> guarantees when it returns: exactly one of local and cluster mode, exactly
  one of an agent class and extra arguments, and positive integers for the batch size, both node
  counts and both CPU counts, wherever they came from.\<close>

theorem parse_args_valid:
  assumes "parse_args env a = Inr r"
  shows "a_local a \<noteq> a_cluster a \<and> truthy (agent_class a) \<noteq> (extra_args a \<noteq> []) \<and> r_args r = a
    \<and> list_all is_pos_int [r_batch_size r, r_worker_count r, r_server_count r, r_worker_cpu r, r_server_cpu r]"
  using parse_args_facts [OF assms] by simp

text \<open>A small environment and a local job with everything on the command line, for the witnesses.\<close>

definition demo_env :: job_env where
  "demo_env = \<lparr>sys_executable = ''python'', sys_version = ''3.8.1'', ps_version = ''1'',
     host_ip = ''127.0.0.1'', launcher_path = ''l.py'', os_chdir = (\<lambda>_. None),
     load_yaml = (\<lambda>_. Inr (PDict [])), isfile = (\<lambda>_. True), isdir = (\<lambda>_. False), getmtime = (\<lambda>_. 0),
     tar_czf = (\<lambda>_. None), cwd = [], ostr = (\<lambda>_. [])\<rparr>"

definition demo_args :: job_args where
  "demo_args = \<lparr>debug_mode = False, agent_class = Some ''m.A'', user_name = ''u'', job_name = None,
     job_config = None, batch_size = Some 32, worker_count = Some 2, server_count = Some 1,
     worker_cpu = None, server_cpu = None, worker_memory = None, server_memory = None,
     python_env = None, python_ver = None, a_conf = Some [''lr=5''], spark_conf = Some [''x=1'', ''x=2''],
     spark_env = Some [''PYTHONPATH=p'', ''A=b''], spark_archives = None, spark_py_files = None,
     spark_files = None, spark_jars = None, spark_log_level = ''WARN'', a_chdir = None,
     a_local = True, a_cluster = False, extra_args = []\<rparr>"

definition demo_runner :: runner where
  "demo_runner = \<lparr>r_args = demo_args, r_job_config = PDict [], r_local = True, r_batch_size = PInt 32,
     r_worker_count = PInt 2, r_server_count = PInt 1, r_worker_cpu = PInt 1, r_server_cpu = PInt 1,
     r_worker_memory = PStr ''1G'', r_server_memory = PStr ''1G'', r_python_env = PNone,
     r_python_ver = PNone, r_archives = [], r_py_files = [], r_files = [], r_jars = []\<rparr>"

lemma demo_parse: "parse_args demo_env demo_args = Inr demo_runner"
  by (simp add: parse_args_def demo_args_def demo_runner_def truthy_def get_spark_config_def
      conf_get_def dict_get_def not_none_def job_defs get_node_memory_def)

theorem parse_args_valid_witness:
  "parse_args demo_env demo_args = Inr demo_runner \<and> r_args demo_runner = demo_args
   \<and> list_all is_pos_int [r_batch_size demo_runner, r_worker_count demo_runner,
       r_server_count demo_runner, r_worker_cpu demo_runner, r_server_cpu demo_runner]"
  using parse_args_valid [OF demo_parse] demo_parse by blast

text \<open>the Spark configuration has every key once, and for each key the last layer that sets it
  wins, in the order: built-in defaults, \<open>spark_conf\<close> and \<open>spark_env\<close> of the file, \<open>--spark-conf\<close>,
  \<open>--spark-env\<close>; each environment variable is set for the application master and for the executors
  alike, and in local mode \<open>PYTHONPATH\<close> is dropped from both environment layers.\<close>

theorem executors_conf_precedence:
  assumes "executors_conf env r = Inr d"
  shows "distinct (map fst d) \<and>
    (\<exists>sc se cc ce.
       update_layer (r_job_config r) ''spark_conf'' = Inr sc \<and>
       conf_layer (r_job_config r) ''spark_env'' = Inr se \<and>
       item_pairs (opt_items (spark_conf (r_args r))) = Inr cc \<and>
       item_pairs (opt_items (spark_env (r_args r))) = Inr ce \<and>
       dict_get d = map_of (rev (default_executors_conf env r @ sc @ env_layer (r_local r) se
           @ map (\<lambda>(n, v). (n, PStr v)) cc
           @ env_layer (r_local r) (map (\<lambda>(n, v). (n, PStr v)) ce))))"
proof -
  from executors_conf_layers [OF assms] obtain sc se cc ce where l:
    "update_layer (r_job_config r) ''spark_conf'' = Inr sc"
    "conf_layer (r_job_config r) ''spark_env'' = Inr se"
    "item_pairs (opt_items (spark_conf (r_args r))) = Inr cc"
    "item_pairs (opt_items (spark_env (r_args r))) = Inr ce"
    "d = dict_update [] (default_executors_conf env r @ sc @ env_layer (r_local r) se
           @ map (\<lambda>(n, v). (n, PStr v)) cc
           @ env_layer (r_local r) (map (\<lambda>(n, v). (n, PStr v)) ce))" by metis
  have "dict_get (dict_update [] kvs) = map_of (rev kvs)" for kvs :: "pyval dict"
    unfolding dict_update_def
    by (rule ext) (simp add: pydict.get_put_all, simp add: dict_get_def split: option.split)
  with l show ?thesis using dict_keys_update [of "[]"] by (metis distinct.simps(1) list.map(1))
qed

theorem executors_conf_precedence_witness:
  "\<exists>d. executors_conf demo_env demo_runner = Inr d \<and> distinct (map fst d) \<and>
     dict_get d ''x'' = Some (PStr ''2'') \<and> dict_get d ''spark.executorEnv.A'' = Some (PStr ''b'') \<and>
     dict_get d ''spark.executorEnv.PYTHONPATH'' = None"
proof -
  have "\<exists>d. executors_conf demo_env demo_runner = Inr d"
    by (simp add: executors_conf_def demo_runner_def demo_args_def opt_items_def add_conf_item_def
        add_env_item_def option_item_def)
  then obtain d where d: "executors_conf demo_env demo_runner = Inr d" ..
  show ?thesis
    using executors_conf_precedence [OF d] d
    by (auto simp: demo_runner_def demo_args_def opt_items_def item_pairs_def option_item_def
        env_layer_def env_entries_def default_executors_conf_def Let_def)
qed

lemma server_cpu_fields:
  "r_args (r\<lparr>r_server_cpu := v\<rparr>) = r_args r"
  "r_job_config (r\<lparr>r_server_cpu := v\<rparr>) = r_job_config r"
  "r_local (r\<lparr>r_server_cpu := v\<rparr>) = r_local r"
  "r_batch_size (r\<lparr>r_server_cpu := v\<rparr>) = r_batch_size r"
  "r_worker_count (r\<lparr>r_server_cpu := v\<rparr>) = r_worker_count r"
  "r_server_count (r\<lparr>r_server_cpu := v\<rparr>) = r_server_count r"
  "r_worker_cpu (r\<lparr>r_server_cpu := v\<rparr>) = r_worker_cpu r"
  "r_worker_memory (r\<lparr>r_server_cpu := v\<rparr>) = r_worker_memory r"
  "r_server_memory (r\<lparr>r_server_cpu := v\<rparr>) = r_server_memory r"
  "r_archives (r\<lparr>r_server_cpu := v\<rparr>) = r_archives r"
  "r_py_files (r\<lparr>r_server_cpu := v\<rparr>) = r_py_files r"
  "r_files (r\<lparr>r_server_cpu := v\<rparr>) = r_files r"
  "r_jars (r\<lparr>r_server_cpu := v\<rparr>) = r_jars r"
  by simp_all

lemma server_cpu_frame1:
  "get_python_executable_path env (r\<lparr>r_server_cpu := v\<rparr>) = get_python_executable_path env r"
  "get_executor_count (r\<lparr>r_server_cpu := v\<rparr>) = get_executor_count r"
  "get_executor_memory (r\<lparr>r_server_cpu := v\<rparr>) = get_executor_memory r"
  "get_executor_cores env (r\<lparr>r_server_cpu := v\<rparr>) = get_executor_cores env r"
  "get_job_name env ts (r\<lparr>r_server_cpu := v\<rparr>) = get_job_name env ts r"
  "launcher_conf (r\<lparr>r_server_cpu := v\<rparr>) = launcher_conf r"
  "get_spark_files_config (r\<lparr>r_server_cpu := v\<rparr>) = get_spark_files_config r"
  by (simp_all only: get_python_executable_path_def get_executor_count_def get_executor_memory_def
      get_executor_cores_def get_job_name_def launcher_conf_def get_spark_files_config_def
      server_cpu_fields)

lemma server_cpu_frame2:
  "default_executors_conf env (r\<lparr>r_server_cpu := v\<rparr>) = default_executors_conf env r"
  by (simp only: default_executors_conf_def server_cpu_frame1 server_cpu_fields)

lemma server_cpu_frame3:
  "executors_conf env (r\<lparr>r_server_cpu := v\<rparr>) = executors_conf env r"
  "get_spark_submit_command env (r\<lparr>r_server_cpu := v\<rparr>) = get_spark_submit_command env r"
  "get_spark_master_config env ts (r\<lparr>r_server_cpu := v\<rparr>) = get_spark_master_config env ts r"
  "get_spark_resources_config env (r\<lparr>r_server_cpu := v\<rparr>) = get_spark_resources_config env r"
  "get_ps_launcher_config env ts (r\<lparr>r_server_cpu := v\<rparr>) = get_ps_launcher_config env ts r"
  by (simp_all only: executors_conf_def get_spark_submit_command_def get_spark_master_config_def
      get_spark_resources_config_def get_ps_launcher_config_def server_cpu_frame1 server_cpu_frame2
      server_cpu_fields)

text \<open>the CPU count of the servers has no effect on the job: it is read and checked, but no part of
  the \<open>spark-submit\<close> command depends on it; executors get the CPU count of the workers.\<close>

theorem server_cpu_unused:
  "spark_submit_args env ts1 ts2 (r\<lparr>r_server_cpu := v\<rparr>) = spark_submit_args env ts1 ts2 r"
  by (simp only: spark_submit_args_def get_spark_executors_config_def server_cpu_frame1 server_cpu_frame3)

end
