(* ===== verification/Metric.thy ===== *)
theory Metric
  imports Prelude "HOL-Library.Multiset"
begin

text \<open>
  \<open>python/metaspore/metric.py\<close>: the training metrics, with the two C++ routines they call
  (\<open>cpp/metaspore/model_metric_buffer.cpp\<close>). The class hierarchy is a record hierarchy, \<open>super()\<close> a call
  of the parent's function; sums of floats are real numbers, \<open>nan\<close> is \<open>None\<close>. A batch is the keyword
  arguments of \<open>accumulate\<close>. \<open>None\<close> as a result of \<open>accumulate\<close> is a shape error or a write outside the
  histograms, which the C++ code does not check.
\<close>

section \<open>State\<close>

record model_metric =
  instance_num :: int

record basic_metric = model_metric +
  loss_sum :: real

record binary_metric = basic_metric +
  m_buffer_size :: nat
  m_threshold :: real
  m_beta :: real
  positive_buffer :: "real list"
  negative_buffer :: "real list"
  prediction_sum :: real
  label_sum :: real
  true_positive :: int
  true_negative :: int
  false_positive :: int
  false_negative :: int

record batch =
  b_size :: int
  b_loss :: real
  b_predictions :: "real list"
  b_labels :: "real list"

definition new_metric :: "nat \<Rightarrow> real \<Rightarrow> real \<Rightarrow> binary_metric" where
  "new_metric n th b =
     \<lparr>instance_num = 0, loss_sum = 0, m_buffer_size = n, m_threshold = th, m_beta = b,
      positive_buffer = replicate n 0, negative_buffer = replicate n 0, prediction_sum = 0,
      label_sum = 0, true_positive = 0, true_negative = 0, false_positive = 0, false_negative = 0\<rparr>"

section \<open>The histograms\<close>

text \<open>\<open>static_cast<int64_t>(pred * (buffer_size - 1))\<close> truncates towards zero.\<close>

definition bucket_of :: "nat \<Rightarrow> real \<Rightarrow> int" where
  "bucket_of n pred = (let x = pred * (real n - 1) in if 0 \<le> x then \<lfloor>x\<rfloor> else \<lceil>x\<rceil>)"

definition add_at :: "nat \<Rightarrow> real \<Rightarrow> real list \<Rightarrow> real list" where
  "add_at i x xs = xs[i := xs ! i + x]"

text \<open>One turn of the loop of \<open>UpdateBuffer\<close>.\<close>

definition update_bucket :: "real \<times> real \<Rightarrow> real list \<times> real list \<Rightarrow> (real list \<times> real list) option" where
  "update_bucket pl bufs =
     (case (pl, bufs) of ((pred, lab), (pos, neg)) \<Rightarrow>
        let b = bucket_of (length pos) pred in
        if b < 0 \<or> int (length pos) \<le> b \<or> int (length neg) \<le> b then None
        else if lab > 0 then Some (add_at (nat b) lab pos, neg)
        else if lab < 0 then Some (pos, add_at (nat b) (- lab) neg)
        else Some (pos, add_at (nat b) 1 neg))"

primrec update_buckets ::
  "(real \<times> real) list \<Rightarrow> real list \<times> real list \<Rightarrow> (real list \<times> real list) option" where
  "update_buckets [] bufs = Some bufs"
| "update_buckets (pl # pls) bufs = Option.bind (update_bucket pl bufs) (update_buckets pls)"

definition update_buffer ::
  "real list \<Rightarrow> real list \<Rightarrow> real list \<Rightarrow> real list \<Rightarrow> (real list \<times> real list) option" where
  "update_buffer pos neg preds labs =
     (if length preds < length labs then None else update_buckets (zip preds labs) (pos, neg))"

text \<open>\<open>ComputeAUC\<close>: the loop's \<open>pos_sum\<close>, \<open>neg_sum\<close> and \<open>auc\<close>, then the closing cases.\<close>

primrec auc_loop :: "(real \<times> real) list \<Rightarrow> real \<times> real \<times> real \<Rightarrow> real \<times> real \<times> real" where
  "auc_loop [] st = st"
| "auc_loop (pn # rest) st =
     (case (pn, st) of ((pos, neg), (pos_sum, neg_sum, auc)) \<Rightarrow>
        auc_loop rest (pos_sum + pos, neg_sum + neg, auc + (pos_sum + (pos_sum + pos)) / 2 * neg))"

definition compute_auc_buffers :: "real list \<Rightarrow> real list \<Rightarrow> real" where
  "compute_auc_buffers pos neg =
     (case auc_loop (zip pos neg) (0, 0, 0) of (pos_sum, neg_sum, auc) \<Rightarrow>
        if pos_sum = 0 then (if neg_sum > 0 then 0 else 1)
        else if neg_sum = 0 then 1
        else 1 - auc / pos_sum / neg_sum)"

section \<open>Operations\<close>


definition mm_clear :: "'a model_metric_scheme \<Rightarrow> 'a model_metric_scheme" where
  "mm_clear m = m\<lparr>instance_num := 0\<rparr>"

definition mm_merge :: "'a model_metric_scheme \<Rightarrow> 'b model_metric_scheme \<Rightarrow> 'a model_metric_scheme" where
  "mm_merge m other = m\<lparr>instance_num := instance_num m + instance_num other\<rparr>"

definition mm_accumulate :: "batch \<Rightarrow> 'a model_metric_scheme \<Rightarrow> 'a model_metric_scheme" where
  "mm_accumulate b m = m\<lparr>instance_num := instance_num m + b_size b\<rparr>"

definition bm_clear :: "'a basic_metric_scheme \<Rightarrow> 'a basic_metric_scheme" where
  "bm_clear m = (mm_clear m)\<lparr>loss_sum := 0\<rparr>"

definition bm_merge :: "'a basic_metric_scheme \<Rightarrow> 'b basic_metric_scheme \<Rightarrow> 'a basic_metric_scheme" where
  "bm_merge m other = (mm_merge m other)\<lparr>loss_sum := loss_sum m + loss_sum other\<rparr>"

definition bm_accumulate :: "batch \<Rightarrow> 'a basic_metric_scheme \<Rightarrow> 'a basic_metric_scheme" where
  "bm_accumulate b m = (mm_accumulate b m)\<lparr>loss_sum := loss_sum m + b_loss b\<rparr>"

definition compute_loss :: "'a basic_metric_scheme \<Rightarrow> real option" where
  "compute_loss m = (if instance_num m = 0 then None else Some (loss_sum m / of_int (instance_num m)))"

definition clear :: "binary_metric \<Rightarrow> binary_metric" where
  "clear m = (bm_clear m)\<lparr>positive_buffer := replicate (length (positive_buffer m)) 0,
     negative_buffer := replicate (length (negative_buffer m)) 0, prediction_sum := 0, label_sum := 0,
     true_positive := 0, true_negative := 0, false_positive := 0, false_negative := 0\<rparr>"

text \<open>numpy's in-place addition: equal shapes, or a one-element operand that is broadcast.\<close>

definition array_iadd :: "real list \<Rightarrow> real list \<Rightarrow> real list res" where
  "array_iadd xs ys =
     (if length ys = length xs then Inr (map2 (+) xs ys)
      else if length ys = 1 then Inr (map (\<lambda>x. x + hd ys) xs)
      else Inl ValueError)"

definition merge :: "binary_metric \<Rightarrow> binary_metric \<Rightarrow> binary_metric res" where
  "merge m other =
     bindR (array_iadd (positive_buffer m) (positive_buffer other)) (\<lambda>pos.
     bindR (array_iadd (negative_buffer m) (negative_buffer other)) (\<lambda>neg.
     Inr ((bm_merge m other)\<lparr>positive_buffer := pos, negative_buffer := neg,
       prediction_sum := prediction_sum m + prediction_sum other,
       label_sum := label_sum m + label_sum other,
       true_positive := true_positive m + true_positive other,
       true_negative := true_negative m + true_negative other,
       false_positive := false_positive m + false_positive other,
       false_negative := false_negative m + false_negative other\<rparr>)))"

definition count_pairs :: "(real \<Rightarrow> real \<Rightarrow> bool) \<Rightarrow> real list \<Rightarrow> real list \<Rightarrow> int" where
  "count_pairs P ps ls = int (length (filter (\<lambda>(p, l). P p l) (zip ps ls)))"

definition add_confusion :: "real list \<Rightarrow> real list \<Rightarrow> binary_metric \<Rightarrow> binary_metric" where
  "add_confusion ps ls m =
     (let t = m_threshold m in
      if t > 0 then
        m\<lparr>true_positive := true_positive m + count_pairs (\<lambda>p l. p > t \<and> l > t) ps ls,
          true_negative := true_negative m + count_pairs (\<lambda>p l. p \<le> t \<and> l \<le> t) ps ls,
          false_positive := false_positive m + count_pairs (\<lambda>p l. p > t \<and> l \<le> t) ps ls,
          false_negative := false_negative m + count_pairs (\<lambda>p l. p \<le> t \<and> l > t) ps ls\<rparr>
      else m)"

definition accumulate :: "batch \<Rightarrow> binary_metric \<Rightarrow> binary_metric option" where
  "accumulate b m =
     (let m1 = bm_accumulate b m; ps = b_predictions b; ls = b_labels b in
      Option.bind (update_buffer (positive_buffer m1) (negative_buffer m1) ps ls) (\<lambda>(pos, neg).
        let m2 = m1\<lparr>positive_buffer := pos, negative_buffer := neg,
                    prediction_sum := prediction_sum m1 + sum_list ps,
                    label_sum := label_sum m1 + sum_list ls\<rparr>
        in if m_threshold m > 0 \<and> length ps \<noteq> length ls then None
           else Some (add_confusion ps ls m2)))"

definition compute_auc :: "binary_metric \<Rightarrow> real" where
  "compute_auc m = compute_auc_buffers (positive_buffer m) (negative_buffer m)"

definition compute_pcoc :: "binary_metric \<Rightarrow> real option" where
  "compute_pcoc m = (if label_sum m = 0 then None else Some (prediction_sum m / label_sum m))"

definition compute_accuracy :: "binary_metric \<Rightarrow> real option" where
  "compute_accuracy m =
     (let num1 = true_positive m + true_negative m; num = num1 + (false_positive m + false_negative m)
      in if num = 0 then None else Some (of_int num1 / of_int num))"

definition compute_precision :: "binary_metric \<Rightarrow> real option" where
  "compute_precision m =
     (let num = true_positive m + false_positive m
      in if num = 0 then None else Some (of_int (true_positive m) / of_int num))"

definition compute_recall :: "binary_metric \<Rightarrow> real option" where
  "compute_recall m =
     (let num = true_positive m + false_negative m
      in if num = 0 then None else Some (of_int (true_positive m) / of_int num))"

text \<open>Arithmetic on \<open>nan\<close> gives \<open>nan\<close>, and \<open>nan == 0.0\<close> is false, so a missing rate makes the score missing.\<close>

definition compute_f_score :: "binary_metric \<Rightarrow> real option" where
  "compute_f_score m =
     (case (compute_precision m, compute_recall m) of
        (Some p, Some r) \<Rightarrow>
          let num = (m_beta m)\<^sup>2 * p + r in
          if num = 0 then None else Some ((1 + (m_beta m)\<^sup>2) * (p * r) / num)
      | _ \<Rightarrow> None)"

section \<open>Packed states\<close>

text \<open>
  \<open>struct.pack\<close> with the format built from \<open>_get_scalar_pack_info\<close>: every field is eight bytes wide
  (\<open>l\<close> and \<open>d\<close> in native format), so packed data is a list of fields. A \<open>d\<close> field holds the double
  itself, an \<open>l\<close> field a 64-bit integer.
\<close>

datatype pynum = NI int | ND real
datatype tag = Tl | Td
datatype field = Fl int | Fd real

definition scalar_pack_info :: "(string \<times> tag) list" where
  "scalar_pack_info =
     [(''_instance_num'', Tl)] @ [(''_loss_sum'', Td)] @
     [(''_prediction_sum'', Td), (''_label_sum'', Td), (''_true_positive'', Tl),
      (''_true_negative'', Tl), (''_false_positive'', Tl), (''_false_negative'', Tl)]"

definition get_scalar :: "string \<Rightarrow> binary_metric \<Rightarrow> pynum res" where
  "get_scalar n m =
     (if n = ''_instance_num'' then Inr (NI (instance_num m))
      else if n = ''_loss_sum'' then Inr (ND (loss_sum m))
      else if n = ''_prediction_sum'' then Inr (ND (prediction_sum m))
      else if n = ''_label_sum'' then Inr (ND (label_sum m))
      else if n = ''_true_positive'' then Inr (NI (true_positive m))
      else if n = ''_true_negative'' then Inr (NI (true_negative m))
      else if n = ''_false_positive'' then Inr (NI (false_positive m))
      else if n = ''_false_negative'' then Inr (NI (false_negative m))
      else Inl AttributeError)"

fun num_int :: "pynum \<Rightarrow> int" where
  "num_int (NI i) = i" | "num_int (ND x) = \<lfloor>x\<rfloor>"

fun num_real :: "pynum \<Rightarrow> real" where
  "num_real (NI i) = of_int i" | "num_real (ND x) = x"

definition set_scalar :: "string \<Rightarrow> pynum \<Rightarrow> binary_metric \<Rightarrow> binary_metric" where
  "set_scalar n v m =
     (if n = ''_instance_num'' then m\<lparr>instance_num := num_int v\<rparr>
      else if n = ''_loss_sum'' then m\<lparr>loss_sum := num_real v\<rparr>
      else if n = ''_prediction_sum'' then m\<lparr>prediction_sum := num_real v\<rparr>
      else if n = ''_label_sum'' then m\<lparr>label_sum := num_real v\<rparr>
      else if n = ''_true_positive'' then m\<lparr>true_positive := num_int v\<rparr>
      else if n = ''_true_negative'' then m\<lparr>true_negative := num_int v\<rparr>
      else if n = ''_false_positive'' then m\<lparr>false_positive := num_int v\<rparr>
      else if n = ''_false_negative'' then m\<lparr>false_negative := num_int v\<rparr>
      else m)"

fun pack_field :: "tag \<Rightarrow> pynum \<Rightarrow> field res" where
  "pack_field Tl (NI i) = raise_if (i < - (2 ^ 63) \<or> 2 ^ 63 \<le> i) StructError (Inr (Fl i))"
| "pack_field Tl (ND _) = Inl StructError"
| "pack_field Td v = Inr (Fd (num_real v))"

fun unpack_field :: "tag \<Rightarrow> field \<Rightarrow> pynum res" where
  "unpack_field Tl (Fl i) = Inr (NI i)"
| "unpack_field Td (Fd x) = Inr (ND x)"
| "unpack_field _ _ = Inl StructError"

definition pack_scalar_values :: "binary_metric \<Rightarrow> field list res" where
  "pack_scalar_values m =
     mapR (\<lambda>(n, t). bindR (get_scalar n m) (pack_field t)) scalar_pack_info"

definition unpack_scalar_values :: "field list \<Rightarrow> binary_metric \<Rightarrow> binary_metric res" where
  "unpack_scalar_values data m =
     raise_if (length data \<noteq> length scalar_pack_info) StructError
     (bindR (mapR (\<lambda>((n, t), f). unpack_field t f) (zip scalar_pack_info data)) (\<lambda>vs.
      Inr (foldl (\<lambda>m ((n, t), v). set_scalar n v m) m (zip scalar_pack_info vs))))"

type_synonym states = "field list \<times> real list list"

definition get_states :: "binary_metric \<Rightarrow> states res" where
  "get_states m = bindR (pack_scalar_values m) (\<lambda>d. Inr (d, [positive_buffer m, negative_buffer m]))"

text \<open>\<open>field[...] = array\<close>: equal shapes, or a one-element array.\<close>

definition array_assign :: "real list \<Rightarrow> real list \<Rightarrow> real list res" where
  "array_assign xs ys =
     (if length ys = length xs then Inr ys
      else if length ys = 1 then Inr (replicate (length xs) (hd ys))
      else Inl ValueError)"

definition from_states :: "states \<Rightarrow> binary_metric \<Rightarrow> binary_metric res" where
  "from_states st m =
     (case st of (data, arrays) \<Rightarrow>
      bindR (unpack_scalar_values data m) (\<lambda>m.
      case arrays of [] \<Rightarrow> Inr m
      | pos # rest \<Rightarrow> bindR (array_assign (positive_buffer m) pos) (\<lambda>p.
          let m = m\<lparr>positive_buffer := p\<rparr> in
          case rest of [] \<Rightarrow> Inr m
          | neg # _ \<Rightarrow> bindR (array_assign (negative_buffer m) neg) (\<lambda>n.
              Inr (m\<lparr>negative_buffer := n\<rparr>)))))"

section \<open>The area under the curve\<close>

text \<open>
  What the AUC counts: every negative instance against the positive ones in higher buckets, and half
  of those in its own bucket.
\<close>

primrec wins :: "(real \<times> real) list \<Rightarrow> real" where
  "wins [] = 0"
| "wins (pn # rest) = snd pn * (fst pn / 2 + sum_list (map fst rest)) + wins rest"

lemma auc_loop_sums:
  "auc_loop pns (p, n, a) =
     (p + sum_list (map fst pns), n + sum_list (map snd pns),
      a + (p + sum_list (map fst pns)) * sum_list (map snd pns) - wins pns)"
proof (induction pns arbitrary: p n a)
  case (Cons pn pns)
  show ?case by (cases pn) (simp add: Cons.IH algebra_simps add_divide_distrib)
qed simp

lemma wins_bounds:
  assumes "list_all (\<lambda>(p, n). 0 \<le> p \<and> 0 \<le> n) pns"
  shows "0 \<le> sum_list (map fst pns) \<and> 0 \<le> sum_list (map snd pns) \<and> 0 \<le> wins pns
    \<and> wins pns \<le> sum_list (map fst pns) * sum_list (map snd pns)"
  using assms
proof (induction pns)
  case (Cons pn pns)
  obtain p n where pn: "pn = (p, n)" by (cases pn)
  let ?P = "sum_list (map fst pns)" and ?N = "sum_list (map snd pns)"
  have pos: "0 \<le> p" "0 \<le> n" using Cons.prems by (simp_all add: pn)
  have IH: "0 \<le> ?P" "0 \<le> ?N" "0 \<le> wins pns" "wins pns \<le> ?P * ?N" using Cons by simp_all
  have "n * (p / 2) \<le> n * p" "0 \<le> p * ?N" using pos IH by (auto intro: mult_left_mono)
  then have "wins (pn # pns) \<le> sum_list (map fst (pn # pns)) * sum_list (map snd (pn # pns))"
    using IH(4) by (simp add: pn algebra_simps)
  moreover have "0 \<le> wins (pn # pns)" using pos IH by (simp add: pn)
  ultimately show ?case using pos IH by (simp add: pn)
qed simp

section \<open>Merging as addition\<close>

definition same_shape :: "binary_metric \<Rightarrow> binary_metric \<Rightarrow> bool" where
  "same_shape a b \<longleftrightarrow> length (positive_buffer a) = length (positive_buffer b)
     \<and> length (negative_buffer a) = length (negative_buffer b)"

definition metric_plus :: "binary_metric \<Rightarrow> binary_metric \<Rightarrow> binary_metric" where
  "metric_plus m other =
     (bm_merge m other)\<lparr>positive_buffer := map2 (+) (positive_buffer m) (positive_buffer other),
       negative_buffer := map2 (+) (negative_buffer m) (negative_buffer other),
       prediction_sum := prediction_sum m + prediction_sum other,
       label_sum := label_sum m + label_sum other,
       true_positive := true_positive m + true_positive other,
       true_negative := true_negative m + true_negative other,
       false_positive := false_positive m + false_positive other,
       false_negative := false_negative m + false_negative other\<rparr>"

lemmas metric_defs = bm_merge_def mm_merge_def bm_accumulate_def mm_accumulate_def

lemma merge_plus: "same_shape m other \<Longrightarrow> merge m other = Inr (metric_plus m other)"
  by (simp add: merge_def metric_plus_def same_shape_def array_iadd_def)

lemma update_bucket_plus:
  assumes "length xp = length pos" "length xn = length neg"
  shows "update_bucket pl (map2 (+) xp pos, map2 (+) xn neg) =
    map_option (\<lambda>(p, n). (map2 (+) xp p, map2 (+) xn n)) (update_bucket pl (pos, neg))"
proof -
  have *: "add_at i v (map2 (+) xs ys) = map2 (+) xs (add_at i v ys)"
    if "length xs = length ys" "i < length ys" for i v and xs ys :: "real list"
    using that by (intro nth_equalityI) (auto simp: add_at_def nth_list_update)
  show ?thesis
    using assms by (cases pl) (auto simp: update_bucket_def Let_def * nat_less_iff)
qed

lemma update_bucket_length:
  "update_bucket pl (pos, neg) = Some (p, n) \<Longrightarrow> length p = length pos \<and> length n = length neg"
  by (cases pl) (auto simp: update_bucket_def Let_def add_at_def split: if_splits)

lemma update_buckets_length:
  "update_buckets pls (pos, neg) = Some (p, n) \<Longrightarrow> length p = length pos \<and> length n = length neg"
proof (induction pls arbitrary: pos neg)
  case (Cons pl pls)
  then obtain p1 n1 where u: "update_bucket pl (pos, neg) = Some (p1, n1)"
    "update_buckets pls (p1, n1) = Some (p, n)" by (auto simp: bind_eq_Some_conv)
  then show ?case using Cons.IH update_bucket_length by metis
qed simp

lemma update_buckets_plus:
  assumes "length xp = length pos" "length xn = length neg"
  shows "update_buckets pls (map2 (+) xp pos, map2 (+) xn neg) =
    map_option (\<lambda>(p, n). (map2 (+) xp p, map2 (+) xn n)) (update_buckets pls (pos, neg))"
  using assms
proof (induction pls arbitrary: pos neg)
  case (Cons pl pls)
  show ?case
  proof (cases "update_bucket pl (pos, neg)")
    case (Some pn)
    then obtain p n where pn: "update_bucket pl (pos, neg) = Some (p, n)" by (cases pn) auto
    then have "length xp = length p" "length xn = length n"
      using update_bucket_length [OF pn] Cons.prems by auto
    then show ?thesis using Cons.IH pn Cons.prems by (simp add: update_bucket_plus)
  qed (use Cons.prems in \<open>simp add: update_bucket_plus\<close>)
qed simp

lemma accumulate_plus:
  assumes "same_shape x m" and "m_threshold x = m_threshold m"
  shows "accumulate b (metric_plus x m) = map_option (metric_plus x) (accumulate b m)"
proof (cases "update_buffer (positive_buffer m) (negative_buffer m) (b_predictions b) (b_labels b)")
  case None
  then show ?thesis
    using assms by (simp add: accumulate_def metric_plus_def metric_defs same_shape_def
        update_buffer_def update_buckets_plus Let_def split: if_splits)
next
  case (Some pn)
  obtain p n where pn: "pn = (p, n)" by (cases pn)
  then have ok: "\<not> length (b_predictions b) < length (b_labels b)"
    and u: "update_buckets (zip (b_predictions b) (b_labels b)) (positive_buffer m, negative_buffer m) = Some (p, n)"
    using Some by (auto simp: update_buffer_def split: if_splits)
  have u': "update_buffer (map2 (+) (positive_buffer x) (positive_buffer m))
      (map2 (+) (negative_buffer x) (negative_buffer m)) (b_predictions b) (b_labels b) =
      Some (map2 (+) (positive_buffer x) p, map2 (+) (negative_buffer x) n)"
    using ok u assms(1) by (simp add: update_buffer_def update_buckets_plus same_shape_def)
  have m': "update_buffer (positive_buffer m) (negative_buffer m) (b_predictions b) (b_labels b) = Some (p, n)"
    using Some pn by simp
  show ?thesis
    using assms(2) by (simp add: accumulate_def metric_plus_def metric_defs u' m' add_confusion_def Let_def)
qed

lemma accumulate_shape:
  assumes "accumulate b m = Some m'"
  shows "same_shape m m'" "m_threshold m' = m_threshold m" "m_beta m' = m_beta m"
    "m_buffer_size m' = m_buffer_size m"
  using assms
  by (auto simp: accumulate_def metric_defs bind_eq_Some_conv Let_def same_shape_def update_buffer_def
      add_confusion_def dest!: update_buckets_length split: if_splits)

text \<open>A run of batches.\<close>

primrec accumulate_all :: "batch list \<Rightarrow> binary_metric \<Rightarrow> binary_metric option" where
  "accumulate_all [] m = Some m"
| "accumulate_all (b # bs) m = Option.bind (accumulate b m) (accumulate_all bs)"

lemma accumulate_all_append:
  "accumulate_all (bs @ cs) m = Option.bind (accumulate_all bs m) (accumulate_all cs)"
proof (induction bs arbitrary: m)
  case (Cons b bs)
  show ?case by (cases "accumulate b m") (simp_all add: Cons.IH)
qed simp

lemma accumulate_all_plus:
  assumes "same_shape x m" and "m_threshold x = m_threshold m"
  shows "accumulate_all bs (metric_plus x m) = map_option (metric_plus x) (accumulate_all bs m)"
  using assms
proof (induction bs arbitrary: m)
  case (Cons b bs)
  show ?case
  proof (cases "accumulate b m")
    case (Some m1)
    have "same_shape x m1" "m_threshold x = m_threshold m1"
      using accumulate_shape [OF Some] Cons.prems by (auto simp: same_shape_def)
    then show ?thesis using Cons.IH Cons.prems Some by (simp add: accumulate_plus)
  qed (use Cons.prems in \<open>simp add: accumulate_plus\<close>)
qed simp

lemma accumulate_all_shape:
  "accumulate_all bs m = Some m' \<Longrightarrow> same_shape m m' \<and> m_threshold m' = m_threshold m
     \<and> m_beta m' = m_beta m \<and> m_buffer_size m' = m_buffer_size m"
proof (induction bs arbitrary: m)
  case (Cons b bs)
  then obtain m1 where m1: "accumulate b m = Some m1" "accumulate_all bs m1 = Some m'"
    by (auto simp: bind_eq_Some_conv)
  then show ?case using Cons.IH [OF m1(2)] accumulate_shape [OF m1(1)] by (auto simp: same_shape_def)
qed (simp add: same_shape_def)

lemma plus_new_metric:
  assumes "length (positive_buffer m) = n" "length (negative_buffer m) = n"
  shows "metric_plus m (new_metric n t b) = m"
proof -
  have "map2 (+) xs (replicate (length xs) 0) = xs" for xs :: "real list"
    by (induction xs) auto
  from this [of "positive_buffer m"] this [of "negative_buffer m"]
  show ?thesis using assms by (simp add: metric_plus_def metric_defs new_metric_def)
qed

lemma metric_plus_commute:
  assumes "same_shape a b" "m_threshold a = m_threshold b" "m_beta a = m_beta b"
    "m_buffer_size a = m_buffer_size b"
  shows "metric_plus a b = metric_plus b a"
proof -
  have "map2 (+) xs ys = map2 (+) ys xs" if "length xs = length ys" for xs ys :: "real list"
    using that by (induction rule: list_induct2) auto
  then show ?thesis
    using assms by (simp add: metric_plus_def metric_defs same_shape_def add.commute)
qed

section \<open>The histograms as weighted sums over the instances\<close>

definition pos_weight :: "real \<Rightarrow> real" where
  "pos_weight l = (if l > 0 then l else 0)"

definition neg_weight :: "real \<Rightarrow> real" where
  "neg_weight l = (if l > 0 then 0 else if l < 0 then - l else 1)"

definition bucket_index :: "nat \<Rightarrow> real \<Rightarrow> nat" where
  "bucket_index n p = nat (bucket_of n p)"

definition tie_score :: "nat \<Rightarrow> nat \<Rightarrow> real" where
  "tie_score i j = (if j < i then 1 else if i = j then 1 / 2 else 0)"

definition instances :: "batch list \<Rightarrow> (real \<times> real) list" where
  "instances bs = concat (map (\<lambda>b. zip (b_predictions b) (b_labels b)) bs)"

definition hsum :: "real list \<Rightarrow> (nat \<Rightarrow> real) \<Rightarrow> real" where
  "hsum xs f = (\<Sum>i<length xs. xs ! i * f i)"

lemma hsum_add_at:
  assumes "k < length xs"
  shows "hsum (add_at k v xs) f = hsum xs f + v * f k"
proof -
  have "hsum (add_at k v xs) f = (\<Sum>i<length xs. xs ! i * f i + (if i = k then v * f k else 0))"
    unfolding hsum_def by (rule sum.cong) (auto simp: add_at_def nth_list_update algebra_simps)
  also have "\<dots> = hsum xs f + v * f k"
    using assms by (simp add: hsum_def sum.distrib)
  finally show ?thesis .
qed

lemma hsum_one: "hsum xs (\<lambda>_. 1) = sum_list xs"
  by (simp add: hsum_def sum_list_sum_nth atLeast0LessThan)

lemma update_bucket_hsum:
  assumes "update_bucket (q, l) (pos, neg) = Some (p, n)" "length pos = length neg"
  shows "hsum p f = hsum pos f + pos_weight l * f (bucket_index (length pos) q)
    \<and> hsum n f = hsum neg f + neg_weight l * f (bucket_index (length pos) q)"
  using assms
  by (auto simp: update_bucket_def Let_def bucket_index_def pos_weight_def neg_weight_def hsum_add_at nat_less_iff
      split: if_splits)

lemma update_buckets_hsum:
  assumes "update_buckets pls (pos, neg) = Some (p, n)" "length pos = N" "length neg = N"
  shows "hsum p f = hsum pos f + (\<Sum>(q, l)\<leftarrow>pls. pos_weight l * f (bucket_index N q))
    \<and> hsum n f = hsum neg f + (\<Sum>(q, l)\<leftarrow>pls. neg_weight l * f (bucket_index N q))"
  using assms
proof (induction pls arbitrary: pos neg)
  case (Cons pl pls)
  obtain q l where pl: "pl = (q, l)" by (cases pl)
  obtain p1 n1 where u: "update_bucket (q, l) (pos, neg) = Some (p1, n1)"
    "update_buckets pls (p1, n1) = Some (p, n)"
    using Cons.prems(1) by (auto simp: bind_eq_Some_conv pl)
  have "length p1 = N" "length n1 = N" using update_bucket_length [OF u(1)] Cons.prems by auto
  from Cons.IH [OF u(2) this] update_bucket_hsum [OF u(1), of f] Cons.prems
  show ?case by (simp add: pl)
qed simp

lemma accumulate_buffers:
  assumes "accumulate b m = Some m'"
  shows "update_buckets (zip (b_predictions b) (b_labels b)) (positive_buffer m, negative_buffer m) =
    Some (positive_buffer m', negative_buffer m')"
  using assms
  by (auto simp: accumulate_def metric_defs bind_eq_Some_conv Let_def update_buffer_def add_confusion_def
      split: if_splits)

lemma update_buckets_append:
  "update_buckets (xs @ ys) st = Option.bind (update_buckets xs st) (update_buckets ys)"
proof (induction xs arbitrary: st)
  case (Cons x xs)
  show ?case by (cases "update_bucket x st") (simp_all add: Cons.IH)
qed simp

lemma accumulate_all_buffers:
  assumes "accumulate_all bs m = Some m'"
  shows "update_buckets (instances bs) (positive_buffer m, negative_buffer m) =
    Some (positive_buffer m', negative_buffer m')"
  using assms
proof (induction bs arbitrary: m)
  case (Cons b bs)
  then obtain m1 where m1: "accumulate b m = Some m1" "accumulate_all bs m1 = Some m'"
    by (auto simp: bind_eq_Some_conv)
  then show ?case
    using Cons.IH [OF m1(2)] accumulate_buffers [OF m1(1)] by (simp add: instances_def update_buckets_append)
qed (simp add: instances_def)

lemma update_bucket_nonneg:
  assumes "update_bucket pl (pos, neg) = Some (p, n)" "list_all ((\<le>) 0) pos" "list_all ((\<le>) 0) neg"
  shows "list_all ((\<le>) 0) p \<and> list_all ((\<le>) 0) n"
  using assms
  by (cases pl)
    (auto simp: update_bucket_def Let_def add_at_def list_all_length nth_list_update split: if_splits)

lemma update_buckets_nonneg:
  assumes "update_buckets pls (pos, neg) = Some (p, n)" "list_all ((\<le>) 0) pos" "list_all ((\<le>) 0) neg"
  shows "list_all ((\<le>) 0) p \<and> list_all ((\<le>) 0) n"
  using assms
proof (induction pls arbitrary: pos neg)
  case (Cons pl pls)
  obtain p1 n1 where u: "update_bucket pl (pos, neg) = Some (p1, n1)"
    "update_buckets pls (p1, n1) = Some (p, n)"
    using Cons.prems(1) by (auto simp: bind_eq_Some_conv)
  from update_bucket_nonneg [OF u(1) Cons.prems(2,3)] Cons.IH [OF u(2)] show ?case by blast
qed simp

lemma wins_double_sum:
  "wins pns = (\<Sum>i<length pns. \<Sum>j<length pns. fst (pns ! i) * snd (pns ! j) * tie_score i j)"
proof (induction pns)
  case (Cons pn pns)
  have s: "tie_score 0 0 = 1 / 2" "tie_score 0 (Suc j) = 0" "tie_score (Suc i) 0 = 1"
    "tie_score (Suc i) (Suc j) = tie_score i j" for i j by (auto simp: tie_score_def)
  have "sum_list (map fst pns) = (\<Sum>i<length pns. fst (pns ! i))"
    by (simp add: sum_list_sum_nth atLeast0LessThan)
  then show ?case
    by (simp add: Cons.IH sum.lessThan_Suc_shift s sum.distrib algebra_simps sum_distrib_left del: sum.lessThan_Suc)
qed simp

section \<open>What the metrics mean\<close>

lemma new_buffers:
  "positive_buffer (new_metric n t b) = replicate n 0" "negative_buffer (new_metric n t b) = replicate n 0"
  "m_threshold (new_metric n t b) = t" "m_beta (new_metric n t b) = b" "m_buffer_size (new_metric n t b) = n"
  by (simp_all add: new_metric_def)

definition pair_score :: "nat \<Rightarrow> (real \<times> real) list \<Rightarrow> real" where
  "pair_score n ins = (\<Sum>(p, l)\<leftarrow>ins. \<Sum>(q, k)\<leftarrow>ins.
     pos_weight l * neg_weight k * tie_score (bucket_index n p) (bucket_index n q))"

lemma accumulated_histograms:
  assumes "accumulate_all bs (new_metric n t be) = Some m"
  shows "length (positive_buffer m) = n" "length (negative_buffer m) = n"
    "hsum (positive_buffer m) f = (\<Sum>(q, l)\<leftarrow>instances bs. pos_weight l * f (bucket_index n q))"
    "hsum (negative_buffer m) f = (\<Sum>(q, l)\<leftarrow>instances bs. neg_weight l * f (bucket_index n q))"
    "list_all ((\<le>) 0) (positive_buffer m)" "list_all ((\<le>) 0) (negative_buffer m)"
proof -
  have z: "hsum (replicate n 0) f = 0" by (simp add: hsum_def)
  note u = accumulate_all_buffers [OF assms, unfolded new_buffers]
  show "length (positive_buffer m) = n" "length (negative_buffer m) = n"
    using accumulate_all_shape [OF assms] by (simp_all add: same_shape_def new_buffers)
  show "hsum (positive_buffer m) f = (\<Sum>(q, l)\<leftarrow>instances bs. pos_weight l * f (bucket_index n q))"
    "hsum (negative_buffer m) f = (\<Sum>(q, l)\<leftarrow>instances bs. neg_weight l * f (bucket_index n q))"
    using update_buckets_hsum [OF u, of n f] z by simp_all
  show "list_all ((\<le>) 0) (positive_buffer m)" "list_all ((\<le>) 0) (negative_buffer m)"
    using update_buckets_nonneg [OF u] by (simp_all add: list_all_length)
qed

lemma wins_hsum:
  assumes "length p = length n"
  shows "wins (zip p n) = hsum p (\<lambda>i. hsum n (\<lambda>j. tie_score i j))"
  using assms by (simp add: wins_double_sum hsum_def sum_distrib_left ac_simps)

lemma sum_list_scale: "(\<Sum>(q, k)\<leftarrow>xs. a * g q k) = (a::real) * (\<Sum>(q, k)\<leftarrow>xs. g q k)"
  by (induction xs) (auto simp: algebra_simps)

lemma wins_pair_score:
  assumes "accumulate_all bs (new_metric n t be) = Some m"
  shows "wins (zip (positive_buffer m) (negative_buffer m)) = pair_score n (instances bs)"
proof -
  note h = accumulated_histograms [OF assms]
  have "wins (zip (positive_buffer m) (negative_buffer m)) =
    (\<Sum>(p, l)\<leftarrow>instances bs. pos_weight l *
      (\<Sum>(q, k)\<leftarrow>instances bs. neg_weight k * tie_score (bucket_index n p) (bucket_index n q)))"
    using h(1,2) by (simp add: wins_hsum h(3,4))
  then show ?thesis by (simp add: pair_score_def sum_list_scale mult.assoc)
qed

definition total_positive :: "batch list \<Rightarrow> real" where
  "total_positive bs = (\<Sum>(_, l)\<leftarrow>instances bs. pos_weight l)"

definition total_negative :: "batch list \<Rightarrow> real" where
  "total_negative bs = (\<Sum>(_, l)\<leftarrow>instances bs. neg_weight l)"

text \<open>
  C15: The AUC of a metric that has accumulated any list of batches is a probability, and when the
  batches hold instances of both classes it is the weighted share of (positive, negative) instance
  pairs whose positive instance has the higher prediction bucket, pairs in one bucket counting half.
\<close>

theorem auc_is_pair_ranking:
  assumes "accumulate_all bs (new_metric n t be) = Some m"
  shows "0 \<le> compute_auc m \<and> compute_auc m \<le> 1 \<and>
    (0 < total_positive bs \<longrightarrow> 0 < total_negative bs \<longrightarrow>
      compute_auc m = pair_score n (instances bs) / (total_positive bs * total_negative bs))"
proof -
  let ?z = "zip (positive_buffer m) (negative_buffer m)"
  let ?P = "sum_list (positive_buffer m)" and ?N = "sum_list (negative_buffer m)"
  note h = accumulated_histograms [OF assms]
  have z: "list_all (\<lambda>(p, n). 0 \<le> p \<and> 0 \<le> n) ?z"
    using h(5,6) by (auto simp: list_all_length)
  have m1: "map fst ?z = positive_buffer m" "map snd ?z = negative_buffer m" using h(1,2) by simp_all
  have t: "?P = total_positive bs" "?N = total_negative bs"
    using h(3,4) [of "\<lambda>_. 1"] by (simp_all add: hsum_one total_positive_def total_negative_def)
  have b: "0 \<le> ?P" "0 \<le> ?N" "0 \<le> wins ?z" "wins ?z \<le> ?P * ?N"
    using wins_bounds [OF z] by (simp_all add: m1)
  have l: "auc_loop ?z (0, 0, 0) = (?P, ?N, ?P * ?N - wins ?z)"
    by (simp add: auc_loop_sums m1)
  have q: "compute_auc m = wins ?z / (?P * ?N)" if "?P \<noteq> 0" "?N \<noteq> 0"
    using that by (simp add: compute_auc_def compute_auc_buffers_def l field_simps)
  have e: "?P = 0 \<or> ?N = 0 \<Longrightarrow> compute_auc m = 0 \<or> compute_auc m = 1"
    by (auto simp: compute_auc_def compute_auc_buffers_def l)
  have r: "0 \<le> wins ?z / (?P * ?N)" "?P \<noteq> 0 \<Longrightarrow> ?N \<noteq> 0 \<Longrightarrow> wins ?z / (?P * ?N) \<le> 1"
    using b by (simp_all add: divide_le_eq)
  show ?thesis
    using e q r b wins_pair_score [OF assms] t by (cases "?P = 0 \<or> ?N = 0") auto
qed

text \<open>Two batches over four buckets: one wrongly ranked pair, one tie.\<close>

definition demo_batches :: "batch list" where
  "demo_batches =
     [\<lparr>b_size = 2, b_loss = 1, b_predictions = [1, 0], b_labels = [1, 0]\<rparr>,
      \<lparr>b_size = 2, b_loss = 1, b_predictions = [1, 1 / 2], b_labels = [0, 1]\<rparr>]"

lemma demo_accumulated:
  "accumulate_all demo_batches (new_metric 5 (1 / 4) 1) = Some
    \<lparr>instance_num = 4, loss_sum = 2, m_buffer_size = 5, m_threshold = 1 / 4, m_beta = 1,
      positive_buffer = [0, 0, 1, 0, 1], negative_buffer = [1, 0, 0, 0, 1], prediction_sum = 5 / 2,
      label_sum = 2, true_positive = 2, true_negative = 1, false_positive = 1, false_negative = 0\<rparr>"
  by (simp add: demo_batches_def accumulate_def metric_defs new_metric_def update_buffer_def update_bucket_def
      bucket_of_def add_at_def add_confusion_def count_pairs_def Let_def eval_nat_numeral)

theorem auc_is_pair_ranking_witness:
  "\<exists>m. accumulate_all demo_batches (new_metric 5 (1 / 4) 1) = Some m \<and> 0 \<le> compute_auc m \<and>
     compute_auc m = pair_score 5 (instances demo_batches) / (2 * 2)"
proof -
  have t: "total_positive demo_batches = 2" "total_negative demo_batches = 2"
    by (simp_all add: total_positive_def total_negative_def instances_def demo_batches_def pos_weight_def
        neg_weight_def)
  show ?thesis using auc_is_pair_ranking [OF demo_accumulated] demo_accumulated by (simp add: t)
qed

section \<open>Distributed accumulation\<close>

lemma merge_accumulated:
  assumes "accumulate_all bs (new_metric n t be) = Some a" "accumulate_all cs (new_metric n t be) = Some d"
  shows "\<exists>m. merge a d = Inr m \<and> accumulate_all (bs @ cs) (new_metric n t be) = Some m"
proof -
  note ha = accumulated_histograms [OF assms(1)] and hd = accumulated_histograms [OF assms(2)]
  have sh: "same_shape a d" using ha(1,2) hd(1,2) by (simp add: same_shape_def)
  have "same_shape a (new_metric n t be)" "m_threshold a = m_threshold (new_metric n t be)"
    using ha(1,2) accumulate_all_shape [OF assms(1)] by (simp_all add: same_shape_def new_buffers)
  from accumulate_all_plus [OF this, of cs] plus_new_metric [OF ha(1,2), of t be]
  have "accumulate_all cs a = Some (metric_plus a d)" by (simp add: assms(2))
  then show ?thesis by (simp add: merge_plus [OF sh] accumulate_all_append assms(1))
qed

lemma merge_all_accumulated:
  assumes "list_all2 (\<lambda>bs d. accumulate_all bs (new_metric n t be) = Some d) bss ds"
    and "accumulate_all cs (new_metric n t be) = Some a"
  shows "\<exists>m. foldR (\<lambda>d acc. merge acc d) ds a = Inr m
    \<and> accumulate_all (cs @ concat bss) (new_metric n t be) = Some m"
  using assms
proof (induction arbitrary: cs a rule: list_all2_induct)
  case (Cons bs bss d ds)
  obtain m where m: "merge a d = Inr m" "accumulate_all (cs @ bs) (new_metric n t be) = Some m"
    using merge_accumulated [OF Cons.prems Cons.hyps(1)] by blast
  from Cons.IH [OF m(2)] m(1) show ?case by (simp add: append_assoc)
qed simp

text \<open>
  C11: Training on many workers counts what one worker would count: when each worker accumulates its own
  batches in a fresh metric and the metrics are merged one after the other into the coordinator's fresh
  metric, no merge fails and the result is the metric of one process that saw all the batches.
\<close>

theorem distributed_metric:
  assumes "list_all2 (\<lambda>bs d. accumulate_all bs (new_metric n t be) = Some d) bss ds"
  shows "\<exists>m. foldR (\<lambda>d acc. merge acc d) ds (new_metric n t be) = Inr m
    \<and> accumulate_all (concat bss) (new_metric n t be) = Some m"
  using merge_all_accumulated [OF assms, of "[]"] by simp

theorem distributed_metric_witness:
  "\<exists>d m. accumulate_all demo_batches (new_metric 5 (1 / 4) 1) = Some d
     \<and> foldR (\<lambda>d acc. merge acc d) [d, d] (new_metric 5 (1 / 4) 1) = Inr m
     \<and> accumulate_all (demo_batches @ demo_batches) (new_metric 5 (1 / 4) 1) = Some m"
proof -
  obtain d where d: "accumulate_all demo_batches (new_metric 5 (1 / 4) 1) = Some d"
    using demo_accumulated by blast
  have "list_all2 (\<lambda>bs d. accumulate_all bs (new_metric 5 (1 / 4) 1) = Some d)
    [demo_batches, demo_batches] [d, d]" by (simp add: d)
  from distributed_metric [OF this] d show ?thesis by auto
qed

section \<open>The round trip of the packed states\<close>

definition fits64 :: "int \<Rightarrow> bool" where
  "fits64 i \<longleftrightarrow> - (2 ^ 63) \<le> i \<and> i < 2 ^ 63"

definition counters :: "binary_metric \<Rightarrow> int list" where
  "counters m = [instance_num m, true_positive m, true_negative m, false_positive m, false_negative m]"

lemma packed_states:
  "pack_scalar_values m =
    (if list_all fits64 (counters m) then
       Inr [Fl (instance_num m), Fd (loss_sum m), Fd (prediction_sum m), Fd (label_sum m),
         Fl (true_positive m), Fl (true_negative m), Fl (false_positive m), Fl (false_negative m)]
     else Inl StructError)"
  by (auto simp: pack_scalar_values_def scalar_pack_info_def get_scalar_def raise_if_def fits64_def counters_def
      not_less not_le)

lemma unpacked_states:
  "unpack_scalar_values
     [Fl i, Fd x, Fd y, Fd z, Fl tp, Fl tn, Fl fp, Fl fn] m =
   Inr (m\<lparr>instance_num := i, loss_sum := x, prediction_sum := y, label_sum := z, true_positive := tp,
     true_negative := tn, false_positive := fp, false_negative := fn\<rparr>)"
  by (simp add: unpack_scalar_values_def scalar_pack_info_def set_scalar_def raise_if_def)

lemma packed_states_loaded:
  assumes "length (positive_buffer m) = n" "length (negative_buffer m) = n" "m_buffer_size m = n"
  shows "bindR (get_states m) (\<lambda>st. from_states st (new_metric n (m_threshold m) (m_beta m))) =
    (if list_all fits64 (counters m) then Inr m else Inl StructError)"
proof (cases "list_all fits64 (counters m)")
  case True
  then have "get_states m = Inr ([Fl (instance_num m), Fd (loss_sum m), Fd (prediction_sum m), Fd (label_sum m),
         Fl (true_positive m), Fl (true_negative m), Fl (false_positive m), Fl (false_negative m)],
      [positive_buffer m, negative_buffer m])"
    by (simp add: get_states_def packed_states)
  with True assms show ?thesis
    by (cases m) (simp add: from_states_def unpacked_states array_assign_def new_metric_def)
next
  case False
  then show ?thesis by (simp add: get_states_def packed_states)
qed

text \<open>
  C34: The states of a metric survive the message: packing fails exactly when a counter leaves the 64-bit
  range of \<open>struct.pack\<close>, and otherwise a fresh metric of the same configuration that is loaded with
  the packed states is the metric that was packed.
\<close>

theorem metric_states_roundtrip:
  assumes "length (positive_buffer m) = n" "length (negative_buffer m) = n" "m_buffer_size m = n"
  shows "bindR (get_states m) (\<lambda>st. from_states st (new_metric n (m_threshold m) (m_beta m))) =
    (if list_all fits64 (counters m) then Inr m else Inl StructError)"
  using assms by (rule packed_states_loaded)

theorem metric_states_roundtrip_witness:
  "bindR (get_states ((new_metric 3 1 1)\<lparr>loss_sum := 7, true_positive := 4\<rparr>))
     (\<lambda>st. from_states st (new_metric 3 1 1)) = Inr ((new_metric 3 1 1)\<lparr>loss_sum := 7, true_positive := 4\<rparr>)"
  using metric_states_roundtrip [of "(new_metric 3 1 1)\<lparr>loss_sum := 7, true_positive := 4\<rparr>" 3]
  by (simp add: new_metric_def fits64_def counters_def)

section \<open>Confusion counts and rates\<close>

lemma count_pairs_partition:
  assumes "length ps = length ls"
  shows "count_pairs (\<lambda>p l. p > t \<and> l > t) ps ls + count_pairs (\<lambda>p l. p \<le> t \<and> l \<le> t) ps ls
    + count_pairs (\<lambda>p l. p > t \<and> l \<le> t) ps ls + count_pairs (\<lambda>p l. p \<le> t \<and> l > (t::real)) ps ls
    = int (length (zip ps ls))"
proof -
  have "count_pairs (\<lambda>p l. p > t \<and> l > t) ps ls + count_pairs (\<lambda>p l. p \<le> t \<and> l \<le> t) ps ls
    + count_pairs (\<lambda>p l. p > t \<and> l \<le> t) ps ls + count_pairs (\<lambda>p l. p \<le> t \<and> l > t) ps ls
    = int (length xs)" if "xs = zip ps ls" for xs
    unfolding count_pairs_def that [symmetric] by (induction xs) auto
  then show ?thesis by blast
qed

definition counters_ok :: "int \<Rightarrow> binary_metric \<Rightarrow> bool" where
  "counters_ok k m \<longleftrightarrow> 0 \<le> true_positive m \<and> 0 \<le> true_negative m \<and> 0 \<le> false_positive m
     \<and> 0 \<le> false_negative m
     \<and> true_positive m + true_negative m + false_positive m + false_negative m = k"

lemma accumulate_counters:
  assumes "accumulate b m = Some m'" "0 < m_threshold m" "counters_ok k m"
  shows "counters_ok (k + int (length (zip (b_predictions b) (b_labels b)))) m'"
proof -
  have l: "length (b_predictions b) = length (b_labels b)"
    using assms(1,2) by (auto simp: accumulate_def Let_def bind_eq_Some_conv split: if_splits)
  show ?thesis
    using assms count_pairs_partition [OF l, of "m_threshold m"]
    by (auto simp: accumulate_def Let_def bind_eq_Some_conv add_confusion_def counters_ok_def metric_defs
        count_pairs_def split: if_splits)
qed

lemma accumulate_all_counters:
  assumes "accumulate_all bs m = Some m'" "0 < m_threshold m" "counters_ok k m"
  shows "counters_ok (k + int (length (instances bs))) m'"
  using assms
proof (induction bs arbitrary: m k)
  case (Cons b bs)
  then obtain m1 where m1: "accumulate b m = Some m1" "accumulate_all bs m1 = Some m'"
    by (auto simp: bind_eq_Some_conv)
  have "0 < m_threshold m1" using accumulate_shape [OF m1(1)] Cons.prems by simp
  from Cons.IH [OF m1(2) this accumulate_counters [OF m1(1) Cons.prems(2,3)]]
  show ?case by (simp add: instances_def algebra_simps)
qed (simp add: instances_def)

definition unit_rate :: "real option \<Rightarrow> bool" where
  "unit_rate r = (case r of None \<Rightarrow> True | Some x \<Rightarrow> 0 \<le> x \<and> x \<le> 1)"

lemma weighted_harmonic:
  assumes "0 < p" "0 < r" "0 \<le> (w::real)"
  shows "min p r \<le> (1 + w) * (p * r) / (w * p + r)" "(1 + w) * (p * r) / (w * p + r) \<le> max p r"
proof -
  have d: "0 < w * p + r" using assms by (simp add: add_nonneg_pos)
  have "min p r * (w * p + r) = w * (min p r * p) + min p r * r" by (simp add: algebra_simps)
  also have "\<dots> \<le> w * (r * p) + p * r"
    using assms by (intro add_mono mult_left_mono mult_right_mono) auto
  finally show "min p r \<le> (1 + w) * (p * r) / (w * p + r)" using d by (simp add: le_divide_eq algebra_simps)
  have "w * (r * p) + p * r \<le> w * (max p r * p) + max p r * r"
    using assms by (intro add_mono mult_left_mono mult_right_mono) auto
  also have "\<dots> = max p r * (w * p + r)" by (simp add: algebra_simps)
  finally show "(1 + w) * (p * r) / (w * p + r) \<le> max p r" using d by (simp add: divide_le_eq algebra_simps)
qed

lemma counters_rates:
  assumes "counters_ok k m"
  shows "unit_rate (compute_accuracy m)" "unit_rate (compute_precision m)" "unit_rate (compute_recall m)"
  using assms
  by (auto simp: counters_ok_def unit_rate_def compute_accuracy_def compute_precision_def compute_recall_def
      Let_def divide_le_eq)

lemma f_score_between:
  assumes "counters_ok k m" "compute_f_score m = Some f"
  shows "\<exists>p r. compute_precision m = Some p \<and> compute_recall m = Some r \<and> min p r \<le> f \<and> f \<le> max p r"
proof -
  obtain p r where pr: "compute_precision m = Some p" "compute_recall m = Some r"
    and n: "(m_beta m)\<^sup>2 * p + r \<noteq> 0" and f: "f = (1 + (m_beta m)\<^sup>2) * (p * r) / ((m_beta m)\<^sup>2 * p + r)"
    using assms(2) by (auto simp: compute_f_score_def Let_def split: option.splits if_splits)
  have "true_positive m \<noteq> 0"
    using pr n by (auto simp: compute_precision_def compute_recall_def Let_def split: if_splits)
  then have "0 < p" "0 < r"
    using pr assms(1)
    by (auto simp: compute_precision_def compute_recall_def Let_def counters_ok_def zero_less_divide_iff
        split: if_splits)
  with pr f weighted_harmonic [OF this, of "(m_beta m)\<^sup>2"] show ?thesis by auto
qed

text \<open>
  With a positive threshold every accumulated instance falls in exactly one of the four confusion
  counts, so they add up to the number of instances; accuracy, precision and recall are missing or lie
  in the unit interval, and an F score lies between precision and recall.
\<close>

theorem confusion_rates:
  assumes "accumulate_all bs (new_metric n t be) = Some m" "0 < t"
  shows "true_positive m + true_negative m + false_positive m + false_negative m = int (length (instances bs))
    \<and> unit_rate (compute_accuracy m) \<and> unit_rate (compute_precision m) \<and> unit_rate (compute_recall m)
    \<and> (\<forall>f. compute_f_score m = Some f \<longrightarrow>
         (\<exists>p r. compute_precision m = Some p \<and> compute_recall m = Some r \<and> min p r \<le> f \<and> f \<le> max p r))"
proof -
  have "counters_ok 0 (new_metric n t be)" by (simp add: counters_ok_def new_metric_def)
  from accumulate_all_counters [OF assms(1) _ this] assms(2)
  have c: "counters_ok (int (length (instances bs))) m" by (simp add: new_buffers)
  then show ?thesis
    using counters_rates [OF c] f_score_between [OF c] by (auto simp: counters_ok_def)
qed

theorem confusion_rates_witness:
  "\<exists>m. accumulate_all demo_batches (new_metric 5 (1 / 4) 1) = Some m \<and> compute_f_score m = Some (4 / 5)
     \<and> true_positive m + true_negative m + false_positive m + false_negative m = 4"
proof -
  have "length (instances demo_batches) = 4" by (simp add: instances_def demo_batches_def)
  with confusion_rates [OF demo_accumulated]
  show ?thesis
    by (simp add: demo_accumulated compute_f_score_def compute_precision_def compute_recall_def)
qed

end
