(* ===== verification/Updaters.thy ===== *)
theory Updaters
  imports Prelude
begin

text \<open>
  \<open>python/metaspore/updater.py\<close> and \<open>initializer.py\<close>: the optimizers that the parameter servers run on
  the shards of the tensors, and the initializers. A tensor is a list of rows, the rows of one tensor
  having one length, and the operands of an elementwise operation one shape, as the tensor store
  allocates them. Elements are real numbers, so the equations read like the code's up to rounding;
  a quotient or root outside its domain, which torch turns into \<open>inf\<close> or \<open>nan\<close>, is outside the model
  (HOL gives \<open>x / 0 = 0\<close> there), and a theorem on the value of one assumes its denominators not to be
  zero and its radicands not to be negative.
\<close>

type_synonym tensor = "real list list"

section \<open>Tensors\<close>

definition tmap2 :: "(real \<Rightarrow> 'a \<Rightarrow> 'b) \<Rightarrow> tensor \<Rightarrow> 'a list list \<Rightarrow> 'b list list" where
  "tmap2 f = map2 (map2 f)"

definition tmap3 :: "(real \<Rightarrow> real \<Rightarrow> real \<Rightarrow> real) \<Rightarrow> tensor \<Rightarrow> tensor \<Rightarrow> tensor \<Rightarrow> tensor" where
  "tmap3 f a b c = tmap2 (\<lambda>x (y, z). f x y z) a (tmap2 Pair b c)"

text \<open>\<open>t[indices]\<close> and \<open>t[indices] = v\<close> along the first dimension.\<close>

definition gather :: "'r list \<Rightarrow> nat list \<Rightarrow> 'r list" where
  "gather t idx = map (\<lambda>i. t ! i) idx"

definition scatter :: "'r list \<Rightarrow> nat list \<Rightarrow> 'r list \<Rightarrow> 'r list" where
  "scatter t idx vs = foldl (\<lambda>t (i, v). t[i := v]) t (zip idx vs)"

text \<open>
  \<open>get_state_tensor\<close> is a view on a slice of the last dimension: reading it slices each row, and an
  in-place update of the view writes the slice back.
\<close>

definition state_slice :: "nat \<Rightarrow> nat \<Rightarrow> real list \<Rightarrow> real list" where
  "state_slice num index row = (let d = length row div num in take d (drop (d * index) row))"

definition put_slice :: "nat \<Rightarrow> nat \<Rightarrow> real list \<Rightarrow> real list \<Rightarrow> real list" where
  "put_slice num index v row =
     (let d = length row div num in take (d * index) row @ v @ drop (d * (index + 1)) row)"

definition get_state_tensor :: "nat \<Rightarrow> nat \<Rightarrow> tensor \<Rightarrow> tensor" where
  "get_state_tensor num index state = map (state_slice num index) state"

definition put_state_tensor :: "nat \<Rightarrow> nat \<Rightarrow> tensor \<Rightarrow> tensor \<Rightarrow> tensor" where
  "put_state_tensor num index v state = map2 (put_slice num index) v state"

section \<open>The updaters\<close>

text \<open>
  The constructor's parameters as the class keeps them. The type parameter is \<open>pyfloat\<close> for the
  values as given and \<open>real\<close> for the finite numbers the arithmetic is defined on; \<open>AdamW\<close> has its
  \<open>amsgrad\<close> flag and the step counter besides.
\<close>

datatype 'n updater =
    NoOp (learning_rate: 'n)
  | SGD (learning_rate: 'n)
  | AdaGrad (learning_rate: 'n) (float_stable_eps: 'n) (upd_l2: 'n)
  | Adam (learning_rate: 'n) (beta1: 'n) (beta2: 'n) (upd_epsilon: 'n)
  | AdamW (learning_rate: 'n) (beta1: 'n) (beta2: 'n) (upd_epsilon: 'n) (weight_decay: 'n) bool nat
  | is_FTRL: FTRL (learning_rate: 'n) (upd_l1: 'n) (upd_l2: 'n) (upd_alpha: 'n) (upd_beta: 'n)
  | EMA (learning_rate: 'n)

text \<open>Comparisons of a float with \<open>0.0\<close> and \<open>1.0\<close>: every comparison with \<open>nan\<close> is false.\<close>

fun fle0 :: "pyfloat \<Rightarrow> bool" where
  "fle0 FNaN = False" | "fle0 (FInf neg) = neg" | "fle0 (FFin r) = (r \<le> 0)"

fun flt0 :: "pyfloat \<Rightarrow> bool" where
  "flt0 FNaN = False" | "flt0 (FInf neg) = neg" | "flt0 (FFin r) = (r < 0)"

fun fge1 :: "pyfloat \<Rightarrow> bool" where
  "fge1 FNaN = False" | "fge1 (FInf neg) = (\<not> neg)" | "fge1 (FFin r) = (1 \<le> r)"

text \<open>\<open>if not isinstance(value, float) or bad(value): raise ValueError\<close>.\<close>

fun check_float :: "(pyfloat \<Rightarrow> bool) \<Rightarrow> pyval \<Rightarrow> pyfloat res" where
  "check_float bad (PFloat x) = raise_if (bad x) ValueError (Inr x)"
| "check_float bad _ = Inl ValueError"

definition set_learning_rate :: "pyval \<Rightarrow> pyfloat res" where
  "set_learning_rate v = check_float fle0 v"

definition new_noop :: "pyval \<Rightarrow> pyfloat updater res" where
  "new_noop lr = bindR (set_learning_rate lr) (\<lambda>lr. Inr (NoOp lr))"

definition new_sgd :: "pyval \<Rightarrow> pyfloat updater res" where
  "new_sgd lr = bindR (set_learning_rate lr) (\<lambda>lr. Inr (SGD lr))"

definition new_adagrad :: "pyval \<Rightarrow> pyval \<Rightarrow> pyval \<Rightarrow> pyfloat updater res" where
  "new_adagrad lr eps l2 =
     bindR (set_learning_rate lr) (\<lambda>lr.
     bindR (check_float flt0 eps) (\<lambda>eps.
     bindR (check_float flt0 l2) (\<lambda>l2. Inr (AdaGrad lr eps l2))))"

definition new_adam :: "pyval \<Rightarrow> pyval \<Rightarrow> pyval \<Rightarrow> pyval \<Rightarrow> pyfloat updater res" where
  "new_adam lr b1 b2 eps =
     bindR (set_learning_rate lr) (\<lambda>lr.
     bindR (check_float (\<lambda>x. flt0 x \<or> fge1 x) b1) (\<lambda>b1.
     bindR (check_float (\<lambda>x. flt0 x \<or> fge1 x) b2) (\<lambda>b2.
     bindR (check_float flt0 eps) (\<lambda>eps. Inr (Adam lr b1 b2 eps)))))"

definition new_adamw ::
  "pyval \<Rightarrow> pyval \<Rightarrow> pyval \<Rightarrow> pyval \<Rightarrow> pyval \<Rightarrow> bool \<Rightarrow> pyfloat updater res" where
  "new_adamw lr b1 b2 eps wd amsgrad =
     bindR (set_learning_rate lr) (\<lambda>lr.
     bindR (check_float (\<lambda>x. flt0 x \<or> fge1 x) b1) (\<lambda>b1.
     bindR (check_float (\<lambda>x. flt0 x \<or> fge1 x) b2) (\<lambda>b2.
     bindR (check_float flt0 eps) (\<lambda>eps.
     bindR (check_float flt0 wd) (\<lambda>wd. Inr (AdamW lr b1 b2 eps wd amsgrad 0))))))"

definition new_ftrl :: "pyval \<Rightarrow> pyval \<Rightarrow> pyval \<Rightarrow> pyval \<Rightarrow> pyfloat updater res" where
  "new_ftrl l1 l2 alpha beta =
     bindR (check_float flt0 l1) (\<lambda>x1.
     bindR (check_float flt0 l2) (\<lambda>x2.
     bindR (check_float flt0 alpha) (\<lambda>a.
     bindR (check_float flt0 beta) (\<lambda>b.
     bindR (set_learning_rate l1) (\<lambda>lr. Inr (FTRL lr x1 x2 a b))))))"

definition new_ema :: "pyval \<Rightarrow> pyfloat updater res" where
  "new_ema momentum =
     bindR (check_float (\<lambda>x. fle0 x \<or> fge1 x) momentum) (\<lambda>_.
     bindR (set_learning_rate momentum) (\<lambda>lr. Inr (EMA lr)))"

fun states_per_param :: "'n updater \<Rightarrow> nat option" where
  "states_per_param (NoOp _) = None"
| "states_per_param (SGD _) = None"
| "states_per_param (AdaGrad _ _ _) = Some 1"
| "states_per_param (Adam _ _ _ _) = Some 2"
| "states_per_param (AdamW _ _ _ _ _ amsgrad _) = Some (if amsgrad then 3 else 2)"
| "states_per_param (FTRL _ _ _ _ _) = Some 2"
| "states_per_param (EMA _) = None"

text \<open>Shapes are the lists of the dimensions.\<close>

definition get_dense_data_shape :: "nat list \<Rightarrow> nat list" where
  "get_dense_data_shape item_shape = (if length item_shape = 1 then [hd item_shape, 1] else item_shape)"

definition get_state_shape :: "'n updater \<Rightarrow> nat list \<Rightarrow> nat list option" where
  "get_state_shape u data_shape =
     (case states_per_param u of
        Some num \<Rightarrow> if num > 0 then Some (butlast data_shape @ [last data_shape * num]) else None
      | None \<Rightarrow> None)"

definition get_dense_state_shape :: "'n updater \<Rightarrow> nat list \<Rightarrow> nat list option" where
  "get_dense_state_shape u item_shape = get_state_shape u (get_dense_data_shape item_shape)"

definition get_sparse_slice_state_shape :: "'n updater \<Rightarrow> nat \<Rightarrow> nat list option" where
  "get_sparse_slice_state_shape u embedding_size = get_state_shape u [embedding_size]"

section \<open>Updating a tensor\<close>

definition sgd_dense :: "real \<Rightarrow> tensor \<Rightarrow> tensor \<Rightarrow> tensor" where
  "sgd_dense lr param grad = tmap2 (\<lambda>p g. p - lr * g) param grad"

definition sgd_sparse :: "real \<Rightarrow> tensor \<Rightarrow> tensor \<Rightarrow> nat list \<Rightarrow> tensor" where
  "sgd_sparse lr param grad idx = scatter param idx (tmap2 (\<lambda>p g. p - lr * g) (gather param idx) grad)"

definition adagrad_dense :: "real \<Rightarrow> real \<Rightarrow> real \<Rightarrow> tensor \<Rightarrow> tensor \<Rightarrow> tensor \<Rightarrow> tensor \<times> tensor" where
  "adagrad_dense lr eps l2 param grad state =
     (let square_sum = get_state_tensor 1 0 state;
          grad_tmp = tmap2 (\<lambda>g p. g + l2 * p) grad param;
          square_sum = tmap2 (\<lambda>s g. s + g * g) square_sum grad_tmp;
          state = put_state_tensor 1 0 square_sum state;
          param = tmap3 (\<lambda>p g s. p - lr * g / sqrt (s + eps)) param grad_tmp square_sum
      in (param, state))"

definition adagrad_sparse ::
  "real \<Rightarrow> real \<Rightarrow> real \<Rightarrow> tensor \<Rightarrow> tensor \<Rightarrow> tensor \<Rightarrow> nat list \<Rightarrow> tensor \<times> tensor" where
  "adagrad_sparse lr eps l2 param grad state idx =
     (let square_sum = get_state_tensor 1 0 state;
          grad_tmp = tmap2 (\<lambda>g p. g + l2 * p) grad (gather param idx);
          square_sum = scatter square_sum idx (tmap2 (\<lambda>s g. s + g * g) (gather square_sum idx) grad_tmp);
          state = put_state_tensor 1 0 square_sum state;
          param = scatter param idx
            (tmap3 (\<lambda>p g s. p - lr * g / sqrt (s + eps)) (gather param idx) grad_tmp (gather square_sum idx))
      in (param, state))"

definition adam_dense ::
  "real \<Rightarrow> real \<Rightarrow> real \<Rightarrow> real \<Rightarrow> tensor \<Rightarrow> tensor \<Rightarrow> tensor \<Rightarrow> tensor \<times> tensor" where
  "adam_dense lr b1 b2 eps param grad state =
     (let m = tmap2 (\<lambda>m g. b1 * m + (1 - b1) * g) (get_state_tensor 2 0 state) grad;
          state = put_state_tensor 2 0 m state;
          v = tmap2 (\<lambda>v g. b2 * v + (1 - b2) * g * g) (get_state_tensor 2 1 state) grad;
          state = put_state_tensor 2 1 v state;
          param = tmap3 (\<lambda>p m v. p - lr * m / (sqrt v + eps)) param m v
      in (param, state))"

definition adam_sparse ::
  "real \<Rightarrow> real \<Rightarrow> real \<Rightarrow> real \<Rightarrow> tensor \<Rightarrow> tensor \<Rightarrow> tensor \<Rightarrow> nat list \<Rightarrow> tensor \<times> tensor" where
  "adam_sparse lr b1 b2 eps param grad state idx =
     (let m = get_state_tensor 2 0 state;
          m = scatter m idx (tmap2 (\<lambda>m g. b1 * m + (1 - b1) * g) (gather m idx) grad);
          state = put_state_tensor 2 0 m state;
          v = get_state_tensor 2 1 state;
          v = scatter v idx (tmap2 (\<lambda>v g. b2 * v + (1 - b2) * g * g) (gather v idx) grad);
          state = put_state_tensor 2 1 v state;
          param = scatter param idx
            (tmap3 (\<lambda>p m v. p - lr * m / (sqrt v + eps)) (gather param idx) (gather m idx) (gather v idx))
      in (param, state))"

text \<open>
  The quotients of FTRL divide by \<open>alpha\<close>. The constructor accepts \<open>alpha = 0.0\<close>, with which the code
  computes infinities or \<open>nan\<close>: the next definitions are the code's for \<open>alpha\<close> other than zero
  only, \<open>ftrl_minimises\<close> assumes it, and \<open>zero_alpha_accepted\<close> shows that the constructor does not.
\<close>

definition ftrl_sigma :: "real \<Rightarrow> real \<Rightarrow> real \<Rightarrow> real" where
  "ftrl_sigma alpha n g = (sqrt (n + g * g) - sqrt n) / alpha"

definition ftrl_weight :: "(real \<Rightarrow> real) \<Rightarrow> real \<Rightarrow> real \<Rightarrow> real \<Rightarrow> real \<Rightarrow> real \<Rightarrow> real \<Rightarrow> real" where
  "ftrl_weight sign l1 l2 alpha beta z n =
     (if \<bar>z\<bar> \<le> l1 then 0 else - (z - sign z * l1) / ((beta + sqrt n) / alpha + l2))"

text \<open>\<open>torch.sign\<close> is zero at zero; the method \<open>_sign\<close> is not.\<close>

definition ftrl_sign :: "real \<Rightarrow> real" where
  "ftrl_sign x = (if x > 0 then 1 else - 1)"

definition ftrl_dense ::
  "real \<Rightarrow> real \<Rightarrow> real \<Rightarrow> real \<Rightarrow> tensor \<Rightarrow> tensor \<Rightarrow> tensor \<Rightarrow> tensor \<times> tensor" where
  "ftrl_dense l1 l2 alpha beta param grad state =
     (let n = get_state_tensor 2 0 state;
          z = get_state_tensor 2 1 state;
          sigma = tmap2 (ftrl_sigma alpha) n grad;
          z = tmap2 (\<lambda>z (g, sp). z + g - sp) z (tmap2 Pair grad (tmap2 (*) sigma param));
          state = put_state_tensor 2 1 z state;
          n = tmap2 (\<lambda>n g. n + g * g) n grad;
          state = put_state_tensor 2 0 n state;
          param = tmap2 (ftrl_weight sgn l1 l2 alpha beta) z n
      in (param, state))"

definition ftrl_sparse ::
  "real \<Rightarrow> real \<Rightarrow> real \<Rightarrow> real \<Rightarrow> tensor \<Rightarrow> tensor \<Rightarrow> tensor \<Rightarrow> nat list \<Rightarrow> tensor \<times> tensor" where
  "ftrl_sparse l1 l2 alpha beta param grad state idx =
     (let n = get_state_tensor 2 0 state;
          z = get_state_tensor 2 1 state;
          sigma = tmap2 (ftrl_sigma alpha) (gather n idx) grad;
          z = scatter z idx (tmap2 (\<lambda>z (g, sp). z + g - sp) (gather z idx)
                (tmap2 Pair grad (tmap2 (*) sigma (gather param idx))));
          state = put_state_tensor 2 1 z state;
          n = scatter n idx (tmap2 (\<lambda>n g. n + g * g) (gather n idx) grad);
          state = put_state_tensor 2 0 n state;
          param = scatter param idx
            (tmap2 (ftrl_weight ftrl_sign l1 l2 alpha beta) (gather z idx) (gather n idx))
      in (param, state))"

definition ema_dense :: "real \<Rightarrow> tensor \<Rightarrow> tensor \<Rightarrow> tensor" where
  "ema_dense mom param grad = tmap2 (\<lambda>p g. (1 - mom) * p + mom * g) param grad"

definition ema_sparse :: "real \<Rightarrow> tensor \<Rightarrow> tensor \<Rightarrow> nat list \<Rightarrow> tensor" where
  "ema_sparse mom param grad idx =
     scatter param idx (tmap2 (\<lambda>p g. (1 - mom) * p + mom * g) (gather param idx) grad)"

text \<open>
  \<open>torch.optim._functional.adamw\<close> is an argument: parameter, gradient, the three moment tensors (the
  last only with \<open>amsgrad\<close>), the step, and the hyperparameters in the updater; it gives the new
  parameter and moments. Without a state, reading \<open>state.shape\<close> raises \<open>AttributeError\<close>.
\<close>

type_synonym adamw_fn =
  "real updater \<Rightarrow> nat \<Rightarrow> tensor \<Rightarrow> tensor \<Rightarrow> tensor list \<Rightarrow> tensor \<times> tensor list"

definition put_states :: "nat \<Rightarrow> tensor list \<Rightarrow> tensor \<Rightarrow> tensor" where
  "put_states num vs state = foldl (\<lambda>st (i, v). put_state_tensor num i v st) state (zip [0..<length vs] vs)"

fun update_dense ::
  "adamw_fn \<Rightarrow> real updater \<Rightarrow> tensor \<Rightarrow> tensor \<Rightarrow> tensor option
    \<Rightarrow> (real updater \<times> tensor \<times> tensor option) res" where
  "update_dense _ (NoOp lr) param grad state = Inr (NoOp lr, param, state)"
| "update_dense _ (SGD lr) param grad state = Inr (SGD lr, sgd_dense lr param grad, state)"
| "update_dense _ (EMA mom) param grad state = Inr (EMA mom, ema_dense mom param grad, state)"
| "update_dense _ (AdaGrad lr eps l2) param grad (Some st) =
     (case adagrad_dense lr eps l2 param grad st of (p, s) \<Rightarrow> Inr (AdaGrad lr eps l2, p, Some s))"
| "update_dense _ (Adam lr b1 b2 eps) param grad (Some st) =
     (case adam_dense lr b1 b2 eps param grad st of (p, s) \<Rightarrow> Inr (Adam lr b1 b2 eps, p, Some s))"
| "update_dense F (AdamW lr b1 b2 eps wd ams step) param grad (Some st) =
     (let num = (if ams then 3 else 2);
          u = AdamW lr b1 b2 eps wd ams (step + 1)
      in case F u (step + 1) param grad (map (\<lambda>i. get_state_tensor num i st) [0..<num]) of
           (p, vs) \<Rightarrow> Inr (u, p, Some (put_states num vs st)))"
| "update_dense _ (FTRL lr l1 l2 a b) param grad (Some st) =
     (case ftrl_dense l1 l2 a b param grad st of (p, s) \<Rightarrow> Inr (FTRL lr l1 l2 a b, p, Some s))"
| "update_dense _ _ param grad None = Inl AttributeError"

fun update_sparse ::
  "real updater \<Rightarrow> tensor \<Rightarrow> tensor \<Rightarrow> tensor option \<Rightarrow> nat list
    \<Rightarrow> (real updater \<times> tensor \<times> tensor option) res" where
  "update_sparse (NoOp lr) param grad state idx = Inr (NoOp lr, param, state)"
| "update_sparse (SGD lr) param grad state idx =
     raise_if (\<not> list_all (\<lambda>i. i < length param) idx) IndexError
     (Inr (SGD lr, sgd_sparse lr param grad idx, state))"
| "update_sparse (EMA mom) param grad state idx =
     raise_if (\<not> list_all (\<lambda>i. i < length param) idx) IndexError
     (Inr (EMA mom, ema_sparse mom param grad idx, state))"
| "update_sparse (AdaGrad lr eps l2) param grad (Some st) idx =
     raise_if (\<not> list_all (\<lambda>i. i < length param) idx) IndexError
     (case adagrad_sparse lr eps l2 param grad st idx of (p, s) \<Rightarrow> Inr (AdaGrad lr eps l2, p, Some s))"
| "update_sparse (Adam lr b1 b2 eps) param grad (Some st) idx =
     raise_if (\<not> list_all (\<lambda>i. i < length param) idx) IndexError
     (case adam_sparse lr b1 b2 eps param grad st idx of (p, s) \<Rightarrow> Inr (Adam lr b1 b2 eps, p, Some s))"
| "update_sparse (AdamW _ _ _ _ _ _ _) param grad state idx = Inl RuntimeError"
| "update_sparse (FTRL lr l1 l2 a b) param grad (Some st) idx =
     raise_if (\<not> list_all (\<lambda>i. i < length param) idx) IndexError
     (case ftrl_sparse l1 l2 a b param grad st idx of (p, s) \<Rightarrow> Inr (FTRL lr l1 l2 a b, p, Some s))"
| "update_sparse _ param grad None idx = Inl AttributeError"

definition call_updater ::
  "adamw_fn \<Rightarrow> real updater \<Rightarrow> tensor \<Rightarrow> tensor \<Rightarrow> tensor option \<Rightarrow> nat list option
    \<Rightarrow> (real updater \<times> tensor \<times> tensor option) res" where
  "call_updater F u param grad state indices =
     (if concat grad = [] then Inr (u, param, state)
      else case indices of None \<Rightarrow> update_dense F u param grad state
           | Some idx \<Rightarrow> update_sparse u param grad state idx)"

section \<open>Gathering and scattering rows\<close>

lemma length_scatter [simp]: "length (scatter t idx vs) = length t"
proof -
  have "length (foldl (\<lambda>t (i, v). t[i := v]) t ivs) = length t" for ivs
    by (induction ivs arbitrary: t) auto
  then show ?thesis by (simp add: scatter_def)
qed

lemma length_gather [simp]: "length (gather t idx) = length idx"
  by (simp add: gather_def)

lemma scatter_Cons: "scatter t (i # idx) (v # vs) = scatter (t[i := v]) idx vs"
  by (simp add: scatter_def)

lemma scatter_other: "k \<notin> set idx \<Longrightarrow> scatter t idx vs ! k = t ! k"
proof (induction idx arbitrary: t vs)
  case (Cons i idx)
  then show ?case by (cases vs) (auto simp: scatter_Cons, simp add: scatter_def)
qed (simp add: scatter_def)

lemma scatter_at:
  assumes "distinct idx" "length vs = length idx" "k < length idx" "idx ! k < length t"
  shows "scatter t idx vs ! (idx ! k) = vs ! k"
  using assms
proof (induction idx arbitrary: t vs k)
  case (Cons i idx)
  obtain v vs' where vs: "vs = v # vs'" using Cons.prems(2) by (cases vs) auto
  show ?case
  proof (cases k)
    case 0
    then show ?thesis using Cons.prems by (simp add: vs scatter_Cons scatter_other)
  next
    case (Suc j)
    then show ?thesis using Cons.IH [of vs' j "t[i := v]"] Cons.prems by (simp add: vs scatter_Cons)
  qed
qed simp

lemma gather_scatter:
  assumes "distinct idx" "length vs = length idx" "list_all (\<lambda>i. i < length t) idx"
  shows "gather (scatter t idx vs) idx = vs"
  using assms by (intro nth_equalityI) (simp_all add: gather_def scatter_at list_all_length)

lemma map_gather: "list_all (\<lambda>i. i < length t) idx \<Longrightarrow> map f (gather t idx) = gather (map f t) idx"
  by (auto simp: gather_def list_all_iff)

text \<open>
  A row has named slots; a view of the code reads one slot of every row, and updating it in place
  writes the slot back. What follows for a scattered update of a view is proved from the lens laws.
\<close>

locale row_slots =
  fixes get :: "nat \<Rightarrow> 'r \<Rightarrow> 'v" and put :: "nat \<Rightarrow> 'v \<Rightarrow> 'r \<Rightarrow> 'r"
    and num :: nat and fit :: "'r \<Rightarrow> 'v \<Rightarrow> bool"
  assumes put_get: "i < num \<Longrightarrow> put i (get i r) r = r"
    and get_put: "i < num \<Longrightarrow> j < num \<Longrightarrow> fit r v \<Longrightarrow> get j (put i v r) = (if i = j then v else get j r)"
    and fit_put: "i < num \<Longrightarrow> fit r v \<Longrightarrow> fit (put i v r) w = fit r w"
    and fit_get: "i < num \<Longrightarrow> fit r (get i r)"
begin

lemma put_scattered:
  assumes "distinct idx" "list_all (\<lambda>i. i < length t) idx" "length vs = length idx" "s < num"
  shows "map2 (put s) (scatter (map (get s) t) idx vs) t = scatter t idx (map2 (put s) vs (gather t idx))"
proof (rule nth_equalityI)
  fix k assume "k < length (map2 (put s) (scatter (map (get s) t) idx vs) t)"
  then have k: "k < length t" by simp
  show "map2 (put s) (scatter (map (get s) t) idx vs) t ! k =
    scatter t idx (map2 (put s) vs (gather t idx)) ! k"
  proof (cases "k \<in> set idx")
    case True
    then obtain j where j: "j < length idx" "k = idx ! j" by (auto simp: in_set_conv_nth)
    have m: "scatter (map (get s) t) idx vs ! (idx ! j) = vs ! j"
      "scatter t idx (map2 (put s) vs (gather t idx)) ! (idx ! j) = map2 (put s) vs (gather t idx) ! j"
      using assms j k by (intro scatter_at; simp)+
    show ?thesis using assms j k m by (simp add: gather_def)
  next
    case False
    then show ?thesis using k assms(4) by (simp add: scatter_other put_get)
  qed
qed simp

lemma get_all_put:
  assumes "length vs = length t" "list_all2 fit t vs" "i < num" "j < num"
  shows "map (get j) (map2 (put i) vs t) = (if i = j then vs else map (get j) t)"
  using assms by (auto intro!: nth_equalityI simp: get_put list_all2_conv_all_nth)

lemma fit_scattered:
  assumes "list_all2 fit (gather t idx) vs" "distinct idx" "list_all (\<lambda>i. i < length t) idx" "i < num"
  shows "list_all2 fit t (scatter (map (get i) t) idx vs)"
proof -
  have l: "length vs = length idx" using list_all2_lengthD [OF assms(1)] by simp
  have "fit (t ! k) (scatter (map (get i) t) idx vs ! k)" if k: "k < length t" for k
  proof (cases "k \<in> set idx")
    case True
    then obtain j where j: "j < length idx" "k = idx ! j" by (auto simp: in_set_conv_nth)
    have "scatter (map (get i) t) idx vs ! (idx ! j) = vs ! j"
      using assms(2) l j k by (intro scatter_at) simp_all
    then show ?thesis using assms(1) j by (simp add: list_all2_conv_all_nth gather_def)
  qed (use k assms(4) in \<open>simp add: scatter_other fit_get\<close>)
  then show ?thesis by (simp add: list_all2_conv_all_nth)
qed

lemma fit_all_put:
  assumes "list_all2 fit t vs" "i < num"
  shows "list_all2 fit (map2 (put i) vs t) ws = list_all2 fit t ws"
  using assms by (auto simp: fit_put list_all2_conv_all_nth)

end

definition slice_fits :: "nat \<Rightarrow> real list \<Rightarrow> real list \<Rightarrow> bool" where
  "slice_fits num row v \<longleftrightarrow> length v = length row div num"

lemma slice_room: "(i::nat) < num \<Longrightarrow> n div num * i + n div num \<le> n"
proof -
  assume "i < num"
  then have "n div num * Suc i \<le> n div num * num" by (intro mult_le_mono2) simp
  also have "\<dots> \<le> n" by simp
  finally show ?thesis by simp
qed

lemma slice_nth:
  assumes "i < num" "k < length row div num"
  shows "state_slice num i row ! k = row ! (length row div num * i + k)"
  using slice_room [OF assms(1), of "length row"] assms
  by (simp add: state_slice_def Let_def)

lemma length_slice: "i < num \<Longrightarrow> length (state_slice num i row) = length row div num"
  using slice_room [of i num "length row"] by (simp add: state_slice_def Let_def)

lemma length_put_slice:
  "i < num \<Longrightarrow> slice_fits num row v \<Longrightarrow> length (put_slice num i v row) = length row"
  using slice_room [of i num "length row"] by (simp add: put_slice_def slice_fits_def Let_def)

lemma put_slice_nth:
  assumes "i < num" "slice_fits num row v" "k < length row"
  shows "put_slice num i v row ! k =
    (let d = length row div num in if d * i \<le> k \<and> k < d * i + d then v ! (k - d * i) else row ! k)"
  using slice_room [OF assms(1), of "length row"] assms
  by (auto simp: put_slice_def slice_fits_def Let_def nth_append)

lemma slices_disjoint:
  assumes "(i::nat) \<noteq> j" "k < d"
  shows "\<not> (d * i \<le> d * j + k \<and> d * j + k < d * i + d)"
proof (cases "i < j")
  case True
  then have "d * Suc i \<le> d * j" by (intro mult_le_mono2) simp
  then show ?thesis by simp
next
  case False
  with assms have "d * Suc j \<le> d * i" by (intro mult_le_mono2) simp
  then show ?thesis using assms by simp
qed

interpretation slots: row_slots "state_slice num" "put_slice num" num "slice_fits num" for num
proof unfold_locales
  fix i j :: nat and r v w :: "real list"
  assume i: "i < num"
  show "put_slice num i (state_slice num i r) r = r"
  proof (rule nth_equalityI)
    have f: "slice_fits num r (state_slice num i r)" using i by (simp add: slice_fits_def length_slice)
    then show "length (put_slice num i (state_slice num i r) r) = length r" using i by (simp add: length_put_slice)
    then show "put_slice num i (state_slice num i r) r ! k = r ! k"
      if "k < length (put_slice num i (state_slice num i r) r)" for k
      using that i f by (auto simp: put_slice_nth Let_def slice_nth)
  qed
  show "slice_fits num r (state_slice num i r)" using i by (simp add: slice_fits_def length_slice)
  assume f: "slice_fits num r v"
  show "slice_fits num (put_slice num i v r) w = slice_fits num r w"
    using i f by (simp add: slice_fits_def length_put_slice)
  assume j: "j < num"
  show "state_slice num j (put_slice num i v r) = (if i = j then v else state_slice num j r)"
  proof (rule nth_equalityI)
    show len: "length (state_slice num j (put_slice num i v r)) =
      length (if i = j then v else state_slice num j r)"
      using i j f by (simp add: length_slice length_put_slice slice_fits_def)
    show "state_slice num j (put_slice num i v r) ! k = (if i = j then v else state_slice num j r) ! k"
      if "k < length (state_slice num j (put_slice num i v r))" for k
    proof -
      have k: "k < length r div num" using that i j f by (simp add: length_slice length_put_slice)
      then have "length r div num * j + k < length r" using slice_room [OF j, of "length r"] by simp
      then show ?thesis
        using i j f k slices_disjoint [of i j k "length r div num"]
        by (auto simp: slice_nth length_put_slice put_slice_nth Let_def)
    qed
  qed
qed

section \<open>Sparse updates\<close>

lemma scatter_gather:
  assumes "distinct idx" "list_all (\<lambda>i. i < length t) idx"
  shows "scatter t idx (gather t idx) = t"
proof (rule nth_equalityI)
  fix k assume "k < length (scatter t idx (gather t idx))"
  then have k: "k < length t" by simp
  show "scatter t idx (gather t idx) ! k = t ! k"
  proof (cases "k \<in> set idx")
    case True
    then obtain j where "j < length idx" "k = idx ! j" by (auto simp: in_set_conv_nth)
    then show ?thesis using assms k by (simp add: scatter_at, simp add: gather_def)
  qed (simp add: scatter_other)
qed simp

lemma scatter_scatter:
  assumes "distinct idx" "length xs = length idx" "length ys = length idx" "list_all (\<lambda>i. i < length t) idx"
  shows "scatter (scatter t idx xs) idx ys = scatter t idx ys"
proof (rule nth_equalityI)
  fix k assume "k < length (scatter (scatter t idx xs) idx ys)"
  then have k: "k < length t" by simp
  show "scatter (scatter t idx xs) idx ys ! k = scatter t idx ys ! k"
  proof (cases "k \<in> set idx")
    case True
    then obtain j where j: "j < length idx" "k = idx ! j" by (auto simp: in_set_conv_nth)
    have "scatter u idx ys ! (idx ! j) = ys ! j" if "length u = length t" for u
      using that assms j k by (intro scatter_at) simp_all
    then show ?thesis using j by simp
  qed (simp add: scatter_other)
qed simp

lemma length_get_state_tensor [simp]: "length (get_state_tensor num i st) = length st"
  by (simp add: get_state_tensor_def)

lemma length_put_state_tensor [simp]: "length (put_state_tensor num i v st) = min (length v) (length st)"
  by (simp add: put_state_tensor_def)

lemma length_tmap2 [simp]: "length (tmap2 f a b) = min (length a) (length b)"
  by (simp add: tmap2_def)

lemma length_tmap3 [simp]: "length (tmap3 f a b c) = min (length a) (min (length b) (length c))"
  by (simp add: tmap3_def)

lemma gather_state:
  "list_all (\<lambda>i. i < length st) idx \<Longrightarrow>
   gather (get_state_tensor num i st) idx = get_state_tensor num i (gather st idx)"
  by (simp add: get_state_tensor_def map_gather)

lemma put_state_scattered:
  assumes "distinct idx" "list_all (\<lambda>i. i < length st) idx" "length vs = length idx" "i < num"
  shows "put_state_tensor num i (scatter (get_state_tensor num i st) idx vs) st =
    scatter st idx (put_state_tensor num i vs (gather st idx))"
  using assms slots.put_scattered [of idx st vs i num] by (simp add: put_state_tensor_def get_state_tensor_def)

lemma adagrad_sparse_dense:
  assumes "distinct idx" "list_all (\<lambda>i. i < length st) idx" "length st = length param" "length grad = length idx"
    and "adagrad_dense lr eps l2 (gather param idx) grad (gather st idx) = (p, s)"
  shows "adagrad_sparse lr eps l2 param grad st idx = (scatter param idx p, scatter st idx s)"
proof -
  let ?g = "tmap2 (\<lambda>g p. g + l2 * p) grad (gather param idx)"
  let ?s = "tmap2 (\<lambda>s g. s + g * g) (get_state_tensor 1 0 (gather st idx)) ?g"
  have "length ?s = length idx" using assms by simp
  then show ?thesis
    using assms
    by (auto simp: adagrad_sparse_def adagrad_dense_def Let_def gather_state put_state_scattered gather_scatter)
qed

lemma adam_sparse_dense:
  assumes "distinct idx" "list_all (\<lambda>i. i < length st) idx" "length st = length param" "length grad = length idx"
    and "adam_dense lr b1 b2 eps (gather param idx) grad (gather st idx) = (p, s)"
  shows "adam_sparse lr b1 b2 eps param grad st idx = (scatter param idx p, scatter st idx s)"
proof -
  let ?m = "tmap2 (\<lambda>m g. b1 * m + (1 - b1) * g) (get_state_tensor 2 0 (gather st idx)) grad"
  let ?g1 = "put_state_tensor 2 0 ?m (gather st idx)"
  let ?st1 = "scatter st idx ?g1"
  let ?v = "tmap2 (\<lambda>v g. b2 * v + (1 - b2) * g * g) (get_state_tensor 2 1 ?g1) grad"
  have lm: "length ?m = length idx" and l1: "length ?g1 = length idx" and lv: "length ?v = length idx"
    using assms by simp_all
  have i1: "list_all (\<lambda>i. i < length ?st1) idx" using assms(2) by simp
  have g1: "gather ?st1 idx = ?g1" using assms l1 by (intro gather_scatter) simp_all
  have s1: "put_state_tensor 2 0 (scatter (get_state_tensor 2 0 st) idx ?m) st = ?st1"
    using assms lm by (intro put_state_scattered) simp_all
  have s2: "put_state_tensor 2 1 (scatter (get_state_tensor 2 1 ?st1) idx ?v) ?st1 =
      scatter st idx (put_state_tensor 2 1 ?v ?g1)"
  proof -
    have "put_state_tensor 2 1 (scatter (get_state_tensor 2 1 ?st1) idx ?v) ?st1 =
      scatter ?st1 idx (put_state_tensor 2 1 ?v (gather ?st1 idx))"
      using assms(1) i1 lv by (intro put_state_scattered) simp_all
    then show ?thesis
      using assms(1,2) l1 lv by (simp only: g1) (rule scatter_scatter, simp_all)
  qed
  have r: "gather (scatter (get_state_tensor 2 0 st) idx ?m) idx = ?m"
    "gather (scatter (get_state_tensor 2 1 ?st1) idx ?v) idx = ?v"
    "gather (get_state_tensor 2 1 ?st1) idx = get_state_tensor 2 1 ?g1"
    using assms(1,2) lm lv i1 g1 by (auto simp: gather_state intro!: gather_scatter)
  show ?thesis
    using assms(5) unfolding adam_sparse_def adam_dense_def Let_def gather_state [OF assms(2)] s1 r s2 by auto
qed

text \<open>\<open>_sign\<close> and \<open>torch.sign\<close> differ at zero only, where a non-negative threshold makes the weight zero.\<close>

lemma ftrl_signs_agree: "0 \<le> l1 \<Longrightarrow> ftrl_weight ftrl_sign l1 l2 a b = ftrl_weight sgn l1 l2 a b"
  by (intro ext) (auto simp: ftrl_weight_def ftrl_sign_def sgn_if)

lemma ftrl_sparse_dense:
  assumes "distinct idx" "list_all (\<lambda>i. i < length st) idx" "length st = length param" "0 \<le> l1"
    and fit: "list_all2 (slice_fits 2) (gather st idx) grad"
      "list_all2 (slice_fits 2) (gather st idx) (gather param idx)"
    and d: "ftrl_dense l1 l2 a b (gather param idx) grad (gather st idx) = (p, s)"
  shows "ftrl_sparse l1 l2 a b param grad st idx = (scatter param idx p, scatter st idx s)"
proof -
  let ?gs = "gather st idx"
  let ?n0 = "get_state_tensor 2 0 ?gs" and ?z0 = "get_state_tensor 2 1 ?gs"
  let ?sp = "tmap2 (*) (tmap2 (ftrl_sigma a) ?n0 grad) (gather param idx)"
  let ?z = "tmap2 (\<lambda>z (g, sp). z + g - sp) ?z0 (tmap2 Pair grad ?sp)"
  let ?n = "tmap2 (\<lambda>n g. n + g * g) ?n0 grad"
  let ?z' = "scatter (get_state_tensor 2 1 st) idx ?z"
  let ?st1 = "put_state_tensor 2 1 ?z' st"
  have lg: "length grad = length idx" using list_all2_lengthD [OF fit(1)] by simp
  have lz: "length ?z = length idx" and ln: "length ?n = length idx" using lg by simp_all
  have fz: "list_all2 (slice_fits 2) ?gs ?z"
    using fit by (simp add: list_all2_conv_all_nth slice_fits_def tmap2_def get_state_tensor_def length_slice)
  have w: "list_all2 (slice_fits 2) st ?z'"
    using slots.fit_scattered [OF fz assms(1,2), of 1] by (simp add: get_state_tensor_def)
  have st1: "?st1 = scatter st idx (put_state_tensor 2 1 ?z ?gs)"
    using assms(1,2) lz by (intro put_state_scattered) simp_all
  have keep: "get_state_tensor 2 0 ?st1 = get_state_tensor 2 0 st"
    using slots.get_all_put [of ?z' st 2 1 0] w by (simp add: get_state_tensor_def put_state_tensor_def)
  have g1: "gather ?st1 idx = put_state_tensor 2 1 ?z ?gs"
    unfolding st1 using assms(1,2) lz by (intro gather_scatter) simp_all
  have st2: "put_state_tensor 2 0 (scatter (get_state_tensor 2 0 st) idx ?n) ?st1 =
      scatter st idx (put_state_tensor 2 0 ?n (put_state_tensor 2 1 ?z ?gs))"
  proof -
    have "put_state_tensor 2 0 (scatter (get_state_tensor 2 0 ?st1) idx ?n) ?st1 =
        scatter ?st1 idx (put_state_tensor 2 0 ?n (gather ?st1 idx))"
      using assms(1,2) ln by (intro put_state_scattered) simp_all
    then have "put_state_tensor 2 0 (scatter (get_state_tensor 2 0 st) idx ?n) ?st1 =
        scatter ?st1 idx (put_state_tensor 2 0 ?n (put_state_tensor 2 1 ?z ?gs))"
      unfolding keep g1 .
    also have "\<dots> = scatter st idx (put_state_tensor 2 0 ?n (put_state_tensor 2 1 ?z ?gs))"
      unfolding st1 using assms(1,2) lz ln lg by (intro scatter_scatter) simp_all
    finally show ?thesis .
  qed
  have r: "gather ?z' idx = ?z" "gather (scatter (get_state_tensor 2 0 st) idx ?n) idx = ?n"
    using assms(1,2) lz ln by (auto intro!: gather_scatter)
  show ?thesis
    using d unfolding ftrl_sparse_def ftrl_dense_def Let_def gather_state [OF assms(2)] st2 r
      ftrl_signs_agree [OF assms(4)] by auto
qed

text \<open>
  The shapes with which the tensor store calls an updater on the rows \<open>indices\<close> of a tensor: a state
  row holds one slice of the width of a parameter row for each state.
\<close>

definition shaped :: "real updater \<Rightarrow> tensor \<Rightarrow> tensor \<Rightarrow> tensor \<Rightarrow> bool" where
  "shaped u param grad st \<longleftrightarrow> list_all2 (\<lambda>p g. length p = length g) param grad \<and>
     (case states_per_param u of None \<Rightarrow> True
      | Some num \<Rightarrow> list_all2 (slice_fits num) st grad)"

fun is_adamw :: "'n updater \<Rightarrow> bool" where
  "is_adamw (AdamW _ _ _ _ _ _ _) = True"
| "is_adamw _ = False"

text \<open>
  C10: A sparse update of distinct rows is the dense update of just these rows: gathering the rows of the
  parameter and of the optimizer state, updating them as a dense tensor and scattering them back gives
  what the separately written sparse code gives, for every optimizer that supports sparse tensors; no
  other row of the parameter or of the state changes.
\<close>

theorem sparse_update_is_row_update:
  assumes "distinct idx" "list_all (\<lambda>i. i < length param) idx" "length st = length param"
    and "\<not> is_adamw u" "is_FTRL u \<longrightarrow> 0 \<le> upd_l1 u"
    and "shaped u (gather param idx) grad (gather st idx)"
    and "update_dense F u (gather param idx) grad (Some (gather st idx)) = Inr (u', p, Some s)"
  shows "update_sparse u param grad (Some st) idx = Inr (u', scatter param idx p, Some (scatter st idx s))
    \<and> list_all (\<lambda>k. k \<in> set idx \<or> scatter param idx p ! k = param ! k \<and> scatter st idx s ! k = st ! k)
        [0..<length param]"
proof -
  have i: "list_all (\<lambda>i. i < length st) idx" using assms(2,3) by simp
  have g: "length grad = length idx"
    using assms(6) by (auto simp: shaped_def dest: list_all2_lengthD)
  have "update_sparse u param grad (Some st) idx = Inr (u', scatter param idx p, Some (scatter st idx s))"
  proof (cases u)
    case (FTRL lr l1 l2 a b)
    have "list_all2 (slice_fits 2) (gather st idx) grad"
      "list_all2 (slice_fits 2) (gather st idx) (gather param idx)"
      using assms(6) by (auto simp: FTRL shaped_def list_all2_conv_all_nth slice_fits_def)
    with FTRL assms i show ?thesis by (auto simp: ftrl_sparse_dense split: prod.splits)
  qed (use assms i g in \<open>auto simp: adagrad_sparse_dense adam_sparse_dense scatter_gather sgd_sparse_def
         sgd_dense_def ema_sparse_def ema_dense_def split: prod.splits\<close>)
  then show ?thesis by (auto simp: list_all_iff scatter_other)
qed

theorem sparse_update_is_row_update_witness:
  "update_sparse (FTRL 1 1 120 (1 / 2) 1) [[0], [0], [0]] [[3], [1]] (Some [[0, 0], [0, 0], [0, 0]]) [2, 0] =
     Inr (FTRL 1 1 120 (1 / 2) 1, [[0], [0], [- 1 / 64]], Some [[1, 1], [0, 0], [9, 3]])"
proof -
  let ?u = "FTRL 1 1 120 (1 / 2) 1 :: real updater"
  have d: "update_dense (\<lambda>_ _ p _ vs. (p, vs)) ?u (gather [[0], [0], [0]] [2, 0]) [[3], [1]]
      (Some (gather [[0, 0], [0, 0], [0, 0]] [2, 0])) = Inr (?u, [[- 1 / 64], [0]], Some [[9, 3], [1, 1]])"
    by (simp add: gather_def ftrl_dense_def Let_def get_state_tensor_def put_state_tensor_def state_slice_def
        put_slice_def tmap2_def ftrl_sigma_def ftrl_weight_def)
  from sparse_update_is_row_update [OF _ _ _ _ _ _ d] show ?thesis
    by (simp add: gather_def shaped_def slice_fits_def scatter_def)
qed

section \<open>What the optimizers compute\<close>

text \<open>The proximal objective of FTRL for one weight, with the accumulated \<open>z\<close> and curvature \<open>d\<close>.\<close>

definition ftrl_objective :: "real \<Rightarrow> real \<Rightarrow> real \<Rightarrow> real \<Rightarrow> real" where
  "ftrl_objective l1 d z w = z * w + l1 * \<bar>w\<bar> + d / 2 * w\<^sup>2"

lemma soft_threshold_minimises:
  assumes d: "0 < d" and l1: "0 \<le> l1"
    and w_def: "w = (if \<bar>z\<bar> \<le> l1 then 0 else - (z - sgn z * l1) / d)"
  shows "ftrl_objective l1 d z w \<le> ftrl_objective l1 d z x"
proof (cases "\<bar>z\<bar> \<le> l1")
  case True
  have "\<bar>z * x\<bar> \<le> l1 * \<bar>x\<bar>" using True by (simp add: abs_mult mult_right_mono)
  then have "0 \<le> z * x + l1 * \<bar>x\<bar>" by (simp add: abs_le_iff)
  then show ?thesis using d True by (simp add: w_def ftrl_objective_def)
next
  case False
  define t where "t = z - sgn z * l1"
  have dw: "d * w = - t" using d False by (simp add: w_def t_def)
  have aw: "\<bar>w\<bar> = - sgn z * w"
    using False l1 d by (auto simp: w_def sgn_if abs_if field_simps)
  have ax: "- sgn z * x \<le> \<bar>x\<bar>" by (auto simp: sgn_if)
  have e: "ftrl_objective l1 d z w = t * w + d / 2 * w\<^sup>2"
    unfolding ftrl_objective_def aw by (simp add: t_def algebra_simps)
  have "ftrl_objective l1 d z x \<ge> t * x + d / 2 * x\<^sup>2"
    using mult_left_mono [OF ax l1] by (simp add: ftrl_objective_def t_def algebra_simps)
  moreover have "t * x + d / 2 * x\<^sup>2 - (t * w + d / 2 * w\<^sup>2) = d / 2 * (x - w)\<^sup>2"
  proof -
    have "t = - d * w" using dw by simp
    then show ?thesis by (simp add: power2_eq_square algebra_simps)
  qed
  ultimately show ?thesis unfolding e using d by (smt (verit, best) divide_nonneg_pos mult_nonneg_nonneg zero_le_power2)
qed

lemma tmap2_nth:
  assumes "i < length a" "i < length b" "j < length (a ! i)" "j < length (b ! i)"
  shows "tmap2 f a b ! i ! j = f (a ! i ! j) (b ! i ! j)"
  using assms by (simp add: tmap2_def)

lemma tmap2_row_length:
  "i < length a \<Longrightarrow> i < length b \<Longrightarrow> length (tmap2 f a b ! i) = min (length (a ! i)) (length (b ! i))"
  by (simp add: tmap2_def)

text \<open>
  C32: An FTRL step sets every weight to a minimiser of the proximal objective
  \<open>z w + l1 |w| + d/2 w^2\<close> for the state it leaves behind, where \<open>z\<close> and \<open>n\<close> are the new state slices
  of the weight and \<open>d = (beta + sqrt n) / alpha + l2\<close> is positive; so weights whose \<open>z\<close> stays within
  \<open>l1\<close> are zero. This is for \<open>alpha\<close> other than zero, which the constructor accepts and the update
  divides by, and for a state whose \<open>n\<close> of the weight is not negative.
\<close>

theorem ftrl_minimises:
  assumes "ftrl_dense l1 l2 alpha beta param grad state = (p, st)"
    and "shaped (FTRL lr l1 l2 alpha beta) param grad state"
    and "0 \<le> l1" "0 < (beta + sqrt (get_state_tensor 2 0 st ! i ! j)) / alpha + l2"
    and "i < length p" "j < length (p ! i)"
    and "alpha \<noteq> 0" "0 \<le> get_state_tensor 2 0 state ! i ! j"
  shows "ftrl_objective l1 ((beta + sqrt (get_state_tensor 2 0 st ! i ! j)) / alpha + l2)
      (get_state_tensor 2 1 st ! i ! j) (p ! i ! j)
    \<le> ftrl_objective l1 ((beta + sqrt (get_state_tensor 2 0 st ! i ! j)) / alpha + l2)
      (get_state_tensor 2 1 st ! i ! j) x"
proof -
  let ?n0 = "get_state_tensor 2 0 state" and ?z0 = "get_state_tensor 2 1 state"
  let ?z = "tmap2 (\<lambda>z (g, sp). z + g - sp) ?z0
    (tmap2 Pair grad (tmap2 (*) (tmap2 (ftrl_sigma alpha) ?n0 grad) param))"
  let ?n = "tmap2 (\<lambda>n g. n + g * g) ?n0 grad"
  have sh: "list_all2 (slice_fits 2) state grad" "list_all2 (slice_fits 2) state param"
    using assms(2) by (auto simp: shaped_def list_all2_conv_all_nth slice_fits_def)
  have len: "length grad = length state" "length param = length state"
    "\<forall>i<length state. length (grad ! i) = length (state ! i) div 2"
    "\<forall>i<length state. length (param ! i) = length (state ! i) div 2"
    using sh by (auto simp: list_all2_conv_all_nth slice_fits_def)
  have fz: "list_all2 (slice_fits 2) state ?z"
    by (rule list_all2_all_nthI) (simp_all add: len slice_fits_def tmap2_def get_state_tensor_def length_slice)
  have fn: "list_all2 (slice_fits 2) state ?n"
    by (rule list_all2_all_nthI) (simp_all add: len slice_fits_def tmap2_def get_state_tensor_def length_slice)
  have l: "length ?z = length state" "length ?n = length state"
    by (fact list_all2_lengthD [OF fz, symmetric], fact list_all2_lengthD [OF fn, symmetric])
  have st: "st = put_state_tensor 2 0 ?n (put_state_tensor 2 1 ?z state)"
    and p: "p = tmap2 (ftrl_weight sgn l1 l2 alpha beta) ?z ?n"
    using assms(1) by (simp_all add: ftrl_dense_def Let_def)
  have fn1: "list_all2 (slice_fits 2) (put_state_tensor 2 1 ?z state) ?n"
    using slots.fit_all_put [OF fz, of 1 ?n] fn by (simp add: put_state_tensor_def)
  have g1: "get_state_tensor 2 1 (put_state_tensor 2 1 ?z state) = ?z"
    using slots.get_all_put [OF l(1) fz, of 1 1] by (simp add: put_state_tensor_def get_state_tensor_def)
  have ln1: "length ?n = length (put_state_tensor 2 1 ?z state)" by (simp add: len)
  have gz: "get_state_tensor 2 1 st = ?z"
    using slots.get_all_put [OF ln1 fn1, of 0 1] g1 unfolding st
    by (simp add: put_state_tensor_def get_state_tensor_def)
  have gn: "get_state_tensor 2 0 st = ?n"
    using slots.get_all_put [OF ln1 fn1, of 0 0] unfolding st
    by (simp add: put_state_tensor_def get_state_tensor_def)
  have ij: "i < length ?z" "i < length ?n" "j < length (?z ! i)" "j < length (?n ! i)"
    using assms(5,6) by (auto simp: p tmap2_row_length)
  have "p ! i ! j = ftrl_weight sgn l1 l2 alpha beta (get_state_tensor 2 1 st ! i ! j) (get_state_tensor 2 0 st ! i ! j)"
    unfolding gz gn p by (rule tmap2_nth [OF ij])
  then show ?thesis using soft_threshold_minimises [OF assms(4,3)] by (simp only: ftrl_weight_def)
qed

theorem ftrl_minimises_witness:
  "ftrl_objective 1 (124::real) 3 (- 1 / 62) \<le> ftrl_objective 1 124 3 (1 / 2)
   \<and> ftrl_dense 1 120 1 1 [[0]] [[3]] [[0, 0]] = ([[- 1 / 62]], [[9, 3]])"
proof -
  have d: "ftrl_dense 1 120 1 1 [[0]] [[3]] [[0, 0]] = ([[- 1 / 62]], [[9, 3]])"
    by (simp add: ftrl_dense_def Let_def get_state_tensor_def put_state_tensor_def state_slice_def put_slice_def
        tmap2_def ftrl_sigma_def ftrl_weight_def)
  from ftrl_minimises [OF d, of 1 0 0 "1 / 2"] show ?thesis
    by (simp add: d shaped_def slice_fits_def get_state_tensor_def state_slice_def)
qed

text \<open>
  A moving average stays in range: with the momentum that the constructor admits, every updated
  entry lies between the old parameter and the gradient.
\<close>

theorem ema_between:
  assumes "new_ema (PFloat (FFin r)) = Inr u"
    and "update_dense F (EMA (real_of_rat r)) param grad state = Inr (u', p, st')"
    and "i < length p" "j < length (p ! i)"
  shows "min (param ! i ! j) (grad ! i ! j) \<le> p ! i ! j \<and> p ! i ! j \<le> max (param ! i ! j) (grad ! i ! j)"
proof -
  let ?m = "real_of_rat r"
  have m: "0 < ?m" "?m < 1"
    using assms(1) by (auto simp: new_ema_def res_iffs not_le zero_less_of_rat_iff of_rat_less_1_iff)
  have p: "p = tmap2 (\<lambda>p g. (1 - ?m) * p + ?m * g) param grad"
    using assms(2) by (simp add: ema_dense_def)
  have ij: "i < length param" "i < length grad" "j < length (param ! i)" "j < length (grad ! i)"
    using assms(3,4) by (auto simp: p tmap2_row_length)
  have c: "min x y \<le> (1 - ?m) * x + ?m * y" "(1 - ?m) * x + ?m * y \<le> max x y" for x y
  proof -
    have "(1 - ?m) * min x y + ?m * min x y \<le> (1 - ?m) * x + ?m * y"
      using m by (intro add_mono mult_left_mono) auto
    then show "min x y \<le> (1 - ?m) * x + ?m * y" by (simp add: algebra_simps)
    have "(1 - ?m) * x + ?m * y \<le> (1 - ?m) * max x y + ?m * max x y"
      using m by (intro add_mono mult_left_mono) auto
    then show "(1 - ?m) * x + ?m * y \<le> max x y" by (simp add: algebra_simps)
  qed
  show ?thesis unfolding p tmap2_nth [OF ij] using c by blast
qed

theorem ema_between_witness:
  "update_dense (\<lambda>_ _ p _ vs. (p, vs)) (EMA (real_of_rat (1 / 2))) [[4]] [[2]] None =
     Inr (EMA (real_of_rat (1 / 2)), [[3]], None) \<and> (2::real) \<le> 3 \<and> (3::real) \<le> 4"
proof -
  have m: "real_of_rat (1 / 2) = 1 / 2" by (simp add: of_rat_divide)
  have u: "update_dense (\<lambda>_ _ p _ vs. (p, vs)) (EMA (real_of_rat (1 / 2))) [[4]] [[2]] None =
     Inr (EMA (real_of_rat (1 / 2)), [[3]], None)"
    by (simp add: ema_dense_def tmap2_def m)
  have n: "new_ema (PFloat (FFin (1 / 2))) = Inr (EMA (FFin (1 / 2)))"
    by (simp add: new_ema_def set_learning_rate_def raise_if_def)
  from ema_between [OF n u, of 0 0] u show ?thesis by simp
qed

text \<open>
  \<open>FTRLTensorUpdater\<close> takes a finite \<open>l1\<close> only when it is positive, although the check and the message
  of its own constructor admit zero: with \<open>l1 = 0.0\<close> and otherwise valid arguments construction raises
  the \<open>ValueError\<close> of the learning rate. Every positive \<open>l1\<close> is accepted.
\<close>

theorem ftrl_constructor:
  assumes "0 \<le> l2" "0 \<le> alpha" "0 \<le> beta"
  shows "new_ftrl (PFloat (FFin l1)) (PFloat (FFin l2)) (PFloat (FFin alpha)) (PFloat (FFin beta)) =
    (if l1 \<le> 0 then Inl ValueError else Inr (FTRL (FFin l1) (FFin l1) (FFin l2) (FFin alpha) (FFin beta)))"
  using assms by (auto simp: new_ftrl_def set_learning_rate_def raise_if_def)

theorem ftrl_constructor_witness:
  "new_ftrl (PFloat (FFin 0)) (PFloat (FFin 120)) (PFloat (FFin (1 / 2))) (PFloat (FFin 1)) = Inl ValueError"
  using ftrl_constructor [of 120 "1 / 2" 1 0] by simp

text \<open>
  The check of \<open>alpha\<close> lets zero through, by which every update divides.
\<close>

lemma zero_alpha_accepted:
  "new_ftrl (PFloat (FFin 1)) (PFloat (FFin 120)) (PFloat (FFin 0)) (PFloat (FFin 1)) =
    Inr (FTRL (FFin 1) (FFin 1) (FFin 120) (FFin 0) (FFin 1))"
  by (simp add: new_ftrl_def set_learning_rate_def raise_if_def)

section \<open>Initializers\<close>

text \<open>
  \<open>torch.nn.init\<close> fills a tensor with random numbers: the two fillers are arguments of the model and
  \<open>Inl\<close> stands for the errors they raise. The gain of the Xavier initializer is computed by torch when
  the object is built, which rejects unknown activations.
\<close>

datatype initializer = DefaultInit | ZeroInit | OneInit | NormalInit pyfloat pyfloat
  | XavierInit string string

record init_lib =
  lib_normal :: "pyfloat \<Rightarrow> pyfloat \<Rightarrow> tensor \<Rightarrow> tensor res"
  lib_xavier :: "string \<Rightarrow> string \<Rightarrow> tensor \<Rightarrow> tensor res"
  lib_gain :: "string \<Rightarrow> unit res"

definition new_normal_init :: "pyval \<Rightarrow> pyval \<Rightarrow> initializer res" where
  "new_normal_init mean var =
     bindR (check_float (\<lambda>_. False) mean) (\<lambda>m.
     bindR (check_float fle0 var) (\<lambda>v. Inr (NormalInit m v)))"

definition new_xavier_init :: "init_lib \<Rightarrow> string \<Rightarrow> string \<Rightarrow> initializer res" where
  "new_xavier_init lib activation distribution =
     raise_if (distribution \<notin> {''uniform'', ''normal''}) ValueError
     (bindR (lib_gain lib activation) (\<lambda>_. Inr (XavierInit activation distribution)))"

definition fill :: "real \<Rightarrow> tensor \<Rightarrow> tensor" where
  "fill c data = map (map (\<lambda>_. c)) data"

fun initialize_tensor :: "init_lib \<Rightarrow> initializer \<Rightarrow> string \<Rightarrow> tensor \<Rightarrow> tensor res" where
  "initialize_tensor lib DefaultInit name data =
     (if endswith name ''bias'' then Inr (fill 0 data) else lib_normal lib (FFin 0) (FFin 1) data)"
| "initialize_tensor lib ZeroInit name data = Inr (fill 0 data)"
| "initialize_tensor lib OneInit name data = Inr (fill 1 data)"
| "initialize_tensor lib (NormalInit mean var) name data =
     (if endswith name ''bias'' then Inr (fill 0 data) else lib_normal lib mean var data)"
| "initialize_tensor lib (XavierInit activation distribution) name data = lib_xavier lib distribution activation data"

text \<open>\<open>initialize_dense\<close> and \<open>initialize_sparse\<close> do the same; an empty shard is left alone.\<close>

definition call_initializer :: "init_lib \<Rightarrow> initializer \<Rightarrow> string \<Rightarrow> tensor \<Rightarrow> tensor res" where
  "call_initializer lib init name data =
     (if concat data = [] then Inr data else initialize_tensor lib init name data)"

lemma fill_shape: "map length (fill c data) = map length data"
  by (simp add: fill_def)

lemma bias_starts_at_zero:
  "endswith name ''bias'' \<Longrightarrow> init \<in> {DefaultInit, ZeroInit, NormalInit m v} \<Longrightarrow>
   call_initializer lib init name data = Inr (fill 0 data)"
  by (auto simp: call_initializer_def fill_def intro!: map_idI [symmetric])

end
