(* ===== verification/Uniquifier.thy ===== *)
theory Uniquifier
  imports Prelude "HOL-Library.Word"
begin

unbundle bit_operations_syntax

text \<open>
  \<open>HashUniquifier.uniquify\<close>, which the embedding operators call on the hash codes of a minibatch
  (\<open>cpp/common/hashmap/hash_uniquifier.cpp\<close>, \<open>hashtable_helpers.h\<close>): an open-addressing table whose
  probe sequence is \<open>5 i + 1 + perturb\<close>. Codes are 64-bit words with the wrap-around of the C++ code.
  What the embedding operators need from it is the locale \<open>uniquifier\<close>; its interpretation on the
  translated code rests on the proof that the probe loop always ends.
\<close>

section \<open>The contract\<close>

locale uniquifier =
  fixes uniq :: "'k list \<Rightarrow> ('k list \<times> nat list) option" and small :: "'k list \<Rightarrow> bool"
  assumes uniq_total: "small xs \<Longrightarrow> \<exists>keys idx. uniq xs = Some (keys, idx)"
    and uniq_distinct: "small xs \<Longrightarrow> uniq xs = Some (keys, idx) \<Longrightarrow> distinct keys"
    and uniq_lookup: "small xs \<Longrightarrow> uniq xs = Some (keys, idx) \<Longrightarrow>
      list_all (\<lambda>i. i < length keys) idx \<and> map (\<lambda>i. keys ! i) idx = xs"
    and uniq_keys: "small xs \<Longrightarrow> uniq xs = Some (keys, idx) \<Longrightarrow> set keys = set xs"
begin

lemma uniq_length: "small xs \<Longrightarrow> uniq xs = Some (keys, idx) \<Longrightarrow> length idx = length xs"
  using uniq_lookup by (metis length_map)

text \<open>Equal codes get equal positions and different codes different ones.\<close>

lemma uniq_inj:
  assumes "small xs" "uniq xs = Some (keys, idx)" "i < length xs" "j < length xs"
  shows "idx ! i = idx ! j \<longleftrightarrow> xs ! i = xs ! j"
proof -
  note l = uniq_lookup [OF assms(1,2)] and n = uniq_length [OF assms(1,2)]
  have "xs ! k = keys ! (idx ! k)" "idx ! k < length keys" if "k < length xs" for k
    using l n that by (auto simp: list_all_length)
  with assms(3,4) uniq_distinct [OF assms(1,2)] show ?thesis by (metis nth_eq_iff_index_eq)
qed

text \<open>What is computed per distinct code and read by position is what is computed per code.\<close>

lemma uniq_gather:
  "small xs \<Longrightarrow> uniq xs = Some (keys, idx) \<Longrightarrow> map (\<lambda>i. map f keys ! i) idx = map f xs"
  using uniq_lookup [of xs keys idx] by (auto simp: list_all_iff)

end

section \<open>The probe sequence visits every bucket\<close>

lemma five_power_mod8:
  assumes "odd n"
  shows "(5::int) ^ n mod 8 = 5"
proof -
  obtain m where n: "n = Suc (2 * m)" using assms by (metis oddE Suc_eq_plus1)
  have "(25::int) ^ m mod 8 = (25 mod 8) ^ m mod 8" by (simp only: power_mod)
  then have m: "(25::int) ^ m mod 8 = 1" by simp
  have "(5::int) ^ n = 5 * 25 ^ m" by (simp add: n power_mult)
  also have "\<dots> mod 8 = 5 * (25 ^ m mod 8) mod 8" by (simp add: mod_mult_right_eq)
  finally show ?thesis by (simp add: m)
qed

text \<open>The order of 5 modulo \<open>2 ^ (k + 2)\<close> is \<open>2 ^ k\<close>.\<close>

lemma five_order: "2 ^ (k + 2) dvd (5::int) ^ n - 1 \<Longrightarrow> 2 ^ k dvd n"
proof (induction k arbitrary: n)
  case (Suc k)
  have "(8::int) dvd 5 ^ n - 1" using Suc.prems by (rule dvd_trans [rotated]) (simp add: power_add)
  then have "(5::int) ^ n mod 8 = 1" by (simp add: mod_eq_dvd_iff flip: mod_eq_dvd_iff)
  then have "even n" using five_power_mod8 [of n] by auto
  then obtain m where n: "n = 2 * m" by blast
  have "(5::int) ^ m mod 4 = (5 mod 4) ^ m mod 4" by (simp only: power_mod)
  then have "(5::int) ^ m mod 4 = 1" by simp
  then obtain t where t: "(5::int) ^ m + 1 = 2 * (2 * t + 1)"
    by (metis (no_types, lifting) mod_mult_div_eq add.commute distrib_left mult.assoc mult.commute
        mult_2 numeral_Bit0 one_add_one add.assoc mult.left_commute mult_numeral_1_right numeral_One)
  have "(5::int) ^ n - 1 = (5 ^ m - 1) * (5 ^ m + 1)" by (simp add: n power_mult algebra_simps power_even_eq power2_eq_square)
  also have "\<dots> = 2 * ((5 ^ m - 1) * (2 * t + 1))" by (simp add: t)
  finally have "(2::int) * 2 ^ (k + 2) dvd 2 * ((5 ^ m - 1) * (2 * t + 1))" using Suc.prems by simp
  then have "(2::int) ^ (k + 2) dvd (5 ^ m - 1) * (2 * t + 1)" by (simp only: dvd_mult_cancel_left) simp
  moreover have "coprime ((2::int) ^ (k + 2)) (2 * t + 1)"
    by (simp only: coprime_power_left_iff coprime_left_2_iff_odd) simp
  ultimately have "(2::int) ^ (k + 2) dvd 5 ^ m - 1" by (simp only: coprime_dvd_mult_left_iff)
  from Suc.IH [OF this] show ?case by (simp add: n)
qed simp

primrec lcg :: "nat \<Rightarrow> nat \<Rightarrow> nat \<Rightarrow> nat" where
  "lcg m x 0 = x"
| "lcg m x (Suc n) = (5 * lcg m x n + 1) mod m"

lemma lcg_less: "x < m \<Longrightarrow> lcg m x n < m"
  by (cases n) auto

lemma lcg_closed: "int (2 ^ (k + 2)) dvd (4 * int (lcg (2 ^ k) x n) + 1) - 5 ^ n * (4 * int x + 1)"
proof (induction n)
  case (Suc n)
  let ?y = "int (lcg (2 ^ k) x n)"
  have r: "int (lcg (2 ^ k) x (Suc n)) = (5 * ?y + 1) mod 2 ^ k" by (simp add: zmod_int add.commute)
  obtain q where q: "(5 * ?y + 1) mod 2 ^ k = 5 * ?y + 1 - 2 ^ k * q"
    by (metis minus_mult_div_eq_mod)
  obtain c where c: "4 * ?y + 1 - 5 ^ n * (4 * int x + 1) = 2 ^ (k + 2) * c" using Suc.IH by auto
  have "4 * int (lcg (2 ^ k) x (Suc n)) + 1 - 5 ^ Suc n * (4 * int x + 1) =
    5 * (4 * ?y + 1 - 5 ^ n * (4 * int x + 1)) - 2 ^ (k + 2) * q"
    unfolding r q by (simp add: algebra_simps power_add)
  also have "\<dots> = 5 * (2 ^ (k + 2) * c) - 2 ^ (k + 2) * q" by (simp only: c)
  also have "\<dots> = 2 ^ (k + 2) * (5 * c - q)" by (simp add: algebra_simps)
  finally show ?case by simp
qed simp

lemma lcg_inj:
  assumes "lcg (2 ^ k) x n = lcg (2 ^ k) x (n + d)" "d < 2 ^ k"
  shows "d = 0"
proof -
  let ?y = "4 * int x + 1"
  have "int (2 ^ (k + 2)) dvd
    ((4 * int (lcg (2 ^ k) x n) + 1) - 5 ^ n * ?y) - ((4 * int (lcg (2 ^ k) x (n + d)) + 1) - 5 ^ (n + d) * ?y)"
    by (intro dvd_diff lcg_closed)
  then have "2 ^ (k + 2) dvd (5 ^ d - 1) * (5 ^ n * ?y)"
    by (simp add: assms(1) algebra_simps power_add)
  moreover have "odd (5 ^ n * ?y)" by simp
  then have "coprime ((2::int) ^ (k + 2)) (5 ^ n * ?y)"
    by (simp only: coprime_power_left_iff coprime_left_2_iff_odd) simp
  ultimately have "(2::int) ^ (k + 2) dvd 5 ^ d - 1" by (simp only: coprime_dvd_mult_left_iff)
  then have "2 ^ k dvd d" by (rule five_order)
  then show ?thesis using assms(2) by (auto dest: dvd_imp_le)
qed

lemma lcg_visits:
  assumes "x < 2 ^ k" "b < 2 ^ k"
  shows "\<exists>n. lcg (2 ^ k) x n = b"
proof -
  have "inj_on (lcg (2 ^ k) x) {0..<2 ^ k}"
  proof (rule linorder_inj_onI)
    fix n m :: nat assume "n < m" "m \<in> {0..<2 ^ k}"
    then show "lcg (2 ^ k) x n \<noteq> lcg (2 ^ k) x m" using lcg_inj [of k x n "m - n"]
      by (metis add_diff_inverse_nat atLeastLessThan_iff diff_is_0_eq less_imp_diff_less less_imp_not_less linorder_not_le)
  qed auto
  then have "lcg (2 ^ k) x ` {0..<2 ^ k} = {0..<2 ^ k}"
    using lcg_less [OF assms(1)] by (intro endo_inj_surj) auto
  then show ?thesis using assms(2) by (metis atLeastLessThan_iff imageE zero_le)
qed

section \<open>The code\<close>

definition fast_modulo :: "64 word \<Rightarrow> 64 word" where
  "fast_modulo a =
     (let prime = push_bit 31 1 - 1; r = (a AND prime) + drop_bit 31 a
      in if prime \<le> r then r - prime else r)"

definition get_power_bucket_count :: "64 word \<Rightarrow> 64 word" where
  "get_power_bucket_count v =
     (let v = v - 1;
          v = v OR drop_bit 1 v;
          v = v OR drop_bit 2 v;
          v = v OR drop_bit 4 v;
          v = v OR drop_bit 8 v;
          v = v OR drop_bit 16 v;
          v = v OR drop_bit 32 v
      in v + 1)"

definition get_hash_capacity :: "64 word \<Rightarrow> 64 word" where
  "get_hash_capacity min_size = get_power_bucket_count ((3 * min_size + 1) div 2)"

text \<open>
  \<open>FindEntryAndBucket\<close> with its loop: \<open>None\<close> is not returning, \<open>Inl IndexError\<close> the exception of
  \<open>vector::at\<close>, and otherwise the entry number or -1, and the bucket.
\<close>

definition next_bucket :: "64 word \<Rightarrow> 64 word \<Rightarrow> 64 word \<Rightarrow> 64 word" where
  "next_bucket msk perturb bucket = (bucket * 5 + 1 + perturb) AND msk"

partial_function (option) find_loop ::
  "64 word \<Rightarrow> 64 word list \<Rightarrow> int list \<Rightarrow> 64 word \<Rightarrow> 64 word \<Rightarrow> 64 word \<Rightarrow> (int \<times> 64 word) res option" where
  "find_loop key entries buckets msk perturb bucket =
     (if length buckets \<le> unat bucket then Some (Inl IndexError)
      else if buckets ! unat bucket = -1 then Some (Inr (-1, bucket))
      else if 0 \<le> buckets ! unat bucket \<and> length entries \<le> nat (buckets ! unat bucket)
        then Some (Inl IndexError)
      else if 0 \<le> buckets ! unat bucket \<and> entries ! nat (buckets ! unat bucket) = key
        then Some (Inr (buckets ! unat bucket, bucket))
      else find_loop key entries buckets msk (drop_bit 5 perturb)
        (next_bucket msk (drop_bit 5 perturb) bucket))"

definition find_entry_and_bucket ::
  "64 word \<Rightarrow> 64 word \<Rightarrow> 64 word list \<Rightarrow> int list \<Rightarrow> (int \<times> 64 word) res option" where
  "find_entry_and_bucket key hash_code entries buckets =
     (let msk = of_nat (length buckets) - 1
      in find_loop key entries buckets msk hash_code (hash_code AND msk))"

definition int32 :: "nat \<Rightarrow> int" where
  "int32 n = sint (of_nat n :: 32 word)"

definition insert_hash_entry ::
  "64 word \<Rightarrow> 64 word list \<times> int list \<Rightarrow> (nat \<times> 64 word list \<times> int list) res option" where
  "insert_hash_entry key table =
     (case table of (entries, buckets) \<Rightarrow>
      case find_entry_and_bucket key (fast_modulo key) entries buckets of
        None \<Rightarrow> None
      | Some (Inl e) \<Rightarrow> Some (Inl e)
      | Some (Inr (n, bucket)) \<Rightarrow>
          if n = -1 then Some (Inr (length entries, entries @ [key], buckets[unat bucket := int32 (length entries)]))
          else Some (Inr (nat n, entries, buckets)))"

fun uniquify_loop ::
  "64 word list \<Rightarrow> 64 word list \<times> int list \<Rightarrow> (64 word list \<times> nat list) res option" where
  "uniquify_loop [] table = Some (Inr (fst table, []))"
| "uniquify_loop (key # items) table =
     (case insert_hash_entry key table of
        None \<Rightarrow> None
      | Some (Inl e) \<Rightarrow> Some (Inl e)
      | Some (Inr (offset, table')) \<Rightarrow>
          (case uniquify_loop items table' of
             Some (Inr (entries, offsets)) \<Rightarrow> Some (Inr (entries, offset # offsets))
           | r \<Rightarrow> r))"

text \<open>\<open>items\<close> is overwritten with the positions; the distinct codes are returned.\<close>

definition uniquify :: "64 word list \<Rightarrow> (64 word list \<times> nat list) res option" where
  "uniquify items =
     (let capacity = get_hash_capacity (of_nat (length items))
      in uniquify_loop items ([], replicate (unat capacity) (-1)))"

section \<open>The capacity\<close>

lemma smear_step:
  assumes "\<And>i. bit w i \<longleftrightarrow> (\<exists>d<n. bit v (i + d))"
  shows "bit ((w :: 64 word) OR drop_bit n w) i \<longleftrightarrow> (\<exists>d<2 * n. bit v (i + d))"
proof
  assume "bit (w OR drop_bit n w) i"
  then have "bit w i \<or> bit w (n + i)" by (simp add: bit_or_iff bit_drop_bit_eq)
  then consider d where "d < n" "bit v (i + d)" | d where "d < n" "bit v (n + i + d)"
    using assms by blast
  then show "\<exists>d<2 * n. bit v (i + d)"
  proof cases
    case 1
    then show ?thesis by (intro exI [of _ d]) simp
  next
    case 2
    then have "n + d < 2 * n" "bit v (i + (n + d))" by (simp_all add: add_ac)
    then show ?thesis by blast
  qed
next
  assume "\<exists>d<2 * n. bit v (i + d)"
  then obtain d where d: "d < 2 * n" "bit v (i + d)" by blast
  show "bit (w OR drop_bit n w) i"
  proof (cases "d < n")
    case False
    then have "bit w (n + i)" unfolding assms using d by (intro exI [of _ "d - n"]) (auto simp: add_ac)
    then show ?thesis by (simp add: bit_or_iff bit_drop_bit_eq)
  qed (use d in \<open>auto simp: bit_or_iff assms\<close>)
qed

lemma power_bucket_count_ge:
  assumes "1 < v" "v \<le> 2 ^ 62"
  shows "\<exists>k. 0 < k \<and> k \<le> 62 \<and> unat (get_power_bucket_count v) = 2 ^ k \<and> unat v \<le> 2 ^ k"
proof -
  define u where "u = v - 1"
  define w where "w = (let v = u OR drop_bit 1 u; v = v OR drop_bit 2 v; v = v OR drop_bit 4 v;
     v = v OR drop_bit 8 v; v = v OR drop_bit 16 v in v OR drop_bit 32 v)"
  have "bit u i \<longleftrightarrow> (\<exists>d<1. bit u (i + d))" for i by simp
  from smear_step [OF this] have "bit (u OR drop_bit 1 u) i \<longleftrightarrow> (\<exists>d<2. bit u (i + d))" for i
    by (simp only: mult_1_right)
  from smear_step [OF smear_step [OF smear_step [OF smear_step [OF smear_step [OF this]]]]]
  have w: "bit w i \<longleftrightarrow> (\<exists>d<64. bit u (i + d))" for i by (simp add: w_def Let_def)
  have v2: "1 < unat v" using assms(1) by (simp add: word_less_nat_alt)
  have v3: "unat v \<le> 2 ^ 62" using assms(2) by (simp add: word_le_nat_alt)
  have "v \<noteq> 0" using v2 by auto
  then have "unat u = unat v - 1" by (simp add: u_def unat_minus_one)
  with v2 v3 have nu: "unat u = unat v - 1" "1 \<le> unat u" "unat u < 2 ^ 62" by simp_all
  obtain k where k: "2 ^ k \<le> unat u" "unat u < 2 ^ (k + 1)" using ex_power_ivl1 [of 2 "unat u"] nu by auto
  have b: "bit u i \<longleftrightarrow> odd (unat u div 2 ^ i)" for i by (simp add: bit_unsigned_iff flip: bit_iff_odd)
  have "unat u div 2 ^ k = 1" using k by (intro div_nat_eqI) auto
  then have bk: "bit u k" by (simp add: b)
  have bj: "\<not> bit u j" if "k < j" for j
  proof -
    have "(2::nat) ^ (k + 1) \<le> 2 ^ j" using that by (intro power_increasing) auto
    then have "unat u < 2 ^ j" using k(2) by linarith
    then show ?thesis by (simp add: b)
  qed
  have k62: "k < 62"
  proof (rule ccontr)
    assume "\<not> k < 62"
    then have "(2::nat) ^ 62 \<le> 2 ^ k" by (intro power_increasing) auto
    then show False using k(1) nu(3) by linarith
  qed
  have "w = mask (k + 1)"
  proof (rule bit_word_eqI)
    fix i :: nat assume "i < LENGTH(64)"
    show "bit w i = bit (mask (k + 1) :: 64 word) i"
    proof (cases "i \<le> k")
      case True
      then have "bit w i" unfolding w using bk k62 by (intro exI [of _ "k - i"]) simp
      then show ?thesis using True k62 by (simp add: bit_mask_iff)
    next
      case False
      then have "\<not> bit w i" unfolding w using bj by auto
      then show ?thesis using False by (simp add: bit_mask_iff)
    qed
  qed
  then have "get_power_bucket_count v = 2 ^ (k + 1)"
    by (simp add: get_power_bucket_count_def u_def w_def Let_def mask_eq_decr_exp)
  moreover have "unat (2 ^ (k + 1) :: 64 word) = 2 ^ (k + 1)"
  proof -
    have "(2::nat) ^ (k + 1) < 2 ^ 64" using k62 by (intro power_strict_increasing) auto
    then have "unat (of_nat (2 ^ (k + 1)) :: 64 word) = 2 ^ (k + 1)"
      by (simp only: unsigned_of_nat take_bit_nat_eq_self_iff) (simp add: take_bit_nat_eq_self)
    then show ?thesis by simp
  qed
  ultimately show ?thesis using k k62 nu by (intro exI [of _ "k + 1"]) auto
qed

lemma int32_id: "n < 2 ^ 31 \<Longrightarrow> int32 n = int n"
  by (simp add: int32_def signed_of_nat signed_take_bit_int_eq_self)

section \<open>The probe loop ends\<close>

definition pstep :: "64 word \<Rightarrow> 64 word \<times> 64 word \<Rightarrow> 64 word \<times> 64 word" where
  "pstep msk pb = (drop_bit 5 (fst pb), next_bucket msk (drop_bit 5 (fst pb)) (snd pb))"

lemma perturb_vanishes: "fst ((pstep msk ^^ n) pb) = drop_bit (5 * n) (fst pb)"
  by (induction n) (simp_all add: pstep_def add.commute)

lemma next_bucket_lcg:
  assumes "k \<le> 62"
  shows "unat (next_bucket (mask k) 0 b) = (5 * unat b + 1) mod 2 ^ k"
proof -
  have d: "(2::nat) ^ k dvd 2 ^ 64" using assms by (intro le_imp_power_dvd) simp
  have "unat (next_bucket (mask k) 0 b) = unat (b * 5 + 1) mod 2 ^ k"
    by (simp only: next_bucket_def add_0_right unsigned_take_bit_eq take_bit_eq_mod flip: take_bit_eq_mask)
      (simp add: unsigned_take_bit_eq flip: take_bit_eq_mod)
  also have "\<dots> = (5 * unat b + 1) mod 2 ^ 64 mod 2 ^ k"
    by (simp add: unat_word_ariths mod_simps mult.commute)
  finally show ?thesis using d by (simp add: mod_mod_cancel)
qed

lemma bucket_less:
  assumes "k \<le> 62"
  shows "unat (w AND mask k) < 2 ^ k" "unat (next_bucket (mask k) p b) < 2 ^ k"
  by (simp_all add: next_bucket_def unsigned_take_bit_eq flip: take_bit_eq_mask)

lemma lcg_probe:
  assumes "k \<le> 62"
  shows "(pstep (mask k) ^^ n) (0, b) = (0, snd ((pstep (mask k) ^^ n) (0, b)))
    \<and> unat (snd ((pstep (mask k) ^^ n) (0, b))) = lcg (2 ^ k) (unat b) n"
proof (induction n)
  case (Suc n)
  let ?s = "(pstep (mask k) ^^ n) (0, b)"
  from Suc.IH have f: "fst ?s = 0" by (metis fst_conv)
  have "pstep (mask k) ?s = (0, next_bucket (mask k) 0 (snd ?s))" by (simp add: pstep_def f)
  then show ?case using Suc.IH next_bucket_lcg [OF assms, of "snd ?s"] by simp
qed simp

lemma probe_visits:
  assumes "k \<le> 62" "i < 2 ^ k"
  shows "\<exists>n. unat (snd ((pstep (mask k) ^^ n) (h, h AND mask k))) = i"
proof -
  let ?s = "(pstep (mask k) ^^ 13) (h, h AND mask k)"
  have "drop_bit 65 h = 0" by (intro bit_word_eqI) (auto simp: bit_drop_bit_eq dest: bit_imp_le_length)
  then have f: "fst ?s = 0" using perturb_vanishes [of 13 "mask k" "(h, h AND mask k)"] by simp
  then have s: "?s = (0, snd ?s)" by (metis prod.collapse)
  have "unat (snd ?s) < 2 ^ k"
    using bucket_less [OF assms(1)] by (simp add: numeral_eq_Suc pstep_def)
  then obtain n where "lcg (2 ^ k) (unat (snd ?s)) n = i" using lcg_visits assms(2) by blast
  then have "unat (snd ((pstep (mask k) ^^ n) ?s)) = i" using lcg_probe [OF assms(1), of n "snd ?s"] s by metis
  then show ?thesis by (intro exI [of _ "n + 13"]) (simp add: funpow_add)
qed

definition probe_at :: "nat \<Rightarrow> 64 word \<Rightarrow> nat \<Rightarrow> nat" where
  "probe_at k key n =
     unat (snd ((pstep (mask k) ^^ n) (fast_modulo key, fast_modulo key AND mask k)))"

lemma probe_at_less: "k \<le> 62 \<Longrightarrow> probe_at k key n < 2 ^ k"
  using bucket_less by (cases n) (simp_all add: probe_at_def pstep_def)

definition passes :: "64 word \<Rightarrow> 64 word list \<Rightarrow> int list \<Rightarrow> nat \<Rightarrow> bool" where
  "passes key es bs i \<longleftrightarrow> i < length bs \<and> bs ! i \<noteq> -1 \<and>
     (0 \<le> bs ! i \<longrightarrow> nat (bs ! i) < length es \<and> es ! nat (bs ! i) \<noteq> key)"

lemma find_loop_run:
  assumes "\<And>m. m < n \<Longrightarrow> passes key es bs (unat (snd ((pstep msk ^^ m) (p, b))))"
  shows "find_loop key es bs msk p b =
    find_loop key es bs msk (fst ((pstep msk ^^ n) (p, b))) (snd ((pstep msk ^^ n) (p, b)))"
  using assms
proof (induction n)
  case (Suc n)
  let ?s = "(pstep msk ^^ n) (p, b)"
  have "find_loop key es bs msk (fst ?s) (snd ?s) =
    find_loop key es bs msk (fst (pstep msk ?s)) (snd (pstep msk ?s))"
    using Suc.prems [of n] unfolding pstep_def [of msk ?s] passes_def by (subst find_loop.simps) auto
  then show ?case using Suc by simp
qed simp

section \<open>The table\<close>

definition table_ok :: "nat \<Rightarrow> 64 word list \<Rightarrow> int list \<Rightarrow> bool" where
  "table_ok k es bs \<longleftrightarrow> k \<le> 62 \<and> length bs = 2 ^ k \<and> distinct es \<and>
     (\<forall>i<2 ^ k. bs ! i = -1 \<or> 0 \<le> bs ! i \<and> nat (bs ! i) < length es) \<and>
     card {i. i < 2 ^ k \<and> bs ! i \<noteq> -1} = length es \<and>
     (\<forall>e<length es. \<exists>n. bs ! probe_at k (es ! e) n = int e \<and>
        (\<forall>m<n. bs ! probe_at k (es ! e) m \<noteq> -1))"

lemma table_mask:
  assumes "table_ok k es bs"
  shows "of_nat (length bs) - 1 = (mask k :: 64 word)"
  using assms by (simp add: table_ok_def mask_eq_decr_exp)

lemma table_has_room:
  assumes "table_ok k es bs" "length es < 2 ^ k"
  shows "\<exists>i<2 ^ k. bs ! i = -1"
proof (rule ccontr)
  assume "\<not> ?thesis"
  then have "{i. i < 2 ^ k \<and> bs ! i \<noteq> -1} = {0..<2 ^ k}" by auto
  then have "length es = 2 ^ k" using assms(1) by (simp add: table_ok_def)
  with assms(2) show False by simp
qed

text \<open>The search: it ends, at the entry of the code or at the first empty bucket of its sequence.\<close>

lemma find_entry_correct:
  assumes ok: "table_ok k es bs" and room: "length es < 2 ^ k"
  shows "(\<exists>e b. e < length es \<and> es ! e = key \<and>
      find_entry_and_bucket key (fast_modulo key) es bs = Some (Inr (int e, b))) \<or>
    (\<exists>n b. key \<notin> set es \<and> find_entry_and_bucket key (fast_modulo key) es bs = Some (Inr (-1, b)) \<and>
      unat b = probe_at k key n \<and> bs ! probe_at k key n = -1 \<and> (\<forall>m<n. bs ! probe_at k key m \<noteq> -1))"
proof -
  let ?h = "fast_modulo key"
  let ?s = "\<lambda>n. (pstep (mask k) ^^ n) (?h, ?h AND mask k)"
  let ?stop = "\<lambda>n. bs ! probe_at k key n = -1 \<or> 0 \<le> bs ! probe_at k key n \<and> es ! nat (bs ! probe_at k key n) = key"
  have k: "k \<le> 62" "length bs = 2 ^ k" using ok by (simp_all add: table_ok_def)
  have at: "probe_at k key n = unat (snd (?s n))" for n by (simp add: probe_at_def)
  have less: "probe_at k key n < length bs" for n using probe_at_less [OF k(1)] k(2) by simp
  have entry: "bs ! probe_at k key n = -1 \<or> 0 \<le> bs ! probe_at k key n \<and> nat (bs ! probe_at k key n) < length es" for n
    using ok less [of n] k(2) by (simp add: table_ok_def)
  obtain i where "i < 2 ^ k" and "bs ! i = -1" using table_has_room [OF ok room] by blast
  moreover obtain n0 where "probe_at k key n0 = i"
    using probe_visits [OF k(1) \<open>i < 2 ^ k\<close>, of ?h] at by metis
  ultimately have "?stop n0" by simp
  then obtain n where n: "?stop n" and before: "\<And>m. m < n \<Longrightarrow> \<not> ?stop m"
    using exists_least_iff [of ?stop] by blast
  have "passes key es bs (unat (snd (?s m)))" if "m < n" for m
    using before [OF that] entry [of m] less [of m] unfolding passes_def at by auto
  then have run: "find_entry_and_bucket key ?h es bs = find_loop key es bs (mask k) (fst (?s n)) (snd (?s n))"
    unfolding find_entry_and_bucket_def Let_def table_mask [OF ok] by (rule find_loop_run)
  show ?thesis
  proof (cases "bs ! probe_at k key n = -1")
    case True
    have "key \<notin> set es"
    proof
      assume "key \<in> set es"
      then obtain e where e: "e < length es" "es ! e = key" by (auto simp: in_set_conv_nth)
      then obtain n' where n': "bs ! probe_at k key n' = int e" "\<forall>m<n'. bs ! probe_at k key m \<noteq> -1"
        using ok by (auto simp: table_ok_def)
      have "?stop n'" using n'(1) e by simp
      then have "\<not> n' < n" using before by blast
      moreover have "n \<noteq> n'" using True n'(1) by auto
      ultimately show False using n'(2) True by auto
    qed
    moreover have "find_entry_and_bucket key ?h es bs = Some (Inr (-1, snd (?s n)))"
      unfolding run using less [of n] True by (subst find_loop.simps) (simp add: at)
    ultimately show ?thesis using True before by (metis at)
  next
    case False
    then have e: "0 \<le> bs ! probe_at k key n" "nat (bs ! probe_at k key n) < length es"
      "es ! nat (bs ! probe_at k key n) = key" using entry [of n] n by auto
    have "find_entry_and_bucket key ?h es bs = Some (Inr (bs ! probe_at k key n, snd (?s n)))"
      unfolding run using less [of n] False e by (subst find_loop.simps) (simp add: at)
    then show ?thesis using e by (metis int_nat_eq)
  qed
qed

lemma insert_entry_correct:
  assumes ok: "table_ok k es bs" and room: "Suc (length es) < 2 ^ k" and small: "length es < 2 ^ 31"
  shows "\<exists>e es' bs'. insert_hash_entry key (es, bs) = Some (Inr (e, es', bs')) \<and> table_ok k es' bs' \<and>
    (es' = es \<or> es' = es @ [key]) \<and> e < length es' \<and> es' ! e = key"
proof -
  from find_entry_correct [OF ok, of key] room consider
    (found) e b where "e < length es" "es ! e = key"
      "find_entry_and_bucket key (fast_modulo key) es bs = Some (Inr (int e, b))"
  | (new) n b where "key \<notin> set es" "find_entry_and_bucket key (fast_modulo key) es bs = Some (Inr (-1, b))"
      "unat b = probe_at k key n" "bs ! probe_at k key n = -1" "\<forall>m<n. bs ! probe_at k key m \<noteq> -1"
    by (auto simp: less_Suc_eq)
  then show ?thesis
  proof cases
    case found
    then show ?thesis using ok by (intro exI [of _ e] exI [of _ es] exI [of _ bs]) (simp add: insert_hash_entry_def)
  next
    case new
    let ?i = "probe_at k key n" and ?N = "int (length es)"
    let ?bs = "bs[?i := ?N]"
    have i: "?i < 2 ^ k" and len: "length bs = 2 ^ k" and k: "k \<le> 62"
      using ok probe_at_less [of k key n] by (auto simp: table_ok_def)
    have same: "?bs ! j = (if j = ?i then ?N else bs ! j)" if "j < 2 ^ k" for j using that len by simp
    have pl: "probe_at k x m < 2 ^ k" for x m by (rule probe_at_less [OF k])
    have old: "\<exists>n. ?bs ! probe_at k (es ! e) n = int e \<and> (\<forall>m<n. ?bs ! probe_at k (es ! e) m \<noteq> -1)"
      if e: "e < length es" for e
    proof -
      obtain n' where n': "bs ! probe_at k (es ! e) n' = int e" "\<forall>m<n'. bs ! probe_at k (es ! e) m \<noteq> -1"
        using ok e by (auto simp: table_ok_def)
      have "probe_at k (es ! e) n' \<noteq> ?i" using n'(1) new(4) by auto
      then show ?thesis using n' by (intro exI [of _ n']) (auto simp: same pl)
    qed
    have "?bs ! ?i = ?N" "\<forall>m<n. ?bs ! probe_at k key m \<noteq> -1" using new(5) i by (auto simp: same pl)
    then have fresh: "\<exists>n. ?bs ! probe_at k key n = ?N \<and> (\<forall>m<n. ?bs ! probe_at k key m \<noteq> -1)" by blast
    have "{j. j < 2 ^ k \<and> ?bs ! j \<noteq> -1} = insert ?i {j. j < 2 ^ k \<and> bs ! j \<noteq> -1}"
      using i by (auto simp: same split: if_splits)
    then have c: "card {j. j < 2 ^ k \<and> ?bs ! j \<noteq> -1} = Suc (length es)"
      using ok new(4) by (simp add: table_ok_def)
    have "table_ok k (es @ [key]) ?bs"
      unfolding table_ok_def using ok new(1) old fresh c
      by (auto simp: table_ok_def same less_Suc_eq nth_append)
    then show ?thesis
      using new(2,3) small
      by (intro exI [of _ "length es"] exI [of _ "es @ [key]"] exI [of _ ?bs])
        (simp add: insert_hash_entry_def int32_id)
  qed
qed

lemma uniquify_loop_correct:
  assumes "table_ok k es bs" "length es + length items < 2 ^ k" "length es + length items < 2 ^ 31"
  shows "\<exists>es' offs. uniquify_loop items (es, bs) = Some (Inr (es', offs)) \<and> (\<exists>r. es' = es @ r) \<and>
    distinct es' \<and> set es' = set es \<union> set items \<and>
    list_all (\<lambda>i. i < length es') offs \<and> map (\<lambda>i. es' ! i) offs = items"
  using assms
proof (induction items arbitrary: es bs)
  case Nil
  then show ?case by (simp add: table_ok_def)
next
  case (Cons key items)
  have "Suc (length es) < 2 ^ k" "length es < 2 ^ 31" using Cons.prems by simp_all
  then obtain e es1 bs1 where one: "insert_hash_entry key (es, bs) = Some (Inr (e, es1, bs1))"
    "table_ok k es1 bs1" "es1 = es \<or> es1 = es @ [key]" "e < length es1" "es1 ! e = key"
    using insert_entry_correct [OF Cons.prems(1), of key] by blast
  have "length es1 + length items < 2 ^ k" "length es1 + length items < 2 ^ 31"
    using Cons.prems(2,3) one(3) by auto
  from Cons.IH [OF one(2) this] obtain es' offs where rest:
    "uniquify_loop items (es1, bs1) = Some (Inr (es', offs))" "\<exists>r. es' = es1 @ r" "distinct es'"
    "set es' = set es1 \<union> set items" "list_all (\<lambda>i. i < length es') offs" "map (\<lambda>i. es' ! i) offs = items"
    by blast
  obtain r where r: "es' = es1 @ r" using rest(2) by blast
  have "key \<in> set es1" using one(4,5) by (metis nth_mem)
  then have "set es1 = insert key (set es)" using one(3) by (elim disjE) (simp_all add: insert_absorb)
  then have "set es' = set es \<union> set (key # items)" by (simp add: rest(4))
  moreover have "\<exists>r. es' = es @ r" using r one(3) by auto
  moreover have "e < length es'" using one(4) by (simp add: r)
  moreover have "es' ! e = key" unfolding r nth_append using one(4) by (simp only: if_True one(5))
  moreover have "uniquify_loop (key # items) (es, bs) = Some (Inr (es', e # offs))"
    by (simp only: uniquify_loop.simps one(1) rest(1) option.case sum.case prod.case)
  moreover have "map (\<lambda>i. es' ! i) (e # offs) = key # items" using \<open>es' ! e = key\<close> by (simp add: rest(6))
  moreover have "list_all (\<lambda>i. i < length es') (e # offs)" using rest(5) \<open>e < length es'\<close> by simp
  ultimately show ?case
    using rest(3) by - (rule exI [of _ es'], rule exI [of _ "e # offs"], intro conjI; assumption)
qed

lemma empty_table: "k \<le> 62 \<Longrightarrow> table_ok k [] (replicate (2 ^ k) (-1))"
proof -
  assume "k \<le> 62"
  have "{i. i < 2 ^ k \<and> replicate (2 ^ k) (-1) ! i \<noteq> (-1::int)} = {}" by auto
  then show ?thesis using \<open>k \<le> 62\<close> by (simp add: table_ok_def)
qed

lemma hash_capacity:
  assumes "0 < n" "n < 2 ^ 31"
  shows "\<exists>k\<le>62. unat (get_hash_capacity (of_nat n)) = 2 ^ k \<and> n < 2 ^ k"
proof -
  let ?c = "(3 * of_nat n + 1) div 2 :: 64 word"
  have "3 * of_nat n + 1 = (of_nat (3 * n + 1) :: 64 word)" by simp
  then have "unat (3 * of_nat n + 1 :: 64 word) = 3 * n + 1"
    using assms(2) by (simp only: unsigned_of_nat) (simp add: take_bit_nat_eq_self)
  then have c: "unat ?c = (3 * n + 1) div 2" by (simp add: unat_div)
  have "1 < ?c" using assms(1) c by (simp add: word_less_nat_alt)
  moreover have "?c \<le> 2 ^ 62" using assms(2) c by (simp add: word_le_nat_alt)
  ultimately obtain k where k: "k \<le> 62" "unat (get_power_bucket_count ?c) = 2 ^ k" "unat ?c \<le> 2 ^ k"
    using power_bucket_count_ge by blast
  have "n < unat ?c" using assms(1) c by simp
  then have "n < 2 ^ k" using k(3) by (rule less_le_trans)
  then show ?thesis using k by (auto simp: get_hash_capacity_def)
qed

lemma uniquify_total:
  assumes "length items < 2 ^ 31"
  shows "\<exists>keys idx. uniquify items = Some (Inr (keys, idx)) \<and> distinct keys \<and> set keys = set items \<and>
    list_all (\<lambda>i. i < length keys) idx \<and> map (\<lambda>i. keys ! i) idx = items"
proof (cases "items = []")
  case True
  then show ?thesis by (simp add: uniquify_def)
next
  case False
  then obtain k where k: "k \<le> 62" "unat (get_hash_capacity (of_nat (length items))) = 2 ^ k" "length items < 2 ^ k"
    using hash_capacity [of "length items"] assms by auto
  then have "uniquify items = uniquify_loop items ([], replicate (2 ^ k) (-1))"
    by (simp add: uniquify_def)
  then show ?thesis using uniquify_loop_correct [OF empty_table [OF k(1)], of items] k(3) assms by auto
qed

text \<open>
  C9: The uniquifier terminates and is correct on every batch of fewer than \<open>2 ^ 31\<close> codes: the probe
  loop reaches an empty bucket or the code's entry, no access leaves the table, the returned keys are
  the distinct codes, and every code has been replaced by the position of its key.
\<close>

theorem uniquify_correct:
  assumes "length items < 2 ^ 31"
  shows "\<exists>keys idx. uniquify items = Some (Inr (keys, idx)) \<and> distinct keys \<and> set keys = set items \<and>
    list_all (\<lambda>i. i < length keys) idx \<and> map (\<lambda>i. keys ! i) idx = items"
  using uniquify_total [OF assms] .

theorem uniquify_correct_witness:
  "\<exists>keys idx. uniquify [7, 3, 7] = Some (Inr (keys, idx)) \<and> set keys = {3, 7} \<and> map (\<lambda>i. keys ! i) idx = [7, 3, 7]"
  using uniquify_correct [of "[7, 3, 7]"] by auto

section \<open>The interface of the embedding operators\<close>

definition uniquify_hash_codes :: "64 word list \<Rightarrow> (64 word list \<times> nat list) option" where
  "uniquify_hash_codes items = (case uniquify items of Some (Inr r) \<Rightarrow> Some r | _ \<Rightarrow> None)"

interpretation hash_uniq: uniquifier uniquify_hash_codes "\<lambda>items. length items < 2 ^ 31"
proof unfold_locales
  fix items keys idx assume n: "length (items :: 64 word list) < 2 ^ 31"
  obtain ks js where r: "uniquify items = Some (Inr (ks, js))" and d: "distinct ks" "set ks = set items"
    "list_all (\<lambda>i. i < length ks) js \<and> map (\<lambda>i. ks ! i) js = items"
    using uniquify_total [OF n] by blast
  have h: "uniquify_hash_codes items = Some (ks, js)" by (simp add: uniquify_hash_codes_def r)
  then show "\<exists>keys idx. uniquify_hash_codes items = Some (keys, idx)" by blast
  assume "uniquify_hash_codes items = Some (keys, idx)"
  with h have e: "ks = keys" "js = idx" by simp_all
  show "distinct keys" by (rule d(1) [unfolded e])
  show "set keys = set items" by (rule d(2) [unfolded e])
  show "list_all (\<lambda>i. i < length keys) idx \<and> map (\<lambda>i. keys ! i) idx = items" by (rule d(3) [unfolded e])
qed

end
