(* ===== verification/Embedding.thy ===== *)
theory Embedding
  imports Utils Updaters Uniquifier
begin

text \<open>
  \<open>python/metaspore/embedding.py\<close>: the embedding operators. An operator turns a minibatch into hash
  codes (\<open>combine\<close>), the codes into distinct keys and positions, waits for the rows of the keys to be
  pulled from the parameter servers, and reduces the rows of each feature's codes (\<open>compute\<close>). The three
  classes differ in their overridden hooks, which is a case distinction on \<open>op_kind\<close> here. The feature
  extractor (C++), the object store and torch's reduction of a bag are arguments. An exception leaves
  the operator in a state the model does not describe.
\<close>

section \<open>State\<close>

text \<open>A minibatch gives the hash codes of all features and the offset at which each bag begins.\<close>

record 'b extractor =
  feature_count :: nat
  extract_codes :: "'b \<Rightarrow> 64 word list \<times> nat list"

datatype op_kind = SumConcat | RangeSum | LookupOnly

datatype op_output = ScalarZero | Zeros nat nat | LookupZeros nat | Rows tensor | LookupRows tensor "nat list"

text \<open>An argument that must be \<open>None\<close> or an instance of a class.\<close>

datatype 'a arg = ANone | AGood 'a | ABad

record ('b, 'u, 'i) emb_op =
  op_kind :: op_kind
  embedding_size :: "int option"
  combine_schema_source :: "string option"
  combine_schema_file_path :: "string option"
  op_dtype :: string
  requires_grad :: bool
  op_updater :: "'u option"
  op_initializer :: "'i option"
  is_backing :: bool
  is_exported :: bool
  output_batchsize1_if_only_level0 :: bool
  use_nan_fill :: bool
  save_as_text :: bool
  embedding_bag_mode :: string
  feature_extractor :: "'b extractor option"
  second_dim :: nat
  bag_mode :: string
  indices :: "nat list option"
  indices_meta :: "nat list option"
  op_keys :: "64 word list option"
  op_data :: "tensor option"
  op_output :: op_output

record 'b emb_env =
  file_exists_at :: "string \<Rightarrow> bool"
  read_all :: "string \<Rightarrow> string res"
  load_schema :: "string \<Rightarrow> 'b extractor res"
  reduce_bags :: "string \<Rightarrow> tensor \<Rightarrow> nat list \<Rightarrow> tensor"

section \<open>Attributes that can be set once\<close>

definition check_embedding_size :: "pyval \<Rightarrow> int option res" where
  "check_embedding_size v =
     (if v = PNone then Inr None
      else raise_if (\<not> is_pos_int v) TypeError (Inr (as_int v)))"

definition set_embedding_size :: "pyval \<Rightarrow> ('b, 'u, 'i) emb_op \<Rightarrow> ('b, 'u, 'i) emb_op res" where
  "set_embedding_size v op =
     bindR (check_embedding_size v) (\<lambda>e.
     raise_if (embedding_size op \<noteq> None) RuntimeError (Inr (op\<lparr>embedding_size := e\<rparr>)))"

definition checked_get_embedding_size :: "('b, 'u, 'i) emb_op \<Rightarrow> int res" where
  "checked_get_embedding_size op =
     (case embedding_size op of None \<Rightarrow> Inl RuntimeError | Some e \<Rightarrow> Inr e)"

definition set_combine_schema_file_path ::
  "'b emb_env \<Rightarrow> pyval \<Rightarrow> ('b, 'u, 'i) emb_op \<Rightarrow> ('b, 'u, 'i) emb_op res" where
  "set_combine_schema_file_path env v op =
     raise_if (v \<noteq> PNone \<and> \<not> is_str v) TypeError
     (raise_if (combine_schema_file_path op \<noteq> None) RuntimeError
     (case v of
        PStr s \<Rightarrow>
          if is_url s then
            let path = use_s3 s in
            raise_if (\<not> file_exists_at env path) RuntimeError
            (bindR (read_all env path) (\<lambda>src.
             Inr (op\<lparr>combine_schema_source := Some src, combine_schema_file_path := Some path\<rparr>)))
          else Inr (op\<lparr>combine_schema_source := Some s, combine_schema_file_path := Some ''<string>''\<rparr>)
      | _ \<Rightarrow> Inr (op\<lparr>combine_schema_source := None, combine_schema_file_path := None\<rparr>)))"

definition set_combine_schema_source ::
  "'b emb_env \<Rightarrow> pyval \<Rightarrow> ('b, 'u, 'i) emb_op \<Rightarrow> ('b, 'u, 'i) emb_op res" where
  "set_combine_schema_source env v op =
     raise_if (v \<noteq> PNone \<and> \<not> is_str v) TypeError
     (raise_if (combine_schema_source op \<noteq> None) RuntimeError
     (set_combine_schema_file_path env v op))"

definition checked_get_combine_schema_source :: "('b, 'u, 'i) emb_op \<Rightarrow> string res" where
  "checked_get_combine_schema_source op =
     (case combine_schema_source op of None \<Rightarrow> Inl RuntimeError | Some s \<Rightarrow> Inr s)"

definition set_updater :: "'u arg \<Rightarrow> ('b, 'u, 'i) emb_op \<Rightarrow> ('b, 'u, 'i) emb_op res" where
  "set_updater v op =
     raise_if (v = ABad) TypeError
     (raise_if (op_updater op \<noteq> None) RuntimeError
     (Inr (op\<lparr>op_updater := (case v of AGood u \<Rightarrow> Some u | _ \<Rightarrow> None)\<rparr>)))"

definition set_initializer :: "'i arg \<Rightarrow> ('b, 'u, 'i) emb_op \<Rightarrow> ('b, 'u, 'i) emb_op res" where
  "set_initializer v op =
     raise_if (v = ABad) TypeError
     (raise_if (op_initializer op \<noteq> None) RuntimeError
     (Inr (op\<lparr>op_initializer := (case v of AGood u \<Rightarrow> Some u | _ \<Rightarrow> None)\<rparr>)))"

section \<open>Schema and cleaning\<close>

definition load_combine_schema :: "'b emb_env \<Rightarrow> ('b, 'u, 'i) emb_op \<Rightarrow> ('b, 'u, 'i) emb_op res" where
  "load_combine_schema env op =
     raise_if (feature_extractor op \<noteq> None) RuntimeError
     (bindR (checked_get_combine_schema_source op) (\<lambda>src.
      bindR (load_schema env src) (\<lambda>x. Inr (op\<lparr>feature_extractor := Some x\<rparr>))))"

definition ensure_combine_schema_loaded :: "'b emb_env \<Rightarrow> ('b, 'u, 'i) emb_op \<Rightarrow> ('b, 'u, 'i) emb_op res" where
  "ensure_combine_schema_loaded env op =
     (if feature_extractor op = None then load_combine_schema env op else Inr op)"

definition op_feature_count :: "('b, 'u, 'i) emb_op \<Rightarrow> nat res" where
  "op_feature_count op =
     (case feature_extractor op of None \<Rightarrow> Inl RuntimeError | Some x \<Rightarrow> Inr (feature_count x))"

definition is_clean :: "('b, 'u, 'i) emb_op \<Rightarrow> bool" where
  "is_clean op \<longleftrightarrow> indices op = None \<and> indices_meta op = None \<and> op_keys op = None \<and> op_data op = None"

text \<open>\<open>_clean\<close> of the base class, then the zeros of the right shape that the subclasses put in place.\<close>

definition base_clean :: "('b, 'u, 'i) emb_op \<Rightarrow> ('b, 'u, 'i) emb_op" where
  "base_clean op = op\<lparr>indices := None, indices_meta := None, op_keys := None, op_data := None,
     op_output := ScalarZero\<rparr>"

definition clean :: "('b, 'u, 'i) emb_op \<Rightarrow> ('b, 'u, 'i) emb_op res" where
  "clean op =
     (let op = base_clean op in
      case op_kind op of
        SumConcat \<Rightarrow> bindR (op_feature_count op) (\<lambda>fc.
          case embedding_size op of None \<Rightarrow> Inl TypeError
          | Some e \<Rightarrow> Inr (op\<lparr>op_output := Zeros 2 (fc * nat e)\<rparr>))
      | RangeSum \<Rightarrow>
          (case embedding_size op of None \<Rightarrow> Inl TypeError
           | Some e \<Rightarrow> Inr (op\<lparr>op_output := Zeros 2 (nat e)\<rparr>))
      | LookupOnly \<Rightarrow>
          (case embedding_size op of None \<Rightarrow> Inl TypeError
           | Some e \<Rightarrow> Inr (op\<lparr>op_output := LookupZeros (nat e)\<rparr>)))"

definition check_clean :: "('b, 'u, 'i) emb_op \<Rightarrow> unit res" where
  "check_clean op = raise_if (op_keys op = None \<and> \<not> is_clean op) RuntimeError (Inr ())"

definition valid_mode :: "string \<Rightarrow> bool" where
  "valid_mode mode \<longleftrightarrow> mode \<in> {''mean'', ''sum'', ''max''}"

section \<open>Construction\<close>

text \<open>The schema argument: nothing, a \<open>SparseFeatureGroup\<close> with its source, or any other value.\<close>

datatype schema_arg = SchemaGroup string | SchemaValue pyval

record ('u, 'i) op_args =
  arg_embedding_size :: pyval
  arg_schema_source :: schema_arg
  arg_schema_file_path :: pyval
  arg_dtype :: string
  arg_requires_grad :: bool
  arg_updater :: "'u arg"
  arg_initializer :: "'i arg"
  arg_batchsize1 :: bool
  arg_use_nan_fill :: bool
  arg_save_as_text :: bool
  arg_mode :: string

text \<open>The fields as the constructor first assigns them, before a schema is attached.\<close>

definition initial_op :: "op_kind \<Rightarrow> int option \<Rightarrow> ('u, 'i) op_args \<Rightarrow> ('b, 'u, 'i) emb_op" where
  "initial_op kind e a =
     \<lparr>op_kind = kind, embedding_size = e, combine_schema_source = None,
      combine_schema_file_path = None, op_dtype = arg_dtype a, requires_grad = arg_requires_grad a,
      op_updater = (case arg_updater a of AGood u \<Rightarrow> Some u | _ \<Rightarrow> None),
      op_initializer = (case arg_initializer a of AGood u \<Rightarrow> Some u | _ \<Rightarrow> None),
      is_backing = False, is_exported = True,
      output_batchsize1_if_only_level0 = arg_batchsize1 a, use_nan_fill = arg_use_nan_fill a,
      save_as_text = arg_save_as_text a, embedding_bag_mode = arg_mode a,
      feature_extractor = None, second_dim = 0, bag_mode = [], indices = None, indices_meta = None,
      op_keys = None, op_data = None, op_output = ScalarZero\<rparr>"

definition schema_value :: "('u, 'i) op_args \<Rightarrow> pyval res" where
  "schema_value a =
     (case arg_schema_source a of
        SchemaGroup s \<Rightarrow> raise_if (arg_schema_file_path a \<noteq> PNone) ValueError (Inr (PStr s))
      | SchemaValue v \<Rightarrow> Inr v)"

definition attach_schema ::
  "'b emb_env \<Rightarrow> pyval \<Rightarrow> pyval \<Rightarrow> ('b, 'u, 'i) emb_op \<Rightarrow> ('b, 'u, 'i) emb_op res" where
  "attach_schema env path src op =
     bindR (if path \<noteq> PNone then set_combine_schema_file_path env path op
            else if src \<noteq> PNone then set_combine_schema_source env src op
            else Inr op) (\<lambda>op.
     if combine_schema_source op \<noteq> None then load_combine_schema env op else Inr op)"

definition new_op :: "'b emb_env \<Rightarrow> op_kind \<Rightarrow> ('u, 'i) op_args \<Rightarrow> ('b, 'u, 'i) emb_op res" where
  "new_op env kind a =
     bindR (check_embedding_size (arg_embedding_size a)) (\<lambda>e.
     bindR (schema_value a) (\<lambda>src.
     raise_if (arg_dtype a \<notin> {''torch.float32'', ''torch.float64''}) TypeError
     (raise_if (arg_updater a = ABad) TypeError
     (raise_if (arg_initializer a = ABad) TypeError
     (raise_if (\<not> valid_mode (arg_mode a)) ValueError
     (bindR (attach_schema env (arg_schema_file_path a) src (initial_op kind e a)) (\<lambda>op.
      bindR (op_feature_count op) (\<lambda>fc.
      case embedding_size op of None \<Rightarrow> Inl TypeError
      | Some e \<Rightarrow> clean (op\<lparr>second_dim := fc * nat e, bag_mode := embedding_bag_mode op\<rparr>)))))))))"

section \<open>Keys and data\<close>

definition get_keys :: "('b, 'u, 'i) emb_op \<Rightarrow> 64 word list option res" where
  "get_keys op = bindR (check_clean op) (\<lambda>_. Inr (op_keys op))"

definition get_keys_and_data :: "('b, 'u, 'i) emb_op \<Rightarrow> (64 word list \<times> tensor) option res" where
  "get_keys_and_data op =
     bindR (check_clean op) (\<lambda>_.
     case (op_keys op, op_data op) of
       (None, None) \<Rightarrow> Inr None
     | (Some ks, Some d) \<Rightarrow> Inr (Some (ks, d))
     | _ \<Rightarrow> Inl RuntimeError)"

text \<open>
  A numpy array as far as the checks look at it: its type's name, its shape and its rows. An array
  whose second dimension is not that of its rows' length is not described.
\<close>

record nd_array =
  nd_dtype :: string
  nd_shape :: "nat list"
  nd_rows :: tensor

text \<open>The part of a name after its last dot, \<open>rpartition('.')[-1]\<close>.\<close>

definition last_component :: "string \<Rightarrow> string" where
  "last_component s = rev (takeWhile (\<lambda>c. c \<noteq> CHR ''.'') (rev s))"

definition check_dtype_and_shape :: "64 word list \<Rightarrow> nd_array \<Rightarrow> ('b, 'u, 'i) emb_op \<Rightarrow> unit res" where
  "check_dtype_and_shape ks arr op =
     raise_if (nd_dtype arr \<noteq> last_component (op_dtype op)) TypeError
     (bindR (checked_get_embedding_size op) (\<lambda>e.
      raise_if (nd_shape arr \<noteq> [length ks, nat e]) RuntimeError (Inr ())))"

definition update_data :: "nd_array \<Rightarrow> ('b, 'u, 'i) emb_op \<Rightarrow> ('b, 'u, 'i) emb_op" where
  "update_data arr op = op\<lparr>op_data := Some (nd_rows arr)\<rparr>"

text \<open>
  The values assigned to \<open>keys_and_data\<close>: \<open>None\<close>, a pair whose parts may be \<open>None\<close>, or another value;
  \<open>KBad\<close> is an array that is not one-dimensional with a 64-bit integer type, \<open>DBad\<close> no array at all.
\<close>

datatype keys_arg = KNone | KArray "64 word list" | KBad
datatype data_arg = DNone | DArray nd_array | DBad
datatype kd_arg = KDNone | KDPair keys_arg data_arg | KDOther

text \<open>The setter tests \<open>value is None\<close> where it has just unpacked \<open>value\<close>, which is never true there.\<close>

fun set_keys_and_data :: "kd_arg \<Rightarrow> ('b, 'u, 'i) emb_op \<Rightarrow> ('b, 'u, 'i) emb_op res" where
  "set_keys_and_data KDNone op = clean op"
| "set_keys_and_data KDOther op = Inl TypeError"
| "set_keys_and_data (KDPair KNone d) op = Inl RuntimeError"
| "set_keys_and_data (KDPair (KArray ks) DNone) op = Inl RuntimeError"
| "set_keys_and_data (KDPair KBad DNone) op = Inl RuntimeError"
| "set_keys_and_data (KDPair KBad d) op = Inl TypeError"
| "set_keys_and_data (KDPair (KArray ks) DBad) op = Inl TypeError"
| "set_keys_and_data (KDPair (KArray ks) (DArray arr)) op =
     bindR (check_dtype_and_shape ks arr op) (\<lambda>_.
     bindR (clean op) (\<lambda>op. Inr (update_data arr (op\<lparr>op_keys := Some ks\<rparr>))))"

section \<open>The combine step\<close>

text \<open>\<open>offsets[::n]\<close>, which raises \<open>ValueError\<close> for a zero step.\<close>

definition stride :: "nat \<Rightarrow> 'a list \<Rightarrow> 'a list" where
  "stride n xs = map (\<lambda>i. xs ! (i * n)) [0..<(length xs + n - 1) div n]"

definition combine_to_indices_and_offsets ::
  "'b \<Rightarrow> bool \<Rightarrow> ('b, 'u, 'i) emb_op \<Rightarrow> (64 word list \<times> nat list) res" where
  "combine_to_indices_and_offsets batch feature_offset op =
     (case feature_extractor op of
        None \<Rightarrow> Inl AttributeError
      | Some x \<Rightarrow>
          (case extract_codes x batch of (codes, offsets) \<Rightarrow>
             if feature_offset then Inr (codes, offsets)
             else raise_if (feature_count x = 0) ValueError (Inr (codes, stride (feature_count x) offsets))))"

definition do_combine :: "'b \<Rightarrow> ('b, 'u, 'i) emb_op \<Rightarrow> (64 word list \<times> nat list) res" where
  "do_combine batch op = combine_to_indices_and_offsets batch (op_kind op \<noteq> RangeSum) op"

definition combine :: "'b emb_env \<Rightarrow> 'b \<Rightarrow> ('b, 'u, 'i) emb_op \<Rightarrow> ('b, 'u, 'i) emb_op res" where
  "combine env batch op =
     bindR (clean op) (\<lambda>op.
     bindR (ensure_combine_schema_loaded env op) (\<lambda>op.
     bindR (do_combine batch op) (\<lambda>(codes, meta).
     case uniquify_hash_codes codes of
       None \<Rightarrow> Inl IndexError
     | Some (ks, idx) \<Rightarrow> Inr (op\<lparr>indices := Some idx, indices_meta := Some meta, op_keys := Some ks\<rparr>))))"

section \<open>The compute step\<close>

text \<open>\<open>embs.reshape(rows, width)\<close> of a matrix.\<close>

definition reshape :: "nat \<Rightarrow> nat \<Rightarrow> tensor \<Rightarrow> tensor res" where
  "reshape rows width t =
     raise_if (length (concat t) \<noteq> rows * width) RuntimeError
     (Inr (map (\<lambda>i. take width (drop (i * width) (concat t))) [0..<rows]))"

text \<open>
  \<open>torch.nn.functional.embedding_bag\<close>: the rows at the positions, which must exist, are reduced bag by
  bag; the reduction is the argument. \<open>EmbeddingBagModule.forward\<close> reshapes its result.
\<close>

definition embedding_bag :: "'b emb_env \<Rightarrow> string \<Rightarrow> nat list \<Rightarrow> tensor option \<Rightarrow> nat list \<Rightarrow> tensor res" where
  "embedding_bag env mode input weight offsets =
     (case weight of
        None \<Rightarrow> Inl TypeError
      | Some w \<Rightarrow> raise_if (\<not> list_all (\<lambda>i. i < length w) input) IndexError
                  (Inr (reduce_bags env mode (gather w input) offsets)))"

definition bag_forward ::
  "'b emb_env \<Rightarrow> nat list \<Rightarrow> tensor option \<Rightarrow> nat list \<Rightarrow> nat \<Rightarrow> ('b, 'u, 'i) emb_op \<Rightarrow> tensor res" where
  "bag_forward env input weight offsets batch_size op =
     bindR (embedding_bag env (bag_mode op) input weight offsets) (reshape batch_size (second_dim op))"

definition compute_sum_concat :: "'b emb_env \<Rightarrow> ('b, 'u, 'i) emb_op \<Rightarrow> op_output res" where
  "compute_sum_concat env op =
     raise_if (\<not> valid_mode (embedding_bag_mode op)) ValueError
     (bindR (op_feature_count op) (\<lambda>fc.
      case indices_meta op of
        None \<Rightarrow> Inl TypeError
      | Some meta \<Rightarrow>
          raise_if (fc = 0) ZeroDivisionError
          (bindR (checked_get_embedding_size op) (\<lambda>_.
           case indices op of
             None \<Rightarrow> Inl AttributeError
           | Some idx \<Rightarrow>
               bindR (bag_forward env idx (op_data op) meta (length meta div fc) op) (\<lambda>t. Inr (Rows t))))))"

definition compute_embedding_prepare :: "('b, 'u, 'i) emb_op \<Rightarrow> (nat \<times> int \<times> nat list \<times> nat list) res" where
  "compute_embedding_prepare op =
     (case indices_meta op of
        None \<Rightarrow> Inl AttributeError
      | Some meta \<Rightarrow>
          bindR (checked_get_embedding_size op) (\<lambda>e.
          case indices op of
            None \<Rightarrow> Inl AttributeError
          | Some idx \<Rightarrow> Inr (length meta, e, idx, meta)))"

definition compute_range_sum :: "'b emb_env \<Rightarrow> ('b, 'u, 'i) emb_op \<Rightarrow> op_output res" where
  "compute_range_sum env op =
     raise_if (\<not> valid_mode (embedding_bag_mode op)) ValueError
     (bindR (compute_embedding_prepare op) (\<lambda>(n, e, idx, meta).
      bindR (bag_forward env idx (op_data op) meta n op) (\<lambda>t. Inr (Rows t))))"

definition compute_embedding_lookup :: "('b, 'u, 'i) emb_op \<Rightarrow> op_output res" where
  "compute_embedding_lookup op =
     bindR (compute_embedding_prepare op) (\<lambda>(n, e, idx, meta).
     case op_data op of
       None \<Rightarrow> Inl TypeError
     | Some w \<Rightarrow>
         raise_if (\<not> list_all (\<lambda>i. i < length w) idx) IndexError
         (raise_if (\<not> list_all (\<lambda>r. length r = nat e) (gather w idx)) RuntimeError
         (Inr (LookupRows (gather w idx) meta))))"

definition do_compute :: "'b emb_env \<Rightarrow> ('b, 'u, 'i) emb_op \<Rightarrow> op_output res" where
  "do_compute env op =
     (case op_kind op of
        SumConcat \<Rightarrow> compute_sum_concat env op
      | RangeSum \<Rightarrow> compute_range_sum env op
      | LookupOnly \<Rightarrow> compute_embedding_lookup op)"

definition compute :: "'b emb_env \<Rightarrow> ('b, 'u, 'i) emb_op \<Rightarrow> ('b, 'u, 'i) emb_op res" where
  "compute env op =
     raise_if (is_clean op) RuntimeError
     (bindR (do_compute env op) (\<lambda>out. Inr (op\<lparr>op_output := out\<rparr>)))"

section \<open>The invariant of an operator\<close>

definition op_ok :: "('b, 'u, 'i) emb_op \<Rightarrow> bool" where
  "op_ok op \<longleftrightarrow>
     (case (embedding_size op, feature_extractor op) of
        (Some e, Some x) \<Rightarrow> 0 < e \<and> second_dim op = feature_count x * nat e
      | _ \<Rightarrow> False) \<and>
     combine_schema_source op \<noteq> None \<and> combine_schema_file_path op \<noteq> None \<and>
     (op_keys op = None \<longrightarrow> is_clean op)"

text \<open>What a user of the operator can do to it between two exceptions.\<close>

inductive op_step :: "'b emb_env \<Rightarrow> ('b, 'u, 'i) emb_op \<Rightarrow> ('b, 'u, 'i) emb_op \<Rightarrow> bool" for env where
  step_clean: "clean op = Inr op' \<Longrightarrow> op_step env op op'"
| step_combine: "combine env batch op = Inr op' \<Longrightarrow> op_step env op op'"
| step_pulled: "op_keys op = Some ks \<Longrightarrow> check_dtype_and_shape ks arr op = Inr () \<Longrightarrow>
    op_step env op (update_data arr op)"
| step_compute: "compute env op = Inr op' \<Longrightarrow> op_step env op op'"
| step_set: "set_keys_and_data v op = Inr op' \<Longrightarrow> op_step env op op'"
| step_size: "set_embedding_size v op = Inr op' \<Longrightarrow> op_step env op op'"
| step_path: "set_combine_schema_file_path env v op = Inr op' \<Longrightarrow> op_step env op op'"
| step_source: "set_combine_schema_source env v op = Inr op' \<Longrightarrow> op_step env op op'"
| step_mode: "op_step env op (op\<lparr>embedding_bag_mode := mode\<rparr>)"
| step_backing: "op_step env op (op\<lparr>is_backing := b\<rparr>)"

inductive op_reach :: "'b emb_env \<Rightarrow> ('b, 'u, 'i) emb_op \<Rightarrow> ('b, 'u, 'i) emb_op \<Rightarrow> bool" for env op0 where
  reach_refl: "op_reach env op0 op0"
| reach_step: "op_reach env op0 op \<Longrightarrow> op_step env op op' \<Longrightarrow> op_reach env op0 op'"

text \<open>The fields that cleaning leaves alone.\<close>

definition op_config :: "('b, 'u, 'i) emb_op \<Rightarrow>
    op_kind \<times> int option \<times> 'b extractor option \<times> nat \<times> string option \<times> string option \<times> string \<times> string" where
  "op_config op = (op_kind op, embedding_size op, feature_extractor op, second_dim op, combine_schema_source op,
     combine_schema_file_path op, embedding_bag_mode op, bag_mode op)"

lemma op_config_iff:
  "op_config a = op_config b \<longleftrightarrow> op_kind a = op_kind b \<and> embedding_size a = embedding_size b \<and>
     feature_extractor a = feature_extractor b \<and> second_dim a = second_dim b \<and>
     combine_schema_source a = combine_schema_source b \<and>
     combine_schema_file_path a = combine_schema_file_path b \<and> embedding_bag_mode a = embedding_bag_mode b \<and> bag_mode a = bag_mode b"
  by (auto simp: op_config_def)

lemma clean_result:
  assumes "clean op = Inr op'"
  shows "is_clean op'" "op_config op' = op_config op" "op_dtype op' = op_dtype op"
  using assms
  by (auto simp: clean_def base_clean_def is_clean_def op_config_def op_feature_count_def Let_def
      split: op_kind.splits option.splits)

lemma op_ok_config:
  "op_ok op \<Longrightarrow> op_config op' = op_config op \<Longrightarrow> op_keys op' = None \<longrightarrow> is_clean op' \<Longrightarrow> op_ok op'"
  by (auto simp: op_ok_def op_config_iff split: option.splits)

lemma clean_keeps_ok:
  assumes "clean op = Inr op'" "op_ok op"
  shows "op_ok op'"
  using clean_result(1) [OF assms(1)] by (intro op_ok_config [OF assms(2) clean_result(2) [OF assms(1)]]) simp

lemma clean_ok: "op_ok op \<Longrightarrow> \<exists>op'. clean op = Inr op'"
  by (auto simp: op_ok_def clean_def base_clean_def op_feature_count_def Let_def
      split: op_kind.splits option.splits)

lemma combine_result:
  assumes "combine env batch op = Inr op'" "op_ok op"
  shows "op_ok op' \<and> op_config op' = op_config op \<and> op_data op' = None \<and>
    (\<exists>codes meta ks idx. do_combine batch op = Inr (codes, meta) \<and> uniquify_hash_codes codes = Some (ks, idx) \<and>
      indices op' = Some idx \<and> indices_meta op' = Some meta \<and> op_keys op' = Some ks)"
proof -
  obtain o1 where o1: "clean op = Inr o1" using clean_ok assms(2) by blast
  note c = clean_result [OF o1]
  have ok1: "op_ok o1" using clean_keeps_ok [OF o1 assms(2)] .
  then have x: "feature_extractor o1 \<noteq> None" by (auto simp: op_ok_def split: option.splits)
  have dc: "do_combine batch o1 = do_combine batch op"
    using c(2) by (simp add: do_combine_def combine_to_indices_and_offsets_def op_config_iff)
  from assms(1) x obtain codes meta ks idx where r: "do_combine batch op = Inr (codes, meta)"
    "uniquify_hash_codes codes = Some (ks, idx)"
    "op' = o1\<lparr>indices := Some idx, indices_meta := Some meta, op_keys := Some ks\<rparr>"
    by (auto simp: combine_def o1 ensure_combine_schema_loaded_def dc bindR_Inr_iff split: option.splits prod.splits)
  have "op_config op' = op_config op" using c(2) by (simp add: r(3) op_config_def)
  moreover have "op_ok op'" using op_ok_config [OF ok1, of op'] by (simp add: r(3) op_config_def)
  moreover have "op_data op' = None" using c(1) by (simp add: r(3) is_clean_def)
  moreover have "indices op' = Some idx" "indices_meta op' = Some meta" "op_keys op' = Some ks" by (simp_all add: r(3))
  ultimately show ?thesis using r(1,2) by blast
qed

lemma set_keys_and_data_config:
  assumes "set_keys_and_data v op = Inr op'"
  shows "op_config op' = op_config op \<and> (op_keys op' = None \<longrightarrow> is_clean op')"
proof (cases v)
  case KDNone
  then have "clean op = Inr op'" using assms by simp
  then show ?thesis using clean_result by auto
next
  case (KDPair k d)
  then obtain ks arr where "k = KArray ks" "d = DArray arr" using assms by (cases k; cases d) auto
  then obtain o1 where o1: "clean op = Inr o1" "op' = update_data arr (o1\<lparr>op_keys := Some ks\<rparr>)"
    using assms KDPair by (auto simp: bindR_Inr_iff)
  show ?thesis using clean_result(2) [OF o1(1)] by (simp add: o1(2) update_data_def op_config_def)
qed (use assms in simp)

lemma set_keys_and_data_result:
  assumes "set_keys_and_data v op = Inr op'" "op_ok op"
  shows "op_ok op'"
  using set_keys_and_data_config [OF assms(1)] by (intro op_ok_config [OF assms(2)]) simp_all

text \<open>Fields that are set can not be reset.\<close>

lemma set_once:
  "embedding_size op \<noteq> None \<Longrightarrow> set_embedding_size v op \<noteq> Inr op'"
  "combine_schema_file_path op \<noteq> None \<Longrightarrow> set_combine_schema_file_path env w op \<noteq> Inr op'"
  "combine_schema_source op \<noteq> None \<Longrightarrow> set_combine_schema_source env w op \<noteq> Inr op'"
  by (auto simp: set_embedding_size_def set_combine_schema_file_path_def set_combine_schema_source_def res_iffs)

lemma op_step_ok:
  assumes "op_step env op op'" "op_ok op"
  shows "op_ok op'"
  using assms(1)
proof cases
  case step_clean
  then show ?thesis by (rule clean_keeps_ok [OF _ assms(2)])
next
  case (step_combine batch)
  then show ?thesis using combine_result [OF _ assms(2)] by simp
next
  case (step_pulled ks arr)
  then show ?thesis using op_ok_config [OF assms(2), of op'] by (simp add: update_data_def op_config_def)
next
  case step_compute
  then obtain out where "op' = op\<lparr>op_output := out\<rparr>" by (auto simp: compute_def res_iffs)
  then show ?thesis
    using assms(2) by (intro op_ok_config [OF assms(2)]) (simp_all add: op_config_def op_ok_def is_clean_def)
next
  case (step_set v)
  then show ?thesis by (rule set_keys_and_data_result [OF _ assms(2)])
qed (use assms(2) in \<open>auto simp: op_ok_def is_clean_def set_once split: option.splits\<close>)

lemma op_reach_ok: "op_reach env op0 op \<Longrightarrow> op_ok op0 \<Longrightarrow> op_ok op"
  by (induction rule: op_reach.induct) (auto dest: op_step_ok)

lemma op_step_config:
  assumes "op_step env op op'" "op_ok op"
  shows "op_kind op' = op_kind op \<and> embedding_size op' = embedding_size op \<and>
    feature_extractor op' = feature_extractor op \<and> combine_schema_source op' = combine_schema_source op \<and>
    bag_mode op' = bag_mode op"
  using assms(1)
proof cases
  case step_clean
  then show ?thesis using clean_result(2) [of op op'] by (simp add: op_config_iff)
next
  case (step_combine batch)
  then show ?thesis using combine_result [OF _ assms(2)] by (simp add: op_config_iff)
next
  case step_compute
  then obtain out where "op' = op\<lparr>op_output := out\<rparr>" by (auto simp: compute_def res_iffs)
  then show ?thesis by simp
next
  case (step_set v)
  show ?thesis using set_keys_and_data_config [OF step_set] by (simp add: op_config_iff)
qed (use assms(2) in \<open>auto simp: op_ok_def update_data_def set_once split: option.splits\<close>)

lemma op_reach_config:
  "op_reach env op0 op \<Longrightarrow> op_ok op0 \<Longrightarrow> op_kind op = op_kind op0 \<and> embedding_size op = embedding_size op0 \<and>
    feature_extractor op = feature_extractor op0 \<and> combine_schema_source op = combine_schema_source op0 \<and>
    bag_mode op = bag_mode op0"
proof (induction rule: op_reach.induct)
  case (reach_step op op')
  then show ?case using op_step_config [OF reach_step.hyps(2)] op_reach_ok [OF reach_step.hyps(1)] by simp
qed simp

lemma set_path_result:
  assumes "set_combine_schema_file_path env v op = Inr op'" "v \<noteq> PNone"
  shows "combine_schema_source op' \<noteq> None \<and> combine_schema_file_path op' \<noteq> None \<and>
    embedding_size op' = embedding_size op \<and> feature_extractor op' = feature_extractor op \<and>
    op_kind op' = op_kind op \<and> embedding_bag_mode op' = embedding_bag_mode op"
  using assms
  by (cases v) (auto simp: set_combine_schema_file_path_def res_iffs Let_def split: if_splits)

lemma attach_schema_result:
  assumes "attach_schema env path src op = Inr op'" "feature_extractor op = None" "combine_schema_source op = None"
  shows "embedding_size op' = embedding_size op \<and> op_kind op' = op_kind op \<and>
    embedding_bag_mode op' = embedding_bag_mode op \<and>
    (feature_extractor op' \<noteq> None \<longrightarrow>
       combine_schema_file_path op' \<noteq> None \<and> (path \<noteq> PNone \<or> src \<noteq> PNone) \<and>
       (\<exists>s x. combine_schema_source op' = Some s \<and> load_schema env s = Inr x \<and> feature_extractor op' = Some x))"
proof -
  obtain op1 where op1: "(if path \<noteq> PNone then set_combine_schema_file_path env path op
            else if src \<noteq> PNone then set_combine_schema_source env src op else Inr op) = Inr op1"
    and l: "(if combine_schema_source op1 \<noteq> None then load_combine_schema env op1 else Inr op1) = Inr op'"
    using assms(1) by (auto simp: attach_schema_def bindR_Inr_iff)
  consider (none) "op1 = op" "path = PNone" "src = PNone"
    | (set) v where "v \<noteq> PNone" "path \<noteq> PNone \<or> src \<noteq> PNone" "set_combine_schema_file_path env v op = Inr op1"
    using op1 by (auto simp: set_combine_schema_source_def res_iffs split: if_splits)
  then show ?thesis
  proof cases
    case none
    then show ?thesis using l assms(2,3) by simp
  next
    case set
    from set_path_result [OF set(3,1)] l set(2) assms(2) show ?thesis
      by (auto simp: load_combine_schema_def checked_get_combine_schema_source_def res_iffs)
  qed
qed

lemma check_embedding_size_pos:
  "check_embedding_size v = Inr (Some e) \<Longrightarrow> is_pos_int v \<and> 0 < e"
  by (cases "as_int v") (auto simp: check_embedding_size_def is_pos_int_def raise_if_def split: if_splits)

lemma new_op_result:
  assumes "new_op env kind a = Inr op"
  shows "\<exists>e src op1 x. check_embedding_size (arg_embedding_size a) = Inr (Some e) \<and> schema_value a = Inr src \<and>
    attach_schema env (arg_schema_file_path a) src (initial_op kind (Some e) a) = Inr op1 \<and>
    feature_extractor op1 = Some x \<and> valid_mode (arg_mode a) \<and>
    clean (op1\<lparr>second_dim := feature_count x * nat e, bag_mode := embedding_bag_mode op1\<rparr>) = Inr op"
proof -
  from assms obtain e src op1 fc where n: "check_embedding_size (arg_embedding_size a) = Inr e"
    "schema_value a = Inr src" "valid_mode (arg_mode a)"
    "attach_schema env (arg_schema_file_path a) src (initial_op kind e a) = Inr op1"
    "op_feature_count op1 = Inr fc"
    "(case embedding_size op1 of None \<Rightarrow> Inl TypeError | Some e \<Rightarrow>
       clean (op1\<lparr>second_dim := fc * nat e, bag_mode := embedding_bag_mode op1\<rparr>)) = Inr op"
    by (auto simp: new_op_def res_iffs)
  obtain x where x: "feature_extractor op1 = Some x" "fc = feature_count x"
    using n(5) by (auto simp: op_feature_count_def split: option.splits)
  have "embedding_size op1 = e"
    using attach_schema_result [OF n(4)] by (simp add: initial_op_def)
  then show ?thesis using n x by (auto split: option.splits)
qed

lemma constructed_operator_facts:
  assumes "new_op env kind a = Inr op"
  shows "op_ok op \<and> is_clean op \<and> op_kind op = kind \<and> valid_mode (embedding_bag_mode op) \<and>
    is_pos_int (arg_embedding_size a) \<and>
    (\<exists>s x. combine_schema_source op = Some s \<and> load_schema env s = Inr x \<and> feature_extractor op = Some x) \<and>
    (arg_schema_file_path a \<noteq> PNone \<or> arg_schema_source a \<noteq> SchemaValue PNone) \<and> bag_mode op = arg_mode a"
proof -
  obtain e src op1 x where e: "check_embedding_size (arg_embedding_size a) = Inr (Some e)"
    and src: "schema_value a = Inr src"
    and at: "attach_schema env (arg_schema_file_path a) src (initial_op kind (Some e) a) = Inr op1"
    and x: "feature_extractor op1 = Some x" and mode: "valid_mode (arg_mode a)"
    and c: "clean (op1\<lparr>second_dim := feature_count x * nat e, bag_mode := embedding_bag_mode op1\<rparr>) = Inr op"
    using new_op_result [OF assms] by blast
  have r: "embedding_size op1 = Some e" "op_kind op1 = kind" "embedding_bag_mode op1 = arg_mode a"
    "combine_schema_file_path op1 \<noteq> None" "arg_schema_file_path a \<noteq> PNone \<or> src \<noteq> PNone"
    "\<exists>s. combine_schema_source op1 = Some s \<and> load_schema env s = Inr x"
    using attach_schema_result [OF at] x by (simp_all add: initial_op_def)
  have e0: "is_pos_int (arg_embedding_size a)" "0 < e"
    using check_embedding_size_pos [OF e] by blast+
  have cfg: "op_config op = op_config (op1\<lparr>second_dim := feature_count x * nat e, bag_mode := embedding_bag_mode op1\<rparr>)" and cl: "is_clean op"
    using clean_result [OF c] by simp_all
  obtain s where s: "combine_schema_source op1 = Some s" "load_schema env s = Inr x" using r(6) by blast
  have f: "op_kind op = kind" "embedding_size op = Some e" "feature_extractor op = Some x"
    "second_dim op = feature_count x * nat e" "combine_schema_source op = Some s"
    "combine_schema_file_path op \<noteq> None" "embedding_bag_mode op = arg_mode a" "bag_mode op = arg_mode a"
    using cfg r(1-4) x s(1) by (simp_all add: op_config_def)
  have "arg_schema_file_path a \<noteq> PNone \<or> arg_schema_source a \<noteq> SchemaValue PNone"
    using r(5) src by (auto simp: schema_value_def)
  moreover have "op_ok op" using f(6) cl e0(2) by (simp add: op_ok_def f(2-5))
  ultimately show ?thesis using e0 mode s(2) cl by (simp add: f)
qed

text \<open>
  The constructor succeeds only with everything the operator needs later: a positive embedding size
  and a schema that the extractor accepts. An operator that has neither a schema file path nor a schema
  source, or no embedding size, can not be built, whatever its other arguments are; one that is built is
  clean and satisfies the invariant of the operators.
\<close>

theorem constructed_operator:
  assumes "new_op env kind a = Inr op"
  shows "op_ok op \<and> is_clean op \<and> op_kind op = kind \<and> valid_mode (embedding_bag_mode op) \<and>
    is_pos_int (arg_embedding_size a) \<and>
    (\<exists>s x. combine_schema_source op = Some s \<and> load_schema env s = Inr x \<and> feature_extractor op = Some x) \<and>
    (arg_schema_file_path a \<noteq> PNone \<or> arg_schema_source a \<noteq> SchemaValue PNone)"
  using constructed_operator_facts [OF assms] by blast

text \<open>A concrete environment: two features, whose codes are the minibatch itself.\<close>

definition demo_extractor :: "64 word list extractor" where
  "demo_extractor = \<lparr>feature_count = 2, extract_codes = (\<lambda>batch. (batch, [0..<length batch]))\<rparr>"

definition sum_bags :: "nat \<Rightarrow> string \<Rightarrow> tensor \<Rightarrow> nat list \<Rightarrow> tensor" where
  "sum_bags width mode rows offsets =
     map (\<lambda>i. let a = offsets ! i; b = (if Suc i < length offsets then offsets ! Suc i else length rows)
              in foldl (\<lambda>acc r. map2 (+) acc r) (replicate width 0) (take (b - a) (drop a rows)))
       [0..<length offsets]"

definition demo_emb_env :: "64 word list emb_env" where
  "demo_emb_env = \<lparr>file_exists_at = (\<lambda>p. p = ''s3://b/schema''), read_all = (\<lambda>_. Inr ''x#y''),
     load_schema = (\<lambda>_. Inr demo_extractor), reduce_bags = sum_bags 2\<rparr>"

definition demo_op_args :: "(unit, unit) op_args" where
  "demo_op_args = \<lparr>arg_embedding_size = PInt 2, arg_schema_source = SchemaValue PNone,
     arg_schema_file_path = PStr ''s3://b/schema'', arg_dtype = ''torch.float32'', arg_requires_grad = True,
     arg_updater = ANone, arg_initializer = ANone, arg_batchsize1 = False, arg_use_nan_fill = False,
     arg_save_as_text = False, arg_mode = ''sum''\<rparr>"

definition demo_op :: "op_kind \<Rightarrow> (64 word list, unit, unit) emb_op" where
  "demo_op kind = (initial_op kind (Some 2) demo_op_args)
     \<lparr>combine_schema_source := Some ''x#y'', combine_schema_file_path := Some ''s3://b/schema'',
      feature_extractor := Some demo_extractor, second_dim := 4, bag_mode := ''sum'',
      op_output := (case kind of SumConcat \<Rightarrow> Zeros 2 4 | RangeSum \<Rightarrow> Zeros 2 2 | LookupOnly \<Rightarrow> LookupZeros 2)\<rparr>"

lemma demo_op_built: "new_op demo_emb_env kind demo_op_args = Inr (demo_op kind)"
  by (cases kind)
    (simp_all add: new_op_def demo_op_args_def demo_emb_env_def check_embedding_size_def is_pos_int_def raise_if_def
      schema_value_def valid_mode_def attach_schema_def set_combine_schema_file_path_def initial_op_def is_url_def
      startswith_def use_s3_def replace_all.simps load_combine_schema_def checked_get_combine_schema_source_def
      op_feature_count_def clean_def base_clean_def demo_op_def demo_extractor_def Let_def)

theorem constructed_operator_witness:
  "op_ok (demo_op SumConcat) \<and> is_clean (demo_op SumConcat) \<and> is_pos_int (arg_embedding_size demo_op_args)"
  using constructed_operator [OF demo_op_built [of SumConcat]] by blast

section \<open>One training step of an operator\<close>

text \<open>
  The documented shape of torch's reduction: one row for each bag, as wide as the embedding rows. What
  the servers hold is a function from codes to rows, and a pull asks it for the distinct keys.
\<close>

definition bags_ok :: "'b emb_env \<Rightarrow> nat \<Rightarrow> bool" where
  "bags_ok env e \<longleftrightarrow> (\<forall>mode rows offsets. list_all (\<lambda>r. length r = e) rows \<longrightarrow>
     length (reduce_bags env mode rows offsets) = length offsets \<and>
     list_all (\<lambda>r. length r = e) (reduce_bags env mode rows offsets))"

definition pulled_array :: "(64 word \<Rightarrow> real list) \<Rightarrow> 64 word list \<Rightarrow> ('b, 'u, 'i) emb_op \<Rightarrow> nd_array" where
  "pulled_array store ks op = \<lparr>nd_dtype = last_component (op_dtype op),
     nd_shape = [length ks, (case embedding_size op of Some e \<Rightarrow> nat e | None \<Rightarrow> 0)],
     nd_rows = map store ks\<rparr>"

lemma bags_ok_rows:
  assumes "bags_ok env e" "list_all (\<lambda>r. length r = e) rows"
  shows "length (reduce_bags env mode rows offsets) = length offsets"
    "list_all (\<lambda>r. length r = e) (reduce_bags env mode rows offsets)"
  using assms by (simp_all add: bags_ok_def)

lemma drop_concat_uniform:
  "list_all (\<lambda>r. length r = e) t \<Longrightarrow> drop (j * e) (concat t) = concat (drop j t)"
proof (induction t arbitrary: j)
  case (Cons r t)
  then show ?case by (cases j) auto
qed simp

lemma take_concat_uniform:
  "list_all (\<lambda>r. length r = e) t \<Longrightarrow> take (j * e) (concat t) = concat (take j t)"
proof (induction t arbitrary: j)
  case (Cons r t)
  then show ?case by (cases j) auto
qed simp

lemma length_concat_uniform: "list_all (\<lambda>r. length r = e) t \<Longrightarrow> length (concat t) = length t * e"
  by (induction t) auto

lemma list_all_drop: "list_all P xs \<Longrightarrow> list_all P (drop n xs)"
  by (auto simp: list_all_iff dest: in_set_dropD)

lemma reshape_uniform:
  assumes "list_all (\<lambda>r. length r = e) t" "length t = n * fc"
  shows "reshape n (fc * e) t = Inr (map (\<lambda>i. concat (take fc (drop (i * fc) t))) [0..<n])"
proof -
  have "take (fc * e) (drop (i * (fc * e)) (concat t)) = concat (take fc (drop (i * fc) t))" for i
    using drop_concat_uniform [OF assms(1), of "i * fc"]
      take_concat_uniform [OF list_all_drop [OF assms(1)], of fc "i * fc"]
    by (simp add: mult.assoc)
  then show ?thesis using length_concat_uniform [OF assms(1)] assms(2) by (simp add: reshape_def mult.assoc)
qed

text \<open>Reading the rows of the distinct keys by position is reading the row of every code.\<close>

lemma embedding_bag_of_codes:
  assumes "uniquify_hash_codes codes = Some (ks, idx)" "length codes < 2 ^ 31"
  shows "embedding_bag env mode idx (Some (map store ks)) meta = Inr (reduce_bags env mode (map store codes) meta)"
  using hash_uniq.uniq_lookup [OF assms(2,1)] hash_uniq.uniq_gather [OF assms(2,1), of store]
  by (simp add: embedding_bag_def raise_if_def gather_def)

lemma combine_total:
  assumes "op_ok op" "feature_extractor op = Some x" "extract_codes x batch = (codes, offsets)"
    "length codes < 2 ^ 31" "feature_count x \<noteq> 0"
  shows "\<exists>op1 ks idx. combine env batch op = Inr op1 \<and> uniquify_hash_codes codes = Some (ks, idx) \<and>
    indices op1 = Some idx \<and> op_keys op1 = Some ks \<and> op_config op1 = op_config op \<and> op_dtype op1 = op_dtype op \<and>
    indices_meta op1 = Some (if op_kind op = RangeSum then stride (feature_count x) offsets else offsets)"
proof -
  obtain o1 where o1: "clean op = Inr o1" using clean_ok [OF assms(1)] by blast
  note c = clean_result [OF o1]
  obtain ks idx where u: "uniquify_hash_codes codes = Some (ks, idx)"
    using hash_uniq.uniq_total [OF assms(4)] by blast
  have x: "feature_extractor o1 = Some x" and k: "op_kind o1 = op_kind op" using c(2) assms(2) by (simp_all add: op_config_iff)
  have d: "do_combine batch o1 = Inr (codes, if op_kind op = RangeSum then stride (feature_count x) offsets else offsets)"
    using assms(3,5) by (simp add: do_combine_def combine_to_indices_and_offsets_def x k raise_if_def)
  let ?meta = "if op_kind op = RangeSum then stride (feature_count x) offsets else offsets"
  let ?op1 = "o1\<lparr>indices := Some idx, indices_meta := Some ?meta, op_keys := Some ks\<rparr>"
  have "ensure_combine_schema_loaded env o1 = Inr o1" by (simp add: ensure_combine_schema_loaded_def x)
  then have "combine env batch op = Inr ?op1"
    by (simp only: combine_def o1 bindR_simps d u prod.case option.case)
  moreover have "op_config ?op1 = op_config op" "op_dtype ?op1 = op_dtype op"
    using c(2,3) by (simp_all add: op_config_def)
  moreover have "indices ?op1 = Some idx" "op_keys ?op1 = Some ks" "indices_meta ?op1 = Some ?meta" by simp_all
  ultimately show ?thesis using u by blast
qed

lemma check_pulled:
  assumes "embedding_size op = Some e"
  shows "check_dtype_and_shape ks (pulled_array store ks op) op = Inr ()"
  using assms by (simp add: check_dtype_and_shape_def pulled_array_def checked_get_embedding_size_def raise_if_def)

lemma sum_concat_computes:
  assumes "op_ok op" "op_kind op = SumConcat" "valid_mode (embedding_bag_mode op)"
    and "feature_extractor op = Some x" "embedding_size op = Some e" "bags_ok env (nat e)"
    and "extract_codes x batch = (codes, offsets)" "length codes < 2 ^ 31"
    and "feature_count x \<noteq> 0" "length offsets = n * feature_count x"
    and "\<And>k. length (store k) = nat e"
  shows "\<exists>op1 ks op2. combine env batch op = Inr op1 \<and> get_keys op1 = Inr (Some ks) \<and>
    distinct ks \<and> set ks = set codes \<and> check_dtype_and_shape ks (pulled_array store ks op1) op1 = Inr () \<and>
    compute env (update_data (pulled_array store ks op1) op1) = Inr op2 \<and>
    op_output op2 = Rows (map (\<lambda>i. concat (take (feature_count x) (drop (i * feature_count x)
      (reduce_bags env (bag_mode op) (map store codes) offsets)))) [0..<n])"
proof -
  obtain op1 ks idx where c: "combine env batch op = Inr op1" "uniquify_hash_codes codes = Some (ks, idx)"
    "indices op1 = Some idx" "op_keys op1 = Some ks" "op_config op1 = op_config op" "op_dtype op1 = op_dtype op"
    "indices_meta op1 = Some offsets"
    using combine_total [OF assms(1,4,7,8,9), of env] assms(2) by auto
  let ?op = "update_data (pulled_array store ks op1) op1"
  let ?B = "reduce_bags env (bag_mode op) (map store codes) offsets"
  have cfg: "op_kind op1 = SumConcat" "embedding_size op1 = Some e" "feature_extractor op1 = Some x"
    "second_dim op1 = feature_count x * nat e" "embedding_bag_mode op1 = embedding_bag_mode op" "bag_mode op1 = bag_mode op"
    using c(5) assms(1,2,4,5) by (simp_all add: op_config_def op_ok_def)
  have rows: "list_all (\<lambda>r. length r = nat e) (map store codes)" by (simp add: list_all_iff assms(11))
  have B: "length ?B = n * feature_count x" "list_all (\<lambda>r. length r = nat e) ?B"
    using bags_ok_rows [OF assms(6) rows] assms(10) by simp_all
  have "do_compute env ?op = Inr (Rows (map (\<lambda>i. concat (take (feature_count x) (drop (i * feature_count x) ?B))) [0..<n]))"
    using assms(3,9,10)
    by (simp add: do_compute_def compute_sum_concat_def update_data_def cfg c(3,7) op_feature_count_def raise_if_def
        checked_get_embedding_size_def bag_forward_def pulled_array_def embedding_bag_of_codes [OF c(2) assms(8)]
        reshape_uniform [OF B(2,1)])
  moreover have "\<not> is_clean ?op" by (simp add: is_clean_def update_data_def)
  ultimately have comp: "compute env ?op = Inr (?op\<lparr>op_output :=
      Rows (map (\<lambda>i. concat (take (feature_count x) (drop (i * feature_count x) ?B))) [0..<n])\<rparr>)"
    by (simp add: compute_def raise_if_def)
  have "get_keys op1 = Inr (Some ks)" by (simp add: get_keys_def check_clean_def c(4) raise_if_def)
  moreover have "distinct ks" "set ks = set codes"
    using hash_uniq.uniq_distinct [OF assms(8) c(2)] hash_uniq.uniq_keys [OF assms(8) c(2)] by simp_all
  ultimately show ?thesis using c(1) comp check_pulled [OF cfg(2)] by auto
qed

text \<open>
  C3: A training step of an \<open>EmbeddingSumConcat\<close> that was constructed and used in any way computes what it is meant
  to: after \<open>combine\<close>, the pull of the rows of its distinct keys and \<open>compute\<close>, the output has one row for every
  instance, which is the concatenation of the reductions of its features' bags over the embedding rows of the hash
  codes that the extractor produced, although each distinct code was pulled only once. No step fails. The reduction
  is the one that the constructor was given: a mode assigned afterwards is checked by \<open>compute\<close> and then ignored.
\<close>

theorem sum_concat_end_to_end:
  assumes "new_op env SumConcat a = Inr op0" "op_reach env op0 op" "valid_mode (embedding_bag_mode op)"
    and "feature_extractor op = Some x" "embedding_size op = Some e" "bags_ok env (nat e)"
    and "extract_codes x batch = (codes, offsets)" "length codes < 2 ^ 31"
    and "feature_count x \<noteq> 0" "length offsets = n * feature_count x"
    and "\<And>k. length (store k) = nat e"
  shows "\<exists>op1 ks op2. combine env batch op = Inr op1 \<and> get_keys op1 = Inr (Some ks) \<and>
    distinct ks \<and> set ks = set codes \<and> check_dtype_and_shape ks (pulled_array store ks op1) op1 = Inr () \<and>
    compute env (update_data (pulled_array store ks op1) op1) = Inr op2 \<and>
    op_output op2 = Rows (map (\<lambda>i. concat (take (feature_count x) (drop (i * feature_count x)
      (reduce_bags env (arg_mode a) (map store codes) offsets)))) [0..<n])"
proof -
  note f = constructed_operator_facts [OF assms(1)]
  have "op_ok op0" using f by blast
  from op_reach_ok [OF assms(2) this] op_reach_config [OF assms(2) this] f
  have "op_ok op" "op_kind op = SumConcat" "bag_mode op = arg_mode a" by simp_all
  from sum_concat_computes [OF this(1,2) assms(3-11)] this(3) show ?thesis by simp
qed

text \<open>
  \<open>EmbeddingRangeSum\<close> can not compute with more than one feature: its bags are one for each
  instance, but the bag module was built for one row of every feature, so reshaping their rows fails and
  \<open>compute\<close> raises on every non-empty minibatch.
\<close>

theorem range_sum_fails:
  assumes "op_ok op" "op_kind op = RangeSum" "valid_mode (embedding_bag_mode op)"
    and "feature_extractor op = Some x" "embedding_size op = Some e" "bags_ok env (nat e)"
    and "extract_codes x batch = (codes, offsets)" "length codes < 2 ^ 31"
    and "1 < feature_count x" "length offsets = n * feature_count x" "0 < n"
    and "\<And>k. length (store k) = nat e"
  shows "\<exists>op1 ks. combine env batch op = Inr op1 \<and> get_keys op1 = Inr (Some ks) \<and>
    compute env (update_data (pulled_array store ks op1) op1) = Inl RuntimeError"
proof -
  have fc: "feature_count x \<noteq> 0" using assms(9) by simp
  obtain op1 ks idx where c: "combine env batch op = Inr op1" "uniquify_hash_codes codes = Some (ks, idx)"
    "indices op1 = Some idx" "op_keys op1 = Some ks" "op_config op1 = op_config op"
    "indices_meta op1 = Some (stride (feature_count x) offsets)"
    using combine_total [OF assms(1,4,7,8) fc, of env] assms(2) by auto
  let ?op = "update_data (pulled_array store ks op1) op1"
  let ?S = "stride (feature_count x) offsets"
  let ?B = "reduce_bags env (bag_mode op) (map store codes) ?S"
  have cfg: "op_kind op1 = RangeSum" "embedding_size op1 = Some e" "feature_extractor op1 = Some x"
    "second_dim op1 = feature_count x * nat e" "embedding_bag_mode op1 = embedding_bag_mode op" "0 < e" "bag_mode op1 = bag_mode op"
    using c(5) assms(1,2,4,5) by (simp_all add: op_config_def op_ok_def)
  have "length offsets + feature_count x - 1 = feature_count x * n + (feature_count x - 1)"
    using assms(9,10) by (simp add: mult.commute)
  moreover have "(feature_count x * n + (feature_count x - 1)) div feature_count x = n"
    using fc by (intro div_nat_eqI) auto
  ultimately have S: "length ?S = n" by (simp add: stride_def)
  have rows: "list_all (\<lambda>r. length r = nat e) (map store codes)" by (simp add: list_all_iff assms(12))
  have B: "length ?B = n" "list_all (\<lambda>r. length r = nat e) ?B"
    using bags_ok_rows [OF assms(6) rows] S by simp_all
  have "n * nat e \<noteq> n * (feature_count x * nat e)"
    using assms(9,11) cfg(6) by simp
  then have "reshape n (feature_count x * nat e) ?B = Inl RuntimeError"
    using length_concat_uniform [OF B(2)] B(1) by (simp add: reshape_def raise_if_def)
  then have "do_compute env ?op = Inl RuntimeError"
    using assms(3)
    by (simp add: do_compute_def compute_range_sum_def update_data_def cfg c(3,6) S compute_embedding_prepare_def
        raise_if_def checked_get_embedding_size_def bag_forward_def pulled_array_def
        embedding_bag_of_codes [OF c(2) assms(8)])
  moreover have "\<not> is_clean ?op" by (simp add: is_clean_def update_data_def)
  ultimately have "compute env ?op = Inl RuntimeError" by (simp add: compute_def raise_if_def)
  moreover have "get_keys op1 = Inr (Some ks)" by (simp add: get_keys_def check_clean_def c(4) raise_if_def)
  ultimately show ?thesis using c(1) by blast
qed

lemma foldl_rows:
  "list_all (\<lambda>r. length r = e) rows \<Longrightarrow> length acc = e \<Longrightarrow>
   length (foldl (\<lambda>acc r. map2 (+) acc r) acc rows) = (e::nat)"
  by (induction rows arbitrary: acc) auto

lemma demo_bags_ok: "bags_ok demo_emb_env 2"
  by (auto simp: bags_ok_def demo_emb_env_def sum_bags_def Let_def list_all_iff
      intro!: foldl_rows [unfolded list_all_iff, rule_format] dest: in_set_takeD in_set_dropD)

lemma demo_op_ok: "op_ok (demo_op kind)"
  by (simp add: op_ok_def demo_op_def initial_op_def demo_extractor_def is_clean_def)

lemma demo_op_fields:
  "op_kind (demo_op kind) = kind" "valid_mode (embedding_bag_mode (demo_op kind))"
  "feature_extractor (demo_op kind) = Some demo_extractor" "embedding_size (demo_op kind) = Some 2"
  "extract_codes demo_extractor [5, 7, 5, 9] = ([5, 7, 5, 9], [0, 1, 2, 3])" "feature_count demo_extractor = 2"
  by (simp_all add: demo_op_def initial_op_def demo_op_args_def valid_mode_def demo_extractor_def upt_rec)

text \<open>A mode assigned after the construction.\<close>

definition mean_op :: "(64 word list, unit, unit) emb_op" where
  "mean_op = (demo_op SumConcat)\<lparr>embedding_bag_mode := ''mean''\<rparr>"

lemma mean_op_reached: "op_reach demo_emb_env (demo_op SumConcat) mean_op"
  unfolding mean_op_def by (rule reach_step [OF reach_refl step_mode])

lemma mean_op_fields:
  "valid_mode (embedding_bag_mode mean_op)" "feature_extractor mean_op = Some demo_extractor" "embedding_size mean_op = Some 2"
  using demo_op_fields(3,4) [of SumConcat] by (simp_all add: mean_op_def valid_mode_def)

theorem sum_concat_end_to_end_witness:
  "\<exists>op1 ks op2. combine demo_emb_env [5, 7, 5, 9] mean_op = Inr op1 \<and> get_keys op1 = Inr (Some ks) \<and>
     set ks = {5, 7, 9} \<and>
     compute demo_emb_env (update_data (pulled_array (\<lambda>k. [real (unat k), 1]) ks op1) op1) = Inr op2 \<and>
     op_output op2 = Rows [[5, 1, 7, 1], [5, 1, 9, 1]]"
proof -
  have r: "reduce_bags demo_emb_env m [[5, 1], [7, 1], [5, 1], [9, 1]] [0, 1, 2, 3] =
    [[5, 1], [7, 1], [5, 1], [9, 1]]" for m
    by (simp add: demo_emb_env_def sum_bags_def Let_def upt_rec eval_nat_numeral)
  have b: "bags_ok demo_emb_env (nat 2)" using demo_bags_ok by simp
  have n: "length ([0, 1, 2, 3] :: nat list) = 2 * feature_count demo_extractor" by (simp add: demo_op_fields)
  have l: "length ([5, 7, 5, 9] :: 64 word list) < 2 ^ 31" and f: "feature_count demo_extractor \<noteq> 0"
    and st: "\<And>k. length [real (unat (k :: 64 word)), 1] = nat 2" by (simp_all add: demo_op_fields)
  obtain op1 ks op2 where o: "combine demo_emb_env [5, 7, 5, 9] mean_op = Inr op1"
    "get_keys op1 = Inr (Some ks)" "set ks = set [5, 7, 5, 9]"
    "compute demo_emb_env (update_data (pulled_array (\<lambda>k. [real (unat k), 1]) ks op1) op1) = Inr op2"
    "op_output op2 = Rows (map (\<lambda>i. concat (take (feature_count demo_extractor) (drop (i * feature_count demo_extractor)
      (reduce_bags demo_emb_env (arg_mode demo_op_args)
        (map (\<lambda>k. [real (unat (k :: 64 word)), 1]) [5, 7, 5, 9]) [0, 1, 2, 3])))) [0..<2])"
    using sum_concat_end_to_end [where store = "\<lambda>k. [real (unat k), 1]", OF demo_op_built mean_op_reached mean_op_fields b demo_op_fields(5) l f n st]
    by blast
  have "op_output op2 = Rows [[5, 1, 7, 1], [5, 1, 9, 1]]"
    unfolding o(5) demo_op_fields(6) by (simp add: r [unfolded One_nat_def] upt_rec)
  moreover have "set ks = {5, 7, 9}" using o(3) by auto
  ultimately show ?thesis using o(1,2,4) by blast
qed

theorem range_sum_fails_witness:
  "\<exists>op1 ks. combine demo_emb_env [5, 7, 5, 9] (demo_op RangeSum) = Inr op1 \<and> get_keys op1 = Inr (Some ks) \<and>
     compute demo_emb_env (update_data (pulled_array (\<lambda>k. [0, 0]) ks op1) op1) = Inl RuntimeError"
proof -
  have b: "bags_ok demo_emb_env (nat 2)" using demo_bags_ok by simp
  have n: "length ([0, 1, 2, 3] :: nat list) = 2 * feature_count demo_extractor" by (simp add: demo_op_fields)
  have l: "length ([5, 7, 5, 9] :: 64 word list) < 2 ^ 31" and f: "1 < feature_count demo_extractor"
    by (simp_all add: demo_op_fields)
  show ?thesis
    by (rule range_sum_fails [OF demo_op_ok demo_op_fields(1-4) b demo_op_fields(5) l f n]) simp_all
qed

section \<open>Every history of an operator\<close>

text \<open>
  C16: In every history of a constructed operator that ran without an exception, the operator is either
  clean or holds keys, so \<open>keys\<close> never raises the error about an operator that is expected to be clean;
  its embedding size, extractor and schema are the ones of its construction and can not be set again; and
  \<open>keys_and_data\<close> raises exactly while keys wait for their data.
\<close>

theorem operator_history:
  assumes "new_op env kind a = Inr op0" "op_reach env op0 op"
  shows "get_keys op = Inr (op_keys op) \<and>
    (get_keys_and_data op = Inl RuntimeError \<longleftrightarrow> op_keys op \<noteq> None \<and> op_data op = None) \<and>
    op_kind op = op_kind op0 \<and> embedding_size op = embedding_size op0 \<and>
    feature_extractor op = feature_extractor op0 \<and> combine_schema_source op = combine_schema_source op0 \<and>
    (\<forall>v op'. set_embedding_size v op \<noteq> Inr op' \<and> set_combine_schema_source env v op \<noteq> Inr op')"
proof -
  have ok0: "op_ok op0" using constructed_operator_facts [OF assms(1)] by blast
  have ok: "op_ok op" by (rule op_reach_ok [OF assms(2) ok0])
  have cfg: "op_kind op = op_kind op0 \<and> embedding_size op = embedding_size op0 \<and>
    feature_extractor op = feature_extractor op0 \<and> combine_schema_source op = combine_schema_source op0"
    using op_reach_config [OF assms(2) ok0] by blast
  have "op_keys op = None \<longrightarrow> is_clean op" using ok by (simp add: op_ok_def)
  then have "get_keys op = Inr (op_keys op)" "get_keys_and_data op = Inl RuntimeError \<longleftrightarrow> op_keys op \<noteq> None \<and> op_data op = None"
    by (auto simp: get_keys_def get_keys_and_data_def check_clean_def raise_if_def is_clean_def split: option.splits)
  moreover have "embedding_size op \<noteq> None" "combine_schema_source op \<noteq> None"
    using ok by (auto simp: op_ok_def split: option.splits)
  ultimately show ?thesis using cfg set_once(1,3) by blast
qed

theorem operator_history_witness:
  "\<exists>op. op_reach demo_emb_env (demo_op SumConcat) op \<and> op_keys op = Some [] \<and> get_keys_and_data op = Inl RuntimeError"
proof -
  let ?op = "demo_op SumConcat"
  have l: "length ([] :: 64 word list) < 2 ^ 31" "feature_count demo_extractor \<noteq> 0" by (simp_all add: demo_op_fields)
  have e: "extract_codes demo_extractor [] = ([], [])" by (simp add: demo_extractor_def)
  obtain op ks idx where op: "combine demo_emb_env [] ?op = Inr op" "uniquify_hash_codes [] = Some (ks, idx)"
    "op_keys op = Some ks"
    using combine_total [OF demo_op_ok demo_op_fields(3) e l] by blast
  have "op_step demo_emb_env ?op op" using op(1) by (rule step_combine)
  then have r: "op_reach demo_emb_env ?op op" using reach_refl reach_step by blast
  have "op_data op = None" using combine_result [OF op(1) demo_op_ok] by simp
  moreover have "ks = []" using op(2) by (simp add: uniquify_hash_codes_def uniquify_def)
  ultimately show ?thesis
    using operator_history [OF demo_op_built r] r op(3) by auto
qed

end
