(* ===== verification/Model.thy ===== *)
theory Model
  imports Embedding
begin

text \<open>
  \<open>python/metaspore/model.py\<close>, \<open>distributed_tensor.py\<close> and the checks of \<open>distributed_trainer.py\<close>: the
  wrappers of a torch module. \<open>Model\<close> and its subclass \<open>SparseModel\<close> are one record with the flag
  \<open>is_sparse_model\<close>; the overriding methods are case distinctions on it. A torch module is what the code
  asks it for: its submodules with their names, its parameters with their names. Tensors and embedding
  operators are numbered, the numbers standing for the objects' identities, and the attributes that the
  code hangs on tensors are a map from the numbers.
\<close>

section \<open>Modules and tensors\<close>

text \<open>
  The modules that the code tells apart. A batch normalisation has its running mean and variance, its
  weight and its bias, each of which may be \<open>None\<close>.
\<close>

record batch_norm =
  running_mean :: "nat option"
  running_var :: "nat option"
  bn_weight :: "nat option"
  bn_bias :: "nat option"

datatype submodule = EmbeddingMod nat | CastMod nat | BatchNormMod batch_norm | SyncBatchNormMod | OtherMod

record torch_module =
  named_modules :: "(string \<times> submodule) list"
  named_parameters :: "(string \<times> nat) list"

datatype item = Parameter nat | Buffer nat | Sparse nat

record dist_tensor =
  t_name :: string
  t_item :: item

definition new_tensor :: "string \<Rightarrow> item \<Rightarrow> string option \<Rightarrow> dist_tensor" where
  "new_tensor name item pre =
     \<lparr>t_name = (case pre of None \<Rightarrow> name | Some p \<Rightarrow> p @ name), t_item = item\<rparr>"

fun is_dense :: "dist_tensor \<Rightarrow> bool" where
  "is_dense t = (case t_item t of Sparse _ \<Rightarrow> False | _ \<Rightarrow> True)"

fun is_dense_parameter :: "dist_tensor \<Rightarrow> bool" where
  "is_dense_parameter t = (case t_item t of Parameter _ \<Rightarrow> True | _ \<Rightarrow> False)"

definition is_dense_buffer :: "dist_tensor \<Rightarrow> bool" where
  "is_dense_buffer t \<longleftrightarrow> is_dense t \<and> \<not> is_dense_parameter t"

definition is_sparse :: "dist_tensor \<Rightarrow> bool" where
  "is_sparse t \<longleftrightarrow> \<not> is_dense t"

text \<open>The flags of the embedding operators, by number.\<close>

record op_flags =
  f_backing :: bool
  f_exported :: bool
  f_embedding_size :: int
  f_feature_count :: nat

definition tensor_is_backing :: "(nat \<Rightarrow> op_flags) \<Rightarrow> dist_tensor \<Rightarrow> bool" where
  "tensor_is_backing fl t = (case t_item t of Sparse i \<Rightarrow> f_backing (fl i) | _ \<Rightarrow> False)"

definition tensor_is_exported :: "(nat \<Rightarrow> op_flags) \<Rightarrow> dist_tensor \<Rightarrow> bool" where
  "tensor_is_exported fl t = (case t_item t of Sparse i \<Rightarrow> f_exported (fl i) | _ \<Rightarrow> False)"

section \<open>The model\<close>

record model =
  is_sparse_model :: bool
  m_module :: torch_module
  experiment_name :: "string option"
  model_version :: "string option"
  name_prefix :: "string option"
  m_training :: bool
  m_tensors :: "dist_tensor list"
  embedding_operators :: "dist_tensor list"
  cast_operators :: "nat list"

definition check_experiment_name :: "pyval \<Rightarrow> string option res" where
  "check_experiment_name v =
     (case v of PNone \<Rightarrow> Inr None
      | PStr s \<Rightarrow> raise_if (\<not> is_valid_qualified_name (strip is_space s)) TypeError (Inr (Some (strip is_space s)))
      | _ \<Rightarrow> Inl TypeError)"

definition check_model_version :: "pyval \<Rightarrow> string option res" where
  "check_model_version v =
     (case v of PNone \<Rightarrow> Inr None | PStr s \<Rightarrow> Inr (Some (strip is_space s)) | _ \<Rightarrow> Inl TypeError)"

definition check_name_prefix :: "pyval \<Rightarrow> string option res" where
  "check_name_prefix v = (case v of PNone \<Rightarrow> Inr None | PStr s \<Rightarrow> Inr (Some s) | _ \<Rightarrow> Inl TypeError)"

text \<open>The checks of the agent's and the module's classes are the flags \<open>is_agent\<close> and \<open>is_module\<close>.\<close>

definition new_model ::
  "bool \<Rightarrow> bool \<Rightarrow> bool \<Rightarrow> torch_module \<Rightarrow> pyval \<Rightarrow> pyval \<Rightarrow> pyval \<Rightarrow> bool \<Rightarrow> model res" where
  "new_model sparse is_agent is_module md en mv np training =
     raise_if (\<not> is_agent) TypeError
     (raise_if (\<not> is_module) TypeError
     (bindR (check_experiment_name en) (\<lambda>en.
      bindR (check_model_version mv) (\<lambda>mv.
      bindR (check_name_prefix np) (\<lambda>np.
      Inr \<lparr>is_sparse_model = sparse, m_module = md, experiment_name = en, model_version = mv,
           name_prefix = np, m_training = training, m_tensors = [], embedding_operators = [],
           cast_operators = []\<rparr>)))))"

definition set_experiment_name :: "pyval \<Rightarrow> model \<Rightarrow> model res" where
  "set_experiment_name v m =
     bindR (check_experiment_name v) (\<lambda>e.
     raise_if (experiment_name m \<noteq> None) RuntimeError (Inr (m\<lparr>experiment_name := e\<rparr>)))"

definition set_model_version :: "pyval \<Rightarrow> model \<Rightarrow> model res" where
  "set_model_version v m =
     bindR (check_model_version v) (\<lambda>e.
     raise_if (model_version m \<noteq> None) RuntimeError (Inr (m\<lparr>model_version := e\<rparr>)))"

definition set_name_prefix :: "pyval \<Rightarrow> model \<Rightarrow> model res" where
  "set_name_prefix v m =
     bindR (check_name_prefix v) (\<lambda>e.
     raise_if (name_prefix m \<noteq> None) RuntimeError (Inr (m\<lparr>name_prefix := e\<rparr>)))"

definition filter_tensor_list :: "dist_tensor list \<Rightarrow> string \<Rightarrow> dist_tensor list" where
  "filter_tensor_list ts pre = [t \<leftarrow> ts. startswith (t_name t) pre]"

text \<open>
  The cast operators are torch modules, which have no attribute \<open>name\<close>: filtering a non-empty list of
  them by name raises.
\<close>

definition get_submodel :: "torch_module \<Rightarrow> string \<Rightarrow> model \<Rightarrow> model res" where
  "get_submodel md pre m =
     (let sub = m\<lparr>m_module := md, m_tensors := filter_tensor_list (m_tensors m) pre\<rparr> in
      if \<not> is_sparse_model m then Inr (sub\<lparr>embedding_operators := [], cast_operators := []\<rparr>)
      else raise_if (cast_operators m \<noteq> []) AttributeError
        (Inr (sub\<lparr>embedding_operators := filter_tensor_list (embedding_operators m) pre,
                  cast_operators := []\<rparr>)))"

section \<open>Batch normalisation\<close>

record tensor_attr =
  attr_initializer :: "initializer option"
  attr_updater :: "pyfloat updater option"

type_synonym attr_map = "nat \<Rightarrow> tensor_attr"

definition is_batch_norm :: "submodule \<Rightarrow> bool res" where
  "is_batch_norm md =
     (case md of BatchNormMod _ \<Rightarrow> Inr True | SyncBatchNormMod \<Rightarrow> Inl RuntimeError | _ \<Rightarrow> Inr False)"

definition attr_default_initializer :: "initializer \<Rightarrow> nat option \<Rightarrow> attr_map \<Rightarrow> attr_map" where
  "attr_default_initializer i t h =
     (case t of None \<Rightarrow> h
      | Some n \<Rightarrow> if attr_initializer (h n) = None then h(n := (h n)\<lparr>attr_initializer := Some i\<rparr>) else h)"

definition attr_default_updater :: "pyfloat updater \<Rightarrow> nat option \<Rightarrow> attr_map \<Rightarrow> attr_map" where
  "attr_default_updater u t h =
     (case t of None \<Rightarrow> h
      | Some n \<Rightarrow> if attr_updater (h n) = None then h(n := (h n)\<lparr>attr_updater := Some u\<rparr>) else h)"

text \<open>\<open>EMATensorUpdater()\<close>: its default momentum is the double nearest to 0.1.\<close>

definition float_0_1 :: pyfloat where
  "float_0_1 = FFin (3602879701896397 / 36028797018963968)"

definition configure_batch_norm :: "batch_norm \<Rightarrow> attr_map \<Rightarrow> attr_map" where
  "configure_batch_norm bn h =
     (let h = attr_default_initializer ZeroInit (running_mean bn) h;
          h = attr_default_updater (EMA float_0_1) (running_mean bn) h;
          h = attr_default_initializer OneInit (running_var bn) h;
          h = attr_default_updater (EMA float_0_1) (running_var bn) h;
          h = attr_default_initializer OneInit (bn_weight bn) h
      in attr_default_initializer ZeroInit (bn_bias bn) h)"

definition configure_batch_norms :: "model \<Rightarrow> attr_map \<Rightarrow> attr_map res" where
  "configure_batch_norms m h =
     foldR (\<lambda>(name, md) h. bindR (is_batch_norm md) (\<lambda>b.
        Inr (case md of BatchNormMod bn \<Rightarrow> configure_batch_norm bn h | _ \<Rightarrow> h)))
       (named_modules (m_module m)) h"

section \<open>Collecting the tensors\<close>

definition add_tensor :: "dist_tensor \<Rightarrow> model \<Rightarrow> model" where
  "add_tensor t m = m\<lparr>m_tensors := m_tensors m @ [t]\<rparr>"

definition collect_embedding_operator :: "string \<times> submodule \<Rightarrow> model \<Rightarrow> model res" where
  "collect_embedding_operator nm m =
     (case nm of
        (name, EmbeddingMod i) \<Rightarrow>
          if is_sparse_model m then
            let t = new_tensor name (Sparse i) (name_prefix m) in
            Inr ((add_tensor t m)\<lparr>embedding_operators := embedding_operators m @ [t]\<rparr>)
          else Inl RuntimeError
      | _ \<Rightarrow> Inr m)"

definition collect_cast_operator :: "string \<times> submodule \<Rightarrow> model \<Rightarrow> model res" where
  "collect_cast_operator nm m =
     (case nm of
        (name, CastMod i) \<Rightarrow>
          if is_sparse_model m then Inr (m\<lparr>cast_operators := cast_operators m @ [i]\<rparr>)
          else Inl RuntimeError
      | _ \<Rightarrow> Inr m)"

definition collect_dense_parameter :: "string \<times> nat \<Rightarrow> model \<Rightarrow> model res" where
  "collect_dense_parameter np m =
     (case np of (name, i) \<Rightarrow> Inr (add_tensor (new_tensor name (Parameter i) (name_prefix m)) m))"

definition collect_batch_norm :: "string \<Rightarrow> batch_norm \<Rightarrow> model \<Rightarrow> model res" where
  "collect_batch_norm name bn m =
     (case (running_mean bn, running_var bn) of
        (None, None) \<Rightarrow> Inr m
      | (Some i, Some j) \<Rightarrow>
          Inr (add_tensor (new_tensor (name @ ''.running_var'') (Buffer j) (name_prefix m))
            (add_tensor (new_tensor (name @ ''.running_mean'') (Buffer i) (name_prefix m)) m))
      | _ \<Rightarrow> Inl RuntimeError)"

definition collect_dense_buffer :: "string \<times> submodule \<Rightarrow> model \<Rightarrow> model res" where
  "collect_dense_buffer nm m =
     bindR (is_batch_norm (snd nm)) (\<lambda>b.
     case snd nm of BatchNormMod bn \<Rightarrow> collect_batch_norm (fst nm) bn m | _ \<Rightarrow> Inr m)"

definition collect_tensors :: "model \<Rightarrow> model res" where
  "collect_tensors m =
     bindR (foldR collect_embedding_operator (named_modules (m_module m)) m) (\<lambda>m.
     bindR (foldR collect_cast_operator (named_modules (m_module m)) m) (\<lambda>m.
     bindR (foldR collect_dense_parameter (named_parameters (m_module m)) m) (\<lambda>m.
     foldR collect_dense_buffer (named_modules (m_module m)) m)))"

fun is_embedding :: "submodule \<Rightarrow> bool" where
  "is_embedding (EmbeddingMod _) = True"
| "is_embedding _ = False"

fun is_cast :: "submodule \<Rightarrow> bool" where
  "is_cast (CastMod _) = True"
| "is_cast _ = False"

definition contains_embedding_operators :: "torch_module \<Rightarrow> bool" where
  "contains_embedding_operators md = list_ex (\<lambda>(name, s). is_embedding s) (named_modules md)"

definition contains_cast_operators :: "torch_module \<Rightarrow> bool" where
  "contains_cast_operators md = list_ex (\<lambda>(name, s). is_cast s) (named_modules md)"

definition wrap :: "bool \<Rightarrow> bool \<Rightarrow> torch_module \<Rightarrow> pyval \<Rightarrow> pyval \<Rightarrow> pyval \<Rightarrow> bool \<Rightarrow> model res" where
  "wrap is_agent is_module md en mv np training =
     new_model (contains_embedding_operators md \<or> contains_cast_operators md) is_agent is_module md en mv np training"

section \<open>Pruning and exporting\<close>

definition prune_small_check :: "pyval \<Rightarrow> unit res" where
  "prune_small_check v =
     (let zero = (case v of PInt i \<Rightarrow> i = 0 | PBool b \<Rightarrow> \<not> b | PFloat (FFin r) \<Rightarrow> r = 0 | _ \<Rightarrow> False);
          bad = (case v of PFloat x \<Rightarrow> flt0 x | _ \<Rightarrow> True)
      in raise_if (bad \<and> \<not> zero) TypeError (Inr ()))"

definition prune_old_check :: "pyval \<Rightarrow> unit res" where
  "prune_old_check v = raise_if (\<not> is_pos_int v) TypeError (Inr ())"

definition export_check :: "pyval \<Rightarrow> model \<Rightarrow> string res" where
  "export_check v m =
     (case v of
        PStr s \<Rightarrow>
          let path = strip is_space s in
          raise_if (path = []) TypeError
          (raise_if (\<not> endswith path ''/'') ValueError
          (raise_if (experiment_name m = None) RuntimeError
          (raise_if (m_training m) RuntimeError (Inr path))))
      | _ \<Rightarrow> Inl TypeError)"

text \<open>
  The name of an exported tensor: the selector's prefix is taken off, and it must be there. The
  operators that the selector leaves are the argument \<open>selected\<close>.
\<close>

definition export_name :: "string option \<Rightarrow> string \<Rightarrow> string res" where
  "export_name pre name =
     (case pre of None \<Rightarrow> Inr name
      | Some p \<Rightarrow> raise_if (\<not> startswith name p) RuntimeError (Inr (drop (length p) name)))"

definition exported_operators :: "(nat \<Rightarrow> op_flags) \<Rightarrow> (item \<Rightarrow> bool) \<Rightarrow> model \<Rightarrow> dist_tensor list" where
  "exported_operators fl selected m =
     [t \<leftarrow> embedding_operators m. selected (t_item t) \<and> tensor_is_exported fl t]"

text \<open>\<open>_prepare_module_save\<close> reads \<open>_embedding_operators\<close>, which only \<open>SparseModel\<close> has.\<close>

definition prepare_module_save ::
  "(nat \<Rightarrow> op_flags) \<Rightarrow> (item \<Rightarrow> bool) \<Rightarrow> string option \<Rightarrow> model \<Rightarrow> (string list \<times> nat list \<times> int list) res" where
  "prepare_module_save fl selected pre m =
     raise_if (\<not> is_sparse_model m) AttributeError
     (let ts = exported_operators fl selected m in
      bindR (mapR (\<lambda>t. export_name pre (t_name t)) ts) (\<lambda>names.
      Inr (names,
           map (\<lambda>t. case t_item t of Sparse i \<Rightarrow> f_feature_count (fl i) | _ \<Rightarrow> 0) ts,
           map (\<lambda>t. case t_item t of Sparse i \<Rightarrow> f_embedding_size (fl i) | _ \<Rightarrow> 0) ts)))"

text \<open>The files that \<open>_sparse_tensors_export\<close> and \<open>_do_export\<close> write, in order.\<close>

definition sparse_export_files :: "string \<Rightarrow> string \<Rightarrow> string list" where
  "sparse_export_files path name =
     (let dir = path @ ''/'' @ ''sparse_'' @ name in
      [use_s3 (dir @ ''/model.onnx''), use_s3 (dir @ ''/combine_schema.txt''), use_s3 (dir @ ''/embedding_table/'')])"

definition dense_export_file :: "string \<Rightarrow> string" where
  "dense_export_file path = path_join (use_s3 path) ''_dense/model.onnx''"

definition do_export ::
  "(nat \<Rightarrow> op_flags) \<Rightarrow> (item \<Rightarrow> bool) \<Rightarrow> string option \<Rightarrow> string \<Rightarrow> model \<Rightarrow> string list res" where
  "do_export fl selected pre path m =
     bindR (if is_sparse_model m
            then bindR (mapR (\<lambda>t. export_name pre (t_name t)) (exported_operators fl selected m))
                   (\<lambda>names. Inr (concat (map (sparse_export_files path) names)))
            else Inr []) (\<lambda>files.
     bindR (prepare_module_save fl selected pre m) (\<lambda>_.
     Inr (files @ [dense_export_file path])))"

section \<open>What is collected\<close>

fun embedding_of :: "string option \<Rightarrow> string \<times> submodule \<Rightarrow> dist_tensor list" where
  "embedding_of pre (name, EmbeddingMod i) = [new_tensor name (Sparse i) pre]"
| "embedding_of pre _ = []"

fun cast_of :: "string \<times> submodule \<Rightarrow> nat list" where
  "cast_of (name, CastMod i) = [i]"
| "cast_of _ = []"

fun buffers_of :: "string option \<Rightarrow> string \<times> submodule \<Rightarrow> dist_tensor list" where
  "buffers_of pre (name, BatchNormMod bn) =
     (case (running_mean bn, running_var bn) of
        (Some i, Some j) \<Rightarrow> [new_tensor (name @ ''.running_mean'') (Buffer i) pre,
                              new_tensor (name @ ''.running_var'') (Buffer j) pre]
      | _ \<Rightarrow> [])"
| "buffers_of pre _ = []"

fun parameter_of :: "string option \<Rightarrow> string \<times> nat \<Rightarrow> dist_tensor" where
  "parameter_of pre (name, i) = new_tensor name (Parameter i) pre"

fun submodule_ok :: "submodule \<Rightarrow> bool" where
  "submodule_ok SyncBatchNormMod = False"
| "submodule_ok (BatchNormMod bn) = (running_mean bn = None \<longleftrightarrow> running_var bn = None)"
| "submodule_ok _ = True"

definition module_ok :: "torch_module \<Rightarrow> bool" where
  "module_ok md \<longleftrightarrow> list_all (\<lambda>nm. submodule_ok (snd nm)) (named_modules md)"

lemma collect_embeddings_sparse:
  "is_sparse_model m \<Longrightarrow> foldR collect_embedding_operator nms m =
     Inr (m\<lparr>m_tensors := m_tensors m @ concat (map (embedding_of (name_prefix m)) nms),
            embedding_operators := embedding_operators m @ concat (map (embedding_of (name_prefix m)) nms)\<rparr>)"
proof (induction nms arbitrary: m)
  case (Cons nm nms)
  obtain name md where nm: "nm = (name, md)" by (cases nm)
  show ?case
    using Cons by (cases md) (simp_all add: nm collect_embedding_operator_def add_tensor_def Let_def)
qed simp

lemma collect_embeddings_none:
  "list_all (\<lambda>(n, md). \<not> is_embedding md) nms \<Longrightarrow> foldR collect_embedding_operator nms m = Inr m
     \<and> concat (map (embedding_of pre) nms) = []"
proof (induction nms)
  case (Cons nm nms)
  obtain name md where nm: "nm = (name, md)" by (cases nm)
  show ?case using Cons by (cases md) (simp_all add: nm collect_embedding_operator_def)
qed simp

lemma collect_casts_sparse:
  "is_sparse_model m \<Longrightarrow> foldR collect_cast_operator nms m =
     Inr (m\<lparr>cast_operators := cast_operators m @ concat (map cast_of nms)\<rparr>)"
proof (induction nms arbitrary: m)
  case (Cons nm nms)
  obtain name md where nm: "nm = (name, md)" by (cases nm)
  show ?case using Cons by (cases md) (simp_all add: nm collect_cast_operator_def)
qed simp

lemma collect_casts_none:
  "list_all (\<lambda>(n, md). \<not> is_cast md) nms \<Longrightarrow> foldR collect_cast_operator nms m = Inr m
     \<and> concat (map cast_of nms) = []"
proof (induction nms)
  case (Cons nm nms)
  obtain name md where nm: "nm = (name, md)" by (cases nm)
  show ?case using Cons by (cases md) (simp_all add: nm collect_cast_operator_def)
qed simp

lemma collect_parameters:
  "foldR collect_dense_parameter nps m =
     Inr (m\<lparr>m_tensors := m_tensors m @ map (parameter_of (name_prefix m)) nps\<rparr>)"
proof (induction nps arbitrary: m)
  case (Cons np nps)
  then show ?case by (cases np) (simp add: collect_dense_parameter_def add_tensor_def)
qed simp

lemma collect_dense_buffer_pair:
  "collect_dense_buffer (name, md) m =
     (case md of BatchNormMod bn \<Rightarrow> collect_batch_norm name bn m | SyncBatchNormMod \<Rightarrow> Inl RuntimeError | _ \<Rightarrow> Inr m)"
  by (cases md) (simp_all add: collect_dense_buffer_def is_batch_norm_def)

lemma collect_buffers:
  "foldR collect_dense_buffer nms m =
     (if list_all (\<lambda>nm. submodule_ok (snd nm)) nms
      then Inr (m\<lparr>m_tensors := m_tensors m @ concat (map (buffers_of (name_prefix m)) nms)\<rparr>)
      else Inl RuntimeError)"
proof (induction nms arbitrary: m)
  case (Cons nm nms)
  obtain name md where nm: "nm = (name, md)" by (cases nm)
  show ?case
  proof (cases md)
    case (BatchNormMod bn)
    then show ?thesis
      using Cons.IH
      by (cases "running_mean bn"; cases "running_var bn")
        (simp_all add: nm collect_dense_buffer_pair collect_batch_norm_def add_tensor_def)
  qed (simp_all add: nm Cons.IH collect_dense_buffer_pair)
qed simp

definition collected_tensors :: "torch_module \<Rightarrow> string option \<Rightarrow> dist_tensor list" where
  "collected_tensors md pre =
     concat (map (embedding_of pre) (named_modules md)) @ map (parameter_of pre) (named_parameters md) @
     concat (map (buffers_of pre) (named_modules md))"

lemma new_model_fields:
  assumes "new_model sparse ia im md en mv np tr = Inr m"
  shows "is_sparse_model m = sparse" "m_module m = md" "m_tensors m = []" "embedding_operators m = []"
    "cast_operators m = []" "m_training m = tr"
  using assms by (auto simp: new_model_def res_iffs)

lemma wrap_collected:
  assumes "wrap ia im md en mv np tr = Inr m"
  shows "collect_tensors m =
    (if module_ok md then
       Inr (m\<lparr>m_tensors := collected_tensors md (name_prefix m),
              embedding_operators := concat (map (embedding_of (name_prefix m)) (named_modules md)),
              cast_operators := concat (map cast_of (named_modules md))\<rparr>)
     else Inl RuntimeError)"
proof -
  note f = new_model_fields [OF assms [unfolded wrap_def]]
  show ?thesis
  proof (cases "is_sparse_model m")
    case True
    then show ?thesis
      using f by (simp add: collect_tensors_def collect_embeddings_sparse collect_casts_sparse collect_parameters
          collect_buffers module_ok_def collected_tensors_def)
  next
    case False
    have e: "list_all (\<lambda>(n, md). \<not> is_embedding md) (named_modules md)"
      and c: "list_all (\<lambda>(n, md). \<not> is_cast md) (named_modules md)"
      using False f(1) by (auto simp: contains_embedding_operators_def contains_cast_operators_def list_ex_iff list_all_iff)
    show ?thesis
      using collect_embeddings_none [OF e, of _ "name_prefix m"] collect_casts_none [OF c] f
      by (simp add: collect_tensors_def collect_parameters collect_buffers module_ok_def collected_tensors_def)
  qed
qed

text \<open>
  \<open>Model.wrap\<close> picks the wrapper that can collect: for the model it returns, collecting the tensors
  never complains about an operator of the wrong wrapper. It fails only for a module with synchronised
  or half-tracked batch normalisation, and otherwise registers, with the name prefix, each embedding
  operator once, then the parameters and then the running statistics, in the order of the module.
\<close>

theorem wrap_collects:
  assumes "wrap ia im md en mv np tr = Inr m"
  shows "collect_tensors m =
    (if module_ok md then
       Inr (m\<lparr>m_tensors := collected_tensors md (name_prefix m),
              embedding_operators := concat (map (embedding_of (name_prefix m)) (named_modules md)),
              cast_operators := concat (map cast_of (named_modules md))\<rparr>)
     else Inl RuntimeError)"
  by (rule wrap_collected [OF assms])

definition demo_module :: torch_module where
  "demo_module = \<lparr>named_modules = [(''emb'', EmbeddingMod 0), (''age'', CastMod 1),
       (''bn'', BatchNormMod \<lparr>running_mean = Some 3, running_var = Some 4, bn_weight = Some 5, bn_bias = None\<rparr>)],
     named_parameters = [(''bn.weight'', 5)]\<rparr>"

definition demo_model :: model where
  "demo_model = \<lparr>is_sparse_model = True, m_module = demo_module, experiment_name = Some ''exp'', model_version = None,
     name_prefix = Some ''a_'', m_training = False, m_tensors = [], embedding_operators = [], cast_operators = []\<rparr>"

lemma demo_wrapped: "wrap True True demo_module (PStr '' exp '') PNone (PStr ''a_'') False = Inr demo_model"
  by (simp add: wrap_def new_model_def raise_if_def check_experiment_name_def check_model_version_def
      check_name_prefix_def strip_def is_space_def is_valid_qualified_name_def name_start_def name_part_def is_lower_def is_upper_def is_digit_def
      contains_embedding_operators_def demo_module_def demo_model_def Let_def)

theorem wrap_collects_witness:
  "\<exists>m'. collect_tensors demo_model = Inr m' \<and>
     map t_name (m_tensors m') = [''a_emb'', ''a_bn.weight'', ''a_bn.running_mean'', ''a_bn.running_var''] \<and>
     cast_operators m' = [1]"
  using wrap_collects [OF demo_wrapped]
  by (simp add: module_ok_def demo_module_def demo_model_def collected_tensors_def new_tensor_def)

text \<open>
  A collected model with a \<open>Cast\<close> operator can not be split: whatever submodule and prefix are given,
  \<open>get_submodel\<close> asks the cast operators for the attribute \<open>name\<close> that torch modules do not have.
\<close>

theorem get_submodel_with_cast:
  assumes "wrap ia im md en mv np tr = Inr m" "collect_tensors m = Inr m'" "contains_cast_operators md"
  shows "get_submodel sub pre m' = Inl AttributeError"
proof -
  have m': "m' = m\<lparr>m_tensors := collected_tensors md (name_prefix m),
              embedding_operators := concat (map (embedding_of (name_prefix m)) (named_modules md)),
              cast_operators := concat (map cast_of (named_modules md))\<rparr>"
    using assms(2) unfolding wrap_collected [OF assms(1)] by (simp split: if_splits)
  have "is_sparse_model m" using new_model_fields(1) [OF assms(1) [unfolded wrap_def]] assms(3) by simp
  moreover obtain n i where "(n, CastMod i) \<in> set (named_modules md)"
    using assms(3) by (auto simp: contains_cast_operators_def list_ex_iff elim!: is_cast.elims)
  then have "\<exists>nm \<in> set (named_modules md). cast_of nm \<noteq> []" by (intro bexI [of _ "(n, CastMod i)"]) simp_all
  ultimately show ?thesis by (auto simp: m' get_submodel_def Let_def raise_if_def)
qed

theorem get_submodel_with_cast_witness:
  "\<exists>m'. collect_tensors demo_model = Inr m' \<and> get_submodel demo_module ''a_'' m' = Inl AttributeError"
proof -
  have "module_ok demo_module" by (simp add: module_ok_def demo_module_def)
  then obtain m' where m': "collect_tensors demo_model = Inr m'" using wrap_collected [OF demo_wrapped] by simp
  have "contains_cast_operators demo_module" by (simp add: contains_cast_operators_def demo_module_def)
  from get_submodel_with_cast [OF demo_wrapped m' this] m' show ?thesis by blast
qed

text \<open>
  Only sparse models can be exported: the export of a model that \<open>wrap\<close> made a plain \<open>Model\<close> raises
  \<open>AttributeError\<close>, because it reads a field of \<open>SparseModel\<close>; with no selector the export of a
  sparse model never fails and its last file is the dense part in the directory of the path.
\<close>

theorem export_needs_sparse_model:
  "do_export fl selected pre path (m\<lparr>is_sparse_model := False\<rparr>) = Inl AttributeError \<and>
   do_export fl selected None path (m\<lparr>is_sparse_model := True\<rparr>) =
     Inr (concat (map (\<lambda>t. sparse_export_files path (t_name t)) (exported_operators fl selected m))
          @ [dense_export_file path])"
proof -
  have n: "mapR (\<lambda>t. export_name None (t_name t)) ts = Inr (map t_name ts)" for ts
    by (rule mapR_total) (simp add: export_name_def)
  show ?thesis
    by (simp add: n do_export_def prepare_module_save_def raise_if_def Let_def comp_def exported_operators_def)
qed

end
