(* ===== verification/Trainer.thy ===== *)
theory Trainer
  imports Model
begin

text \<open>
  \<open>python/metaspore/distributed_trainer.py\<close> and the collective methods of \<open>model.py\<close>: every rank runs the
  same method, and the ranks meet at the agent's barriers. A method is the list of the actions that a
  given rank performs, and the ranks run their lists in any interleaving in which nobody passes a
  barrier before everybody has reached it. The requests of one \<open>asyncio.gather\<close> are performed in the
  order of their list.
\<close>

section \<open>The trainer's choices\<close>

record trainer =
  tr_updater :: "pyfloat updater"
  tr_initializer :: initializer
  skip_no_grad :: bool

text \<open>\<open>SGDTensorUpdater(0.1)\<close> and \<open>DefaultTensorInitializer()\<close> stand in for missing arguments.\<close>

definition new_trainer ::
  "bool \<Rightarrow> pyfloat updater arg \<Rightarrow> initializer arg \<Rightarrow> trainer res" where
  "new_trainer is_model u i =
     raise_if (\<not> is_model) TypeError
     (raise_if (u = ABad) TypeError
     (raise_if (i = ABad) TypeError
     (Inr \<lparr>tr_updater = (case u of AGood u \<Rightarrow> u | _ \<Rightarrow> SGD float_0_1),
           tr_initializer = (case i of AGood i \<Rightarrow> i | _ \<Rightarrow> DefaultInit), skip_no_grad = True\<rparr>)))"

definition get_tensor_initializer :: "trainer \<Rightarrow> tensor_attr \<Rightarrow> initializer" where
  "get_tensor_initializer tr attr =
     (case attr_initializer attr of None \<Rightarrow> tr_initializer tr | Some i \<Rightarrow> i)"

definition get_tensor_updater :: "trainer \<Rightarrow> tensor_attr \<Rightarrow> pyfloat updater" where
  "get_tensor_updater tr attr = (case attr_updater attr of None \<Rightarrow> tr_updater tr | Some u \<Rightarrow> u)"

text \<open>The shapes the tensors are created with; a missing state shape becomes \<open>()\<close>.\<close>

definition dense_state_shape :: "trainer \<Rightarrow> tensor_attr \<Rightarrow> nat list \<Rightarrow> nat list" where
  "dense_state_shape tr attr item_shape =
     (case get_dense_state_shape (get_tensor_updater tr attr) item_shape of None \<Rightarrow> [] | Some s \<Rightarrow> s)"

definition sparse_slice_state_shape :: "trainer \<Rightarrow> tensor_attr \<Rightarrow> nat \<Rightarrow> nat list" where
  "sparse_slice_state_shape tr attr width =
     (case get_sparse_slice_state_shape (get_tensor_updater tr attr) width of None \<Rightarrow> [] | Some s \<Rightarrow> s)"

section \<open>The actions of a rank\<close>

datatype action = Barrier | Collect | InitTensor dist_tensor | PushValue dist_tensor
  | PullTensor dist_tensor | ClearTensor dist_tensor | LoadTensor dist_tensor | SaveTensor dist_tensor
  | PruneTensor dist_tensor | ExportModel | Fail exn

definition pull_tensors :: "(nat \<Rightarrow> op_flags) \<Rightarrow> bool \<Rightarrow> model \<Rightarrow> dist_tensor list" where
  "pull_tensors fl force_mode m =
     [t \<leftarrow> m_tensors m. (force_mode \<or> m_training m \<or> \<not> is_dense t) \<and> \<not> tensor_is_backing fl t]"

definition push_tensors :: "(nat \<Rightarrow> op_flags) \<Rightarrow> model \<Rightarrow> dist_tensor list" where
  "push_tensors fl m = [t \<leftarrow> m_tensors m. \<not> tensor_is_backing fl t]"

definition clear_tensors :: "(nat \<Rightarrow> op_flags) \<Rightarrow> model \<Rightarrow> dist_tensor list" where
  "clear_tensors fl m =
     (if is_sparse_model m then [t \<leftarrow> embedding_operators m. \<not> tensor_is_backing fl t] else [])"

text \<open>
  The programs are those of the runs that raise nothing: \<open>_configure_batch_norms\<close> and
  \<open>_collect_tensors\<close> raise a \<open>RuntimeError\<close> on a module that they do not support, on every rank alike
  and before a tensor is created, and the calls to the servers may fail. A rank in which that happens
  runs none of the actions that follow.
\<close>

definition initialize_program :: "(nat \<Rightarrow> op_flags) \<Rightarrow> model \<Rightarrow> nat \<Rightarrow> action list" where
  "initialize_program fl m rank =
     [Barrier] @ Collect # map InitTensor (m_tensors m) @
     [Barrier] @ (if rank = 0 then map PushValue (push_tensors fl m) else []) @
     [Barrier] @ map PullTensor (pull_tensors fl True m) @
     [Barrier]"

definition load_program :: "(nat \<Rightarrow> op_flags) \<Rightarrow> model \<Rightarrow> nat \<Rightarrow> action list" where
  "load_program fl m rank =
     [Barrier] @ (if rank = 0 then map ClearTensor (clear_tensors fl m) else []) @
     [Barrier] @ map LoadTensor (push_tensors fl m) @
     [Barrier] @ map PullTensor (pull_tensors fl True m) @
     [Barrier]"

definition save_program :: "(nat \<Rightarrow> op_flags) \<Rightarrow> model \<Rightarrow> nat \<Rightarrow> action list" where
  "save_program fl m rank =
     [Barrier] @ (if rank = 0 then map SaveTensor (push_tensors fl m) else []) @ [Barrier]"

definition sync_program :: "(nat \<Rightarrow> op_flags) \<Rightarrow> model \<Rightarrow> nat \<Rightarrow> action list" where
  "sync_program fl m rank = [Barrier] @ map PullTensor (pull_tensors fl True m) @ [Barrier]"

definition prune_program :: "(nat \<Rightarrow> op_flags) \<Rightarrow> model \<Rightarrow> nat \<Rightarrow> action list" where
  "prune_program fl m rank =
     (if is_sparse_model m
      then [Barrier] @ (if rank = 0 then map PruneTensor (clear_tensors fl m) else []) @ [Barrier]
      else [])"

text \<open>\<open>export\<close> after its checks: the export itself, which may raise, runs on rank 0 only.\<close>

definition export_program ::
  "(nat \<Rightarrow> op_flags) \<Rightarrow> (item \<Rightarrow> bool) \<Rightarrow> string option \<Rightarrow> string \<Rightarrow> model \<Rightarrow> nat \<Rightarrow> action list" where
  "export_program fl selected pre path m rank =
     [Barrier] @ map PullTensor (pull_tensors fl True m) @
     (if rank = 0 then
        (case do_export fl selected pre path m of Inl e \<Rightarrow> [Fail e] | Inr _ \<Rightarrow> [ExportModel])
      else []) @ [Barrier]"

section \<open>Ranks and barriers\<close>

text \<open>
  The local values of the dense tensors on each rank, by object, and the values on the servers, by name.
  What initialising and loading make of a server's value is an argument.
\<close>

type_synonym 'v locals = "nat \<Rightarrow> item \<Rightarrow> 'v"
type_synonym 'v servers = "string \<Rightarrow> 'v"

record 'v cluster =
  programs :: "nat \<Rightarrow> action list"
  locals :: "'v locals"
  servers :: "'v servers"

record 'v server_ops =
  init_value :: "string \<Rightarrow> 'v \<Rightarrow> 'v"
  load_value :: "string \<Rightarrow> 'v \<Rightarrow> 'v"

fun perform :: "'v server_ops \<Rightarrow> nat \<Rightarrow> action \<Rightarrow> 'v locals \<times> 'v servers \<Rightarrow> 'v locals \<times> 'v servers" where
  "perform ops r (InitTensor t) (loc, srv) = (loc, srv(t_name t := init_value ops (t_name t) (srv (t_name t))))"
| "perform ops r (LoadTensor t) (loc, srv) = (loc, srv(t_name t := load_value ops (t_name t) (srv (t_name t))))"
| "perform ops r (PushValue t) (loc, srv) =
     (if is_dense t then (loc, srv(t_name t := loc r (t_item t))) else (loc, srv))"
| "perform ops r (PullTensor t) (loc, srv) =
     (if is_dense t then (loc(r := (loc r)(t_item t := srv (t_name t))), srv) else (loc, srv))"
| "perform ops r _ ls = ls"

fun is_fail :: "action \<Rightarrow> bool" where
  "is_fail (Fail _) = True"
| "is_fail _ = False"

inductive cluster_step :: "'v server_ops \<Rightarrow> nat \<Rightarrow> 'v cluster \<Rightarrow> 'v cluster \<Rightarrow> bool" for ops n where
  act: "r < n \<Longrightarrow> programs s r = a # rest \<Longrightarrow> a \<noteq> Barrier \<Longrightarrow> \<not> is_fail a \<Longrightarrow>
    perform ops r a (locals s, servers s) = (loc, srv) \<Longrightarrow>
    cluster_step ops n s \<lparr>programs = (programs s)(r := rest), locals = loc, servers = srv\<rparr>"
| meet: "0 < n \<Longrightarrow> (\<And>r. r < n \<Longrightarrow> \<exists>rest. programs s r = Barrier # rest) \<Longrightarrow>
    cluster_step ops n s (s\<lparr>programs := (\<lambda>r. if r < n then tl (programs s r) else programs s r)\<rparr>)"

inductive cluster_reach :: "'v server_ops \<Rightarrow> nat \<Rightarrow> 'v cluster \<Rightarrow> 'v cluster \<Rightarrow> bool" for ops n s0 where
  creach_refl: "cluster_reach ops n s0 s0"
| creach_step: "cluster_reach ops n s0 s \<Longrightarrow> cluster_step ops n s s' \<Longrightarrow> cluster_reach ops n s0 s'"

definition work_left :: "nat \<Rightarrow> 'v cluster \<Rightarrow> nat" where
  "work_left n s = (\<Sum>r<n. length (programs s r))"

lemma cluster_step_work: "cluster_step ops n s s' \<Longrightarrow> work_left n s' < work_left n s"
proof (induction rule: cluster_step.induct)
  case (act r s a rest loc srv)
  have "(\<Sum>q<n. length (((programs s)(r := rest)) q)) < (\<Sum>q<n. length (programs s q))"
    using act by (intro sum_strict_mono_ex1) auto
  then show ?case by (simp add: work_left_def)
next
  case (meet s)
  have "(\<Sum>q<n. length (if q < n then tl (programs s q) else programs s q)) < (\<Sum>q<n. length (programs s q))"
  proof (rule sum_strict_mono_ex1)
    show "\<exists>q\<in>{..<n}. length (if q < n then tl (programs s q) else programs s q) < length (programs s q)"
      using meet(1) meet(2) [OF meet(1)] by (intro bexI [of _ 0]) auto
  qed auto
  then show ?case by (simp add: work_left_def)
qed

lemma cluster_reach_trans: "cluster_reach ops n s1 s2 \<Longrightarrow> cluster_reach ops n s0 s1 \<Longrightarrow> cluster_reach ops n s0 s2"
  by (induction rule: cluster_reach.induct) (auto intro: creach_step)

section \<open>Programs in phases\<close>

text \<open>A program made of phases, each of which ends at a barrier.\<close>

primrec phased :: "(nat \<Rightarrow> action list) list \<Rightarrow> nat \<Rightarrow> action list" where
  "phased [] r = []"
| "phased (p # ps) r = p r @ Barrier # phased ps r"

definition plain :: "action \<Rightarrow> bool" where
  "plain a \<longleftrightarrow> a \<noteq> Barrier \<and> \<not> is_fail a"

text \<open>
  The contract of such a program: \<open>inv k d ls\<close> holds in phase \<open>k\<close> when rank \<open>r\<close> has done the actions \<open>d r\<close>
  of the phase; actions keep it, and at the end of a phase it gives the next one's.
\<close>

locale phased_run =
  fixes ops :: "'v server_ops" and n :: nat and phases :: "(nat \<Rightarrow> action list) list"
    and inv :: "nat \<Rightarrow> (nat \<Rightarrow> action list) \<Rightarrow> 'v locals \<times> 'v servers \<Rightarrow> bool"
  assumes ranks: "0 < n"
    and plain_phases: "k < length phases \<Longrightarrow> r < n \<Longrightarrow> list_all plain ((phases ! k) r)"
    and inv_act: "k < length phases \<Longrightarrow> r < n \<Longrightarrow> (phases ! k) r = d r @ a # todo \<Longrightarrow> inv k d ls \<Longrightarrow>
      inv k (d(r := d r @ [a])) (perform ops r a ls)"
    and inv_next: "k < length phases \<Longrightarrow> inv k d ls \<Longrightarrow> (\<And>r. r < n \<Longrightarrow> d r = (phases ! k) r) \<Longrightarrow>
      inv (Suc k) (\<lambda>_. []) ls"
begin

definition in_phase :: "nat \<Rightarrow> (nat \<Rightarrow> action list) \<Rightarrow> 'v cluster \<Rightarrow> bool" where
  "in_phase k d s \<longleftrightarrow> inv k d (locals s, servers s) \<and>
     (if k < length phases
      then (\<forall>r<n. \<exists>todo. (phases ! k) r = d r @ todo \<and>
              programs s r = todo @ Barrier # phased (drop (Suc k) phases) r)
      else k = length phases \<and> (\<forall>r<n. programs s r = []))"

lemma in_phase_step:
  assumes "in_phase k d s" "cluster_step ops n s s'"
  shows "\<exists>k d. in_phase k d s'"
  using assms(2)
proof (cases rule: cluster_step.cases)
  case (act r a rest loc srv)
  have k: "k < length phases" using assms(1) act(2,3) by (auto simp: in_phase_def split: if_splits)
  then obtain todo where todo: "(phases ! k) r = d r @ todo"
    "programs s r = todo @ Barrier # phased (drop (Suc k) phases) r"
    using assms(1) act(2) by (auto simp: in_phase_def)
  then obtain todo' where t: "todo = a # todo'" using act(3,4) by (cases todo) auto
  have "inv k (d(r := d r @ [a])) (loc, srv)"
    using inv_act [OF k act(2), of d a todo' "(locals s, servers s)"] assms(1) act(6) todo(1) t
    by (simp add: in_phase_def)
  moreover have "\<exists>todo. (phases ! k) r' = (d(r := d r @ [a])) r' @ todo \<and>
      programs s' r' = todo @ Barrier # phased (drop (Suc k) phases) r'" if "r' < n" for r'
    using assms(1) that k todo t act(1,3) by (auto simp: in_phase_def)
  ultimately show ?thesis using k act(1) by (intro exI [of _ k] exI [of _ "d(r := d r @ [a])"]) (simp add: in_phase_def)
next
  case meet
  have k: "k < length phases" using assms(1) meet(3) [OF ranks] ranks by (auto simp: in_phase_def split: if_splits)
  have fin: "d r = (phases ! k) r \<and> programs s r = Barrier # phased (drop (Suc k) phases) r" if r: "r < n" for r
  proof -
    obtain todo where todo: "(phases ! k) r = d r @ todo"
      "programs s r = todo @ Barrier # phased (drop (Suc k) phases) r"
      using assms(1) k r by (auto simp: in_phase_def)
    have "todo = []"
    proof (cases todo)
      case (Cons a t)
      then have "a = Barrier" using meet(3) [OF r] todo(2) by auto
      then show ?thesis using plain_phases [OF k r] todo(1) Cons by (simp add: plain_def)
    qed
    then show ?thesis using todo by simp
  qed
  have inv': "inv (Suc k) (\<lambda>_. []) (locals s, servers s)"
    using inv_next [OF k, of d] assms(1) fin by (simp add: in_phase_def)
  have "in_phase (Suc k) (\<lambda>_. []) s'"
  proof (cases "Suc k < length phases")
    case True
    then have "phased (drop (Suc k) phases) r = (phases ! Suc k) r @ Barrier # phased (drop (Suc (Suc k)) phases) r" for r
      by (simp add: Cons_nth_drop_Suc [symmetric])
    then show ?thesis using inv' True fin meet(1) by (simp add: in_phase_def)
  next
    case False
    then show ?thesis using inv' k fin meet(1) by (simp add: in_phase_def)
  qed
  then show ?thesis by blast
qed

lemma in_phase_reach:
  assumes "cluster_reach ops n s0 s" "in_phase k0 d0 s0"
  shows "\<exists>k d. in_phase k d s"
  using assms by (induction rule: cluster_reach.induct) (auto dest: in_phase_step)

text \<open>No state on the way is stuck, and a finished one satisfies the last invariant.\<close>

lemma in_phase_progress:
  assumes "in_phase k d s" "\<not> (\<forall>r<n. programs s r = [])"
  shows "\<exists>s'. cluster_step ops n s s'"
proof (cases "\<exists>r<n. \<exists>a rest. programs s r = a # rest \<and> plain a")
  case True
  then obtain r a rest where r: "r < n" "programs s r = a # rest" "plain a" by blast
  obtain loc srv where "perform ops r a (locals s, servers s) = (loc, srv)" by (cases "perform ops r a (locals s, servers s)")
  then show ?thesis using r act [of r n s a rest ops loc srv] by (auto simp: plain_def)
next
  case False
  have k: "k < length phases" using assms by (auto simp: in_phase_def split: if_splits)
  have "\<exists>rest. programs s r = Barrier # rest" if r: "r < n" for r
  proof -
    obtain todo where todo: "(phases ! k) r = d r @ todo"
      "programs s r = todo @ Barrier # phased (drop (Suc k) phases) r"
      using assms(1) k r by (auto simp: in_phase_def)
    have "todo = []"
      using plain_phases [OF k r] False r todo by (cases todo) auto
    then show ?thesis using todo(2) by simp
  qed
  then show ?thesis using meet [OF ranks, of s ops] by blast
qed

text \<open>Every run can be completed.\<close>

lemma in_phase_completes:
  "in_phase k d s \<Longrightarrow> \<exists>s'. cluster_reach ops n s s' \<and> (\<forall>r<n. programs s' r = [])"
proof (induction "work_left n s" arbitrary: k d s rule: less_induct)
  case less
  show ?case
  proof (cases "\<forall>r<n. programs s r = []")
    case True
    then show ?thesis using creach_refl by blast
  next
    case False
    obtain s1 where s1: "cluster_step ops n s s1" using in_phase_progress [OF less.prems False] by blast
    obtain k1 d1 where "in_phase k1 d1 s1" using in_phase_step [OF less.prems s1] by blast
    from less.hyps [OF cluster_step_work [OF s1] this] obtain s' where
      "cluster_reach ops n s1 s'" "\<forall>r<n. programs s' r = []" by blast
    moreover have "cluster_reach ops n s s1" using creach_refl s1 by (rule creach_step)
    ultimately show ?thesis using cluster_reach_trans by blast
  qed
qed

lemma in_phase_finished:
  assumes "in_phase k d s" "\<forall>r<n. programs s r = []"
  shows "inv (length phases) d (locals s, servers s)"
proof -
  have "\<not> k < length phases"
  proof
    assume "k < length phases"
    then obtain todo where "programs s 0 = todo @ Barrier # phased (drop (Suc k) phases) 0"
      using assms(1) ranks by (auto simp: in_phase_def)
    then show False using assms(2) ranks by simp
  qed
  then show ?thesis using assms(1) by (auto simp: in_phase_def)
qed

lemma in_phase_start:
  assumes "inv 0 (\<lambda>_. []) (locals s, servers s)" "\<And>r. r < n \<Longrightarrow> programs s r = phased phases r"
  shows "in_phase 0 (\<lambda>_. []) s"
proof (cases "phases = []")
  case False
  then have "phased phases r = (phases ! 0) r @ Barrier # phased (drop (Suc 0) phases) r" for r
    by (cases phases) simp_all
  then show ?thesis using assms False by (simp add: in_phase_def)
next
  case True
  then show ?thesis unfolding in_phase_def using assms by simp
qed

end

section \<open>Initialising a model\<close>

text \<open>The phases of \<open>DistributedTrainer.initialize\<close>.\<close>

definition initialize_phases :: "(nat \<Rightarrow> op_flags) \<Rightarrow> model \<Rightarrow> (nat \<Rightarrow> action list) list" where
  "initialize_phases fl m =
     [\<lambda>_. [], \<lambda>_. Collect # map InitTensor (m_tensors m),
      \<lambda>rank. if rank = 0 then map PushValue (push_tensors fl m) else [],
      \<lambda>_. map PullTensor (pull_tensors fl True m)]"

lemma initialize_program_phased: "initialize_program fl m r = phased (initialize_phases fl m) r"
  by (simp add: initialize_program_def initialize_phases_def)

lemma pulled_pushed: "pull_tensors fl True m = push_tensors fl m"
  by (simp add: pull_tensors_def push_tensors_def)

lemma dense_is_pushed: "t \<in> set (m_tensors m) \<Longrightarrow> is_dense t \<Longrightarrow> t \<in> set (push_tensors fl m)"
  by (cases t) (auto simp: push_tensors_def tensor_is_backing_def split: item.splits)

definition well_named :: "model \<Rightarrow> bool" where
  "well_named m \<longleftrightarrow> distinct (map t_name (m_tensors m))"

lemma well_named_inj:
  "well_named m \<Longrightarrow> t \<in> set (m_tensors m) \<Longrightarrow> u \<in> set (m_tensors m) \<Longrightarrow> t_name t = t_name u \<Longrightarrow> t = u"
  by (auto simp: well_named_def distinct_map inj_on_def)

text \<open>
  What holds in each phase: before the pulls nobody's values have changed; in the push phase the tensors
  that rank 0 has pushed are on the servers; in the pull phase all of them are, and a rank has the values
  of the tensors it has pulled.
\<close>

definition broadcast_inv ::
  "model \<Rightarrow> 'v locals \<Rightarrow> nat \<Rightarrow> (nat \<Rightarrow> action list) \<Rightarrow> 'v locals \<times> 'v servers \<Rightarrow> bool" where
  "broadcast_inv m loc0 k d ls \<longleftrightarrow>
     (k \<le> 2 \<longrightarrow> fst ls = loc0) \<and>
     (k = 2 \<longrightarrow> (\<forall>t. is_dense t \<longrightarrow> PushValue t \<in> set (d 0) \<longrightarrow> snd ls (t_name t) = loc0 0 (t_item t))) \<and>
     (3 \<le> k \<longrightarrow> (\<forall>t\<in>set (m_tensors m). is_dense t \<longrightarrow> snd ls (t_name t) = loc0 0 (t_item t))) \<and>
     (k = 3 \<longrightarrow> (\<forall>r t. t \<in> set (m_tensors m) \<longrightarrow> is_dense t \<longrightarrow> PullTensor t \<in> set (d r) \<longrightarrow>
        fst ls r (t_item t) = loc0 0 (t_item t)))"

definition finished_inv :: "model \<Rightarrow> nat \<Rightarrow> 'v locals \<Rightarrow> nat \<Rightarrow> (nat \<Rightarrow> action list) \<Rightarrow> 'v locals \<times> 'v servers \<Rightarrow> bool" where
  "finished_inv m n loc0 k d ls \<longleftrightarrow> well_named m \<longrightarrow> broadcast_inv m loc0 k d ls \<and>
     (4 \<le> k \<longrightarrow> (\<forall>r<n. \<forall>t\<in>set (m_tensors m). is_dense t \<longrightarrow> fst ls r (t_item t) = loc0 0 (t_item t)))"

lemma push_subset: "set (push_tensors fl m) \<subseteq> set (m_tensors m)"
  by (auto simp: push_tensors_def)

lemma nth4: "k < 4 \<Longrightarrow> k = 0 \<or> k = 1 \<or> k = 2 \<or> k = (3::nat)"
  by auto

interpretation init_run: phased_run ops "Suc w" "initialize_phases fl m" "finished_inv m (Suc w) loc0"
  for ops w fl m loc0
proof unfold_locales
  show "0 < Suc w" by simp
next
  fix k r assume k: "k < length (initialize_phases fl m)"
  show "list_all plain ((initialize_phases fl m ! k) r)"
    using k by (auto simp: initialize_phases_def less_Suc_eq list_all_iff plain_def)
next
  fix k r d a todo and ls :: "'a locals \<times> 'a servers"
  assume k: "k < length (initialize_phases fl m)" and r: "r < Suc w"
    and split: "(initialize_phases fl m ! k) r = d r @ a # todo" and I: "finished_inv m (Suc w) loc0 k d ls"
  obtain loc srv where ls: "ls = (loc, srv)" by (cases ls)
  have k4: "k < 4" using k by (simp add: initialize_phases_def)
  have mem: "a \<in> set ((initialize_phases fl m ! k) r)" using split by simp
  have "broadcast_inv m loc0 k (d(r := d r @ [a])) (perform ops r a ls)" if wn: "well_named m"
    using nth4 [OF k4]
  proof (elim disjE)
    assume "k = 0" then show ?thesis using mem by (simp add: initialize_phases_def)
  next
    assume "k = 1"
    then show ?thesis using mem I wn by (auto simp: initialize_phases_def finished_inv_def broadcast_inv_def ls)
  next
    assume k2: "k = 2"
    then obtain t where t: "a = PushValue t" "t \<in> set (m_tensors m)" "r = 0"
      using mem push_subset [of fl m] by (auto simp: initialize_phases_def split: if_splits)
    have pushed: "u \<in> set (m_tensors m)" if "PushValue u \<in> set (d 0)" for u
    proof -
      have "PushValue u \<in> set ((initialize_phases fl m ! k) r)" using split that t(3) by simp
      then show ?thesis using push_subset [of fl m] k2 t(3) by (auto simp: initialize_phases_def)
    qed
    show ?thesis
      using I wn t k2 well_named_inj [OF wn] pushed by (auto simp: finished_inv_def broadcast_inv_def ls)
  next
    assume k3: "k = 3"
    then obtain t where t: "a = PullTensor t" "t \<in> set (m_tensors m)"
      using mem push_subset [of fl m] by (auto simp: initialize_phases_def pulled_pushed)
    show ?thesis using I wn t k3 by (auto simp: finished_inv_def broadcast_inv_def ls)
  qed
  then show "finished_inv m (Suc w) loc0 k (d(r := d r @ [a])) (perform ops r a ls)"
    using k4 by (simp add: finished_inv_def)
next
  fix k d and ls :: "'a locals \<times> 'a servers"
  assume k: "k < length (initialize_phases fl m)" and I: "finished_inv m (Suc w) loc0 k d ls"
    and all: "\<And>r. r < Suc w \<Longrightarrow> d r = (initialize_phases fl m ! k) r"
  have k4: "k < 4" using k by (simp add: initialize_phases_def)
  from nth4 [OF k4] show "finished_inv m (Suc w) loc0 (Suc k) (\<lambda>_. []) ls"
  proof (elim disjE)
    assume k2: "k = 2"
    have "set (d 0) = PushValue ` set (push_tensors fl m)"
      using all [of 0] k2 by (simp add: initialize_phases_def)
    then show ?thesis using I k2 dense_is_pushed [of _ m fl] by (auto simp: finished_inv_def broadcast_inv_def)
  next
    assume k3: "k = 3"
    have "set (d r) = PullTensor ` set (push_tensors fl m)" if "r < Suc w" for r
      using all [OF that] k3 by (simp add: initialize_phases_def pulled_pushed)
    then show ?thesis using I k3 dense_is_pushed [of _ m fl] by (auto simp: finished_inv_def broadcast_inv_def)
  qed (use I in \<open>auto simp: finished_inv_def broadcast_inv_def\<close>)
qed

lemma initialize_start:
  assumes "programs s = initialize_program fl m"
  shows "phased_run.in_phase (Suc w) (initialize_phases fl m) (finished_inv m (Suc w) (locals s)) 0 (\<lambda>_. []) s"
  by (rule init_run.in_phase_start)
    (simp_all add: finished_inv_def broadcast_inv_def assms initialize_program_phased)

text \<open>
  C1: \<open>DistributedTrainer.initialize\<close> broadcasts: on any number of ranks and in every interleaving, nobody
  gets stuck as long as somebody has work left, every run can be completed, and when all ranks have
  finished, each dense tensor has on every rank the value that it had on rank 0 at the beginning,
  whatever the servers' initializers did.
\<close>

theorem initialize_broadcasts:
  assumes "well_named m" "programs s0 = initialize_program fl m" "cluster_reach ops (Suc w) s0 s"
  shows "((\<exists>r<Suc w. programs s r \<noteq> []) \<longrightarrow> (\<exists>s'. cluster_step ops (Suc w) s s')) \<and>
    (\<exists>s'. cluster_reach ops (Suc w) s s' \<and> (\<forall>r<Suc w. programs s' r = [])) \<and>
    ((\<forall>r<Suc w. programs s r = []) \<longrightarrow>
      (\<forall>r<Suc w. \<forall>t\<in>set (m_tensors m). is_dense t \<longrightarrow> locals s r (t_item t) = locals s0 0 (t_item t)))"
proof -
  obtain k d where p: "phased_run.in_phase (Suc w) (initialize_phases fl m) (finished_inv m (Suc w) (locals s0)) k d s"
    using init_run.in_phase_reach [OF assms(3) initialize_start [OF assms(2)]] by blast
  have "finished_inv m (Suc w) (locals s0) 4 d (locals s, servers s)" if "\<forall>r<Suc w. programs s r = []"
    using init_run.in_phase_finished [OF p that] by (simp add: initialize_phases_def numeral_eq_Suc)
  then show ?thesis
    using init_run.in_phase_progress [OF p] init_run.in_phase_completes [OF p] assms(1)
    by (auto simp: finished_inv_def)
qed

definition demo_dense :: model where
  "demo_dense = demo_model\<lparr>is_sparse_model := False, m_tensors := [\<lparr>t_name = ''w'', t_item = Parameter 0\<rparr>]\<rparr>"

definition demo_flags :: "nat \<Rightarrow> op_flags" where
  "demo_flags i = \<lparr>f_backing = False, f_exported = True, f_embedding_size = 2, f_feature_count = 1\<rparr>"

definition demo_cluster :: "int cluster" where
  "demo_cluster = \<lparr>programs = initialize_program demo_flags demo_dense,
     locals = (\<lambda>r _. int r + 7), servers = (\<lambda>_. 0)\<rparr>"

definition demo_ops :: "int server_ops" where
  "demo_ops = \<lparr>init_value = (\<lambda>_ _. 1), load_value = (\<lambda>_ v. v)\<rparr>"

theorem initialize_broadcasts_witness:
  "\<exists>s. cluster_reach demo_ops 3 demo_cluster s \<and> (\<forall>r<3. programs s r = []) \<and>
     locals s 2 (Parameter 0) = 7 \<and> locals demo_cluster 2 (Parameter 0) = 9"
proof -
  have wn: "well_named demo_dense" by (simp add: well_named_def demo_dense_def)
  have p: "programs demo_cluster = initialize_program demo_flags demo_dense" by (simp add: demo_cluster_def)
  obtain s where s: "cluster_reach demo_ops (Suc 2) demo_cluster s" "\<forall>r<Suc 2. programs s r = []"
    using initialize_broadcasts [OF wn p creach_refl] by blast
  have "\<forall>t\<in>set (m_tensors demo_dense). is_dense t \<longrightarrow>
      locals s 2 (t_item t) = locals demo_cluster 0 (t_item t)"
    using initialize_broadcasts [OF wn p s(1)] s(2) by blast
  then show ?thesis using s by (auto simp: demo_dense_def demo_cluster_def numeral_3_eq_3)
qed

section \<open>A failing export\<close>

text \<open>
  A failing export blocks the other ranks for ever: when \<open>do_export\<close> raises, rank 0 never reaches the
  last barrier, so in every reachable state of the export with at least two ranks every other rank still
  has that barrier ahead of it.
\<close>

theorem failed_export_blocks:
  assumes "do_export fl selected pre path m = Inl e"
    and "programs s0 = export_program fl selected pre path m" "cluster_reach ops (Suc (Suc w)) s0 s"
  shows "\<forall>r\<in>{1..Suc w}. Barrier \<in> set (programs s r)"
proof -
  let ?n = "Suc (Suc w)"
  let ?P = "map PullTensor (pull_tensors fl True m)"
  define good where "good s \<longleftrightarrow>
    (\<forall>r<?n. programs s r = export_program fl selected pre path m r) \<or>
    (\<exists>todo. programs s 0 = todo @ [Fail e, Barrier] \<and> Barrier \<notin> set todo) \<and>
      (\<forall>r\<in>{1..Suc w}. \<exists>todo. programs s r = todo @ [Barrier])" for s :: "'a cluster"
  have later: "cluster_step ops ?n s s' \<Longrightarrow> good s \<Longrightarrow> good s'" for s s'
  proof (induction rule: cluster_step.induct)
    case (act r s a rest loc srv)
    have "hd (export_program fl selected pre path m r) = Barrier" by (simp add: export_program_def)
    then have "programs s r \<noteq> export_program fl selected pre path m r" using act.hyps(2,3) by (metis list.sel(1))
    then have "\<not> (\<forall>r<?n. programs s r = export_program fl selected pre path m r)" using act.hyps(1) by blast
    then obtain todo where todo: "programs s 0 = todo @ [Fail e, Barrier]" "Barrier \<notin> set todo"
      and others: "\<forall>r\<in>{1..Suc w}. \<exists>todo. programs s r = todo @ [Barrier]"
      using act.prems by (auto simp: good_def)
    have "\<exists>todo. ((programs s)(r := rest)) 0 = todo @ [Fail e, Barrier] \<and> Barrier \<notin> set todo"
    proof (cases "r = 0")
      case True
      then show ?thesis using todo act.hyps(2,4) by (cases todo) auto
    qed (use todo in simp)
    moreover have "\<exists>todo. ((programs s)(r := rest)) q = todo @ [Barrier]" if "q \<in> {1..Suc w}" for q
    proof -
      from bspec [OF others that] obtain t where t: "programs s q = t @ [Barrier]" ..
      show ?thesis
      proof (cases "q = r")
        case True
        then have "t @ [Barrier] = a # rest" using act.hyps(2) t by metis
        then obtain t' where "rest = t' @ [Barrier]" using act.hyps(3) by (cases t) auto
        then show ?thesis unfolding True by simp
      qed (use t in simp)
    qed
    ultimately show ?case by (auto simp: good_def)
  next
    case (meet s)
    have "programs s 0 \<noteq> todo @ [Fail e, Barrier] \<or> Barrier \<in> set todo" for todo
      using meet.hyps(2) [of 0] by (cases todo) auto
    then have "\<forall>r<?n. programs s r = export_program fl selected pre path m r" using meet.prems by (auto simp: good_def)
    then show ?case
      using assms(1) by (auto simp: good_def export_program_def)
  qed
  have "good s0" using assms(2) by (simp add: good_def)
  with assms(3) have "good s" by (induction rule: cluster_reach.induct) (auto intro: later)
  show ?thesis
  proof
    fix r assume r: "r \<in> {1..Suc w}"
    show "Barrier \<in> set (programs s r)"
      using \<open>good s\<close> unfolding good_def
    proof (elim disjE conjE)
      assume "\<forall>r<?n. programs s r = export_program fl selected pre path m r"
      then have "programs s r = export_program fl selected pre path m r" using r by simp
      then show ?thesis by (simp add: export_program_def)
    next
      assume "\<forall>r\<in>{1..Suc w}. \<exists>todo. programs s r = todo @ [Barrier]"
      from bspec [OF this r] show ?thesis by auto
    qed
  qed
qed

theorem failed_export_blocks_witness:
  "do_export demo_flags (\<lambda>_. True) None ''p/'' demo_dense = Inl AttributeError \<and>
   Barrier \<in> set (export_program demo_flags (\<lambda>_. True) None ''p/'' demo_dense 1)"
proof -
  have e: "do_export demo_flags (\<lambda>_. True) None ''p/'' demo_dense = Inl AttributeError"
    by (simp add: do_export_def prepare_module_save_def demo_dense_def raise_if_def)
  let ?s = "demo_cluster\<lparr>programs := export_program demo_flags (\<lambda>_. True) None ''p/'' demo_dense\<rparr>"
  have "\<forall>r\<in>{1..Suc 0}. Barrier \<in> set (programs ?s r)"
    by (rule failed_export_blocks [OF e _ creach_refl]) simp
  then show ?thesis using e by simp
qed

end
