(* ===== verification/Agent.thy ===== *)
theory Agent
  imports Dict Metric Utils
begin

text \<open>
  \<open>python/metaspore/agent.py\<close>: the Python agent of a parameter-server process, the registry of agents
  by thread, the start of the three kinds of nodes, and the protocol that pushes the metrics of the
  workers to the coordinator. An agent is its instance dictionary. The native agent is the record of
  what its properties return; the JSON body of a message is kept as the value it encodes. What
  \<open>PSRunner.run_ps\<close> does between its two callbacks is an event of the step relation of the worker.
\<close>

section \<open>Instances\<close>

record cxx_agent =
  cx_is_coordinator :: bool
  cx_is_server :: bool
  cx_is_worker :: bool
  cx_server_count :: int
  cx_worker_count :: int
  cx_rank :: int

text \<open>The values in an instance dictionary: the three private slots, and configured attributes.\<close>

datatype slot_value = VCxx cxx_agent | VSession nat | VMetric binary_metric | VAttr pyval

type_synonym py_agent = "slot_value dict"

abbreviation cxx_slot :: string where "cxx_slot \<equiv> ''_Agent__cxx_agent''"
abbreviation session_slot :: string where "session_slot \<equiv> ''_Agent__spark_session''"
abbreviation metric_slot :: string where "metric_slot \<equiv> ''_Agent__metric''"

text \<open>\<open>getattr(self, name, None)\<close>, with \<open>None\<close> for a missing attribute.\<close>

definition get_slot :: "py_agent \<Rightarrow> string \<Rightarrow> slot_value option" where
  "get_slot a n = (case dict_get a n of Some (VAttr PNone) \<Rightarrow> None | v \<Rightarrow> v)"

definition cxx_agent_of :: "py_agent \<Rightarrow> slot_value res" where
  "cxx_agent_of a = (case get_slot a cxx_slot of None \<Rightarrow> Inl RuntimeError | Some v \<Rightarrow> Inr v)"

definition finalize_agent :: "py_agent \<Rightarrow> py_agent" where
  "finalize_agent a = dict_set cxx_slot (VAttr PNone) a"

text \<open>\<open>init\<close> are the attributes that the constructor of the agent class sets.\<close>

definition create_agent :: "py_agent \<Rightarrow> cxx_agent \<Rightarrow> py_agent" where
  "create_agent init c = dict_set cxx_slot (VCxx c) init"

text \<open>A property of the native agent; any other object in the slot has no such attribute.\<close>

definition cxx_field :: "(cxx_agent \<Rightarrow> 'b) \<Rightarrow> py_agent \<Rightarrow> 'b res" where
  "cxx_field f a =
     bindR (cxx_agent_of a) (\<lambda>v. case v of VCxx c \<Rightarrow> Inr (f c) | _ \<Rightarrow> Inl AttributeError)"

definition agent_is_coordinator :: "py_agent \<Rightarrow> bool res" where
  "agent_is_coordinator = cxx_field cx_is_coordinator"

definition agent_is_server :: "py_agent \<Rightarrow> bool res" where
  "agent_is_server = cxx_field cx_is_server"

definition agent_is_worker :: "py_agent \<Rightarrow> bool res" where
  "agent_is_worker = cxx_field cx_is_worker"

definition agent_server_count :: "py_agent \<Rightarrow> int res" where
  "agent_server_count = cxx_field cx_server_count"

definition agent_worker_count :: "py_agent \<Rightarrow> int res" where
  "agent_worker_count = cxx_field cx_worker_count"

definition agent_rank :: "py_agent \<Rightarrow> int res" where
  "agent_rank = cxx_field cx_rank"

definition agent_spark_session :: "py_agent \<Rightarrow> slot_value res" where
  "agent_spark_session a =
     bindR (agent_is_coordinator a) (\<lambda>c.
     raise_if (\<not> c) RuntimeError
     (case get_slot a session_slot of None \<Rightarrow> Inl RuntimeError | Some v \<Rightarrow> Inr v))"

text \<open>The context is a field of the session; here it is identified with its session.\<close>

definition agent_spark_context :: "py_agent \<Rightarrow> slot_value res" where
  "agent_spark_context a =
     bindR (agent_is_coordinator a) (\<lambda>c.
     raise_if (\<not> c) RuntimeError
     (case get_slot a session_slot of
        None \<Rightarrow> Inl RuntimeError
      | Some (VSession s) \<Rightarrow> Inr (VSession s)
      | Some _ \<Rightarrow> Inl AttributeError))"

section \<open>The registry of agents by thread\<close>

type_synonym 'a registry = "int \<rightharpoonup> 'a"

definition register_instance :: "int \<Rightarrow> 'a \<Rightarrow> 'a registry \<Rightarrow> 'a registry res" where
  "register_instance ident inst reg =
     raise_if (reg ident \<noteq> None) RuntimeError (Inr (reg(ident \<mapsto> inst)))"

definition deregister_instance :: "int \<Rightarrow> 'a registry \<Rightarrow> 'a registry res" where
  "deregister_instance ident reg =
     raise_if (reg ident = None) RuntimeError (Inr (reg(ident := None)))"

definition get_instance :: "int \<Rightarrow> int option \<Rightarrow> 'a registry \<Rightarrow> 'a res" where
  "get_instance current ident reg =
     (case reg (case ident of None \<Rightarrow> current | Some i \<Rightarrow> i) of
        None \<Rightarrow> Inl RuntimeError | Some a \<Rightarrow> Inr a)"

text \<open>A registry is a store in which an agent is only written under a free identifier.\<close>

interpretation registry: kv_store "\<lambda>(reg :: 'a registry) i. reg i" "\<lambda>i a reg. reg(i \<mapsto> a)"
  by unfold_locales simp

lemma register_then_get:
  "register_instance i a reg = Inr reg' \<Longrightarrow>
   get_instance cur (Some j) reg' = (if j = i then Inr a else get_instance cur (Some j) reg)"
  by (auto simp: register_instance_def get_instance_def raise_if_Inr_iff registry.get_put)

lemma deregister_register:
  "register_instance i a reg = Inr reg' \<Longrightarrow> deregister_instance i reg' = Inr reg"
  by (auto simp: register_instance_def deregister_instance_def raise_if_Inr_iff)

section \<open>Configuration of a node\<close>

datatype node_role = RCoordinator | RServer | RWorker

definition node_roles :: "(string \<times> node_role) list" where
  "node_roles = [(''Coordinator'', RCoordinator), (''Server'', RServer), (''Worker'', RWorker)]"

text \<open>\<open>NodeRole.__members__[...]\<close>: a missing name and an unhashable value are different errors.\<close>

fun node_role_of :: "pyval \<Rightarrow> node_role res" where
  "node_role_of (PStr s) = (case map_of node_roles s of None \<Rightarrow> Inl KeyError | Some r \<Rightarrow> Inr r)"
| "node_role_of (PList _) = Inl TypeError"
| "node_role_of (PDict _) = Inl TypeError"
| "node_role_of _ = Inl KeyError"

text \<open>\<open>d[k]\<close>.\<close>

definition dict_index :: "'v dict \<Rightarrow> string \<Rightarrow> 'v res" where
  "dict_index d k = (case dict_get d k of None \<Rightarrow> Inl KeyError | Some v \<Rightarrow> Inr v)"

text \<open>
  The fields that are assigned; the conversions of the native setters are not modelled. A missing
  \<open>agent_creator\<close> is the agent class itself.
\<close>

record actor_config =
  ac_root_uri :: pyval
  ac_root_port :: pyval
  ac_node_role :: node_role
  ac_agent_creator :: pyval
  ac_ready_callback :: "pyval option"
  ac_server_count :: pyval
  ac_worker_count :: pyval
  ac_message_dumping :: pyval

definition get_actor_config :: "string \<Rightarrow> pyval dict \<Rightarrow> actor_config res" where
  "get_actor_config cls args =
     bindR (dict_index args ''root_uri'') (\<lambda>uri.
     bindR (dict_index args ''root_port'') (\<lambda>port.
     bindR (bindR (dict_index args ''node_role'') node_role_of) (\<lambda>role.
     bindR (dict_index args ''server_count'') (\<lambda>sc.
     bindR (dict_index args ''worker_count'') (\<lambda>wc.
     Inr \<lparr>ac_root_uri = uri, ac_root_port = port, ac_node_role = role,
          ac_agent_creator = (case dict_get args ''agent_creator'' of None \<Rightarrow> PObj cls | Some v \<Rightarrow> v),
          ac_ready_callback = not_none (dict_get args ''agent_ready_callback''),
          ac_server_count = sc, ac_worker_count = wc,
          ac_message_dumping =
            (case dict_get args ''is_message_dumping_enabled'' of None \<Rightarrow> PBool False | Some v \<Rightarrow> v)\<rparr>)))))"

text \<open>\<open>_load_agent_attributes\<close>; the reserved names are those of \<open>dir(cls)\<close>.\<close>

definition load_attribute :: "string list \<Rightarrow> string \<times> pyval \<Rightarrow> py_agent \<Rightarrow> py_agent res" where
  "load_attribute reserved nv a =
     (case nv of (n, v) \<Rightarrow> raise_if (n \<in> set reserved) RuntimeError (Inr (dict_set n (VAttr v) a)))"

definition load_agent_attributes :: "string list \<Rightarrow> pyval dict \<Rightarrow> py_agent \<Rightarrow> py_agent res" where
  "load_agent_attributes reserved args inst =
     bindR (dict_index args ''agent_attributes'') (\<lambda>attrs.
     bindR (py_items attrs) (\<lambda>items. foldR (load_attribute reserved) items inst))"

text \<open>The arguments of a node: those of the launch with the callbacks and the role of the node.\<close>

definition launch_args :: "string \<Rightarrow> int \<Rightarrow> pyval dict \<Rightarrow> pyval dict" where
  "launch_args ip port args =
     dict_set ''root_port'' (PInt port) (dict_set ''root_uri'' (PStr ip) args)"

definition node_args :: "string \<Rightarrow> string \<Rightarrow> string \<Rightarrow> pyval dict \<Rightarrow> pyval dict" where
  "node_args creator callback role args =
     dict_set ''node_role'' (PStr role)
     (dict_set ''agent_ready_callback'' (PObj callback)
     (dict_set ''agent_creator'' (PObj creator) args))"

definition server_args :: "pyval dict \<Rightarrow> pyval dict" where
  "server_args = node_args ''create_server'' ''server_ready'' ''Server''"

definition worker_args :: "pyval dict \<Rightarrow> pyval dict" where
  "worker_args = node_args ''create_worker'' ''worker_ready'' ''Worker''"

definition coordinator_args :: "pyval dict \<Rightarrow> pyval dict" where
  "coordinator_args = node_args ''create_coordinator'' ''coordinator_ready'' ''Coordinator''"

lemma node_args_get:
  "dict_get (node_args c b r args) k =
    (if k = ''node_role'' then Some (PStr r) else if k = ''agent_ready_callback'' then Some (PObj b)
     else if k = ''agent_creator'' then Some (PObj c) else dict_get args k)"
  by (simp add: node_args_def pydict.get_put)

lemma launch_args_get:
  "dict_get (launch_args ip port args) k =
    (if k = ''root_port'' then Some (PInt port) else if k = ''root_uri'' then Some (PStr ip)
     else dict_get args k)"
  by (simp add: launch_args_def pydict.get_put)

text \<open>What the creators of the three kinds of node make.\<close>

definition create_server ::
  "py_agent \<Rightarrow> string list \<Rightarrow> cxx_agent \<Rightarrow> pyval dict \<Rightarrow> py_agent res" where
  "create_server init reserved c args = load_agent_attributes reserved args (create_agent init c)"

definition create_worker ::
  "py_agent \<Rightarrow> string list \<Rightarrow> cxx_agent \<Rightarrow> int \<Rightarrow> pyval dict \<Rightarrow> py_agent registry \<Rightarrow>
   (py_agent \<times> py_agent registry) res" where
  "create_worker init reserved c ident args reg =
     bindR (load_agent_attributes reserved args (create_agent init c)) (\<lambda>a.
     bindR (register_instance ident a reg) (\<lambda>reg'. Inr (a, reg')))"

definition create_coordinator ::
  "py_agent \<Rightarrow> string list \<Rightarrow> cxx_agent \<Rightarrow> nat \<Rightarrow> (py_agent \<Rightarrow> py_agent res) \<Rightarrow> pyval dict \<Rightarrow> py_agent res" where
  "create_coordinator init reserved c session initialize args =
     bindR (load_agent_attributes reserved args (dict_set session_slot (VSession session) (create_agent init c)))
       initialize"

text \<open>\<open>asyncio.gather\<close> over the futures of the nodes, in the order in which they complete.\<close>

primrec gather_futures :: "exn option list \<Rightarrow> unit res" where
  "gather_futures [] = Inr ()"
| "gather_futures (r # rs) = (case r of None \<Rightarrow> gather_futures rs | Some e \<Rightarrow> Inl e)"

section \<open>Jobs on the workers\<close>

text \<open>
  A barrier job on the workers: the coordinator needs its context and the number of workers, then every task
  looks up the agent of its thread and calls a method of it, which may change the agent in place.
\<close>

definition task_on_worker :: "('a \<Rightarrow> 'a res) \<Rightarrow> int \<Rightarrow> 'a registry \<Rightarrow> 'a registry res" where
  "task_on_worker meth cur reg =
     bindR (get_instance cur None reg) (\<lambda>a. bindR (meth a) (\<lambda>a'. Inr (reg(cur \<mapsto> a'))))"

definition worker_job ::
  "(py_agent \<Rightarrow> py_agent res) \<Rightarrow> py_agent \<Rightarrow> (int \<times> py_agent registry) list \<Rightarrow> (int \<times> py_agent registry) list res" where
  "worker_job meth c tasks =
     bindR (agent_spark_context c) (\<lambda>_.
     bindR (agent_worker_count c) (\<lambda>n.
     mapR (\<lambda>(cur, reg). bindR (task_on_worker meth cur reg) (\<lambda>reg'. Inr (cur, reg'))) (take (nat n) tasks)))"

definition start_workers :: "(py_agent \<Rightarrow> py_agent res) \<Rightarrow> py_agent \<Rightarrow> (int \<times> py_agent registry) list \<Rightarrow> _" where
  "start_workers worker_start_method = worker_job worker_start_method"

definition stop_workers :: "(py_agent \<Rightarrow> py_agent res) \<Rightarrow> py_agent \<Rightarrow> (int \<times> py_agent registry) list \<Rightarrow> _" where
  "stop_workers worker_stop_method = worker_job worker_stop_method"

text \<open>
  The generator that feeds the minibatches of a partition to the agent of the thread: one result each, in
  order, until one fails.
\<close>

definition feed_minibatches ::
  "('m \<Rightarrow> 'a \<Rightarrow> ('r \<times> 'a) res) \<Rightarrow> int \<Rightarrow> 'm list \<Rightarrow> 'a registry \<Rightarrow> ('r list \<times> 'a registry) res" where
  "feed_minibatches step cur mbs reg =
     bindR (get_instance cur None reg) (\<lambda>a.
     bindR (foldR (\<lambda>mb (rs, a). bindR (step mb a) (\<lambda>(r, a'). Inr (rs @ [r], a'))) mbs ([], a)) (\<lambda>(rs, a').
     Inr (rs, reg(cur \<mapsto> a'))))"

definition base_train_minibatch :: "'m \<Rightarrow> 'a \<Rightarrow> ('r \<times> 'a) res" where
  "base_train_minibatch mb a = Inl NotImplementedError"

definition base_validate_minibatch :: "'m \<Rightarrow> 'a \<Rightarrow> ('r \<times> 'a) res" where
  "base_validate_minibatch mb a = Inl NotImplementedError"

text \<open>\<open>load_dataset\<close> up to the call of the reader: the URL scheme that Spark understands.\<close>

definition dataset_url :: "string \<Rightarrow> string" where
  "dataset_url path = use_s3a path"

section \<open>The start of a worker\<close>

text \<open>
  \<open>_run_worker\<close> runs two threads: the worker thread configures the node, lets \<open>PSRunner.run_ps\<close> create
  the agent, connect it and serve until the shutdown, and at last deregisters the agent; the calling
  thread waits for the callback that says the agent is ready. \<open>Close e\<close> is the state before the
  \<open>finally\<close> clause with the exception that is under way.
\<close>

datatype worker_phase = Configure | Create | Connect | Serve | Close "exn option" | Ended "exn option"

record worker_proc =
  wp_phase :: worker_phase
  wp_ready :: bool
  wp_registry :: "py_agent registry"
  wp_returned :: bool

record worker_env =
  we_class :: string
  we_fields :: py_agent
  we_reserved :: "string list"
  we_cxx :: cxx_agent
  we_ident :: int
  we_args :: "pyval dict"

definition env_config :: "worker_env \<Rightarrow> actor_config res" where
  "env_config e = get_actor_config (we_class e) (worker_args (we_args e))"

definition env_create :: "worker_env \<Rightarrow> py_agent registry \<Rightarrow> (py_agent \<times> py_agent registry) res" where
  "env_create e reg = create_worker (we_fields e) (we_reserved e) (we_cxx e) (we_ident e) (worker_args (we_args e)) reg"

inductive worker_step :: "worker_env \<Rightarrow> worker_proc \<Rightarrow> worker_proc \<Rightarrow> bool" for e where
  configure: "wp_phase s = Configure \<Longrightarrow> env_config e = Inr conf \<Longrightarrow>
    worker_step e s (s\<lparr>wp_phase := Create\<rparr>)"
| configure_error: "wp_phase s = Configure \<Longrightarrow> env_config e = Inl x \<Longrightarrow>
    worker_step e s (s\<lparr>wp_phase := Close (Some SystemExit)\<rparr>)"
| create: "wp_phase s = Create \<Longrightarrow> env_create e (wp_registry s) = Inr (a, reg) \<Longrightarrow>
    worker_step e s (s\<lparr>wp_phase := Connect, wp_registry := reg\<rparr>)"
| create_error: "wp_phase s = Create \<Longrightarrow> env_create e (wp_registry s) = Inl x \<Longrightarrow>
    worker_step e s (s\<lparr>wp_phase := Close (Some SystemExit)\<rparr>)"
| connect: "wp_phase s = Connect \<Longrightarrow>
    worker_step e s (s\<lparr>wp_phase := Serve, wp_ready := True\<rparr>)"
| connect_error: "wp_phase s = Connect \<Longrightarrow>
    worker_step e s (s\<lparr>wp_phase := Close (Some SystemExit)\<rparr>)"
| stop: "wp_phase s = Serve \<Longrightarrow> worker_step e s (s\<lparr>wp_phase := Close None\<rparr>)"
| stop_error: "wp_phase s = Serve \<Longrightarrow> worker_step e s (s\<lparr>wp_phase := Close (Some SystemExit)\<rparr>)"
| deregister: "wp_phase s = Close x \<Longrightarrow> deregister_instance (we_ident e) (wp_registry s) = Inr reg \<Longrightarrow>
    worker_step e s (s\<lparr>wp_phase := Ended x, wp_registry := reg\<rparr>)"
| deregister_error: "wp_phase s = Close x \<Longrightarrow> deregister_instance (we_ident e) (wp_registry s) = Inl y \<Longrightarrow>
    worker_step e s (s\<lparr>wp_phase := Ended (Some y)\<rparr>)"
| return: "wp_ready s \<Longrightarrow> \<not> wp_returned s \<Longrightarrow> worker_step e s (s\<lparr>wp_returned := True\<rparr>)"

definition worker_start :: "py_agent registry \<Rightarrow> worker_proc" where
  "worker_start reg = \<lparr>wp_phase = Configure, wp_ready = False, wp_registry = reg, wp_returned = False\<rparr>"

abbreviation worker_steps :: "worker_env \<Rightarrow> worker_proc \<Rightarrow> worker_proc \<Rightarrow> bool" where
  "worker_steps e \<equiv> (worker_step e)\<^sup>*\<^sup>*"

text \<open>What holds along every run that starts from the registry \<open>reg\<close>.\<close>

fun phase_registry :: "int \<Rightarrow> py_agent registry \<Rightarrow> worker_phase \<Rightarrow> py_agent registry \<Rightarrow> bool" where
  "phase_registry i reg Configure r = (r = reg)"
| "phase_registry i reg Create r = (r = reg)"
| "phase_registry i reg Connect r = (r i \<noteq> None \<and> r(i := None) = reg(i := None))"
| "phase_registry i reg Serve r = (r i \<noteq> None \<and> r(i := None) = reg(i := None))"
| "phase_registry i reg (Close _) r = (r(i := None) = reg(i := None))"
| "phase_registry i reg (Ended _) r = (r = reg(i := None))"

definition worker_ok :: "worker_env \<Rightarrow> py_agent registry \<Rightarrow> worker_proc \<Rightarrow> bool" where
  "worker_ok e reg s \<longleftrightarrow> phase_registry (we_ident e) reg (wp_phase s) (wp_registry s)
     \<and> (wp_returned s \<longrightarrow> wp_ready s)"

lemma env_create_registry:
  "env_create e r = Inr (a, r') \<Longrightarrow> r' (we_ident e) \<noteq> None \<and> r'(we_ident e := None) = r(we_ident e := None)"
  by (auto simp: env_create_def create_worker_def register_instance_def bindR_Inr_iff raise_if_Inr_iff)

lemma deregister_cases:
  assumes "r(i := None) = reg(i := None)"
  shows "deregister_instance i r = Inr r' \<Longrightarrow> r' = reg(i := None)"
    "deregister_instance i r = Inl y \<Longrightarrow> r = reg(i := None)"
proof -
  show "deregister_instance i r = Inr r' \<Longrightarrow> r' = reg(i := None)"
    using assms by (auto simp: deregister_instance_def raise_if_Inr_iff)
  assume "deregister_instance i r = Inl y"
  then have "r i = None" by (auto simp: deregister_instance_def raise_if_Inl_iff)
  then have "r = r(i := None)" by auto
  with assms show "r = reg(i := None)" by simp
qed

lemma worker_step_ok:
  "worker_step e s s' \<Longrightarrow> worker_ok e reg s \<Longrightarrow> worker_ok e reg s'"
  by (induction rule: worker_step.induct)
    (auto simp: worker_ok_def dest: env_create_registry deregister_cases)

lemma worker_steps_ok:
  "worker_steps e (worker_start reg) s \<Longrightarrow> worker_ok e reg s"
  by (induction rule: rtranclp_induct)
    (simp add: worker_ok_def worker_start_def, blast intro: worker_step_ok)

text \<open>The worker thread ends from every phase.\<close>

fun phase_rank :: "worker_phase \<Rightarrow> nat" where
  "phase_rank Configure = 5" | "phase_rank Create = 4" | "phase_rank Connect = 3"
| "phase_rank Serve = 2" | "phase_rank (Close _) = 1" | "phase_rank (Ended _) = 0"

lemma worker_progress:
  assumes "phase_rank (wp_phase s) \<noteq> 0"
  shows "\<exists>s'. worker_step e s s' \<and> phase_rank (wp_phase s') < phase_rank (wp_phase s)
    \<and> (wp_ready s \<longrightarrow> wp_ready s')"
proof (cases "wp_phase s")
  case Configure
  then show ?thesis
    by (cases "env_config e") (force intro: worker_step.configure worker_step.configure_error)+
next
  case Create
  then show ?thesis
    by (cases "env_create e (wp_registry s)") (force intro: worker_step.create worker_step.create_error)+
next
  case Connect
  then show ?thesis by (force intro: worker_step.connect)
next
  case Serve
  then show ?thesis by (force intro: worker_step.stop)
next
  case (Close x)
  then show ?thesis
    by (cases "deregister_instance (we_ident e) (wp_registry s)")
      (force intro: worker_step.deregister worker_step.deregister_error)+
qed (use assms in simp)

lemma worker_ends:
  "\<exists>s' x. worker_steps e s s' \<and> wp_phase s' = Ended x \<and> (wp_ready s \<longrightarrow> wp_ready s')"
proof (induction "phase_rank (wp_phase s)" arbitrary: s rule: less_induct)
  case less
  show ?case
  proof (cases "phase_rank (wp_phase s) = 0")
    case True
    then obtain x where "wp_phase s = Ended x" by (cases "wp_phase s") auto
    then show ?thesis by blast
  next
    case False
    from worker_progress [OF this, of e] obtain u where u: "worker_step e s u"
      "phase_rank (wp_phase u) < phase_rank (wp_phase s)" "wp_ready s \<longrightarrow> wp_ready u" by blast
    from less [OF u(2)] u(1,3) show ?thesis by (meson converse_rtranclp_into_rtranclp)
  qed
qed

lemma worker_returns:
  assumes "wp_ready s"
  shows "\<exists>s'. worker_steps e s s' \<and> wp_returned s' \<and> wp_phase s' = wp_phase s"
proof (cases "wp_returned s")
  case False
  from worker_step.return [OF assms False, of e] show ?thesis
    by (intro exI [of _ "s\<lparr>wp_returned := True\<rparr>"]) auto
qed blast

inductive_cases worker_stepE: "worker_step e s s'"

lemma ended_stuck:
  assumes "wp_phase s = Ended x" "\<not> wp_ready s"
  shows "\<not> worker_step e s s'"
proof
  assume "worker_step e s s'"
  then show False using assms by (elim worker_stepE) auto
qed

text \<open>
  C31: The start of a worker: from every reachable state the worker thread can run to its end, and once
  the agent has become ready the calling thread can return; but when the worker thread has ended
  without the agent becoming ready (a bad configuration, a reserved attribute, a failed connection),
  the calling thread has not returned, nothing can happen any more and it waits for ever. In every
  case the thread's identifier is free in the registry at the end, also when it was taken by an earlier
  agent before the start, which loses its registration.
\<close>

theorem worker_start_liveness:
  assumes "worker_steps e (worker_start reg) s"
  shows "\<exists>s' x. worker_steps e s s' \<and> wp_phase s' = Ended x \<and> wp_registry s' = reg(we_ident e := None)
      \<and> (if wp_ready s' then wp_returned s' else \<not> wp_returned s' \<and> (\<forall>t. \<not> worker_step e s' t))
      \<and> (wp_ready s \<longrightarrow> wp_returned s')"
proof -
  obtain u x where u: "worker_steps e s u" "wp_phase u = Ended x" "wp_ready s \<longrightarrow> wp_ready u"
    using worker_ends by blast
  show ?thesis
  proof (cases "wp_ready u")
    case True
    from worker_returns [OF this, of e] obtain v where
      v: "worker_steps e u v" "wp_returned v" "wp_phase v = Ended x" using u(2) by auto
    have sv: "worker_steps e s v" using u(1) v(1) by simp
    have "worker_ok e reg v" using assms sv by (intro worker_steps_ok) simp
    with v sv show ?thesis by (intro exI [of _ v] exI [of _ x]) (auto simp: worker_ok_def)
  next
    case False
    have "worker_ok e reg u" using assms u(1) by (intro worker_steps_ok) simp
    with u False ended_stuck [OF u(2) False] show ?thesis
      by (intro exI [of _ u] exI [of _ x]) (auto simp: worker_ok_def)
  qed
qed

definition demo_worker_env :: worker_env where
  "demo_worker_env =
     \<lparr>we_class = ''Agent'', we_fields = [], we_reserved = [''rank''],
      we_cxx = \<lparr>cx_is_coordinator = False, cx_is_server = False, cx_is_worker = True,
                cx_server_count = 1, cx_worker_count = 1, cx_rank = 0\<rparr>,
      we_ident = 7, we_args = [(''agent_attributes'', PDict [(''rank'', PInt 3)])]\<rparr>"

theorem worker_start_liveness_witness:
  "\<exists>s' x. worker_steps demo_worker_env (worker_start (Map.empty(7 \<mapsto> []))) s' \<and> wp_phase s' = Ended x
     \<and> wp_registry s' = Map.empty"
  using worker_start_liveness [OF rtranclp.rtrancl_refl, of demo_worker_env "Map.empty(7 \<mapsto> [])"]
  by (auto simp: demo_worker_env_def)

section \<open>The metric of an agent\<close>

text \<open>
  The metric is created at its first use; \<open>fresh\<close> is what the metric class makes. An object of another
  kind in the slot has none of the methods. \<open>None\<close> as the result of an update is the failure of
  \<open>accumulate\<close>.
\<close>

definition agent_metric :: "binary_metric \<Rightarrow> py_agent \<Rightarrow> (binary_metric \<times> py_agent) res" where
  "agent_metric fresh a =
     (case get_slot a metric_slot of
        None \<Rightarrow> Inr (fresh, dict_set metric_slot (VMetric fresh) a)
      | Some (VMetric m) \<Rightarrow> Inr (m, a)
      | Some _ \<Rightarrow> Inl AttributeError)"

definition store_metric :: "binary_metric \<Rightarrow> py_agent \<Rightarrow> py_agent" where
  "store_metric m a = dict_set metric_slot (VMetric m) a"

definition update_metric :: "binary_metric \<Rightarrow> batch \<Rightarrow> py_agent \<Rightarrow> py_agent option res" where
  "update_metric fresh b a =
     bindR (agent_metric fresh a) (\<lambda>(m, a). Inr (map_option (\<lambda>m'. store_metric m' a) (accumulate b m)))"

record ps_message =
  ms_body :: "pyval option"
  ms_receiver :: "nat option"
  ms_states :: "states option"

definition empty_message :: ps_message where
  "empty_message = \<lparr>ms_body = None, ms_receiver = None, ms_states = None\<rparr>"

definition push_metric :: "binary_metric \<Rightarrow> py_agent \<Rightarrow> (py_agent \<times> ps_message) res" where
  "push_metric fresh a =
     bindR (agent_metric fresh a) (\<lambda>(m, a).
     bindR (get_states m) (\<lambda>st.
     bindR (cxx_field (\<lambda>_. ()) a) (\<lambda>_.
     Inr (a, \<lparr>ms_body = Some (PDict [(''command'', PStr ''PushMetric'')]), ms_receiver = Some (0 * 16 + 8 + 1),
              ms_states = Some st\<rparr>))))"

definition clear_metric :: "binary_metric \<Rightarrow> py_agent \<Rightarrow> py_agent res" where
  "clear_metric fresh a = bindR (agent_metric fresh a) (\<lambda>(m, a). Inr (store_metric (clear m) a))"

text \<open>
  The class defines \<open>handle_request\<close> twice, and the second definition is the one that stays: it loads the states
  into a new metric and merges it; a message without slices has no first state. For any other command it calls the
  handler of the base class, which \<open>object\<close> does not have.
\<close>

definition handle_request :: "binary_metric \<Rightarrow> ps_message \<Rightarrow> py_agent \<Rightarrow> (py_agent \<times> ps_message) res" where
  "handle_request fresh req a =
     bindR (case ms_body req of None \<Rightarrow> Inl ValueError | Some v \<Rightarrow> py_get v ''command'') (\<lambda>command.
     if command = Some (PStr ''PushMetric'') then
       bindR (agent_metric fresh a) (\<lambda>(accum, a).
       bindR (case ms_states req of None \<Rightarrow> Inl IndexError | Some st \<Rightarrow> from_states st fresh) (\<lambda>delta.
       bindR (merge accum delta) (\<lambda>m.
       bindR (cxx_field (\<lambda>_. ()) (store_metric m a)) (\<lambda>_.
       Inr (store_metric m a, empty_message)))))
     else Inl AttributeError)"

text \<open>The slots of an agent hold what the class puts there: the judgement that typing preserves.\<close>

definition typed_agent :: "py_agent \<Rightarrow> bool" where
  "typed_agent a \<longleftrightarrow>
     (case get_slot a cxx_slot of None \<Rightarrow> True | Some (VCxx _) \<Rightarrow> True | _ \<Rightarrow> False) \<and>
     (case get_slot a metric_slot of None \<Rightarrow> True | Some (VMetric _) \<Rightarrow> True | _ \<Rightarrow> False)"

definition metric_of :: "binary_metric \<Rightarrow> py_agent \<Rightarrow> binary_metric" where
  "metric_of fresh a = (case get_slot a metric_slot of Some (VMetric m) \<Rightarrow> m | _ \<Rightarrow> fresh)"

lemma get_slot_set:
  "get_slot (dict_set k v a) n = (if n = k then (if v = VAttr PNone then None else Some v) else get_slot a n)"
  by (auto simp: get_slot_def pydict.get_put split: slot_value.splits pyval.splits)

lemma agent_metric_typed:
  assumes "typed_agent a"
  obtains a' where "agent_metric fresh a = Inr (metric_of fresh a, a')" "typed_agent a'"
    "get_slot a' cxx_slot = get_slot a cxx_slot" "metric_of fresh a' = metric_of fresh a"
proof (cases "get_slot a metric_slot")
  case None
  then show ?thesis using assms that
    by (auto simp: agent_metric_def metric_of_def typed_agent_def get_slot_set)
next
  case (Some v)
  then obtain m where "v = VMetric m"
    using assms by (auto simp: typed_agent_def split: slot_value.splits)
  with Some show ?thesis using assms that by (auto simp: agent_metric_def metric_of_def)
qed

lemma store_metric_slots [simp]:
  "get_slot (store_metric m a) cxx_slot = get_slot a cxx_slot"
  "metric_of fresh (store_metric m a) = m"
  "typed_agent a \<Longrightarrow> typed_agent (store_metric m a)"
  by (simp_all add: store_metric_def get_slot_set metric_of_def typed_agent_def)

definition live_agent :: "py_agent \<Rightarrow> bool" where
  "live_agent a \<longleftrightarrow> typed_agent a \<and> get_slot a cxx_slot \<noteq> None"






section \<open>Pushing the metrics\<close>

text \<open>
  Workers accumulate batches and push; requests and replies travel on their own time, in any order, and nothing
  keeps a worker from pushing again before the reply. A reply runs \<open>push_metric_callback\<close>, which clears the metric of
  the worker. The last three arguments of a run are ghosts: \<open>held\<close> has for each worker the batches since its last
  callback, each with the number of pushes that took it, \<open>gone\<close> those that a callback has erased, and \<open>calm\<close> says that
  no worker has accumulated or pushed while a push of its own was under way.
\<close>

record push_net =
  pn_workers :: "py_agent list"
  pn_coordinator :: py_agent
  pn_requests :: "(nat \<times> ps_message) list"
  pn_replies :: "nat list"

type_synonym tally = "(nat \<times> batch) list"

definition pushing :: "push_net \<Rightarrow> nat set" where
  "pushing s = fst ` set (pn_requests s) \<union> set (pn_replies s)"

definition remove_at :: "nat \<Rightarrow> 'b list \<Rightarrow> 'b list" where
  "remove_at i xs = take i xs @ drop (Suc i) xs"

definition once_more :: "tally \<Rightarrow> tally" where
  "once_more = map (\<lambda>(k, b). (Suc k, b))"

definition idle_net :: "binary_metric \<Rightarrow> push_net \<Rightarrow> bool" where
  "idle_net fresh s \<longleftrightarrow>
     list_all (\<lambda>a. live_agent a \<and> metric_of fresh a = fresh) (pn_coordinator s # pn_workers s)
     \<and> pn_requests s = [] \<and> pn_replies s = []"

inductive push_run :: "binary_metric \<Rightarrow> push_net \<Rightarrow> tally list \<Rightarrow> tally \<Rightarrow> bool \<Rightarrow> bool" for fresh where
  idle: "idle_net fresh s \<Longrightarrow> push_run fresh s (replicate (length (pn_workers s)) []) [] True"
| update: "push_run fresh s held gone calm \<Longrightarrow> w < length (pn_workers s) \<Longrightarrow>
    update_metric fresh b (pn_workers s ! w) = Inr (Some a) \<Longrightarrow>
    push_run fresh (s\<lparr>pn_workers := (pn_workers s)[w := a]\<rparr>)
      (held[w := held ! w @ [(0, b)]]) gone (calm \<and> w \<notin> pushing s)"
| push: "push_run fresh s held gone calm \<Longrightarrow> w < length (pn_workers s) \<Longrightarrow>
    push_metric fresh (pn_workers s ! w) = Inr (a, req) \<Longrightarrow>
    push_run fresh (s\<lparr>pn_workers := (pn_workers s)[w := a], pn_requests := pn_requests s @ [(w, req)]\<rparr>)
      (held[w := once_more (held ! w)]) gone (calm \<and> w \<notin> pushing s)"
| handle: "push_run fresh s held gone calm \<Longrightarrow> i < length (pn_requests s) \<Longrightarrow> pn_requests s ! i = (w, req) \<Longrightarrow>
    handle_request fresh req (pn_coordinator s) = Inr (c, reply) \<Longrightarrow>
    push_run fresh (s\<lparr>pn_coordinator := c, pn_requests := remove_at i (pn_requests s),
      pn_replies := pn_replies s @ [w]\<rparr>) held gone calm"
| reply: "push_run fresh s held gone calm \<Longrightarrow> i < length (pn_replies s) \<Longrightarrow> pn_replies s ! i = w \<Longrightarrow>
    clear_metric fresh (pn_workers s ! w) = Inr a \<Longrightarrow>
    push_run fresh (s\<lparr>pn_workers := (pn_workers s)[w := a], pn_replies := remove_at i (pn_replies s)\<rparr>)
      (held[w := []]) (gone @ held ! w) calm"

text \<open>Each batch as often as it was pushed.\<close>

definition copies :: "tally \<Rightarrow> batch list" where
  "copies xs = concat (map (\<lambda>(k, b). replicate k b) xs)"










lemma copies_simps [simp]:
  "copies [] = []" "copies (xs @ ys) = copies xs @ copies ys" "copies [(0, b)] = []"
  by (simp_all add: copies_def)


lemma once_more_batches [simp]: "map snd (once_more xs) = map snd xs"
  by (auto simp: once_more_def)



lemma clear_new [simp]: "clear (new_metric n t be) = new_metric n t be"
  by (simp add: clear_def bm_clear_def mm_clear_def new_metric_def)










text \<open>As long as the run is calm, every batch that is erased was pushed once, and every batch held is on its way or not pushed.\<close>

definition pushed_times :: "nat \<Rightarrow> tally \<Rightarrow> bool" where
  "pushed_times k xs = list_all (\<lambda>p. fst p = k) xs"

lemma pushed_times_simps [simp]:
  "pushed_times k []" "pushed_times k (x # xs) \<longleftrightarrow> fst x = k \<and> pushed_times k xs"
  "pushed_times k (xs @ ys) \<longleftrightarrow> pushed_times k xs \<and> pushed_times k ys"
  by (simp_all add: pushed_times_def)













text \<open>Runs of one worker that accumulates a second batch, or pushes again, while its push is under way.\<close>

definition demo_cxx :: "bool \<Rightarrow> cxx_agent" where
  "demo_cxx c = \<lparr>cx_is_coordinator = c, cx_is_server = False, cx_is_worker = \<not> c,
     cx_server_count = 1, cx_worker_count = 1, cx_rank = 0\<rparr>"

definition demo_batch :: batch where
  "demo_batch = \<lparr>b_size = 1, b_loss = 1, b_predictions = [1], b_labels = [1]\<rparr>"

definition demo_fresh :: binary_metric where
  "demo_fresh = new_metric 2 0 1"

definition demo_net :: "binary_metric \<Rightarrow> binary_metric \<Rightarrow> (nat \<times> ps_message) list \<Rightarrow> nat list \<Rightarrow> push_net" where
  "demo_net wm cm reqs reps =
     \<lparr>pn_workers = [[(cxx_slot, VCxx (demo_cxx False)), (metric_slot, VMetric wm)]],
      pn_coordinator = [(cxx_slot, VCxx (demo_cxx True)), (metric_slot, VMetric cm)],
      pn_requests = reqs, pn_replies = reps\<rparr>"

lemmas demo_defs = demo_net_def get_slot_def dict_get_def dict_set_def agent_metric_def store_metric_def
  cxx_field_def cxx_agent_of_def

definition demo_one :: binary_metric where
  "demo_one = demo_fresh\<lparr>instance_num := 1, loss_sum := 1, positive_buffer := [0, 1], prediction_sum := 1,
     label_sum := 1\<rparr>"

definition demo_two :: binary_metric where
  "demo_two = demo_fresh\<lparr>instance_num := 2, loss_sum := 2, positive_buffer := [0, 2], prediction_sum := 2,
     label_sum := 2\<rparr>"

lemma demo_accumulate:
  "accumulate demo_batch demo_fresh = Some demo_one" "accumulate demo_batch demo_one = Some demo_two"
  by (simp_all add: demo_batch_def demo_one_def demo_two_def demo_fresh_def accumulate_def metric_defs
      new_metric_def update_buffer_def update_bucket_def bucket_of_def add_at_def add_confusion_def eval_nat_numeral)

definition demo_states :: states where
  "demo_states = ([Fl 1, Fd 1, Fd 1, Fd 1, Fl 0, Fl 0, Fl 0, Fl 0], [[0, 1], [0, 0]])"

lemma demo_messages:
  "get_states demo_one = Inr demo_states" "from_states demo_states demo_fresh = Inr demo_one"
  "merge demo_fresh demo_one = Inr demo_one" "clear demo_two = demo_fresh"
proof -
  show 1: "get_states demo_one = Inr demo_states"
    by (simp add: get_states_def packed_states demo_one_def demo_fresh_def new_metric_def demo_states_def
        fits64_def counters_def eval_nat_numeral)
  show "from_states demo_states demo_fresh = Inr demo_one"
    by (simp add: demo_states_def from_states_def unpacked_states array_assign_def demo_one_def demo_fresh_def
        new_metric_def eval_nat_numeral)
  show "merge demo_fresh demo_one = Inr demo_one"
    by (simp add: merge_def array_iadd_def metric_defs demo_one_def demo_fresh_def new_metric_def eval_nat_numeral)
  show "clear demo_two = demo_fresh"
    by (simp add: clear_def bm_clear_def mm_clear_def demo_two_def demo_fresh_def new_metric_def eval_nat_numeral)
qed

definition demo_request :: ps_message where
  "demo_request = \<lparr>ms_body = Some (PDict [(''command'', PStr ''PushMetric'')]), ms_receiver = Some 9,
     ms_states = Some demo_states\<rparr>"

lemma demo_cleared: "clear demo_one = demo_fresh" "clear demo_fresh = demo_fresh"
  by (simp_all add: clear_def bm_clear_def mm_clear_def demo_one_def demo_fresh_def new_metric_def eval_nat_numeral)

lemma demo_merge_twice: "merge demo_one demo_one = Inr demo_two"
  by (simp add: merge_def array_iadd_def metric_defs demo_one_def demo_two_def demo_fresh_def new_metric_def eval_nat_numeral)

lemma demo_pushed:
  "push_run demo_fresh (demo_net demo_one demo_fresh [(0, demo_request)] []) [[(1, demo_batch)]] [] True"
proof -
  let ?N = demo_net and ?f = demo_fresh
  have "push_run ?f (?N ?f ?f [] []) [[]] [] True"
    using push_run.idle [of ?f "?N ?f ?f [] []"]
    by (simp add: idle_net_def live_agent_def typed_agent_def metric_of_def demo_defs)
  from push_run.update [OF this, of 0 demo_batch]
  have "push_run ?f (?N demo_one ?f [] []) [[(0, demo_batch)]] [] True"
    by (simp add: update_metric_def demo_accumulate demo_defs pushing_def)
  from push_run.push [OF this, of 0]
  show ?thesis
    by (simp add: push_metric_def demo_messages demo_defs pushing_def demo_request_def once_more_def)
qed

lemma demo_late:
  "push_run demo_fresh (demo_net demo_fresh demo_one [] []) [[]] [(1, demo_batch), (0, demo_batch)] False"
proof -
  let ?N = demo_net and ?f = demo_fresh
  from push_run.update [OF demo_pushed, of 0 demo_batch]
  have "push_run ?f (?N demo_two ?f [(0, demo_request)] []) [[(1, demo_batch), (0, demo_batch)]] [] False"
    by (simp add: update_metric_def demo_accumulate demo_defs pushing_def)
  from push_run.handle [OF this, of 0 0 demo_request]
  have "push_run ?f (?N demo_two demo_one [] [0]) [[(1, demo_batch), (0, demo_batch)]] [] False"
    by (simp add: handle_request_def demo_messages demo_defs demo_request_def remove_at_def)
  from push_run.reply [OF this, of 0 0]
  show ?thesis by (simp add: clear_metric_def demo_messages demo_defs remove_at_def)
qed

lemma demo_overlap:
  "push_run demo_fresh (demo_net demo_fresh demo_two [] []) [[]] [(2, demo_batch)] False"
proof -
  let ?N = demo_net and ?f = demo_fresh
  from push_run.push [OF demo_pushed, of 0]
  have "push_run ?f (?N demo_one ?f [(0, demo_request), (0, demo_request)] []) [[(2, demo_batch)]] [] False"
    by (simp add: push_metric_def demo_messages demo_defs pushing_def demo_request_def once_more_def numeral_2_eq_2)
  from push_run.handle [OF this, of 0 0 demo_request]
  have "push_run ?f (?N demo_one demo_one [(0, demo_request)] [0]) [[(2, demo_batch)]] [] False"
    by (simp add: handle_request_def demo_messages demo_defs demo_request_def remove_at_def)
  from push_run.handle [OF this, of 0 0 demo_request]
  have "push_run ?f (?N demo_one demo_two [] [0, 0]) [[(2, demo_batch)]] [] False"
    by (simp add: handle_request_def demo_messages demo_merge_twice demo_defs demo_request_def remove_at_def)
  from push_run.reply [OF this, of 0 0]
  have "push_run ?f (?N ?f demo_two [] [0]) [[]] [(2, demo_batch)] False"
    by (simp add: clear_metric_def demo_cleared demo_defs remove_at_def)
  from push_run.reply [OF this, of 0 0]
  show ?thesis by (simp add: clear_metric_def demo_cleared demo_defs remove_at_def)
qed


text \<open>Two batches of one instance each were accumulated, one instance is counted, none is left to push.\<close>

lemma push_race_drops_batch:
  "push_run demo_fresh (demo_net demo_fresh demo_one [] []) [[]] [(1, demo_batch), (0, demo_batch)] False
   \<and> instance_num demo_one = 1 \<and> instance_num demo_fresh = 0 \<and> b_size demo_batch = 1"
  using demo_late by (simp add: demo_one_def demo_fresh_def new_metric_def demo_batch_def)

text \<open>One batch of one instance was accumulated and pushed twice before the first reply: two instances are counted.\<close>

lemma overlapping_pushes_count_twice:
  "push_run demo_fresh (demo_net demo_fresh demo_two [] []) [[]] [(2, demo_batch)] False
   \<and> instance_num demo_two = 2 \<and> b_size demo_batch = 1"
  using demo_overlap by (simp add: demo_two_def demo_batch_def)

section \<open>Type safety of the agent\<close>

text \<open>Whatever an agent is asked to do after its creation, as one operation each.\<close>

datatype agent_op = OpUpdate batch | OpPush | OpClear | OpRequest ps_message | OpFinalize

fun agent_exec :: "binary_metric \<Rightarrow> agent_op \<Rightarrow> py_agent \<Rightarrow> py_agent res" where
  "agent_exec fresh (OpUpdate b) a =
     bindR (update_metric fresh b a) (\<lambda>r. case r of None \<Rightarrow> Inl ValueError | Some a' \<Rightarrow> Inr a')"
| "agent_exec fresh OpPush a = bindR (push_metric fresh a) (\<lambda>(a', _). Inr a')"
| "agent_exec fresh OpClear a = clear_metric fresh a"
| "agent_exec fresh (OpRequest req) a = bindR (handle_request fresh req a) (\<lambda>(a', _). Inr a')"
| "agent_exec fresh OpFinalize a = Inr (finalize_agent a)"

text \<open>A request whose body is a JSON object.\<close>

fun object_request :: "agent_op \<Rightarrow> bool" where
  "object_request (OpRequest req) = (case ms_body req of Some (PDict _) \<Rightarrow> True | _ \<Rightarrow> False)"
| "object_request _ = True"

text \<open>A request that the handler knows.\<close>

fun push_request :: "agent_op \<Rightarrow> bool" where
  "push_request (OpRequest req) =
     (case ms_body req of Some (PDict d) \<Rightarrow> dict_get d ''command'' = Some (PStr ''PushMetric'') | _ \<Rightarrow> False)"
| "push_request _ = True"

definition safe_result :: "'b res \<Rightarrow> bool" where
  "safe_result r \<longleftrightarrow> r \<noteq> Inl AttributeError"

lemma safe_result_simps [simp]:
  "safe_result (Inr x)" "safe_result (Inl e) \<longleftrightarrow> e \<noteq> AttributeError"
  by (simp_all add: safe_result_def)

lemma safe_bind:
  "safe_result m \<Longrightarrow> (\<And>x. m = Inr x \<Longrightarrow> safe_result (f x)) \<Longrightarrow> safe_result (bindR m f)"
  by (cases m) auto

lemma safe_raise_if:
  "e \<noteq> AttributeError \<Longrightarrow> safe_result k \<Longrightarrow> safe_result (raise_if b e k)"
  by (cases b) auto

lemma safe_mapR: "(\<And>x. x \<in> set xs \<Longrightarrow> safe_result (f x)) \<Longrightarrow> safe_result (mapR f xs)"
  by (induction xs) (auto intro!: safe_bind)

lemma metric_typed [simp]:
  "safe_result (array_iadd xs ys)" "safe_result (array_assign xs ys)"
  "safe_result (merge m d)" "safe_result (get_states m)" "safe_result (from_states st m)"
proof -
  show 1: "safe_result (array_iadd xs ys)" "safe_result (array_assign xs ys)" for xs ys
    by (simp_all add: array_iadd_def array_assign_def)
  show "safe_result (merge m d)" by (auto simp: merge_def 1 intro!: safe_bind)
  show "safe_result (get_states m)" by (auto simp: get_states_def packed_states)
  have "safe_result (unpack_field t f)" for t f by (cases t; cases f) auto
  then have "safe_result (unpack_scalar_values d m)" for d m
    by (auto simp: unpack_scalar_values_def intro!: safe_raise_if safe_bind safe_mapR)
  then show "safe_result (from_states st m)"
    by (auto simp: from_states_def 1 Let_def split: prod.split list.split intro!: safe_bind)
qed

lemma cxx_field_typed:
  "typed_agent a \<Longrightarrow> safe_result (cxx_field f a)"
  by (auto simp: typed_agent_def cxx_field_def cxx_agent_of_def split: option.splits slot_value.splits)

lemma exec_typed:
  assumes "typed_agent a" "object_request op"
  shows "(\<forall>a'. agent_exec fresh op a = Inr a' \<longrightarrow> typed_agent a') \<and> (push_request op \<longrightarrow> safe_result (agent_exec fresh op a))"
proof -
  obtain a1 where a1: "agent_metric fresh a = Inr (metric_of fresh a, a1)" "typed_agent a1"
    using agent_metric_typed [OF assms(1), of fresh] by blast
  show ?thesis
  proof (cases op)
    case (OpUpdate b)
    with a1 show ?thesis
      by (cases "accumulate b (metric_of fresh a)") (auto simp: update_metric_def)
  next
    case OpPush
    with a1 show ?thesis
      by (auto simp: push_metric_def bindR_Inr_iff cxx_field_typed intro!: safe_bind)
  next
    case OpClear
    with a1 show ?thesis by (simp add: clear_metric_def)
  next
    case (OpRequest req)
    then obtain d where d: "ms_body req = Some (PDict d)"
      using assms(2) by (auto split: option.splits pyval.splits)
    have "typed_agent a'" if "agent_exec fresh op a = Inr a'" for a'
      using that a1 d OpRequest by (auto simp: handle_request_def bindR_Inr_iff split: if_splits)
    moreover have "safe_result (agent_exec fresh op a)" if "push_request op"
      using that a1 d OpRequest
      by (auto simp: handle_request_def cxx_field_typed intro!: safe_bind split: option.splits)
    ultimately show ?thesis by blast
  next
    case OpFinalize
    with assms(1) show ?thesis by (simp add: finalize_agent_def typed_agent_def get_slot_set)
  qed
qed

lemma unknown_request:
  assumes "object_request (OpRequest req)" "\<not> push_request (OpRequest req)"
  shows "handle_request fresh req a = Inl AttributeError"
  using assms by (auto simp: handle_request_def split: option.splits pyval.splits)

lemma load_typed:
  assumes "typed_agent a" "foldR (load_attribute reserved) d a = Inr a'"
    "list_all (\<lambda>(n, v). n \<noteq> cxx_slot \<and> n \<noteq> metric_slot) d"
  shows "typed_agent a'"
  using assms(2,1)
proof (rule foldR_invariant)
  fix nv s t assume "nv \<in> set d" "typed_agent s" "load_attribute reserved nv s = Inr t"
  then show "typed_agent t"
    using assms(3)
    by (auto simp: load_attribute_def raise_if_Inr_iff list_all_iff typed_agent_def get_slot_set split: prod.splits)
qed

text \<open>
  C36: Type safety of the agent: an agent that was created and given configured attributes, none of them
  named like a private slot, keeps a native agent (or none) and a metric (or none) in its slots through
  every sequence of updates, pushes, clears, requests with a JSON object and finalizations. None of them fails for
  want of an attribute as long as the requests have the command \<open>PushMetric\<close>; a request with any other command
  always does, because the handler for those is looked up in the base class \<open>object\<close>.
\<close>

theorem agent_type_safety:
  assumes "dict_get args ''agent_attributes'' = Some (PDict d)"
    and "list_all (\<lambda>(n, v). n \<noteq> cxx_slot \<and> n \<noteq> metric_slot) d"
    and "load_agent_attributes reserved args (create_agent init c) = Inr a"
    and "list_all (\<lambda>(n, v). n \<noteq> cxx_slot \<and> n \<noteq> metric_slot) init"
    and "list_all object_request ops"
  shows "(\<forall>a'. foldR (agent_exec fresh) ops a = Inr a' \<longrightarrow> typed_agent a')
    \<and> (list_all push_request ops \<longrightarrow> foldR (agent_exec fresh) ops a \<noteq> Inl AttributeError)
    \<and> (\<forall>req. object_request (OpRequest req) \<and> \<not> push_request (OpRequest req) \<and> (\<exists>a'. foldR (agent_exec fresh) ops a = Inr a')
         \<longrightarrow> foldR (agent_exec fresh) (ops @ [OpRequest req]) a = Inl AttributeError)"
proof -
  have "metric_slot \<notin> fst ` set init" using assms(4) by (auto simp: list_all_iff)
  then have "map_of init metric_slot = None" unfolding map_of_eq_None_iff .
  then have "get_slot init metric_slot = None" by (simp add: get_slot_def dict_get_def)
  then have "typed_agent (create_agent init c)"
    by (simp add: create_agent_def typed_agent_def get_slot_set)
  then have "typed_agent a"
    using assms(1-3) by (auto simp: load_agent_attributes_def dict_index_def intro: load_typed)
  then have "(\<forall>a'. foldR (agent_exec fresh) ops a = Inr a' \<longrightarrow> typed_agent a')
      \<and> (list_all push_request ops \<longrightarrow> safe_result (foldR (agent_exec fresh) ops a))"
    using assms(5)
  proof (induction ops arbitrary: a)
    case (Cons op ops)
    show ?case
      using exec_typed [of a op fresh] Cons by (cases "agent_exec fresh op a") auto
  qed simp
  moreover have "foldR (agent_exec fresh) (ops @ [OpRequest req]) a = Inl AttributeError"
    if "object_request (OpRequest req)" "\<not> push_request (OpRequest req)" "foldR (agent_exec fresh) ops a = Inr a'" for req a'
    using unknown_request [OF that(1,2)] that(3) by (simp add: foldR_append)
  ultimately show ?thesis unfolding safe_result_def by blast
qed

theorem agent_type_safety_witness:
  "foldR (agent_exec demo_fresh) [OpUpdate demo_batch, OpPush, OpRequest demo_request, OpFinalize, OpPush]
     [(cxx_slot, VCxx (demo_cxx True)), (''lr'', VAttr (PInt 5))] \<noteq> Inl AttributeError"
  by (rule agent_type_safety [of "[(''agent_attributes'', PDict [(''lr'', PInt 5)])]" "[(''lr'', PInt 5)]"
      "[''rank'']" "[]" "demo_cxx True", THEN conjunct2, THEN conjunct1, rule_format])
    (simp_all add: load_agent_attributes_def dict_index_def load_attribute_def create_agent_def demo_request_def
      dict_get_def dict_set_def)

end
