(* ===== verification/Storage.thy ===== *)
theory Storage
  imports Dict Utils "HOL-Library.List_Lexorder" "HOL-Library.Char_ord"
begin

text \<open>
  \<open>python/metaspore/s3_utils.py\<close> and \<open>file_utils.py\<close>: the configuration of the S3 clients, S3 URLs, and the
  operations on files and directories, which go to S3 or to the local disk by the form of the URL. An
  object store has buckets of keys with contents; the local disk has directories and files, named by
  absolute paths without trailing slash. A bucket that does not exist is the \<open>ClientError\<close> of the client
  library. The configuration files are given by their parsed \<open>default\<close> section.
\<close>

section \<open>Configuration\<close>

record s3_config =
  aws_region :: "string option"
  aws_endpoint :: "string option"
  aws_access_key_id :: "string option"
  aws_secret_access_key :: "string option"

text \<open>
  \<open>se_environ\<close> is \<open>os.environ\<close>; \<open>os.unsetenv\<close> does not change it but the environment of the process,
  from which the names in \<open>se_unset\<close> are gone.
\<close>

record s3_env =
  se_config :: "string dict option"
  se_credentials :: "string dict option"
  se_environ :: "string dict"
  se_unset :: "string list"
  se_cache :: "s3_config option"

definition section_get :: "string dict option \<Rightarrow> string \<Rightarrow> string option" where
  "section_get sec k = (case sec of None \<Rightarrow> None | Some d \<Rightarrow> dict_get d k)"

function split_lines :: "string \<Rightarrow> string list" where
  "split_lines s =
     (if s = [] then []
      else takeWhile (\<lambda>c. c \<noteq> NL) s # split_lines (drop 1 (dropWhile (\<lambda>c. c \<noteq> NL) s)))"
  by pat_completeness auto
termination
proof (relation "measure length")
  fix s :: string
  assume "s \<noteq> []"
  then have "0 < length s" by simp
  moreover have "length (dropWhile (\<lambda>c. c \<noteq> NL) s) \<le> length s" by (rule length_dropWhile_le)
  ultimately show "(drop 1 (dropWhile (\<lambda>c. c \<noteq> NL) s), s) \<in> measure length"
    unfolding in_measure length_drop by arith
qed simp

declare split_lines.simps [simp del]

definition kv_line :: "string \<Rightarrow> string dict \<Rightarrow> string dict" where
  "kv_line line d =
     (case partition_at EQ line of (key, _, v) \<Rightarrow> dict_set (strip is_space key) (strip is_space v) d)"

definition endpoint_of_section :: "string \<Rightarrow> string option" where
  "endpoint_of_section s3_value = dict_get (fold kv_line (split_lines (strip is_space s3_value)) []) ''endpoint_url''"

text \<open>A variable that is set and not empty.\<close>

definition env_value :: "string dict \<Rightarrow> string \<Rightarrow> string option" where
  "env_value env n = (case dict_get env n of Some [] \<Rightarrow> None | v \<Rightarrow> v)"

definition first_given :: "'b option \<Rightarrow> 'b option \<Rightarrow> 'b option" where
  "first_given x y = (case x of None \<Rightarrow> y | Some v \<Rightarrow> Some v)"

definition with_scheme :: "string \<Rightarrow> string" where
  "with_scheme u =
     (if u = [] \<or> startswith u ''http://'' \<or> startswith u ''https://'' then u else ''http://'' @ u)"

text \<open>\<open>os.environ[n] = v\<close>, or \<open>os.unsetenv(n)\<close> when the value is missing or empty.\<close>

definition publish_variable :: "string \<Rightarrow> string option \<Rightarrow> s3_env \<Rightarrow> s3_env" where
  "publish_variable n v e =
     (case v of
        Some (c # cs) \<Rightarrow> e\<lparr>se_environ := dict_set n (c # cs) (se_environ e), se_unset := removeAll n (se_unset e)\<rparr>
      | _ \<Rightarrow> e\<lparr>se_unset := List.insert n (se_unset e)\<rparr>)"

definition get_s3_config :: "s3_env \<Rightarrow> s3_config \<times> s3_env" where
  "get_s3_config e =
     (case se_cache e of
        Some c \<Rightarrow> (c, e)
      | None \<Rightarrow>
          let env = se_environ e;
              endpoint = Option.bind (section_get (se_config e) ''s3'') endpoint_of_section;
              c = \<lparr>aws_region = first_given (env_value env ''AWS_REGION'') (section_get (se_config e) ''region''),
                   aws_endpoint = map_option with_scheme (first_given (env_value env ''AWS_ENDPOINT'') endpoint),
                   aws_access_key_id = first_given (env_value env ''AWS_ACCESS_KEY_ID'')
                     (section_get (se_credentials e) ''aws_access_key_id''),
                   aws_secret_access_key = first_given (env_value env ''AWS_SECRET_ACCESS_KEY'')
                     (section_get (se_credentials e) ''aws_secret_access_key'')\<rparr>;
              e1 = publish_variable ''AWS_REGION'' (aws_region c) e;
              e2 = publish_variable ''AWS_ENDPOINT'' (aws_endpoint c) e1;
              e3 = publish_variable ''AWS_ACCESS_KEY_ID'' (aws_access_key_id c) e2;
              e4 = publish_variable ''AWS_SECRET_ACCESS_KEY'' (aws_secret_access_key c) e3
          in (c, e4\<lparr>se_cache := Some c\<rparr>))"

definition get_aws_endpoint :: "s3_env \<Rightarrow> string option \<times> s3_env" where
  "get_aws_endpoint e = (case get_s3_config e of (c, e') \<Rightarrow> (aws_endpoint c, e'))"

definition get_aws_region :: "s3_env \<Rightarrow> string option \<times> s3_env" where
  "get_aws_region e = (case get_s3_config e of (c, e') \<Rightarrow> (aws_region c, e'))"

section \<open>URLs\<close>

text \<open>
  \<open>urlparse(url, allow_fragments=False)\<close>: scheme, authority and path; the query is dropped. The removal
  of control characters and the checks of bracketed hosts are not modelled.
\<close>

definition scheme_char :: "char \<Rightarrow> bool" where
  "scheme_char c = (name_start c \<and> c \<noteq> US \<or> is_digit c \<or> c \<in> {CHR ''+'', CHR ''-'', CHR ''.''})"

definition split_scheme :: "string \<Rightarrow> string \<times> string" where
  "split_scheme url =
     (case partition_at (CHR '':'') url of (h, found, t) \<Rightarrow>
        if found \<and> h \<noteq> [] \<and> list_all scheme_char h then (map to_lower h, t) else ([], url))"

definition split_netloc :: "string \<Rightarrow> string \<times> string" where
  "split_netloc rest =
     (if startswith rest ''//'' then
        let r = drop 2 rest; stop = (\<lambda>c. c \<notin> {CHR ''/'', CHR ''?'', CHR ''#''})
        in (takeWhile stop r, dropWhile stop r)
      else ([], rest))"

definition url_parse :: "string \<Rightarrow> string \<times> string \<times> string" where
  "url_parse url =
     (case split_scheme url of (scheme, rest) \<Rightarrow>
      case split_netloc rest of (netloc, path) \<Rightarrow> (scheme, netloc, takeWhile (\<lambda>c. c \<noteq> CHR ''?'') path))"

abbreviation slash :: "char \<Rightarrow> bool" where "slash c \<equiv> c = CHR ''/''"

definition parse_s3_url :: "string \<Rightarrow> (string \<times> string) res" where
  "parse_s3_url url =
     (case url_parse url of (scheme, netloc, path) \<Rightarrow>
        raise_if (scheme \<notin> {''s3'', ''s3a''}) ValueError (Inr (netloc, lstrip slash path)))"

definition parse_s3_dir_url :: "string \<Rightarrow> (string \<times> string) res" where
  "parse_s3_dir_url url =
     bindR (parse_s3_url url) (\<lambda>(bucket, path).
     Inr (bucket, if endswith path ''/'' then path else path @ ''/''))"

definition is_s3_url :: "string \<Rightarrow> bool" where
  "is_s3_url url = (startswith url ''s3://'' \<or> startswith url ''s3a://'')"

section \<open>Objects\<close>

type_synonym files = "string dict"

record store =
  st_objects :: "files dict"
  st_files :: files
  st_dirs :: "string list"

definition bucket_files :: "store \<Rightarrow> string \<Rightarrow> files res" where
  "bucket_files st b = (case dict_get (st_objects st) b of None \<Rightarrow> Inl ClientError | Some d \<Rightarrow> Inr d)"

definition set_bucket :: "string \<Rightarrow> files \<Rightarrow> store \<Rightarrow> store" where
  "set_bucket b d st = st\<lparr>st_objects := dict_set b d (st_objects st)\<rparr>"

definition with_prefix :: "string \<Rightarrow> files \<Rightarrow> files" where
  "with_prefix p d = [kv \<leftarrow> d. startswith (fst kv) p]"

definition without_prefix :: "string \<Rightarrow> files \<Rightarrow> files" where
  "without_prefix p d = [kv \<leftarrow> d. \<not> startswith (fst kv) p]"

text \<open>\<open>list_objects\<close> returns the first thousand keys in key order.\<close>

definition get_s3_dir_size :: "string \<Rightarrow> store \<Rightarrow> nat res" where
  "get_s3_dir_size url st =
     bindR (parse_s3_dir_url url) (\<lambda>(b, p).
     bindR (bucket_files st b) (\<lambda>d.
     Inr (sum_list (map (\<lambda>kv. length (snd kv)) (take 1000 (sort_key fst (with_prefix p d)))))))"

text \<open>Every error of \<open>head_object\<close> counts as a missing file; a bad URL raises.\<close>

definition s3_file_exists :: "string \<Rightarrow> store \<Rightarrow> bool res" where
  "s3_file_exists url st =
     bindR (parse_s3_url url) (\<lambda>(b, p).
     Inr (case bucket_files st b of Inl _ \<Rightarrow> False | Inr d \<Rightarrow> dict_get d p \<noteq> None))"

definition delete_s3_dir :: "string \<Rightarrow> store \<Rightarrow> store res" where
  "delete_s3_dir url st =
     bindR (parse_s3_dir_url url) (\<lambda>(b, p).
     bindR (bucket_files st b) (\<lambda>d. Inr (set_bucket b (without_prefix p d) st)))"

text \<open>Deleting a key that does not exist succeeds.\<close>

definition delete_s3_file :: "string \<Rightarrow> store \<Rightarrow> store res" where
  "delete_s3_file url st =
     bindR (parse_s3_url url) (\<lambda>(b, p).
     bindR (bucket_files st b) (\<lambda>d. Inr (set_bucket b [kv \<leftarrow> d. fst kv \<noteq> p] st)))"

text \<open>Writing the contents of files under new names, one after the other.\<close>

definition put_files :: "(string \<Rightarrow> string) \<Rightarrow> files \<Rightarrow> files \<Rightarrow> files" where
  "put_files name items d = dict_update d (map (\<lambda>(k, v). (name k, v)) items)"

definition copy_s3_dir :: "string \<Rightarrow> string \<Rightarrow> store \<Rightarrow> store res" where
  "copy_s3_dir src_url dst_url st =
     bindR (parse_s3_dir_url src_url) (\<lambda>(sb, sp).
     bindR (parse_s3_dir_url dst_url) (\<lambda>(db, dp).
     bindR (bucket_files st sb) (\<lambda>sd.
     if with_prefix sp sd = [] then Inr st
     else bindR (bucket_files st db) (\<lambda>dd.
       Inr (set_bucket db (put_files (\<lambda>k. dp @ drop (length sp) k) (with_prefix sp sd) dd) st)))))"

section \<open>The local disk\<close>

text \<open>\<open>os.path.dirname\<close>, and a directory with all its parents.\<close>

definition trim_slashes :: "string \<Rightarrow> string" where
  "trim_slashes s = rev (dropWhile slash (rev s))"

definition dir_name :: "string \<Rightarrow> string" where
  "dir_name s = trim_slashes (rev (dropWhile (\<lambda>c. \<not> slash c) (rev s)))"

definition parent_dirs :: "string \<Rightarrow> string list" where
  "parent_dirs d =
     map trim_slashes ([take i d. i \<leftarrow> [1..<length d], slash (d ! i)] @ [d])"

definition ensure_local_directory :: "string \<Rightarrow> store \<Rightarrow> store" where
  "ensure_local_directory d st = st\<lparr>st_dirs := fold List.insert (parent_dirs d) (st_dirs st)\<rparr>"

definition is_dir :: "string \<Rightarrow> store \<Rightarrow> bool" where
  "is_dir u st = (trim_slashes u \<in> set (st_dirs st))"

definition is_file :: "string \<Rightarrow> store \<Rightarrow> bool" where
  "is_file u st = (dict_get (st_files st) u \<noteq> None)"

definition under_dir :: "string \<Rightarrow> string \<Rightarrow> bool" where
  "under_dir d p = startswith p (d @ ''/'')"

definition remove_tree :: "string \<Rightarrow> store \<Rightarrow> store" where
  "remove_tree u st =
     (let d = trim_slashes u
      in st\<lparr>st_files := [kv \<leftarrow> st_files st. \<not> under_dir d (fst kv)],
            st_dirs := [p \<leftarrow> st_dirs st. p \<noteq> d \<and> \<not> under_dir d p]\<rparr>)"

definition download_item :: "string \<Rightarrow> nat \<Rightarrow> string \<times> string \<Rightarrow> store \<Rightarrow> store" where
  "download_item dst n kv st =
     (let path = path_join dst (drop n (fst kv)); st1 = ensure_local_directory (dir_name path) st
      in st1\<lparr>st_files := dict_set path (snd kv) (st_files st1)\<rparr>)"

definition download_s3_dir :: "string \<Rightarrow> string \<Rightarrow> store \<Rightarrow> store res" where
  "download_s3_dir src_url dst st =
     bindR (parse_s3_dir_url src_url) (\<lambda>(b, p).
     bindR (bucket_files st b) (\<lambda>d.
     Inr (fold (download_item dst (length p)) (with_prefix p d) st)))"

text \<open>\<open>os.walk\<close> of a path that is no directory yields nothing.\<close>

definition upload_s3_dir :: "string \<Rightarrow> string \<Rightarrow> store \<Rightarrow> store res" where
  "upload_s3_dir src dst_url st =
     (let src = (if endswith src ''/'' then src else src @ ''/'') in
      bindR (parse_s3_dir_url dst_url) (\<lambda>(b, p).
      let items = (if is_dir src st then with_prefix src (st_files st) else []) in
      if items = [] then Inr st
      else bindR (bucket_files st b) (\<lambda>d.
        Inr (set_bucket b (put_files (\<lambda>k. p @ drop (length src) k) items d) st))))"

text \<open>\<open>shutil.copytree\<close> refuses a missing source and an existing destination.\<close>

definition copy_tree :: "string \<Rightarrow> string \<Rightarrow> store \<Rightarrow> store res" where
  "copy_tree src dst st =
     (let s = trim_slashes src; d = trim_slashes dst in
      raise_if (\<not> is_dir src st \<or> is_dir dst st \<or> is_file d st) OSError
      (Inr ((ensure_local_directory d st)
         \<lparr>st_files := put_files (\<lambda>k. d @ drop (length s) k) (with_prefix (s @ ''/'') (st_files st)) (st_files st),
          st_dirs := st_dirs (ensure_local_directory d st)
            @ map (\<lambda>p. d @ drop (length s) p) [p \<leftarrow> st_dirs st. under_dir s p]\<rparr>)))"

section \<open>Files and directories by URL\<close>

definition file_exists :: "string \<Rightarrow> store \<Rightarrow> bool res" where
  "file_exists url st = (if is_s3_url url then s3_file_exists url st else Inr (is_file url st))"

definition dir_exists :: "string \<Rightarrow> store \<Rightarrow> bool res" where
  "dir_exists url st =
     (if is_s3_url url then bindR (get_s3_dir_size url st) (\<lambda>n. Inr (0 < n)) else Inr (is_dir url st))"

definition delete_dir :: "string \<Rightarrow> store \<Rightarrow> store res" where
  "delete_dir url st =
     (if is_s3_url url then delete_s3_dir url st
      else Inr (if is_dir url st then remove_tree url st else st))"

definition delete_file :: "string \<Rightarrow> store \<Rightarrow> store res" where
  "delete_file url st =
     (if is_s3_url url then delete_s3_file url st
      else Inr (if is_file url st then st\<lparr>st_files := [kv \<leftarrow> st_files st. fst kv \<noteq> url]\<rparr> else st))"

definition copy_dir :: "string \<Rightarrow> string \<Rightarrow> store \<Rightarrow> store res" where
  "copy_dir src dst st =
     (if is_s3_url src then
        (if is_s3_url dst then copy_s3_dir src dst st else download_s3_dir src dst st)
      else
        (if is_s3_url dst then upload_s3_dir src dst st else copy_tree src dst st))"

section \<open>Lemmas\<close>

lemma dict_get_filter: "dict_get [kv \<leftarrow> d. P (fst kv)] k = (if P k then dict_get d k else None)"
  unfolding dict_get_def by (induction d) auto

lemma dict_get_prefix:
  "dict_get (with_prefix p d) k = (if startswith k p then dict_get d k else None)"
  "dict_get (without_prefix p d) k = (if startswith k p then None else dict_get d k)"
  by (simp_all add: with_prefix_def without_prefix_def dict_get_filter [of "\<lambda>k. startswith k p"]
      dict_get_filter [of "\<lambda>k. \<not> startswith k p"])

lemma map_of_rename:
  assumes "inj_on f (insert k (fst ` set xs))"
  shows "map_of (map (\<lambda>(k, v). (f k, v)) xs) (f k) = map_of xs k"
  using assms by (induction xs) (auto simp: inj_on_def)

lemma map_of_rename_absent:
  "y \<notin> f ` fst ` set xs \<Longrightarrow> map_of (map (\<lambda>(k, v). (f k, v)) xs) y = None"
  by (induction xs) (auto split: if_splits)

lemma map_of_rev: "distinct (map fst xs) \<Longrightarrow> map_of (rev xs) = map_of xs"
  by (rule map_of_inject_set [THEN iffD2]) (auto simp: rev_map [symmetric])

text \<open>What \<open>put_files\<close> leaves under the new names, and under every other one.\<close>

lemma put_files_get:
  assumes "inj_on f (insert k (fst ` set items))" "distinct (map fst items)"
  shows "dict_get (put_files f items d) (f k) =
    (case dict_get items k of Some v \<Rightarrow> Some v | None \<Rightarrow> dict_get d (f k))"
proof -
  have inj: "inj_on f (fst ` set items)" using assms(1) by (rule inj_on_subset) auto
  have "map fst (map (\<lambda>(k, v). (f k, v)) items) = map f (map fst items)" by (induction items) auto
  moreover have "distinct (map f (map fst items))"
    using assms(2) inj by (simp only: distinct_map) simp
  ultimately have "distinct (map fst (map (\<lambda>(k, v). (f k, v)) items))" by (simp only:)
  then have "map_of (rev (map (\<lambda>(k, v). (f k, v)) items)) (f k) = dict_get items k"
    by (simp only: map_of_rev map_of_rename [OF assms(1)] dict_get_def)
  then show ?thesis
    by (simp only: put_files_def dict_update_def pydict.get_put_all)
qed

lemma put_files_other:
  assumes "y \<notin> f ` fst ` set items"
  shows "dict_get (put_files f items d) y = dict_get d y"
proof -
  have "map_of (rev (map (\<lambda>(k, v). (f k, v)) items)) y = None"
    unfolding rev_map by (rule map_of_rename_absent) (use assms in simp)
  then show ?thesis by (simp add: put_files_def dict_update_def pydict.get_put_all)
qed

section \<open>The configuration\<close>

text \<open>
  The S3 configuration: a variable of the environment that is set and not empty wins over the
  configuration files, an endpoint has a scheme, the values are written back to the environment, where a later
  reader finds them, and every later call returns the same values whatever became of the environment.
\<close>

theorem s3_config_spec:
  assumes "se_cache e = None" and "get_s3_config e = (c, e')"
  shows "aws_region c = first_given (env_value (se_environ e) ''AWS_REGION'') (section_get (se_config e) ''region'')
    \<and> (\<forall>v. env_value (se_environ e) ''AWS_ENDPOINT'' = Some v \<longrightarrow> aws_endpoint c = Some (with_scheme v))
    \<and> (\<forall>u. aws_endpoint c = Some u \<longrightarrow> u = [] \<or> startswith u ''http://'' \<or> startswith u ''https://'')
    \<and> (\<forall>u. aws_endpoint c = Some u \<longrightarrow> u \<noteq> [] \<longrightarrow> dict_get (se_environ e') ''AWS_ENDPOINT'' = Some u)
    \<and> (\<forall>r. aws_region c = Some r \<longrightarrow> r \<noteq> [] \<longrightarrow> dict_get (se_environ e') ''AWS_REGION'' = Some r)
    \<and> get_s3_config (e'\<lparr>se_environ := env2, se_config := cfg2, se_credentials := cred2\<rparr>) =
        (c, e'\<lparr>se_environ := env2, se_config := cfg2, se_credentials := cred2\<rparr>)"
proof -
  have pub: "dict_get (se_environ (publish_variable n v x)) k =
      (if k = n \<and> v \<noteq> None \<and> v \<noteq> Some [] then v else dict_get (se_environ x) k)" for n v x k
    by (auto simp: publish_variable_def pydict.get_put split: option.split list.split)
  have sch: "u = [] \<or> startswith u ''http://'' \<or> startswith u ''https://''" if "u = with_scheme w" for u w
  proof -
    have "startswith (''http://'' @ w) ''http://''" by (rule startswith_append)
    with that show ?thesis by (auto simp: with_scheme_def split: if_splits)
  qed
  let ?ep = "map_option with_scheme (first_given (env_value (se_environ e) ''AWS_ENDPOINT'')
    (Option.bind (section_get (se_config e) ''s3'') endpoint_of_section))"
  have c: "aws_region c = first_given (env_value (se_environ e) ''AWS_REGION'') (section_get (se_config e) ''region'')"
    "aws_endpoint c = ?ep" "se_cache e' = Some c"
    using assms by (auto simp: get_s3_config_def Let_def)
  have e: "dict_get (se_environ e') ''AWS_REGION'' =
      (if aws_region c \<noteq> None \<and> aws_region c \<noteq> Some [] then aws_region c else dict_get (se_environ e) ''AWS_REGION'')"
    "dict_get (se_environ e') ''AWS_ENDPOINT'' =
      (if aws_endpoint c \<noteq> None \<and> aws_endpoint c \<noteq> Some [] then aws_endpoint c
       else dict_get (se_environ e) ''AWS_ENDPOINT'')"
    using assms by (auto simp: get_s3_config_def Let_def pub)
  show ?thesis
    using c(1,3) e sch
    by (auto simp: get_s3_config_def c(2) first_given_def)
qed

definition demo_s3_env :: s3_env where
  "demo_s3_env = \<lparr>se_config = Some [(''region'', ''us''), (''s3'', ''endpoint_url = minio:9000'')],
     se_credentials = None, se_environ = [(''AWS_REGION'', ''eu'')], se_unset = [], se_cache = None\<rparr>"

theorem s3_config_spec_witness:
  "\<exists>c e'. get_s3_config demo_s3_env = (c, e') \<and> aws_region c = Some ''eu'' \<and>
     dict_get (se_environ e') ''AWS_REGION'' = Some ''eu''"
proof -
  obtain c e' where g: "get_s3_config demo_s3_env = (c, e')" by (cases "get_s3_config demo_s3_env")
  have n: "se_cache demo_s3_env = None" by (simp add: demo_s3_env_def)
  have "aws_region c = Some ''eu''" "dict_get (se_environ e') ''AWS_REGION'' = Some ''eu''"
    using s3_config_spec [OF n g]
    by (simp_all add: demo_s3_env_def env_value_def dict_get_def first_given_def)
  with g show ?thesis by blast
qed

section \<open>Directories as an interface\<close>

text \<open>
  What the estimator relies on: a deleted directory is gone, and a trailing slash makes no difference.
\<close>

locale dir_store =
  fixes exists_at :: "string \<Rightarrow> 's \<Rightarrow> bool res"
    and delete_at :: "string \<Rightarrow> 's \<Rightarrow> 's res"
    and gone_at :: "string \<Rightarrow> 's \<Rightarrow> bool"
  assumes deleted: "delete_at u s = Inr s' \<Longrightarrow> gone_at u s'"
    and gone_exists: "gone_at u s \<Longrightarrow> exists_at u s = Inr False"
    and gone_deleted: "gone_at u s \<Longrightarrow> delete_at v s = Inr s' \<Longrightarrow> gone_at u s'"
    and exists_slash: "\<not> endswith u ''/'' \<Longrightarrow> exists_at (u @ ''/'') s = exists_at u s"
begin

lemma gone_normal:
  "gone_at u s \<Longrightarrow> exists_at (if endswith u ''/'' then u else u @ ''/'') s = Inr False"
  using gone_exists exists_slash by simp

lemma deleted_sequence:
  assumes "delete_at u s = Inr s1" "delete_at v s1 = Inr s2"
  shows "exists_at (if endswith u ''/'' then u else u @ ''/'') s2 = Inr False"
    "exists_at (if endswith v ''/'' then v else v @ ''/'') s2 = Inr False"
  using gone_normal gone_deleted [OF deleted [OF assms(1)] assms(2)] deleted [OF assms(2)] by blast+

end

text \<open>A directory is gone when no key is under it, or when the disk has no such directory.\<close>

definition dir_gone :: "string \<Rightarrow> store \<Rightarrow> bool" where
  "dir_gone url st =
     (if is_s3_url url then
        (case parse_s3_dir_url url of Inl _ \<Rightarrow> False
         | Inr (b, p) \<Rightarrow> (case bucket_files st b of Inl _ \<Rightarrow> False | Inr d \<Rightarrow> with_prefix p d = []))
      else \<not> is_dir url st)"

lemma trim_slashes_snoc: "trim_slashes (s @ ''/'') = trim_slashes s"
  by (simp add: trim_slashes_def)

lemma parse_slash:
  assumes "is_s3_url u" "\<not> endswith u ''/''"
  shows "parse_s3_dir_url (u @ ''/'') = parse_s3_dir_url u"
proof -
  obtain a r where u: "u = a @ ''://'' @ r" and a: "a = ''s3'' \<or> a = ''s3a''"
  proof -
    from assms(1) consider t where "u = ''s3://'' @ t" | t where "u = ''s3a://'' @ t"
      unfolding is_s3_url_def startswith_iff by blast
    then show ?thesis
    proof cases
      case 1
      then show ?thesis using that [of "''s3''" t] by simp
    next
      case 2
      then show ?thesis using that [of "''s3a''" t] by simp
    qed
  qed
  have nc: "CHR '':'' \<notin> set a" using a by auto
  have sc: "split_scheme (a @ ''://'' @ t) = (a, ''//'' @ t)" for t
  proof -
    have "partition_at (CHR '':'') (a @ CHR '':'' # ''//'' @ t) = (a, True, ''//'' @ t)"
      by (rule partition_at_found [OF nc])
    moreover have "a \<noteq> [] \<and> list_all scheme_char a \<and> map to_lower a = a"
      using a by (auto simp: scheme_char_def name_start_def is_lower_def is_upper_def is_digit_def to_lower_def)
    ultimately show ?thesis by (simp add: split_scheme_def)
  qed
  let ?st = "\<lambda>c. c \<notin> {CHR ''/'', CHR ''?'', CHR ''#''}"
  let ?q = "\<lambda>c. c \<noteq> CHR ''?''"
  let ?ad = "\<lambda>path. if endswith path ''/'' then path else path @ ''/''"
  have p: "parse_s3_dir_url (a @ ''://'' @ t) =
      Inr (takeWhile ?st t, ?ad (lstrip slash (takeWhile ?q (dropWhile ?st t))))" for t
  proof -
    have nl: "split_netloc (''//'' @ t) = (takeWhile ?st t, dropWhile ?st t)"
      by (simp add: split_netloc_def startswith_def Let_def)
    have up: "url_parse (a @ ''://'' @ t) = (a, takeWhile ?st t, takeWhile ?q (dropWhile ?st t))"
      by (simp only: url_parse_def sc nl prod.case)
    have na: "(a \<notin> {''s3'', ''s3a''}) = False" using a by blast
    show ?thesis
      by (simp only: parse_s3_dir_url_def parse_s3_url_def up prod.case na raise_if_simps bindR_simps)
  qed
  have n: "takeWhile ?st (r @ ''/'') = takeWhile ?st r" by (induction r) auto
  have d: "dropWhile ?st (r @ ''/'') = dropWhile ?st r @ ''/''" by (induction r) auto
  have e: "?ad (lstrip slash (takeWhile ?q (w @ ''/''))) = ?ad (lstrip slash (takeWhile ?q w))"
    if w: "\<not> endswith w ''/''" for w
  proof (cases "CHR ''?'' \<in> set w")
    case True
    then have "takeWhile ?q (w @ ''/'') = takeWhile ?q w" by (auto intro: takeWhile_append1)
    then show ?thesis by simp
  next
    case False
    then have t: "takeWhile ?q (w @ ''/'') = w @ ''/''" "takeWhile ?q w = w"
      by (auto simp: takeWhile_eq_all_conv)
    show ?thesis
    proof (cases "list_all slash w")
      case True
      then have "w = []" using w by (cases w rule: rev_cases) (auto simp: endswith_def)
      then show ?thesis by (simp add: lstrip_def endswith_def)
    next
      case nw: False
      then have "dropWhile slash (w @ ''/'') = dropWhile slash w @ ''/''"
        by (auto simp: list_all_iff dropWhile_append)
      moreover have "dropWhile slash w \<noteq> []" using nw by (auto simp: list_all_iff)
      moreover have "\<not> endswith (dropWhile slash w) ''/''"
        using w \<open>dropWhile slash w \<noteq> []\<close>
        by (metis append_assoc endswith_iff takeWhile_dropWhile_id)
      ultimately show ?thesis by (simp add: t lstrip_def)
    qed
  qed
  have "\<not> endswith (dropWhile ?st r) ''/''"
    using assms(2) unfolding u endswith_iff by (metis append_assoc takeWhile_dropWhile_id)
  from e [OF this] have "parse_s3_dir_url (a @ ''://'' @ (r @ ''/'')) = parse_s3_dir_url (a @ ''://'' @ r)"
    unfolding p n d by simp
  then show ?thesis by (simp add: u)
qed

lemma is_s3_url_slash:
  assumes "\<not> endswith u ''/''"
  shows "is_s3_url (u @ ''/'') = is_s3_url u"
proof -
  have "startswith (u @ ''/'') (q @ ''//'') = startswith u (q @ ''//'')" for q
  proof
    assume "startswith (u @ ''/'') (q @ ''//'')"
    then obtain t where t: "u @ ''/'' = (q @ ''//'') @ t" by (auto simp: startswith_iff)
    have "t \<noteq> []"
    proof
      assume "t = []"
      then have "u = q @ ''/''" using t by simp
      with assms show False by simp
    qed
    then show "startswith u (q @ ''//'')"
      using t by (cases t rule: rev_cases) (auto simp: startswith_iff)
  qed (auto simp: startswith_iff)
  from this [of "''s3:''"] this [of "''s3a:''"] show ?thesis by (simp add: is_s3_url_def)
qed

lemma dict_set_get_bucket:
  "bucket_files (set_bucket b d st) c = (if c = b then Inr d else bucket_files st c)"
  by (simp add: bucket_files_def set_bucket_def pydict.get_put)

lemma delete_s3_dir_buckets:
  assumes "delete_s3_dir u st = Inr st'"
  shows "\<exists>b p d. parse_s3_dir_url u = Inr (b, p) \<and> bucket_files st b = Inr d \<and> st' = set_bucket b (without_prefix p d) st"
  using assms by (auto simp: delete_s3_dir_def bindR_Inr_iff)

lemma with_without [simp]: "with_prefix p (without_prefix p d) = []"
  by (simp add: with_prefix_def without_prefix_def filter_empty_conv)

lemma with_prefix_smaller: "with_prefix p d = [] \<Longrightarrow> with_prefix p (without_prefix q d) = []"
  by (auto simp: with_prefix_def without_prefix_def filter_empty_conv)

lemma is_dir_removed: "is_dir u (remove_tree v st) \<Longrightarrow> is_dir u st \<and> trim_slashes u \<noteq> trim_slashes v"
  by (auto simp: is_dir_def remove_tree_def Let_def)

lemma set_bucket_dirs [simp]: "is_dir u (set_bucket b d st) = is_dir u st"
  by (simp add: is_dir_def set_bucket_def)

lemma set_bucket_files [simp]: "st_files (set_bucket b d st) = st_files st"
  by (simp add: set_bucket_def)

lemma remove_tree_objects [simp]: "bucket_files (remove_tree u st) b = bucket_files st b"
  by (simp add: bucket_files_def remove_tree_def Let_def)

lemma dir_gone_s3E:
  assumes "dir_gone u s" "is_s3_url u"
  obtains b p d where "parse_s3_dir_url u = Inr (b, p)" "bucket_files s b = Inr d" "with_prefix p d = []"
proof (cases "parse_s3_dir_url u")
  case (Inr bp)
  then obtain b p where bp: "parse_s3_dir_url u = Inr (b, p)" by (cases bp) simp
  with assms that show ?thesis by (cases "bucket_files s b") (auto simp: dir_gone_def)
qed (use assms in \<open>simp add: dir_gone_def\<close>)

interpretation files: dir_store dir_exists delete_dir dir_gone
proof unfold_locales
  fix u :: string and s s' :: store
  assume d: "delete_dir u s = Inr s'"
  show "dir_gone u s'"
  proof (cases "is_s3_url u")
    case True
    with d delete_s3_dir_buckets [of u s s'] show ?thesis
      by (auto simp: delete_dir_def dir_gone_def dict_set_get_bucket)
  next
    case False
    with d show ?thesis
      by (auto simp: delete_dir_def dir_gone_def dest: is_dir_removed split: if_splits)
  qed
next
  fix u :: string and s :: store
  assume g: "dir_gone u s"
  show "dir_exists u s = Inr False"
  proof (cases "is_s3_url u")
    case True
    with g obtain b p d where "parse_s3_dir_url u = Inr (b, p)" "bucket_files s b = Inr d" "with_prefix p d = []"
      by (rule dir_gone_s3E)
    with True show ?thesis by (simp add: dir_exists_def get_s3_dir_size_def)
  qed (use g in \<open>simp add: dir_gone_def dir_exists_def\<close>)
next
  fix u v :: string and s s' :: store
  assume g: "dir_gone u s" and d: "delete_dir v s = Inr s'"
  show "dir_gone u s'"
  proof (cases "is_s3_url v")
    case True
    then obtain b q f where "bucket_files s b = Inr f" "s' = set_bucket b (without_prefix q f) s"
      using d delete_s3_dir_buckets [of v s s'] by (auto simp: delete_dir_def)
    with g show ?thesis
      by (auto simp: dir_gone_def dict_set_get_bucket with_prefix_smaller split: sum.splits if_splits)
  next
    case False
    with d have "s' = s \<or> s' = remove_tree v s" by (auto simp: delete_dir_def split: if_splits)
    with g show ?thesis by (auto simp: dir_gone_def dest: is_dir_removed split: sum.splits)
  qed
next
  fix u :: string and s :: store
  assume u: "\<not> endswith u ''/''"
  show "dir_exists (u @ ''/'') s = dir_exists u s"
    by (simp add: dir_exists_def is_s3_url_slash [OF u] get_s3_dir_size_def parse_slash [OF _ u] is_dir_def
        trim_slashes_snoc)
qed

section \<open>Upload and download\<close>

text \<open>Contents have one entry per name, and the files below a directory have proper relative paths.\<close>

definition distinct_names :: "store \<Rightarrow> bool" where
  "distinct_names st \<longleftrightarrow> distinct (map fst (st_files st)) \<and> list_all (\<lambda>(b, d). distinct (map fst d)) (st_objects st)"

definition proper_below :: "string \<Rightarrow> files \<Rightarrow> bool" where
  "proper_below d fs \<longleftrightarrow> list_all (\<lambda>(k, v). startswith k d \<longrightarrow> k \<noteq> d \<and> \<not> startswith (drop (length d) k) ''/'') fs"

lemma distinct_filter_names: "distinct (map fst d) \<Longrightarrow> distinct (map fst [kv \<leftarrow> d. P kv])"
  by (induction d) auto

lemma path_join_inj:
  assumes "path_join d x = path_join d y" "\<not> startswith x ''/''" "\<not> startswith y ''/''"
  shows "x = y"
  using assms by (auto simp: path_join_def split: if_splits)

lemma fold_download_files:
  "st_files (fold (download_item dst n) items st) =
     put_files (\<lambda>k. path_join dst (drop n k)) items (st_files st)"
proof (induction items arbitrary: st)
  case (Cons kv items)
  have "st_files (download_item dst n kv st) = dict_set (path_join dst (drop n (fst kv))) (snd kv) (st_files st)"
    by (simp add: download_item_def ensure_local_directory_def Let_def)
  then show ?case by (cases kv) (simp add: Cons.IH put_files_def)
qed (simp add: put_files_def)

lemma drop_prefix: "startswith k p \<Longrightarrow> k = p @ drop (length p) k"
  by (metis append_take_drop_id startswith_def)


text \<open>
  C35: A directory that is uploaded to an empty place of a bucket and downloaded again comes back whole:
  every file has its contents under the same relative path, and the other files of the disk are not
  touched. The names must be proper relative paths: an object whose key has an empty component would be
  written to an absolute path outside the destination.
\<close>

theorem upload_download_roundtrip:
  assumes "upload_s3_dir (src @ ''/'') url st = Inr st1" and "download_s3_dir url dst st1 = Inr st2"
    and "\<not> endswith src ''/''" and "is_dir src st" and "dir_gone url st" and "is_s3_url url"
    and "distinct_names st" and "proper_below (src @ ''/'') (st_files st)"
    and "\<not> startswith rel ''/''"
  shows "dict_get (st_files st2) (path_join dst rel) =
    (case dict_get (st_files st) (src @ ''/'' @ rel) of
       Some v \<Rightarrow> Some v | None \<Rightarrow> dict_get (st_files st) (path_join dst rel))"
proof -
  let ?src = "src @ ''/''"
  let ?items = "with_prefix ?src (st_files st)"
  have dir: "is_dir ?src st" using assms(4) by (simp add: is_dir_def trim_slashes_snoc)
  obtain b p d where u: "parse_s3_dir_url url = Inr (b, p)" "bucket_files st b = Inr d" "with_prefix p d = []"
    using assms(5,6) by (rule dir_gone_s3E)
  let ?up = "put_files (\<lambda>k. p @ drop (length ?src) k) ?items d"
  have st1: "bucket_files st1 b = Inr ?up \<and> st_files st1 = st_files st"
    using assms(1) u dir
    by (auto simp: upload_s3_dir_def Let_def dict_set_get_bucket put_files_def split: if_splits)
  have files2: "st_files st2 = put_files (\<lambda>k. path_join dst (drop (length p) k)) (with_prefix p ?up) (st_files st)"
    using assms(2) st1 u(1) by (auto simp: download_s3_dir_def fold_download_files)
  have dn: "distinct (map fst ?items)" "distinct (map fst d)"
    using assms(7) u(2)
    by (auto simp: distinct_names_def with_prefix_def distinct_filter_names bucket_files_def dict_get_def
        list_all_iff split: option.splits dest!: map_of_SomeD)
  have pb: "k = ?src @ drop (length ?src) k \<and> \<not> startswith (drop (length ?src) k) ''/''"
    if "k \<in> fst ` set ?items" for k
    using that assms(8) drop_prefix [of k ?src] by (force simp: with_prefix_def proper_below_def list_all_iff)
  have inj1: "inj_on (\<lambda>k. p @ drop (length ?src) k) (insert (?src @ r) (fst ` set ?items))" for r
  proof (rule inj_onI)
    fix x y
    assume "x \<in> insert (?src @ r) (fst ` set ?items)" "y \<in> insert (?src @ r) (fst ` set ?items)"
      and e: "p @ drop (length ?src) x = p @ drop (length ?src) y"
    moreover have "z = ?src @ drop (length ?src) z" if "z \<in> insert (?src @ r) (fst ` set ?items)" for z
      using that
    proof (elim insertE)
      assume "z \<in> fst ` set ?items"
      from pb [OF this] show ?thesis by (rule conjunct1)
    qed simp
    ultimately show "x = y" using e by (metis same_append_eq)
  qed
  have up: "dict_get ?up (p @ r) = dict_get (st_files st) (?src @ r)" for r
  proof -
    have "dict_get d (p @ r) = None"
      using dict_get_prefix(1) [of p d "p @ r"] u(3) by (simp add: dict_get_def)
    moreover have "startswith (src @ CHR ''/'' # r) (src @ ''/'')" by (simp add: startswith_def)
    ultimately show ?thesis
      using put_files_get [OF inj1 [of r] dn(1), of d] by (simp add: dict_get_prefix split: option.splits)
  qed
  have upkeys: "\<exists>r. k = p @ r \<and> \<not> startswith r ''/''" if "k \<in> fst ` set (with_prefix p ?up)" for k
  proof -
    from that have k: "startswith k p" "dict_get ?up k \<noteq> None"
      by (auto simp: with_prefix_def dict_get_def map_of_eq_None_iff)
    obtain r where r: "k = p @ r" using k(1) by (auto simp: startswith_iff)
    have "dict_get (st_files st) (?src @ r) \<noteq> None" using k(2) unfolding r up .
    then have "?src @ r \<in> fst ` set (st_files st)" by (simp only: dict_get_def map_of_eq_None_iff) blast
    then obtain v where "(?src @ r, v) \<in> set (st_files st)" by force
    moreover have "startswith (?src @ r) ?src" by (rule startswith_append)
    ultimately have "(?src @ r, v) \<in> set ?items" by (simp add: with_prefix_def)
    then have "?src @ r \<in> fst ` set ?items" by force
    from pb [OF this] r show ?thesis by auto
  qed
  have inj2: "inj_on (\<lambda>k. path_join dst (drop (length p) k)) (insert (p @ rel) (fst ` set (with_prefix p ?up)))"
  proof (rule inj_onI)
    fix x y
    assume xy: "x \<in> insert (p @ rel) (fst ` set (with_prefix p ?up))" "y \<in> insert (p @ rel) (fst ` set (with_prefix p ?up))"
      and e: "path_join dst (drop (length p) x) = path_join dst (drop (length p) y)"
    obtain r where r: "x = p @ r" "\<not> startswith r ''/''" using xy(1) upkeys assms(9) by blast
    obtain q where q: "y = p @ q" "\<not> startswith q ''/''" using xy(2) upkeys assms(9) by blast
    from e r q show "x = y" using path_join_inj [of dst r q] by simp
  qed
  have "distinct (map fst (with_prefix p ?up))"
    unfolding with_prefix_def put_files_def by (intro distinct_filter_names dict_keys_update dn(2))
  note g = put_files_get [OF inj2 this, of "st_files st"]
  have w: "dict_get (with_prefix p ?up) (p @ rel) = dict_get (st_files st) (?src @ rel)"
    unfolding dict_get_prefix using up [of rel] by simp
  have dr: "drop (length p) (p @ rel) = rel" by simp
  show ?thesis using g unfolding files2 w dr by simp
qed

definition demo_store :: store where
  "demo_store = \<lparr>st_objects = [(''b'', [(''other'', ''o'')])], st_files = [(''/m/x/w'', ''1''), (''/m/v'', ''2'')],
     st_dirs = [''/m'', ''/m/x'']\<rparr>"

theorem upload_download_roundtrip_witness:
  "\<exists>st1 st2. upload_s3_dir ''/m/'' ''s3://b/out'' demo_store = Inr st1 \<and>
     download_s3_dir ''s3://b/out'' ''/new'' st1 = Inr st2 \<and>
     dict_get (st_files st2) ''/new/x/w'' = Some ''1''"
proof -
  have url: "parse_s3_dir_url ''s3://b/out'' = Inr (''b'', ''out/'')" "is_s3_url ''s3://b/out''"
    by (simp_all add: parse_s3_dir_url_def parse_s3_url_def url_parse_def split_scheme_def scheme_char_def
        name_start_def is_lower_def is_upper_def is_digit_def to_lower_def split_netloc_def startswith_def
        lstrip_def endswith_def is_s3_url_def)
  have b: "bucket_files demo_store ''b'' = Inr [(''other'', ''o'')]"
    by (simp add: bucket_files_def demo_store_def dict_get_def)
  have "\<exists>st1. upload_s3_dir ''/m/'' ''s3://b/out'' demo_store = Inr st1"
    by (simp add: upload_s3_dir_def url b endswith_def Let_def)
  then obtain st1 where st1: "upload_s3_dir ''/m/'' ''s3://b/out'' demo_store = Inr st1" by blast
  have "is_dir ''/m/'' demo_store" by (simp add: is_dir_def trim_slashes_def demo_store_def)
  then have "bucket_files st1 ''b'' \<noteq> Inl e" for e
    using st1 by (auto simp: upload_s3_dir_def url b endswith_def dict_set_get_bucket Let_def split: if_splits)
  then obtain d where "bucket_files st1 ''b'' = Inr d" by (cases "bucket_files st1 ''b''") auto
  then obtain st2 where st2: "download_s3_dir ''s3://b/out'' ''/new'' st1 = Inr st2"
    by (simp add: download_s3_dir_def url)
  have st1': "upload_s3_dir (''/m'' @ ''/'') ''s3://b/out'' demo_store = Inr st1" using st1 by simp
  have "dict_get (st_files st2) (path_join ''/new'' ''x/w'') =
      (case dict_get (st_files demo_store) (''/m'' @ ''/'' @ ''x/w'') of
         Some v \<Rightarrow> Some v | None \<Rightarrow> dict_get (st_files demo_store) (path_join ''/new'' ''x/w''))"
    by (rule upload_download_roundtrip [OF st1' st2])
      (simp_all add: url endswith_def is_dir_def trim_slashes_def demo_store_def dir_gone_def bucket_files_def
        dict_get_def with_prefix_def startswith_def distinct_names_def proper_below_def)
  then have "dict_get (st_files st2) ''/new/x/w'' = Some ''1''"
    by (simp add: path_join_def startswith_def endswith_def demo_store_def dict_get_def)
  with st1 st2 show ?thesis by blast
qed

text \<open>The directory operations on a whole bucket look for keys that start with a slash.\<close>

lemma bucket_root_prefix: "parse_s3_dir_url ''s3://bucket'' = Inr (''bucket'', ''/'')"
  by (simp add: parse_s3_dir_url_def parse_s3_url_def url_parse_def split_scheme_def scheme_char_def
      name_start_def is_lower_def is_upper_def is_digit_def to_lower_def split_netloc_def startswith_def
      lstrip_def endswith_def)

text \<open>An object whose key has an empty component is downloaded to an absolute path.\<close>

lemma download_escapes:
  "st_files (download_item ''/new'' 4 (''out//etc/passwd'', ''x'') st) = dict_set ''/etc/passwd'' ''x'' (st_files st)"
  by (simp add: download_item_def ensure_local_directory_def path_join_def startswith_def Let_def)

end
