(* ===== verification/Estimator.thy ===== *)
theory Estimator
  imports Agent Launcher Storage
begin

text \<open>
  \<open>python/metaspore/estimator.py\<close>: the estimator and the model with their shared base class, the
  launcher that carries their settings to the agents, and the agent that trains. Objects are their
  attribute dictionaries. What is a module, an updater, a callable or a class of the right kind is
  decided by PyTorch, pyspark and the class definitions: these tests are the arguments of the checks.
\<close>

section \<open>Attributes\<close>

type_synonym pyobj = "pyval dict"

text \<open>Every attribute that is read below has been set by the constructor.\<close>

definition attr :: "pyobj \<Rightarrow> string \<Rightarrow> pyval" where
  "attr obj n = (case dict_get obj n of Some v \<Rightarrow> v | None \<Rightarrow> PNone)"

lemma attr_set: "attr (dict_set k v obj) n = (if n = k then v else attr obj n)"
  by (simp add: attr_def pydict.get_put)

section \<open>The constructor\<close>

text \<open>The keyword arguments of \<open>PyTorchHelperMixin.__init__\<close> with their defaults.\<close>

definition mixin_defaults :: "pyval dict" where
  "mixin_defaults =
     [(''module'', PNone), (''updater'', PNone), (''loss_function'', PNone), (''metric_class'', PNone),
      (''training_dataset_transformer'', PNone), (''validation_dataset_transformer'', PNone),
      (''training_minibatch_transformer'', PNone), (''validation_minibatch_transformer'', PNone),
      (''training_minibatch_preprocessor'', PNone), (''validation_minibatch_preprocessor'', PNone),
      (''minibatch_preprocessor'', PNone), (''coordinator_start_hook'', PNone),
      (''coordinator_stop_hook'', PNone), (''start_workers_hook'', PNone), (''stop_workers_hook'', PNone),
      (''worker_start_hook'', PNone), (''worker_stop_hook'', PNone), (''worker_count'', PInt 1),
      (''server_count'', PInt 1), (''agent_class'', PNone), (''model_in_path'', PNone),
      (''model_out_path'', PNone), (''model_export_path'', PNone), (''model_version'', PNone),
      (''model_output_names'', PNone), (''use_fresh_updaters'', PBool True), (''experiment_name'', PNone),
      (''training_epoches'', PInt 1), (''shuffle_training_dataset'', PBool False),
      (''max_sparse_feature_age'', PInt 15), (''metric_update_interval'', PInt 10),
      (''consul_host'', PNone), (''consul_port'', PNone), (''consul_endpoint_prefix'', PNone),
      (''consul_model_sync_command'', PNone), (''input_label_column_index'', PNone),
      (''input_label_column_name'', PStr ''label''), (''output_label_column_name'', PStr ''label''),
      (''output_label_column_type'', PStr ''double''),
      (''output_prediction_column_name'', PStr ''rawPrediction''),
      (''output_prediction_column_type'', PStr ''double'')]"

abbreviation mixin_names :: "string list" where
  "mixin_names \<equiv> map fst mixin_defaults"

definition new_helper :: "pyval dict \<Rightarrow> pyobj" where
  "new_helper kwargs =
     map (\<lambda>(n, d). (n, case dict_get kwargs n of None \<Rightarrow> d | Some v \<Rightarrow> v)) mixin_defaults @
     [(''extra_agent_attributes'', PDict [(n, v) \<leftarrow> kwargs. n \<notin> set mixin_names]), (''final_metric'', PNone)]"

definition extra_attributes :: "pyobj \<Rightarrow> pyval dict" where
  "extra_attributes obj = (case attr obj ''extra_agent_attributes'' of PDict d \<Rightarrow> d | _ \<Rightarrow> [])"

section \<open>Checking the settings\<close>

text \<open>The tests that other code decides, and the directories that exist.\<close>

record py_world =
  pw_module :: "pyval \<Rightarrow> bool"
  pw_updater :: "pyval \<Rightarrow> bool"
  pw_callable :: "pyval \<Rightarrow> bool"
  pw_metric_class :: "pyval \<Rightarrow> bool"
  pw_agent_class :: "pyval \<Rightarrow> bool"
  pw_dir_exists :: "string \<Rightarrow> bool res"

text \<open>The forms of a check: on a required attribute, on an optional one, and on the whole object.\<close>

definition need :: "string \<Rightarrow> (pyval \<Rightarrow> bool) \<Rightarrow> pyobj \<Rightarrow> pyobj res" where
  "need n p obj = raise_if (\<not> p (attr obj n)) TypeError (Inr obj)"

definition optional :: "string \<Rightarrow> (pyval \<Rightarrow> bool) \<Rightarrow> pyobj \<Rightarrow> pyobj res" where
  "optional n p obj = raise_if (attr obj n \<noteq> PNone \<and> \<not> p (attr obj n)) TypeError (Inr obj)"

definition forbid :: "exn \<Rightarrow> (pyobj \<Rightarrow> bool) \<Rightarrow> pyobj \<Rightarrow> pyobj res" where
  "forbid e p obj = raise_if (p obj) e (Inr obj)"

definition given :: "pyobj \<Rightarrow> string \<Rightarrow> bool" where
  "given obj n \<longleftrightarrow> attr obj n \<noteq> PNone"

fun add_slash :: "pyval \<Rightarrow> pyval" where
  "add_slash (PStr s) = PStr (if endswith s ''/'' then s else s @ ''/'')"
| "add_slash v = v"

fun strip_slashes :: "pyval \<Rightarrow> pyval" where
  "strip_slashes (PStr s) = PStr (strip (\<lambda>c. c = CHR ''/'') s)"
| "strip_slashes v = v"

definition normalize :: "string \<Rightarrow> (pyval \<Rightarrow> pyval) \<Rightarrow> pyobj \<Rightarrow> pyobj res" where
  "normalize n f obj = Inr (if given obj n then dict_set n (f (attr obj n)) obj else obj)"

fun is_str_list :: "pyval \<Rightarrow> bool" where
  "is_str_list (PList xs) = list_all is_str xs"
| "is_str_list (PTuple xs) = list_all is_str xs"
| "is_str_list _ = False"

fun is_sequence :: "pyval \<Rightarrow> bool" where
  "is_sequence (PList _) = True"
| "is_sequence (PTuple _) = True"
| "is_sequence _ = False"

definition is_nonneg_int :: "pyval \<Rightarrow> bool" where
  "is_nonneg_int v = (case as_int v of None \<Rightarrow> False | Some i \<Rightarrow> 0 \<le> i)"

fun empty_str :: "pyval \<Rightarrow> bool" where
  "empty_str (PStr s) = (s = [])"
| "empty_str _ = False"

fun missing_dir :: "py_world \<Rightarrow> pyval \<Rightarrow> bool" where
  "missing_dir W (PStr s) = (pw_dir_exists W s \<noteq> Inr True)"
| "missing_dir W _ = False"

fun check_dir :: "py_world \<Rightarrow> pyval \<Rightarrow> pyobj \<Rightarrow> pyobj res" where
  "check_dir W (PStr s) obj = bindR (pw_dir_exists W s) (\<lambda>b. raise_if (\<not> b) RuntimeError (Inr obj))"
| "check_dir W _ obj = Inr obj"

text \<open>\<open>_check_properties\<close>, check by check in the order of the code.\<close>

definition callable_attributes :: "string list" where
  "callable_attributes =
     [''training_dataset_transformer'', ''validation_dataset_transformer'', ''training_minibatch_transformer'',
      ''validation_minibatch_transformer'', ''training_minibatch_preprocessor'',
      ''validation_minibatch_preprocessor'', ''minibatch_preprocessor'', ''coordinator_start_hook'',
      ''coordinator_stop_hook'', ''start_workers_hook'', ''stop_workers_hook'', ''worker_start_hook'',
      ''worker_stop_hook'']"

definition object_checks :: "py_world \<Rightarrow> (pyobj \<Rightarrow> pyobj res) list" where
  "object_checks W =
     [need ''module'' (pw_module W), optional ''updater'' (pw_updater W),
      optional ''loss_function'' (pw_callable W), optional ''metric_class'' (pw_metric_class W)] @
     map (\<lambda>n. optional n (pw_callable W)) callable_attributes @
     [need ''worker_count'' is_pos_int, need ''server_count'' is_pos_int,
      optional ''agent_class'' (pw_agent_class W)]"

definition path_checks :: "py_world \<Rightarrow> (pyobj \<Rightarrow> pyobj res) list" where
  "path_checks W =
     [optional ''model_in_path'' is_str, normalize ''model_in_path'' add_slash,
      (\<lambda>obj. check_dir W (attr obj ''model_in_path'') obj),
      optional ''model_out_path'' is_str, normalize ''model_out_path'' add_slash,
      optional ''model_export_path'' is_str, normalize ''model_export_path'' add_slash]"

definition value_checks :: "(pyobj \<Rightarrow> pyobj res) list" where
  "value_checks =
     [optional ''model_version'' is_str, optional ''model_output_names'' is_sequence,
      optional ''model_output_names'' is_str_list, optional ''experiment_name'' is_str,
      need ''training_epoches'' is_pos_int, need ''max_sparse_feature_age'' is_pos_int,
      need ''metric_update_interval'' is_pos_int, optional ''consul_host'' is_str,
      optional ''consul_port'' is_pos_int, optional ''consul_endpoint_prefix'' is_str,
      forbid ValueError (\<lambda>obj. empty_str (strip_slashes (attr obj ''consul_endpoint_prefix''))),
      normalize ''consul_endpoint_prefix'' strip_slashes, optional ''consul_model_sync_command'' is_str,
      optional ''input_label_column_index'' is_nonneg_int, optional ''input_label_column_name'' is_str,
      need ''output_label_column_name'' is_str, need ''output_label_column_type'' is_str,
      need ''output_prediction_column_name'' is_str, need ''output_prediction_column_type'' is_str]"

definition combination_checks :: "(pyobj \<Rightarrow> pyobj res) list" where
  "combination_checks =
     [forbid RuntimeError (\<lambda>obj. given obj ''model_export_path''
        \<and> (\<not> given obj ''model_version'' \<or> \<not> given obj ''experiment_name'')),
      forbid RuntimeError (\<lambda>obj. given obj ''consul_endpoint_prefix''
        \<and> (\<not> given obj ''consul_host'' \<or> \<not> given obj ''consul_port'')),
      forbid RuntimeError (\<lambda>obj. given obj ''consul_endpoint_prefix'' \<and> \<not> given obj ''model_export_path'')]"

definition check_properties :: "py_world \<Rightarrow> pyobj \<Rightarrow> pyobj res" where
  "check_properties W =
     foldR (\<lambda>c. c) (object_checks W @ path_checks W @ value_checks @ combination_checks)"

definition check_estimator :: "py_world \<Rightarrow> pyobj \<Rightarrow> pyobj res" where
  "check_estimator W obj =
     bindR (check_properties W obj) (\<lambda>obj. raise_if (\<not> given obj ''model_out_path'') RuntimeError (Inr obj))"

text \<open>What the checks ask of the attributes, and the object they leave behind.\<close>

definition allowed :: "(pyval \<Rightarrow> bool) \<Rightarrow> pyval \<Rightarrow> bool" where
  "allowed p v \<longleftrightarrow> v = PNone \<or> p v"

definition valid_objects :: "py_world \<Rightarrow> (string \<Rightarrow> pyval) \<Rightarrow> bool" where
  "valid_objects W a \<longleftrightarrow>
     pw_module W (a ''module'') \<and> allowed (pw_updater W) (a ''updater'') \<and>
     allowed (pw_callable W) (a ''loss_function'') \<and> allowed (pw_metric_class W) (a ''metric_class'') \<and>
     list_all (\<lambda>n. allowed (pw_callable W) (a n)) callable_attributes \<and>
     is_pos_int (a ''worker_count'') \<and> is_pos_int (a ''server_count'') \<and>
     allowed (pw_agent_class W) (a ''agent_class'')"

definition valid_paths :: "py_world \<Rightarrow> (string \<Rightarrow> pyval) \<Rightarrow> bool" where
  "valid_paths W a \<longleftrightarrow>
     allowed is_str (a ''model_in_path'') \<and> \<not> missing_dir W (add_slash (a ''model_in_path'')) \<and>
     allowed is_str (a ''model_out_path'') \<and> allowed is_str (a ''model_export_path'')"

definition valid_values :: "(string \<Rightarrow> pyval) \<Rightarrow> bool" where
  "valid_values a \<longleftrightarrow>
     allowed is_str (a ''model_version'') \<and> allowed is_sequence (a ''model_output_names'') \<and>
     allowed is_str_list (a ''model_output_names'') \<and> allowed is_str (a ''experiment_name'') \<and>
     is_pos_int (a ''training_epoches'') \<and> is_pos_int (a ''max_sparse_feature_age'') \<and>
     is_pos_int (a ''metric_update_interval'') \<and> allowed is_str (a ''consul_host'') \<and>
     allowed is_pos_int (a ''consul_port'') \<and> allowed is_str (a ''consul_endpoint_prefix'') \<and>
     \<not> empty_str (strip_slashes (a ''consul_endpoint_prefix'')) \<and>
     allowed is_str (a ''consul_model_sync_command'') \<and>
     allowed is_nonneg_int (a ''input_label_column_index'') \<and> allowed is_str (a ''input_label_column_name'') \<and>
     is_str (a ''output_label_column_name'') \<and> is_str (a ''output_label_column_type'') \<and>
     is_str (a ''output_prediction_column_name'') \<and> is_str (a ''output_prediction_column_type'')"

definition valid_combination :: "(string \<Rightarrow> pyval) \<Rightarrow> bool" where
  "valid_combination a \<longleftrightarrow>
     (a ''model_export_path'' \<noteq> PNone \<longrightarrow> a ''model_version'' \<noteq> PNone \<and> a ''experiment_name'' \<noteq> PNone) \<and>
     (a ''consul_endpoint_prefix'' \<noteq> PNone \<longrightarrow>
        a ''consul_host'' \<noteq> PNone \<and> a ''consul_port'' \<noteq> PNone \<and> a ''model_export_path'' \<noteq> PNone)"

definition valid_settings :: "py_world \<Rightarrow> (string \<Rightarrow> pyval) \<Rightarrow> bool" where
  "valid_settings W a \<longleftrightarrow> valid_objects W a \<and> valid_paths W a \<and> valid_values a \<and> valid_combination a"

definition renormalize :: "string \<Rightarrow> (pyval \<Rightarrow> pyval) \<Rightarrow> pyobj \<Rightarrow> pyobj" where
  "renormalize n f obj = (if given obj n then dict_set n (f (attr obj n)) obj else obj)"

lemma check_simps:
  "need n p obj = Inr obj' \<longleftrightarrow> obj' = obj \<and> p (attr obj n)"
  "optional n p obj = Inr obj' \<longleftrightarrow> obj' = obj \<and> allowed p (attr obj n)"
  "forbid e q obj = Inr obj' \<longleftrightarrow> obj' = obj \<and> \<not> q obj"
  "normalize n f obj = Inr obj' \<longleftrightarrow> obj' = renormalize n f obj"
  by (auto simp: need_def optional_def forbid_def normalize_def renormalize_def allowed_def raise_if_Inr_iff)

lemma check_dir_iff: "check_dir W v obj = Inr obj' \<longleftrightarrow> obj' = obj \<and> \<not> missing_dir W v"
  by (cases v) (auto simp: bindR_Inr_iff raise_if_Inr_iff)

lemma foldR_checks:
  "foldR (\<lambda>c. c) [] obj = Inr obj' \<longleftrightarrow> obj' = obj"
  "foldR (\<lambda>c. c) (c # cs) obj = Inr obj' \<longleftrightarrow> (\<exists>u. c obj = Inr u \<and> foldR (\<lambda>c. c) cs u = Inr obj')"
  by (auto simp: bindR_Inr_iff)

lemma foldR_checks_append:
  "foldR (\<lambda>c. c) (cs @ ds) obj = Inr obj' \<longleftrightarrow>
     (\<exists>u. foldR (\<lambda>c. c) cs obj = Inr u \<and> foldR (\<lambda>c. c) ds u = Inr obj')"
  by (simp add: foldR_append bindR_Inr_iff)

lemma callable_checks:
  "foldR (\<lambda>c. c) (map (\<lambda>n. optional n p) ns) obj = Inr obj' \<longleftrightarrow>
     obj' = obj \<and> list_all (\<lambda>n. allowed p (attr obj n)) ns"
  by (induction ns arbitrary: obj) (auto simp: bindR_Inr_iff check_simps)

lemma attr_renormalize:
  "attr (renormalize n f obj) k = (if k = n \<and> attr obj n \<noteq> PNone then f (attr obj n) else attr obj k)"
  by (simp add: renormalize_def given_def attr_set)

lemma object_checks_iff:
  "foldR (\<lambda>c. c) (object_checks W) obj = Inr obj' \<longleftrightarrow> obj' = obj \<and> valid_objects W (attr obj)"
  by (auto simp: object_checks_def foldR_checks foldR_checks_append callable_checks check_simps valid_objects_def
      simp del: foldR.simps)

lemma given_add_slash [simp]: "(add_slash v = PNone) = (v = PNone)" "(strip_slashes v = PNone) = (v = PNone)"
  by (cases v; simp)+

lemma missing_dir_none [simp]: "\<not> missing_dir W PNone" by simp

lemma path_checks_iff:
  "foldR (\<lambda>c. c) (path_checks W) obj = Inr obj' \<longleftrightarrow>
     obj' = renormalize ''model_export_path'' add_slash (renormalize ''model_out_path'' add_slash
       (renormalize ''model_in_path'' add_slash obj)) \<and> valid_paths W (attr obj)"
  by (auto simp: path_checks_def foldR_checks check_simps check_dir_iff valid_paths_def attr_renormalize simp del: foldR.simps)

lemma value_checks_iff:
  "foldR (\<lambda>c. c) value_checks obj = Inr obj' \<longleftrightarrow>
     obj' = renormalize ''consul_endpoint_prefix'' strip_slashes obj \<and> valid_values (attr obj)"
  by (auto simp: value_checks_def foldR_checks check_simps valid_values_def attr_renormalize simp del: foldR.simps)

lemma combination_checks_iff:
  "foldR (\<lambda>c. c) combination_checks obj = Inr obj' \<longleftrightarrow> obj' = obj \<and> valid_combination (attr obj)"
  by (auto simp: combination_checks_def foldR_checks check_simps valid_combination_def given_def
      simp del: foldR.simps)

definition normalized :: "pyobj \<Rightarrow> pyobj" where
  "normalized obj =
     renormalize ''consul_endpoint_prefix'' strip_slashes (renormalize ''model_export_path'' add_slash
       (renormalize ''model_out_path'' add_slash (renormalize ''model_in_path'' add_slash obj)))"

definition normal_value :: "string \<Rightarrow> pyval \<Rightarrow> pyval" where
  "normal_value n v =
     (if n \<in> {''model_in_path'', ''model_out_path'', ''model_export_path''} then add_slash v
      else if n = ''consul_endpoint_prefix'' then strip_slashes v else v)"

lemma attr_normalized: "attr (normalized obj) n = normal_value n (attr obj n)"
  by (auto simp: normalized_def normal_value_def attr_renormalize)

lemma valid_cong:
  assumes "\<And>n. b n = normal_value n (a n)"
  shows "valid_objects W b = valid_objects W a" "valid_values b = valid_values a"
    "valid_combination b = valid_combination a"
    "valid_paths W b = valid_paths W a"
proof -
  have st: "strip_slashes (strip_slashes v) = strip_slashes v" for v by (cases v) (simp_all add: strip_strip)
  have sl: "add_slash (add_slash v) = add_slash v" for v by (cases v) (simp_all add: endswith_def)
  have al: "allowed is_str (add_slash v) = allowed is_str v" "allowed is_str (strip_slashes v) = allowed is_str v" for v
    by (cases v; simp add: allowed_def)+
  note b = assms [unfolded normal_value_def]
  show "valid_objects W b = valid_objects W a"
    by (simp add: valid_objects_def b callable_attributes_def)
  show "valid_values b = valid_values a" by (simp add: valid_values_def b st al)
  show "valid_combination b = valid_combination a" by (simp add: valid_combination_def b)
  show "valid_paths W b = valid_paths W a" by (simp add: valid_paths_def b sl al)
qed

lemma check_properties_iff:
  "check_properties W obj = Inr obj' \<longleftrightarrow> obj' = normalized obj \<and> valid_settings W (attr obj)"
proof -
  let ?u = "renormalize ''model_export_path'' add_slash (renormalize ''model_out_path'' add_slash
    (renormalize ''model_in_path'' add_slash obj))"
  have v: "valid_values (attr ?u) = valid_values (attr obj)"
    by (simp add: valid_values_def attr_renormalize)
  have "valid_combination (attr (normalized obj)) = valid_combination (attr obj)"
    by (rule valid_cong(3)) (rule attr_normalized)
  then show ?thesis
    by (auto simp: check_properties_def foldR_checks_append object_checks_iff path_checks_iff value_checks_iff
        combination_checks_iff v valid_settings_def normalized_def simp del: foldR.simps)
qed

lemma dict_set_same: "dict_get d k = Some v \<Longrightarrow> dict_set k v d = d"
  by (induction d) (auto simp: dict_get_def dict_set_def)

lemma renormalize_same: "f (attr obj n) = attr obj n \<Longrightarrow> renormalize n f obj = obj"
  by (auto simp: renormalize_def given_def attr_def dict_set_same split: option.splits)

lemma normalized_twice: "normalized (normalized obj) = normalized obj"
proof -
  have st: "strip_slashes (strip_slashes v) = strip_slashes v" for v by (cases v) (simp_all add: strip_strip)
  have sl: "add_slash (add_slash v) = add_slash v" for v by (cases v) (simp_all add: endswith_def)
  let ?o = "normalized obj"
  have a: "add_slash (attr ?o n) = attr ?o n"
    if "n \<in> {''model_in_path'', ''model_out_path'', ''model_export_path''}" for n
    using that by (simp add: attr_normalized normal_value_def sl)
  have "strip_slashes (attr ?o ''consul_endpoint_prefix'') = attr ?o ''consul_endpoint_prefix''"
    by (simp add: attr_normalized normal_value_def st)
  with a show ?thesis
    by (simp add: normalized_def [of ?o] renormalize_same)
qed

text \<open>
  The checks of the settings: they succeed exactly when the settings are valid, and then leave the
  object as it was but for trailing slashes on the three paths and the slashes around the consul prefix;
  checking the result again changes nothing.
\<close>

theorem check_properties_spec:
  "(check_properties W obj = Inr obj' \<longleftrightarrow> obj' = normalized obj \<and> valid_settings W (attr obj))
   \<and> attr (normalized obj) n = normal_value n (attr obj n)
   \<and> bindR (check_properties W obj) (check_properties W) = check_properties W obj"
proof -
  have "check_properties W (normalized obj) = Inr (normalized obj)" if "valid_settings W (attr obj)"
  proof -
    have "valid_settings W (attr (normalized obj)) = valid_settings W (attr obj)"
      unfolding valid_settings_def using valid_cong [OF attr_normalized] by simp
    with that show ?thesis by (simp add: check_properties_iff normalized_twice)
  qed
  moreover have "o2 = normalized obj \<and> valid_settings W (attr obj)" if "check_properties W obj = Inr o2" for o2
    using that by (simp only: check_properties_iff)
  ultimately have "bindR (check_properties W obj) (check_properties W) = check_properties W obj"
    by (cases "check_properties W obj") auto
  then show ?thesis by (simp only: check_properties_iff attr_normalized)
qed

section \<open>The launcher\<close>

definition launcher_names :: "string list" where
  "launcher_names =
     [''module'', ''updater'', ''dataset'', ''loss_function'', ''metric_class''] @ callable_attributes @
     [''model_export_selector'', ''tensor_name_prefix'', ''worker_count'', ''server_count'', ''agent_class'',
      ''agent_object'', ''is_training_mode'', ''model_in_path'', ''model_out_path'', ''model_export_path'',
      ''model_version'', ''model_output_names'', ''experiment_name'', ''use_fresh_updaters'',
      ''training_epoches'', ''shuffle_training_dataset'', ''max_sparse_feature_age'', ''metric_update_interval'',
      ''consul_host'', ''consul_port'', ''consul_endpoint_prefix'', ''consul_model_sync_command'',
      ''input_label_column_index'', ''input_label_column_name'', ''output_label_column_name'',
      ''output_label_column_type'', ''output_prediction_column_name'', ''output_prediction_column_type'',
      ''extra_agent_attributes'']"

definition new_launcher :: pyobj where
  "new_launcher = map (\<lambda>n. (n, PNone)) launcher_names"

definition get_updater_object :: "pyobj \<Rightarrow> pyval" where
  "get_updater_object obj =
     (if py_truth (attr obj ''updater'') then attr obj ''updater'' else PObj ''AdamTensorUpdater(1e-05)'')"

definition get_agent_class_attr :: "pyobj \<Rightarrow> pyval" where
  "get_agent_class_attr obj =
     (if py_truth (attr obj ''agent_class'') then attr obj ''agent_class'' else PObj ''PyTorchAgent'')"

text \<open>The settings that are handed on as they are.\<close>

definition setting_names :: "string list" where
  "setting_names =
     [''model_in_path'', ''model_out_path'', ''model_export_path'', ''model_version'', ''model_output_names'',
      ''experiment_name'', ''use_fresh_updaters'', ''training_epoches'', ''shuffle_training_dataset'',
      ''max_sparse_feature_age'', ''metric_update_interval'', ''consul_host'', ''consul_port'',
      ''consul_endpoint_prefix'', ''consul_model_sync_command'', ''input_label_column_index'',
      ''input_label_column_name'', ''output_label_column_name'', ''output_label_column_type'',
      ''output_prediction_column_name'', ''output_prediction_column_type'']"

definition launcher_fields :: "pyobj \<Rightarrow> pyval \<Rightarrow> bool \<Rightarrow> pyval dict" where
  "launcher_fields obj dataset training =
     [(''module'', attr obj ''module''), (''updater'', get_updater_object obj), (''dataset'', dataset)] @
     map (\<lambda>n. (n, attr obj n)) ([''loss_function'', ''metric_class''] @ callable_attributes @
       [''worker_count'', ''server_count'']) @
     [(''agent_class'', get_agent_class_attr obj), (''is_training_mode'', PBool training)] @
     map (\<lambda>n. (n, attr obj n)) setting_names @
     [(''extra_agent_attributes'', attr obj ''extra_agent_attributes'')]"

definition create_launcher ::
  "(pyobj \<Rightarrow> pyobj res) \<Rightarrow> pyval \<Rightarrow> bool \<Rightarrow> pyobj \<Rightarrow> (pyobj \<times> pyobj) res" where
  "create_launcher check dataset training obj =
     bindR (check obj) (\<lambda>obj. Inr (obj, dict_update new_launcher (launcher_fields obj dataset training)))"

text \<open>\<open>PyTorchLauncher.launch\<close> up to the arguments that \<open>launch_agent\<close> passes to the agent class.\<close>

definition agent_attribute_names :: "string list" where
  "agent_attribute_names = [''tensor_name_prefix'', ''is_training_mode''] @ setting_names"

definition torch_agent_attributes :: "pyobj \<Rightarrow> pyval dict res" where
  "torch_agent_attributes l =
     (case attr l ''extra_agent_attributes'' of
        PDict d \<Rightarrow> Inr (dict_update (map (\<lambda>n. (n, attr l n)) agent_attribute_names) d)
      | _ \<Rightarrow> Inl TypeError)"

definition torch_launch_args :: "pyobj \<Rightarrow> pyval dict res" where
  "torch_launch_args l =
     bindR (torch_agent_attributes l) (\<lambda>attrs.
     Inr [(''worker_count'', attr l ''worker_count''), (''server_count'', attr l ''server_count''),
          (''agent_attributes'', PDict attrs)])"

text \<open>\<open>_initialize_agent\<close>, run by the creator of the coordinator.\<close>

definition object_names :: "string list" where
  "object_names = [''module'', ''updater'', ''dataset'', ''loss_function'', ''metric_class''] @
     callable_attributes @ [''model_export_selector'']"

definition initialize_agent :: "pyobj \<Rightarrow> py_agent \<Rightarrow> py_agent" where
  "initialize_agent l a = dict_update a (map (\<lambda>n. (n, VAttr (attr l n))) object_names)"

section \<open>The agents\<close>

text \<open>\<open>PyTorchAgent.__init__\<close>.\<close>

definition torch_agent_fields :: py_agent where
  "torch_agent_fields =
     map (\<lambda>n. (n, VAttr PNone))
       (object_names @ [''tensor_name_prefix'', ''model'', ''trainer'', ''is_training_mode'', ''validation_result''] @
        setting_names) @ [(''minibatch_id'', VAttr (PInt 0))]"

definition agent_attr :: "py_agent \<Rightarrow> string \<Rightarrow> pyval" where
  "agent_attr a n = (case dict_get a n of Some (VAttr v) \<Rightarrow> v | _ \<Rightarrow> PNone)"

definition set_agent_attr :: "string \<Rightarrow> pyval \<Rightarrow> py_agent \<Rightarrow> py_agent" where
  "set_agent_attr n v a = dict_set n (VAttr v) a"

text \<open>
  \<open>distribute_x\<close>: a barrier job that assigns the coordinator's value on the agent of each worker. The
  module travels through \<open>torch.save\<close> and \<open>torch.load\<close> and takes the export selector with it.
\<close>

definition distribute :: "string \<Rightarrow> py_agent \<Rightarrow> py_agent list \<Rightarrow> py_agent list" where
  "distribute n c ws = map (set_agent_attr n (agent_attr c n)) ws"

definition distribute_module :: "(pyval \<Rightarrow> pyval) \<Rightarrow> py_agent \<Rightarrow> py_agent list \<Rightarrow> py_agent list" where
  "distribute_module ship c ws =
     map (\<lambda>a. set_agent_attr ''model_export_selector'' (agent_attr c ''model_export_selector'')
              (set_agent_attr ''module'' (ship (agent_attr c ''module'')) a)) ws"

definition distributed_names :: "string list" where
  "distributed_names =
     [''updater'', ''loss_function'', ''metric_class'', ''training_minibatch_transformer'',
      ''validation_minibatch_transformer'', ''training_minibatch_preprocessor'',
      ''validation_minibatch_preprocessor'', ''minibatch_preprocessor'', ''worker_start_hook'', ''worker_stop_hook'']"

definition distribute_all :: "(pyval \<Rightarrow> pyval) \<Rightarrow> py_agent \<Rightarrow> py_agent list \<Rightarrow> py_agent list" where
  "distribute_all ship c ws = fold (\<lambda>n ws. distribute n c ws) distributed_names (distribute_module ship c ws)"

section \<open>The settings on the workers\<close>

lemma load_attribute_all:
  "foldR (load_attribute reserved) d a = Inr a' \<Longrightarrow> a' = dict_update a (map (\<lambda>(n, v). (n, VAttr v)) d)"
  by (induction d arbitrary: a) (auto simp: load_attribute_def bindR_Inr_iff raise_if_Inr_iff)

lemma map_of_rev_map:
  "map_of (rev (map (\<lambda>(n, v). (n, f v)) d)) k = map_option f (map_of (rev d) k)"
proof -
  have "rev (map (\<lambda>(n, v). (n, f v)) d) = map (\<lambda>(n, v). (n, f v)) (rev d)" by (simp add: rev_map)
  then show ?thesis by (simp add: map_of_map)
qed

lemma loaded_attr:
  assumes "load_agent_attributes reserved args a = Inr a'" "dict_get args ''agent_attributes'' = Some (PDict d)"
  shows "agent_attr a' n = (case map_of (rev d) n of Some v \<Rightarrow> v | None \<Rightarrow> agent_attr a n)"
proof -
  have "a' = dict_update a (map (\<lambda>(n, v). (n, VAttr v)) d)"
    using assms by (auto simp: load_agent_attributes_def dict_index_def intro: load_attribute_all)
  then show ?thesis
    by (simp add: agent_attr_def dict_update_def pydict.get_put_all map_of_rev_map split: option.split)
qed

lemma map_of_const_keys: "map_of (map (\<lambda>n. (n, f n)) ns) k = (if k \<in> set ns then Some (f k) else None)"
  by (induction ns) auto

lemma map_of_rev_const_keys:
  "map_of (rev (map (\<lambda>n. (n, f n)) ns)) k = (if k \<in> set ns then Some (f k) else None)"
  by (simp add: rev_map map_of_const_keys)

lemma initialized_attr:
  "agent_attr (initialize_agent l a) n = (if n \<in> set object_names then attr l n else agent_attr a n)"
  by (simp add: agent_attr_def initialize_agent_def dict_update_def pydict.get_put_all map_of_rev_const_keys)

lemma set_agent_attr_get: "agent_attr (set_agent_attr n v a) k = (if k = n then v else agent_attr a k)"
  by (simp add: agent_attr_def set_agent_attr_def pydict.get_put)

lemma distribute_fold:
  assumes "i < length ws"
  shows "length (fold (\<lambda>n ws. distribute n c ws) ns ws) = length ws \<and>
    agent_attr (fold (\<lambda>n ws. distribute n c ws) ns ws ! i) k =
      (if k \<in> set ns then agent_attr c k else agent_attr (ws ! i) k)"
  using assms
proof (induction ns arbitrary: ws)
  case (Cons n ns)
  have "length (distribute n c ws) = length ws" "i < length (distribute n c ws)"
    "agent_attr (distribute n c ws ! i) k = (if k = n then agent_attr c n else agent_attr (ws ! i) k)"
    using Cons.prems by (simp_all add: distribute_def set_agent_attr_get)
  with Cons.IH [of "distribute n c ws"] show ?case by auto
qed simp

lemma distributed_attr:
  assumes "i < length ws"
  shows "agent_attr (distribute_all ship c ws ! i) k =
    (if k \<in> set distributed_names \<or> k = ''model_export_selector'' then agent_attr c k
     else if k = ''module'' then ship (agent_attr c ''module'') else agent_attr (ws ! i) k)"
proof -
  have l: "i < length (distribute_module ship c ws)" using assms by (simp add: distribute_module_def)
  have "agent_attr (distribute_module ship c ws ! i) k =
      (if k = ''model_export_selector'' then agent_attr c k
       else if k = ''module'' then ship (agent_attr c ''module'') else agent_attr (ws ! i) k)"
    using assms by (simp add: distribute_module_def set_agent_attr_get)
  with distribute_fold [OF l] show ?thesis by (auto simp: distribute_all_def)
qed

lemma launcher_attr:
  assumes "create_launcher check ds training obj = Inr (obj', l)"
  shows "check obj = Inr obj'"
    "n \<in> set setting_names \<Longrightarrow> attr l n = attr obj' n"
    "n \<in> set distributed_names \<Longrightarrow> attr l n = (if n = ''updater'' then get_updater_object obj' else attr obj' n)"
    "attr l ''module'' = attr obj' ''module''"
    "attr l ''is_training_mode'' = PBool training"
    "attr l ''extra_agent_attributes'' = attr obj' ''extra_agent_attributes''"
    "attr l ''worker_count'' = attr obj' ''worker_count''"
    "attr l ''server_count'' = attr obj' ''server_count''"
proof -
  show "check obj = Inr obj'" using assms by (auto simp: create_launcher_def bindR_Inr_iff)
  have l: "l = dict_update new_launcher (launcher_fields obj' ds training)"
    using assms by (auto simp: create_launcher_def bindR_Inr_iff)
  have d: "distinct (map fst (launcher_fields obj' ds training))"
    by (simp add: launcher_fields_def callable_attributes_def setting_names_def)
  have a: "attr l n = v" if "(n, v) \<in> set (launcher_fields obj' ds training)" for n v
    using map_of_is_SomeI [OF d that] by (simp add: attr_def l dict_update_def pydict.get_put_all map_of_rev [OF d])
  show "n \<in> set setting_names \<Longrightarrow> attr l n = attr obj' n" by (rule a) (simp add: launcher_fields_def)
  show "attr l ''module'' = attr obj' ''module''" "attr l ''is_training_mode'' = PBool training"
    "attr l ''extra_agent_attributes'' = attr obj' ''extra_agent_attributes''"
    "attr l ''worker_count'' = attr obj' ''worker_count''" "attr l ''server_count'' = attr obj' ''server_count''"
    by (rule a, simp add: launcher_fields_def)+
  have u: "list_all (\<lambda>n. n = ''updater'' \<or> n \<in> set ([''loss_function'', ''metric_class''] @ callable_attributes))
      distributed_names"
    by (simp add: distributed_names_def callable_attributes_def)
  assume "n \<in> set distributed_names"
  with u have c: "n = ''updater'' \<or> n \<in> set ([''loss_function'', ''metric_class''] @ callable_attributes)"
    unfolding list_all_iff by (rule bspec)
  show "attr l n = (if n = ''updater'' then get_updater_object obj' else attr obj' n)"
  proof (cases "n = ''updater''")
    case True
    have "(n, get_updater_object obj') \<in> set (launcher_fields obj' ds training)"
      unfolding True launcher_fields_def set_append by simp
    from a [OF this] True show ?thesis by simp
  next
    case False
    with c have "n \<in> set ([''loss_function'', ''metric_class''] @ callable_attributes @ [''worker_count'', ''server_count''])"
      unfolding set_append by blast
    then have "(n, attr obj' n) \<in> set (launcher_fields obj' ds training)"
      unfolding launcher_fields_def set_append set_map by blast
    from a [OF this] False show ?thesis by simp
  qed
qed

text \<open>The attributes that a launch passes on: those of the launcher, overridden by the extra ones.\<close>

lemma launched_attributes:
  assumes "torch_launch_args l = Inr args" "attr l ''extra_agent_attributes'' = PDict extra"
  obtains attrs where "dict_get args ''agent_attributes'' = Some (PDict attrs)"
    "\<And>k. map_of (rev attrs) k =
      (case map_of (rev extra) k of Some v \<Rightarrow> Some v
       | None \<Rightarrow> if k \<in> set agent_attribute_names then Some (attr l k) else None)"
proof
  let ?base = "map (\<lambda>n. (n, attr l n)) agent_attribute_names"
  show "dict_get args ''agent_attributes'' = Some (PDict (dict_update ?base extra))"
    using assms by (auto simp: torch_launch_args_def torch_agent_attributes_def dict_get_def bindR_Inr_iff)
  have "distinct (map fst ?base)" by (simp add: agent_attribute_names_def setting_names_def)
  then have "distinct (map fst (dict_update ?base extra))" by (rule dict_keys_update)
  note r = map_of_rev [OF this]
  have u: "dict_get (dict_update ?base extra) k =
      (case map_of (rev extra) k of Some v \<Rightarrow> Some v | None \<Rightarrow> dict_get ?base k)" for k
    unfolding dict_update_def by (rule pydict.get_put_all)
  show "map_of (rev (dict_update ?base extra)) k =
      (case map_of (rev extra) k of Some v \<Rightarrow> Some v
       | None \<Rightarrow> if k \<in> set agent_attribute_names then Some (attr l k) else None)" for k
    unfolding r using u [of k] by (simp add: dict_get_def map_of_const_keys split: option.splits)
qed

lemma extra_absent:
  assumes "list_all (\<lambda>(n, v). n \<notin> set mixin_names) extra" "k \<in> set mixin_names"
  shows "map_of (rev extra) k = None"
proof -
  have "k \<notin> fst ` set (rev extra)"
  proof
    assume "k \<in> fst ` set (rev extra)"
    then obtain v where "(k, v) \<in> set extra" by force
    from bspec [OF assms(1) [unfolded list_all_iff] this] assms(2) show False unfolding prod.case by (rule notE)
  qed
  then show ?thesis unfolding map_of_eq_None_iff .
qed

lemma setting_names_lists:
  "list_all (\<lambda>n. n \<in> set mixin_names) setting_names"
  "list_all (\<lambda>n. n \<notin> set distributed_names \<and> n \<noteq> ''model_export_selector'' \<and> n \<noteq> ''module'') agent_attribute_names"
  "list_all (\<lambda>n. n \<in> set object_names) (''module'' # distributed_names)"
  by (simp_all add: setting_names_def mixin_defaults_def agent_attribute_names_def distributed_names_def
      object_names_def callable_attributes_def)

text \<open>
  C5: The settings reach the workers: when the launcher of a checked estimator or model starts its agents
  and the coordinator has distributed its objects, every worker has the settings, the module as it was
  shipped, the updater (the default one when none was given) and the functions; only keyword arguments
  outside the constructor's own can differ, and one named \<open>is_training_mode\<close> replaces the mode of the run.
\<close>

theorem settings_reach_workers:
  assumes "create_launcher check ds training obj = Inr (obj', l)"
    and "attr obj' ''extra_agent_attributes'' = PDict extra"
    and "list_all (\<lambda>(n, v). n \<notin> set mixin_names) extra"
    and "torch_launch_args l = Inr args"
    and "create_coordinator torch_agent_fields reserved cc session (\<lambda>a. Inr (initialize_agent l a))
      (coordinator_args (launch_args ip port args)) = Inr c"
    and "list_all2 (\<lambda>cw w. create_server torch_agent_fields reserved cw (worker_args (launch_args ip port args)) = Inr w) cws ws"
    and "i < length ws"
    and "distribute_all ship c ws ! i = w"
  shows "(n \<in> set setting_names \<longrightarrow> agent_attr w n = attr obj' n) \<and>
    (n \<in> set distributed_names \<longrightarrow>
       agent_attr w n = (if n = ''updater'' then get_updater_object obj' else attr obj' n)) \<and>
    agent_attr w ''module'' = ship (attr obj' ''module'') \<and>
    agent_attr w ''is_training_mode'' =
      (case map_of (rev extra) ''is_training_mode'' of Some v \<Rightarrow> v | None \<Rightarrow> PBool training)"
proof -
  note la = launcher_attr [OF assms(1)] and w_def = assms(8) [symmetric]
  have le: "attr l ''extra_agent_attributes'' = PDict extra" using la(6) assms(2) by simp
  obtain attrs where args: "dict_get args ''agent_attributes'' = Some (PDict attrs)"
    and rv: "\<And>k. map_of (rev attrs) k =
      (case map_of (rev extra) k of Some v \<Rightarrow> Some v
       | None \<Rightarrow> if k \<in> set agent_attribute_names then Some (attr l k) else None)"
    using launched_attributes [OF assms(4) le] by blast
  note ex = extra_absent [OF assms(3)]
  note sub = setting_names_lists(1) and dis = setting_names_lists(2) and obs = setting_names_lists(3)
  have co: "agent_attr c n = attr l n" if "n \<in> set object_names" for n
    using assms(5) that by (auto simp: create_coordinator_def bindR_Inr_iff initialized_attr)
  have "\<exists>cw. load_agent_attributes reserved (worker_args (launch_args ip port args)) (create_agent torch_agent_fields cw) = Inr (ws ! i)"
    using assms(6,7) by (auto simp: list_all2_conv_all_nth create_server_def)
  then obtain cw where cw: "load_agent_attributes reserved (worker_args (launch_args ip port args))
      (create_agent torch_agent_fields cw) = Inr (ws ! i)" by blast
  have ag: "dict_get (worker_args (launch_args ip port args)) ''agent_attributes'' = Some (PDict attrs)"
    by (simp add: worker_args_def node_args_get launch_args_get args)
  have wi: "agent_attr (ws ! i) k = (case map_of (rev extra) k of Some v \<Rightarrow> v | None \<Rightarrow> attr l k)"
    if "k \<in> set agent_attribute_names" for k
    using loaded_attr [OF cw ag, of k] that by (simp add: rv split: option.split)
  have wa: "agent_attr w k = agent_attr (ws ! i) k" if "k \<in> set agent_attribute_names" for k
    using distributed_attr [OF assms(7), of ship c k] bspec [OF dis [unfolded list_all_iff] that] by (simp add: w_def)
  show ?thesis
  proof (intro conjI impI)
    assume n: "n \<in> set setting_names"
    then have "n \<in> set agent_attribute_names" by (simp add: agent_attribute_names_def)
    with wa wi ex bspec [OF sub [unfolded list_all_iff] n] la(2) [OF n] show "agent_attr w n = attr obj' n" by simp
  next
    assume n: "n \<in> set distributed_names"
    then have "n \<in> set object_names" using obs by (auto simp: list_all_iff)
    with n distributed_attr [OF assms(7), of ship c n] co la(3) [OF n]
    show "agent_attr w n = (if n = ''updater'' then get_updater_object obj' else attr obj' n)"
      by (simp add: w_def)
  next
    have "''module'' \<in> set object_names" using obs by simp
    moreover have "''module'' \<notin> set distributed_names" by (simp add: distributed_names_def)
    ultimately show "agent_attr w ''module'' = ship (attr obj' ''module'')"
      using distributed_attr [OF assms(7), of ship c "''module''"] co la(4) by (simp add: w_def)
  next
    have "''is_training_mode'' \<in> set agent_attribute_names" by (simp add: agent_attribute_names_def)
    from wa [OF this] wi [OF this] la(5)
    show "agent_attr w ''is_training_mode'' =
        (case map_of (rev extra) ''is_training_mode'' of Some v \<Rightarrow> v | None \<Rightarrow> PBool training)"
      by (simp split: option.split)
  qed
qed

lemma load_free:
  "dict_get args ''agent_attributes'' = Some (PDict d) \<Longrightarrow> \<exists>a. load_agent_attributes [] args inst = Inr a"
proof -
  have "\<exists>a. foldR (load_attribute []) d inst = Inr a" for d
    by (induction d arbitrary: inst) (auto simp: load_attribute_def)
  then show "dict_get args ''agent_attributes'' = Some (PDict d) \<Longrightarrow> ?thesis"
    by (simp add: load_agent_attributes_def dict_index_def)
qed

definition demo_helper :: pyobj where
  "demo_helper = new_helper [(''module'', PObj ''net''), (''model_out_path'', PStr ''/out'')]"

lemma demo_helper_attrs:
  "attr demo_helper ''extra_agent_attributes'' = PDict []" "attr demo_helper ''module'' = PObj ''net''"
  "attr demo_helper ''model_out_path'' = PStr ''/out''"
  by (simp_all add: demo_helper_def new_helper_def mixin_defaults_def attr_def dict_get_def)

theorem settings_reach_workers_witness:
  "\<exists>l c w. create_launcher Inr PNone True demo_helper = Inr (demo_helper, l) \<and>
     agent_attr (distribute_all id c [w] ! 0) ''model_out_path'' = PStr ''/out'' \<and>
     agent_attr (distribute_all id c [w] ! 0) ''module'' = PObj ''net'' \<and>
     agent_attr (distribute_all id c [w] ! 0) ''is_training_mode'' = PBool True"
proof -
  obtain l where l: "create_launcher Inr PNone True demo_helper = Inr (demo_helper, l)"
    by (simp add: create_launcher_def)
  have "attr l ''extra_agent_attributes'' = PDict []"
    using launcher_attr(6) [OF l] demo_helper_attrs by simp
  then obtain args where args: "torch_launch_args l = Inr args"
    by (simp add: torch_launch_args_def torch_agent_attributes_def)
  obtain d where d: "dict_get args ''agent_attributes'' = Some (PDict d)"
    using args by (auto simp: torch_launch_args_def dict_get_def bindR_Inr_iff)
  have dc: "dict_get (coordinator_args (launch_args ''ip'' 1 args)) ''agent_attributes'' = Some (PDict d)"
    "dict_get (worker_args (launch_args ''ip'' 1 args)) ''agent_attributes'' = Some (PDict d)"
    by (simp_all add: coordinator_args_def worker_args_def node_args_get launch_args_get d)
  obtain a where "load_agent_attributes [] (coordinator_args (launch_args ''ip'' 1 args))
      (dict_set session_slot (VSession 0) (create_agent torch_agent_fields (demo_cxx True))) = Inr a"
    using load_free [OF dc(1)] by blast
  then have c: "create_coordinator torch_agent_fields [] (demo_cxx True) 0 (\<lambda>a. Inr (initialize_agent l a))
      (coordinator_args (launch_args ''ip'' 1 args)) = Inr (initialize_agent l a)"
    by (simp add: create_coordinator_def)
  obtain w where "create_server torch_agent_fields [] (demo_cxx False) (worker_args (launch_args ''ip'' 1 args)) = Inr w"
    using load_free [OF dc(2)] unfolding create_server_def by blast
  then have w: "list_all2 (\<lambda>cw w. create_server torch_agent_fields [] cw
      (worker_args (launch_args ''ip'' 1 args)) = Inr w) [demo_cxx False] [w]" by simp
  have sn: "''model_out_path'' \<in> set setting_names" by (simp add: setting_names_def)
  show ?thesis
    using settings_reach_workers [OF l demo_helper_attrs(1) _ args c w, of 0 id _ "''model_out_path''"] sn l
    by (auto simp: demo_helper_attrs)
qed

end
