(* ===== verification/Fitting.thy ===== *)
theory Fitting
  imports Estimator
begin

text \<open>
  The second half of \<open>python/metaspore/estimator.py\<close>: fitting and transforming, the model that a fit
  returns, its publication in consul, and what an agent does in a session: the sequence of the
  coordinator, the start and stop of a worker, the choice of the user's functions, the progress of the
  metric, and the attributes of batch normalization that are put aside while a module is pickled.
\<close>

section \<open>The model of a fit\<close>

definition model_argument_names :: "string list" where
  "model_argument_names =
     [''updater'', ''loss_function'', ''metric_class''] @ callable_attributes @
     [''worker_count'', ''server_count'', ''agent_class'', ''model_export_path'', ''model_version'',
      ''model_output_names'', ''experiment_name'', ''metric_update_interval'', ''consul_host'', ''consul_port'',
      ''consul_endpoint_prefix'', ''consul_model_sync_command'', ''input_label_column_index'',
      ''input_label_column_name'', ''output_label_column_name'', ''output_label_column_type'',
      ''output_prediction_column_name'', ''output_prediction_column_type'']"

text \<open>The model reads what the estimator wrote: \<open>model_in_path\<close> is the estimator's \<open>model_out_path\<close>.\<close>

definition get_model_arguments :: "pyobj \<Rightarrow> pyval \<Rightarrow> pyval dict" where
  "get_model_arguments obj mdl =
     dict_update (extra_attributes obj)
       ([(''module'', mdl), (''model_in_path'', attr obj ''model_out_path'')] @
        map (\<lambda>n. (n, attr obj n)) model_argument_names)"

definition create_model :: "pyobj \<Rightarrow> pyval \<Rightarrow> pyobj" where
  "create_model obj mdl = new_helper (get_model_arguments obj mdl)"

section \<open>Fitting and transforming\<close>

fun delete_path :: "(string \<Rightarrow> 's \<Rightarrow> 's res) \<Rightarrow> pyval \<Rightarrow> 's \<Rightarrow> 's \<times> unit res" where
  "delete_path del (PStr u) st = (case del u st of Inl e \<Rightarrow> (st, Inl e) | Inr st' \<Rightarrow> (st', Inr ()))"
| "delete_path del PNone st = (st, Inr ())"
| "delete_path del _ st = (st, Inl AttributeError)"

definition clear_output :: "(string \<Rightarrow> 's \<Rightarrow> 's res) \<Rightarrow> pyobj \<Rightarrow> 's \<Rightarrow> 's \<times> unit res" where
  "clear_output del obj st =
     (case delete_path del (attr obj ''model_out_path'') st of
        (st1, Inl e) \<Rightarrow> (st1, Inl e)
      | (st1, Inr _) \<Rightarrow> delete_path del (attr obj ''model_export_path'') st1)"

text \<open>
  \<open>run\<close> is the session of the parameter server on a launcher: it leaves a store and the trained module.
  The metric that \<open>_fit\<close> keeps on the estimator is part of the result.
\<close>

definition fit ::
  "(string \<Rightarrow> 's \<Rightarrow> 's res) \<Rightarrow> (string \<Rightarrow> 's \<Rightarrow> bool res) \<Rightarrow> py_world \<Rightarrow>
   (pyobj \<Rightarrow> 's \<Rightarrow> 's \<times> (pyval \<times> pyval) res) \<Rightarrow> pyobj \<Rightarrow> pyval \<Rightarrow> 's \<Rightarrow> 's \<times> (pyobj \<times> pyobj) res" where
  "fit del ex W run obj dataset st =
     (case clear_output del obj st of
        (st1, Inl e) \<Rightarrow> (st1, Inl e)
      | (st1, Inr _) \<Rightarrow>
          (case create_launcher (check_estimator (W\<lparr>pw_dir_exists := \<lambda>u. ex u st1\<rparr>)) dataset True obj of
             Inl e \<Rightarrow> (st1, Inl e)
           | Inr (obj', l) \<Rightarrow>
               (case run l st1 of
                  (st2, Inl e) \<Rightarrow> (st2, Inl e)
                | (st2, Inr (mdl, metric)) \<Rightarrow>
                    (st2, Inr (create_model obj' mdl, dict_set ''final_metric'' metric obj')))))"

definition transform ::
  "(string \<Rightarrow> 's \<Rightarrow> bool res) \<Rightarrow> py_world \<Rightarrow> (pyobj \<Rightarrow> 's \<Rightarrow> 's \<times> (pyval \<times> pyval) res) \<Rightarrow>
   pyobj \<Rightarrow> pyval \<Rightarrow> 's \<Rightarrow> 's \<times> (pyval \<times> pyobj) res" where
  "transform ex W run obj dataset st =
     (case create_launcher (check_properties (W\<lparr>pw_dir_exists := \<lambda>u. ex u st\<rparr>)) dataset False obj of
        Inl e \<Rightarrow> (st, Inl e)
      | Inr (obj', l) \<Rightarrow>
          (case run l st of
             (st2, Inl e) \<Rightarrow> (st2, Inl e)
           | (st2, Inr (result, metric)) \<Rightarrow> (st2, Inr (result, dict_set ''final_metric'' metric obj'))))"

section \<open>Publishing\<close>

definition py_slash :: "string \<Rightarrow> string \<Rightarrow> string" where
  "py_slash a b = a @ CHR ''/'' # b"

text \<open>
  The key-value store of consul; listing with \<open>keys=True\<close> gives nothing when no key has the prefix. The
  prefix and the paths of a checked model are strings. The JSON text is kept as the object it encodes.
\<close>

definition publish_data :: "pyobj \<Rightarrow> pyval res" where
  "publish_data obj =
     (case attr obj ''experiment_name'' of
        PStr n \<Rightarrow>
          Inr (PDict [(''name'', PStr n), (''service'', PStr (n @ ''-service'')),
            (''path'', attr obj ''model_export_path''), (''version'', attr obj ''model_version''),
            (''util_cmd'', if given obj ''consul_model_sync_command'' then attr obj ''consul_model_sync_command''
                           else PStr ''aws s3 cp --recursive'')])
      | _ \<Rightarrow> Inl TypeError)"

definition publish :: "pyobj \<Rightarrow> pyval dict \<Rightarrow> pyval dict res" where
  "publish obj kv =
     (case attr obj ''consul_endpoint_prefix'' of
        PStr p \<Rightarrow>
          if p = [] then Inl RuntimeError
          else bindR (publish_data obj) (\<lambda>data.
            let kv1 = (if list_ex (\<lambda>(k, v). startswith k p) kv then kv else dict_set (py_slash p []) PNone kv)
            in (case attr obj ''experiment_name'' of
                  PStr n \<Rightarrow> Inr (dict_set (py_slash p n) data kv1) | _ \<Rightarrow> Inl TypeError))
      | v \<Rightarrow> if py_truth v then Inl TypeError else Inl RuntimeError)"

section \<open>The session on the coordinator\<close>

datatype torch_event = CallUser string | Distribute string | StartWorkers | StopWorkers
  | TrainPass bool | ValidationPass | CollectModule

definition agent_given :: "py_agent \<Rightarrow> string \<Rightarrow> bool" where
  "agent_given a n \<longleftrightarrow> agent_attr a n \<noteq> PNone"

definition hook :: "py_agent \<Rightarrow> string \<Rightarrow> torch_event list" where
  "hook a n = (if agent_given a n then [CallUser n] else [])"

definition training_mode :: "py_agent \<Rightarrow> bool" where
  "training_mode a = py_truth (agent_attr a ''is_training_mode'')"

text \<open>\<open>range(n)\<close> passes; \<open>range\<close> of anything but an integer raises.\<close>

definition default_feed_training_dataset :: "py_agent \<Rightarrow> torch_event list res" where
  "default_feed_training_dataset a =
     (case as_int (agent_attr a ''training_epoches'') of
        None \<Rightarrow> Inl TypeError
      | Some n \<Rightarrow> Inr (replicate (nat n) (TrainPass (py_truth (agent_attr a ''shuffle_training_dataset'')))))"

definition feed_dataset :: "py_agent \<Rightarrow> torch_event list res" where
  "feed_dataset a =
     (if training_mode a then
        (if agent_given a ''training_dataset_transformer'' then Inr [CallUser ''training_dataset_transformer'']
         else default_feed_training_dataset a)
      else
        (if agent_given a ''validation_dataset_transformer'' then Inr [CallUser ''validation_dataset_transformer'']
         else Inr [ValidationPass]))"

definition coordinator_run :: "py_agent \<Rightarrow> torch_event list res" where
  "coordinator_run a =
     bindR (feed_dataset a) (\<lambda>feed.
     Inr (hook a ''coordinator_start_hook'' @
          Distribute ''module'' # map Distribute distributed_names @
          hook a ''start_workers_hook'' @ [StartWorkers] @
          feed @
          (if training_mode a then [CollectModule] else []) @
          [StopWorkers] @ hook a ''stop_workers_hook'' @
          hook a ''coordinator_stop_hook''))"

text \<open>\<open>_collect_module\<close>: only rank 0 returns its state, and the coordinator unpacks exactly one.\<close>

definition collect_module :: "(nat \<Rightarrow> 'm) \<Rightarrow> nat \<Rightarrow> 'm res" where
  "collect_module state n =
     (case concat (map (\<lambda>r. if r = 0 then [state r] else []) [0..<n]) of [s] \<Rightarrow> Inr s | _ \<Rightarrow> Inl ValueError)"

section \<open>The session on a worker\<close>

datatype worker_event = WrapModel pyval | InitTrainer pyval | LoadModel pyval pyval | PushMetrics
  | PruneOld pyval | SaveModel pyval | EvalMode | PruneSmall | ExportTo pyval pyval pyval pyval pyval
  | UserHook string

definition load_model :: "py_agent \<Rightarrow> worker_event list" where
  "load_model a =
     (if agent_given a ''model_in_path''
      then [LoadModel (agent_attr a ''model_in_path'') (agent_attr a ''use_fresh_updaters'')] else [])"

definition save_model :: "py_agent \<Rightarrow> worker_event list" where
  "save_model a =
     PruneOld (agent_attr a ''max_sparse_feature_age'') #
     (if agent_given a ''model_out_path'' then [SaveModel (agent_attr a ''model_out_path'')] else [])"

definition export_model :: "py_agent \<Rightarrow> worker_event list" where
  "export_model a =
     (if agent_given a ''model_export_path'' then
        [EvalMode, PruneSmall,
         ExportTo (agent_attr a ''model_export_path'') (agent_attr a ''model_version'')
           (agent_attr a ''experiment_name'') (agent_attr a ''model_export_selector'')
           (agent_attr a ''model_output_names'')]
      else [])"

definition worker_start_events :: "py_agent \<Rightarrow> worker_event list" where
  "worker_start_events a =
     [WrapModel (agent_attr a ''tensor_name_prefix''), InitTrainer (agent_attr a ''updater'')] @
     load_model a @
     (if agent_given a ''worker_start_hook'' then [UserHook ''worker_start_hook''] else [])"

definition worker_stop_events :: "py_agent \<Rightarrow> worker_event list" where
  "worker_stop_events a =
     PushMetrics #
     (if training_mode a then save_model a @ export_model a else []) @
     (if agent_given a ''worker_stop_hook'' then [UserHook ''worker_stop_hook''] else [])"

text \<open>Which function preprocesses, trains on, validates on and scores a minibatch.\<close>

datatype handler = User string | Default

definition preprocess_handler :: "py_agent \<Rightarrow> handler" where
  "preprocess_handler a =
     (if training_mode a \<and> agent_given a ''training_minibatch_preprocessor'' then
        User ''training_minibatch_preprocessor''
      else if \<not> training_mode a \<and> agent_given a ''validation_minibatch_preprocessor'' then
        User ''validation_minibatch_preprocessor''
      else if agent_given a ''minibatch_preprocessor'' then User ''minibatch_preprocessor''
      else Default)"

definition own_handler :: "string \<Rightarrow> py_agent \<Rightarrow> handler" where
  "own_handler n a = (if agent_given a n then User n else Default)"

definition train_handler :: "py_agent \<Rightarrow> handler" where
  "train_handler = own_handler ''training_minibatch_transformer''"

definition validate_handler :: "py_agent \<Rightarrow> handler" where
  "validate_handler = own_handler ''validation_minibatch_transformer''"

definition loss_handler :: "py_agent \<Rightarrow> handler" where
  "loss_handler = own_handler ''loss_function''"

definition metric_handler :: "py_agent \<Rightarrow> handler" where
  "metric_handler = own_handler ''metric_class''"

text \<open>The steps of a minibatch when the user gives no transformer.\<close>

datatype minibatch_step = SetTraining bool | Preprocess handler | Predict | ComputeLoss handler | TrainOn
  | UpdateProgress | MakeResult | Transform string

definition train_minibatch_steps :: "py_agent \<Rightarrow> minibatch_step list" where
  "train_minibatch_steps a =
     (case train_handler a of
        User n \<Rightarrow> [Transform n]
      | Default \<Rightarrow> [SetTraining True, Preprocess (preprocess_handler a), Predict, ComputeLoss (loss_handler a), TrainOn,
          UpdateProgress])"

definition validate_minibatch_steps :: "py_agent \<Rightarrow> minibatch_step list" where
  "validate_minibatch_steps a =
     (case validate_handler a of
        User n \<Rightarrow> [Transform n]
      | Default \<Rightarrow> [SetTraining False, Preprocess (preprocess_handler a), Predict, ComputeLoss (loss_handler a),
          UpdateProgress, MakeResult])"

text \<open>The label column: by name, else by position in the minibatch.\<close>

definition label_column :: "py_agent \<Rightarrow> string list \<Rightarrow> string res" where
  "label_column a cols =
     (case agent_attr a ''input_label_column_name'' of
        PStr n \<Rightarrow> raise_if (n \<notin> set cols) KeyError (Inr n)
      | _ \<Rightarrow> (case as_int (agent_attr a ''input_label_column_index'') of
                None \<Rightarrow> Inl ValueError
              | Some i \<Rightarrow>
                  let j = (if i < 0 then i + int (length cols) else i)
                  in raise_if (j < 0 \<or> int (length cols) \<le> j) IndexError (Inr (cols ! nat j))))"

section \<open>Progress\<close>

text \<open>\<open>update_progress\<close>: the new minibatch number and whether the metric is pushed.\<close>

definition update_progress :: "int \<Rightarrow> int \<Rightarrow> (int \<times> bool) res" where
  "update_progress interval minibatch_id =
     (let i = minibatch_id + 1 in raise_if (interval = 0) ZeroDivisionError (Inr (i, i mod interval = 0)))"

definition default_compute_loss :: "real \<Rightarrow> nat \<Rightarrow> real" where
  "default_compute_loss log_loss_sum label_count = log_loss_sum / real label_count"

section \<open>The columns of a validation result\<close>

definition validation_schema :: "string \<Rightarrow> string \<Rightarrow> string \<Rightarrow> string \<Rightarrow> (string \<times> string) list \<Rightarrow> (string \<times> string) list" where
  "validation_schema label_name label_type pred_name pred_type cols =
     [c \<leftarrow> cols. fst c \<notin> {label_name, pred_name}] @ [(label_name, label_type), (pred_name, pred_type)]"

definition validation_columns :: "string \<Rightarrow> 'b \<Rightarrow> string \<Rightarrow> 'b \<Rightarrow> 'b dict \<Rightarrow> 'b dict" where
  "validation_columns label_name labels pred_name preds cols =
     dict_set pred_name preds (dict_set label_name labels cols)"

section \<open>Batch normalization\<close>

text \<open>A running statistic with the optional attributes that PyTorch does not pickle.\<close>

record ('i, 'u) running =
  run_initializer :: "'i option"
  run_updater :: "'u option"

record ('i, 'u) norm_module =
  running_mean :: "('i, 'u) running option"
  running_var :: "('i, 'u) running option"
  kept_mean_initializer :: "'i option"
  kept_mean_updater :: "'u option"
  kept_var_initializer :: "'i option"
  kept_var_updater :: "'u option"

text \<open>The modules by name: batch normalization, its unsupported synchronized form, and the others.\<close>

datatype ('i, 'u) norm_submodule = BatchNorm "('i, 'u) norm_module" | SyncBatchNorm "('i, 'u) norm_module" | OtherModule nat

fun is_batch_norm_module :: "('i, 'u) norm_submodule \<Rightarrow> bool res" where
  "is_batch_norm_module (BatchNorm _) = Inr True"
| "is_batch_norm_module (SyncBatchNorm _) = Inl RuntimeError"
| "is_batch_norm_module (OtherModule _) = Inr False"

definition move_attribute :: "'x option \<Rightarrow> 'x option \<Rightarrow> 'x option \<times> 'x option" where
  "move_attribute src dst = (case src of None \<Rightarrow> (None, dst) | Some v \<Rightarrow> (None, Some v))"

definition save_running ::
  "('i, 'u) running option \<Rightarrow> 'i option \<Rightarrow> 'u option \<Rightarrow> ('i, 'u) running option \<times> 'i option \<times> 'u option" where
  "save_running r ki ku =
     (case r of
        None \<Rightarrow> (None, ki, ku)
      | Some t \<Rightarrow>
          let (i, ki') = move_attribute (run_initializer t) ki; (u, ku') = move_attribute (run_updater t) ku
          in (Some \<lparr>run_initializer = i, run_updater = u\<rparr>, ki', ku'))"

definition restore_running ::
  "('i, 'u) running option \<Rightarrow> 'i option \<Rightarrow> 'u option \<Rightarrow> ('i, 'u) running option \<times> 'i option \<times> 'u option" where
  "restore_running r ki ku =
     (case r of
        None \<Rightarrow> (None, ki, ku)
      | Some t \<Rightarrow>
          let (ki', i) = move_attribute ki (run_initializer t); (ku', u) = move_attribute ku (run_updater t)
          in (Some \<lparr>run_initializer = i, run_updater = u\<rparr>, ki', ku'))"

definition change_norm ::
  "(('i, 'u) running option \<Rightarrow> 'i option \<Rightarrow> 'u option \<Rightarrow> ('i, 'u) running option \<times> 'i option \<times> 'u option) \<Rightarrow>
   ('i, 'u) norm_module \<Rightarrow> ('i, 'u) norm_module" where
  "change_norm f m =
     (case f (running_mean m) (kept_mean_initializer m) (kept_mean_updater m) of (rm, mi, mu) \<Rightarrow>
      case f (running_var m) (kept_var_initializer m) (kept_var_updater m) of (rv, vi, vu) \<Rightarrow>
        \<lparr>running_mean = rm, running_var = rv, kept_mean_initializer = mi, kept_mean_updater = mu,
         kept_var_initializer = vi, kept_var_updater = vu\<rparr>)"

definition change_modules ::
  "(('i, 'u) norm_module \<Rightarrow> ('i, 'u) norm_module) \<Rightarrow> ('i, 'u) norm_submodule list \<Rightarrow> ('i, 'u) norm_submodule list res" where
  "change_modules g = mapR (\<lambda>m. bindR (is_batch_norm_module m) (\<lambda>b.
     Inr (case m of BatchNorm n \<Rightarrow> BatchNorm (g n) | _ \<Rightarrow> m)))"

definition save_custom :: "('i, 'u) norm_submodule list \<Rightarrow> ('i, 'u) norm_submodule list res" where
  "save_custom = change_modules (change_norm save_running)"

definition restore_custom :: "('i, 'u) norm_submodule list \<Rightarrow> ('i, 'u) norm_submodule list res" where
  "restore_custom = change_modules (change_norm restore_running)"

section \<open>Putting the custom attributes aside\<close>

text \<open>A module before its attributes are put aside, and one that can be pickled.\<close>

definition no_kept :: "('i, 'u) norm_submodule \<Rightarrow> bool" where
  "no_kept m = (case m of
     BatchNorm n \<Rightarrow> kept_mean_initializer n = None \<and> kept_mean_updater n = None
       \<and> kept_var_initializer n = None \<and> kept_var_updater n = None
   | _ \<Rightarrow> True)"

definition plain_running :: "('i, 'u) running option \<Rightarrow> bool" where
  "plain_running r = (case r of None \<Rightarrow> True | Some t \<Rightarrow> run_initializer t = None \<and> run_updater t = None)"

definition picklable :: "('i, 'u) norm_submodule \<Rightarrow> bool" where
  "picklable m = (case m of BatchNorm n \<Rightarrow> plain_running (running_mean n) \<and> plain_running (running_var n) | _ \<Rightarrow> True)"

fun is_sync :: "('i, 'u) norm_submodule \<Rightarrow> bool" where
  "is_sync (SyncBatchNorm _) = True"
| "is_sync _ = False"

lemma change_modules_result:
  "change_modules g ms =
     (if list_ex is_sync ms then Inl RuntimeError
      else Inr (map (\<lambda>m. case m of BatchNorm n \<Rightarrow> BatchNorm (g n) | _ \<Rightarrow> m) ms))"
proof (induction ms)
  case (Cons m ms)
  then show ?case by (cases m) (simp_all add: change_modules_def)
qed (simp add: change_modules_def)

lemma save_running_facts:
  "save_running r ki ku = (r', ki', ku') \<Longrightarrow> plain_running r'"
  "save_running r None None = (r', ki', ku') \<Longrightarrow> restore_running r' ki' ku' = (r, None, None)"
  by (auto simp: save_running_def restore_running_def move_attribute_def plain_running_def split: option.splits)

text \<open>
  Batch normalization around pickling: when no module is a synchronized one, putting the custom initializers
  and updaters of the running statistics aside leaves modules without them, and restoring gives back
  exactly the modules of the start; with a synchronized one both fail before anything is sent.
\<close>

theorem custom_attributes_roundtrip:
  assumes "list_all no_kept ms"
  shows "bindR (save_custom ms) restore_custom = (if list_ex is_sync ms then Inl RuntimeError else Inr ms)
    \<and> (\<forall>ms'. save_custom ms = Inr ms' \<longrightarrow> list_all picklable ms')"
proof -
  have one: "change_norm restore_running (change_norm save_running n) = n" if "no_kept (BatchNorm n)" for n
  proof -
    obtain rm mi mu where m: "save_running (running_mean n) None None = (rm, mi, mu)"
      using prod_cases3 by blast
    obtain rv vi vu where v: "save_running (running_var n) None None = (rv, vi, vu)"
      using prod_cases3 by blast
    from save_running_facts(2) [OF m] save_running_facts(2) [OF v] m v that show ?thesis
      by (cases n) (simp add: change_norm_def no_kept_def)
  qed
  have pk: "picklable (BatchNorm (change_norm save_running n))" for n
  proof -
    obtain rm mi mu where m: "save_running (running_mean n) (kept_mean_initializer n) (kept_mean_updater n) = (rm, mi, mu)"
      using prod_cases3 by blast
    obtain rv vi vu where v: "save_running (running_var n) (kept_var_initializer n) (kept_var_updater n) = (rv, vi, vu)"
      using prod_cases3 by blast
    from save_running_facts(1) [OF m] save_running_facts(1) [OF v] m v show ?thesis
      by (simp add: change_norm_def picklable_def)
  qed
  let ?f = "\<lambda>g m. case m of BatchNorm n \<Rightarrow> BatchNorm (g n) | _ \<Rightarrow> m"
  have sy: "list_ex is_sync (map (?f g) ms) = list_ex is_sync ms" for g :: "('a, 'b) norm_module \<Rightarrow> _"
    by (induction ms) (auto split: norm_submodule.split)
  have "map (?f (change_norm restore_running)) (map (?f (change_norm save_running)) ms) = ms"
    using assms by (induction ms) (auto simp: one split: norm_submodule.split)
  moreover have "list_all picklable (map (?f (change_norm save_running)) ms)"
  proof -
    have "picklable (?f (change_norm save_running) m)" for m :: "('a, 'b) norm_submodule"
      by (cases m) (simp_all add: pk, simp_all add: picklable_def)
    then show ?thesis by (simp add: list_all_iff)
  qed
  ultimately show ?thesis
    by (simp add: save_custom_def restore_custom_def change_modules_result sy)
qed

theorem custom_attributes_roundtrip_witness:
  "let m = BatchNorm \<lparr>running_mean = Some \<lparr>run_initializer = Some (1::nat), run_updater = Some (2::nat)\<rparr>,
       running_var = None, kept_mean_initializer = None, kept_mean_updater = None,
       kept_var_initializer = None, kept_var_updater = None\<rparr>
   in bindR (save_custom [m, OtherModule 0]) restore_custom = Inr [m, OtherModule 0]"
  using custom_attributes_roundtrip [of "[BatchNorm \<lparr>running_mean = Some \<lparr>run_initializer = Some (1::nat),
      run_updater = Some (2::nat)\<rparr>, running_var = None, kept_mean_initializer = None, kept_mean_updater = None,
      kept_var_initializer = None, kept_var_updater = None\<rparr>, OtherModule 0]"]
  by (simp add: no_kept_def)

section \<open>Clearing the outputs\<close>

abbreviation slashed :: "string \<Rightarrow> string" where
  "slashed u \<equiv> if endswith u ''/'' then u else u @ ''/''"

lemma cleared_output:
  assumes "clear_output delete_dir obj st = (st1, Inr ())" "attr obj ''model_out_path'' = PStr out"
  shows "dir_exists (slashed out) st1 = Inr False"
proof -
  obtain s1 where s1: "delete_dir out st = Inr s1" "delete_path delete_dir (attr obj ''model_export_path'') s1 = (st1, Inr ())"
    using assms by (auto simp: clear_output_def split: sum.splits)
  show ?thesis
  proof (cases "attr obj ''model_export_path''")
    case (PStr e)
    then have "delete_dir e s1 = Inr st1" using s1(2) by (simp split: sum.splits)
    from files.deleted_sequence(1) [OF s1(1) this] show ?thesis .
  next
    case PNone
    then have "st1 = s1" using s1(2) by simp
    with files.gone_normal [OF files.deleted [OF s1(1)]] show ?thesis by simp
  qed (use s1(2) in simp_all)
qed

text \<open>
  \<open>_fit\<close> deletes before it checks: once the outputs are cleared, the directory of the last model is
  gone; settings that are invalid then make the fit fail with that store, and a fit that should continue from its
  own output directory, with or without the trailing slash, is always of this kind.
\<close>

theorem fit_clears_before_checking:
  assumes "clear_output delete_dir obj st = (st1, Inr ())" and "attr obj ''model_out_path'' = PStr out"
  shows "dir_exists (slashed out) st1 = Inr False \<and>
    (\<not> valid_settings (W\<lparr>pw_dir_exists := \<lambda>u. dir_exists u st1\<rparr>) (attr obj) \<longrightarrow>
       (\<exists>e. fit delete_dir dir_exists W run obj ds st = (st1, Inl e))) \<and>
    (\<forall>inp. attr obj ''model_in_path'' = PStr inp \<longrightarrow> slashed inp = slashed out \<longrightarrow>
       \<not> valid_settings (W\<lparr>pw_dir_exists := \<lambda>u. dir_exists u st1\<rparr>) (attr obj))"
proof (intro conjI impI allI)
  show gone: "dir_exists (slashed out) st1 = Inr False" by (rule cleared_output [OF assms])
  let ?W = "W\<lparr>pw_dir_exists := \<lambda>u. dir_exists u st1\<rparr>"
  show "\<exists>e. fit delete_dir dir_exists W run obj ds st = (st1, Inl e)" if "\<not> valid_settings ?W (attr obj)"
  proof -
    have "check_estimator ?W obj \<noteq> Inr o2" for o2
      using that by (auto simp: check_estimator_def bindR_Inr_iff check_properties_iff)
    then obtain e where "check_estimator ?W obj = Inl e" by (cases "check_estimator ?W obj") auto
    then show ?thesis by (simp add: fit_def assms(1) create_launcher_def)
  qed
  show "\<not> valid_settings ?W (attr obj)" if "attr obj ''model_in_path'' = PStr inp" "slashed inp = slashed out" for inp
    using that gone by (auto simp: valid_settings_def valid_paths_def split: if_splits)
qed

definition demo_world :: py_world where
  "demo_world = \<lparr>pw_module = (\<lambda>v. v = PObj ''net''), pw_updater = (\<lambda>_. False), pw_callable = (\<lambda>_. False),
     pw_metric_class = (\<lambda>_. False), pw_agent_class = (\<lambda>_. False), pw_dir_exists = (\<lambda>_. Inr True)\<rparr>"

definition demo_disk :: store where
  "demo_disk = \<lparr>st_objects = [], st_files = [(''/out/m'', ''x'')], st_dirs = [''/out'']\<rparr>"

theorem fit_clears_before_checking_witness:
  "\<exists>st1 e. dir_exists ''/out/'' demo_disk = Inr True \<and> dir_exists ''/out/'' st1 = Inr False \<and>
     fit delete_dir dir_exists demo_world (\<lambda>l st. (st, Inl RuntimeError))
       (dict_set ''model_in_path'' (PStr ''/out/'') demo_helper) PNone demo_disk = (st1, Inl e)"
proof -
  let ?obj = "dict_set ''model_in_path'' (PStr ''/out/'') demo_helper"
  have a: "attr ?obj ''model_out_path'' = PStr ''/out''" "attr ?obj ''model_export_path'' = PNone"
    "attr ?obj ''model_in_path'' = PStr ''/out/''"
    by (simp_all add: attr_set demo_helper_attrs)
      (simp add: demo_helper_def new_helper_def mixin_defaults_def attr_def dict_get_def)
  have u: "\<not> is_s3_url ''/out''" "\<not> is_s3_url ''/out/''" by (simp_all add: is_s3_url_def startswith_def)
  have c: "clear_output delete_dir ?obj demo_disk = (remove_tree ''/out'' demo_disk, Inr ())"
    by (simp add: clear_output_def a delete_dir_def u is_dir_def trim_slashes_def demo_disk_def)
  have d: "dir_exists ''/out/'' demo_disk = Inr True"
    by (simp add: dir_exists_def u is_dir_def trim_slashes_def demo_disk_def)
  have s: "slashed ''/out'' = ''/out/''" "slashed ''/out/'' = ''/out/''" by (simp_all add: endswith_def)
  note t = fit_clears_before_checking [OF c a(1), of demo_world "\<lambda>l st. (st, Inl RuntimeError)" PNone, unfolded s]
  from t [THEN conjunct2, THEN conjunct2, rule_format, OF a(3)]
  have nv: "\<not> valid_settings (demo_world\<lparr>pw_dir_exists := \<lambda>u. dir_exists u (remove_tree ''/out'' demo_disk)\<rparr>) (attr ?obj)"
    by (simp add: endswith_def)
  from t [THEN conjunct2, THEN conjunct1, rule_format, OF nv] t [THEN conjunct1] d show ?thesis by blast
qed

section \<open>The fitted model\<close>

lemma map_of_with_default:
  "map_of (map (\<lambda>(n, d). (n, f n d)) xs @ ys) n =
     (case map_of xs n of Some d \<Rightarrow> Some (f n d) | None \<Rightarrow> map_of ys n)"
  by (induction xs) auto

lemma new_helper_attr:
  "map_of mixin_defaults n = Some d \<Longrightarrow>
   attr (new_helper kwargs) n = (case dict_get kwargs n of None \<Rightarrow> d | Some v \<Rightarrow> v)"
  unfolding attr_def new_helper_def dict_get_def map_of_with_default by simp

lemma model_arguments_get:
  assumes "extra_attributes obj = extra" "list_all (\<lambda>(n, v). n \<notin> set mixin_names) extra" "n \<in> set mixin_names"
  shows "dict_get (get_model_arguments obj mdl) n =
    (if n = ''module'' then Some mdl else if n = ''model_in_path'' then Some (attr obj ''model_out_path'')
     else if n \<in> set model_argument_names then Some (attr obj n) else None)"
proof -
  let ?fs = "[(''module'', mdl), (''model_in_path'', attr obj ''model_out_path'')] @
        map (\<lambda>n. (n, attr obj n)) model_argument_names"
  have d: "distinct (map fst ?fs)"
    by (simp add: model_argument_names_def callable_attributes_def)
  have "dict_get extra n = None"
    using extra_absent [OF assms(2,3)] unfolding dict_get_def map_of_eq_None_iff by simp
  then have "dict_get (get_model_arguments obj mdl) n = map_of ?fs n"
    unfolding get_model_arguments_def assms(1) dict_update_def pydict.get_put_all map_of_rev [OF d]
    by (simp split: option.split)
  then show ?thesis by (simp add: map_of_const_keys)
qed

text \<open>The attributes of the model of a fit.\<close>

lemma model_attr:
  assumes "extra_attributes obj = extra" "list_all (\<lambda>(n, v). n \<notin> set mixin_names) extra"
    "map_of mixin_defaults n = Some d"
  shows "attr (create_model obj mdl) n =
    (if n = ''module'' then mdl else if n = ''model_in_path'' then attr obj ''model_out_path''
     else if n \<in> set model_argument_names then attr obj n else d)"
proof -
  have "n \<in> set mixin_names" using map_of_SomeD [OF assms(3)] by force
  from model_arguments_get [OF assms(1,2) this, of mdl] show ?thesis
    by (simp add: create_model_def new_helper_attr [OF assms(3)])
qed

text \<open>The names whose value the estimator and its model share, and the defaults of the others.\<close>

lemma model_defaults:
  "list_all (\<lambda>n. map_of mixin_defaults n \<noteq> None \<and> n \<noteq> ''module'' \<and> n \<noteq> ''model_in_path'') model_argument_names"
  by (simp add: model_argument_names_def callable_attributes_def mixin_defaults_def)

lemma model_valid:
  assumes v: "valid_settings W a" and out: "a ''model_out_path'' = PStr u" "ex (if endswith u ''/'' then u else u @ ''/'') = Inr True"
    and same: "\<And>n. n \<in> set model_argument_names \<Longrightarrow> b n = a n"
    and own: "b ''module'' = mdl" "b ''model_in_path'' = a ''model_out_path''" "b ''model_out_path'' = PNone"
      "b ''training_epoches'' = PInt 1" "b ''max_sparse_feature_age'' = PInt 15"
    and mdl: "pw_module W mdl"
  shows "valid_settings (W\<lparr>pw_dir_exists := ex\<rparr>) b"
proof -
  have "list_all (\<lambda>n. b n = a n) model_argument_names" using same by (simp add: list_all_iff)
  then have e: "b ''updater'' = a ''updater''" "b ''loss_function'' = a ''loss_function''"
    "b ''metric_class'' = a ''metric_class''" "list_all (\<lambda>n. b n = a n) callable_attributes"
    "b ''worker_count'' = a ''worker_count''" "b ''server_count'' = a ''server_count''"
    "b ''agent_class'' = a ''agent_class''" "b ''model_export_path'' = a ''model_export_path''"
    "b ''model_version'' = a ''model_version''" "b ''model_output_names'' = a ''model_output_names''"
    "b ''experiment_name'' = a ''experiment_name''" "b ''metric_update_interval'' = a ''metric_update_interval''"
    "b ''consul_host'' = a ''consul_host''" "b ''consul_port'' = a ''consul_port''"
    "b ''consul_endpoint_prefix'' = a ''consul_endpoint_prefix''"
    "b ''consul_model_sync_command'' = a ''consul_model_sync_command''"
    "b ''input_label_column_index'' = a ''input_label_column_index''"
    "b ''input_label_column_name'' = a ''input_label_column_name''"
    "b ''output_label_column_name'' = a ''output_label_column_name''"
    "b ''output_label_column_type'' = a ''output_label_column_type''"
    "b ''output_prediction_column_name'' = a ''output_prediction_column_name''"
    "b ''output_prediction_column_type'' = a ''output_prediction_column_type''"
    by (simp_all add: model_argument_names_def)
  have p: "is_pos_int (PInt 1)" "is_pos_int (PInt 15)" by (simp_all add: is_pos_int_def)
  note vs = v [unfolded valid_settings_def]
  have "valid_objects (W\<lparr>pw_dir_exists := ex\<rparr>) b"
    using vs e(4) by (simp add: valid_objects_def e own mdl list_all_iff)
  moreover have "valid_values b" using vs by (simp add: valid_values_def e own p)
  moreover have "valid_combination b" using vs by (simp add: valid_combination_def e)
  moreover have "valid_paths (W\<lparr>pw_dir_exists := ex\<rparr>) b"
    using vs out by (simp add: valid_paths_def e own allowed_def)
  ultimately show ?thesis by (simp add: valid_settings_def)
qed

text \<open>
  C8: The model of a fit is ready for use: when an estimator whose extra arguments are none of the
  constructor's passes its checks and its output directory exists after the training, the model made from it passes
  the checks of a model unchanged, reads from the directory the estimator wrote to, and carries the same
  export, consul and column settings.
\<close>

theorem fitted_model_valid:
  assumes "check_estimator W obj = Inr obj'" and "extra_attributes obj' = extra"
    and "list_all (\<lambda>(n, v). n \<notin> set mixin_names) extra"
    and "pw_module W mdl" and "attr obj' ''model_out_path'' = PStr u" and "ex u = Inr True"
  shows "check_properties (W\<lparr>pw_dir_exists := ex\<rparr>) (create_model obj' mdl) = Inr (create_model obj' mdl) \<and>
    attr (create_model obj' mdl) ''model_in_path'' = PStr u \<and>
    (n \<in> set model_argument_names \<longrightarrow> attr (create_model obj' mdl) n = attr obj' n)"
proof -
  have o: "obj' = normalized obj" "valid_settings W (attr obj)"
    using assms(1) by (auto simp: check_estimator_def bindR_Inr_iff raise_if_Inr_iff check_properties_iff)
  let ?m = "create_model obj' mdl"
  have m: "attr ?m k = (if k = ''module'' then mdl else if k = ''model_in_path'' then attr obj' ''model_out_path''
     else if k \<in> set model_argument_names then attr obj' k else d)" if "map_of mixin_defaults k = Some d" for k d
    by (rule model_attr [OF assms(2,3) that])
  have same: "attr ?m k = attr obj' k" if "k \<in> set model_argument_names" for k
  proof -
    from bspec [OF model_defaults [unfolded list_all_iff] that] obtain d where "map_of mixin_defaults k = Some d"
      "k \<noteq> ''module''" "k \<noteq> ''model_in_path''" by auto
    with m that show ?thesis by simp
  qed
  have own: "attr ?m ''module'' = mdl" "attr ?m ''model_in_path'' = attr obj' ''model_out_path''"
    "attr ?m ''model_out_path'' = PNone" "attr ?m ''training_epoches'' = PInt 1"
    "attr ?m ''max_sparse_feature_age'' = PInt 15"
    by (subst m, simp add: mixin_defaults_def, simp add: model_argument_names_def callable_attributes_def)+
  have sl: "endswith u ''/''"
  proof -
    have "PStr u = add_slash (attr obj ''model_out_path'')"
      using assms(5) by (simp add: o(1) attr_normalized normal_value_def)
    then show ?thesis by (cases "attr obj ''model_out_path''") (auto simp: endswith_def split: if_splits)
  qed
  have vo: "valid_settings W (attr obj')"
    unfolding o(1) valid_settings_def using o(2) valid_cong [OF attr_normalized] by (simp add: valid_settings_def)
  have "valid_settings (W\<lparr>pw_dir_exists := ex\<rparr>) (attr ?m)"
    by (rule model_valid [OF vo assms(5) _ same own assms(4)]) (simp add: sl assms(6))
  moreover have "normalized ?m = ?m"
  proof -
    have n2: "normal_value k (attr obj' k) = attr obj' k" for k
      using normalized_twice [of obj] attr_normalized [of "normalized obj" k] by (simp add: o(1))
    have nm: "''model_export_path'' \<in> set model_argument_names" "''consul_endpoint_prefix'' \<in> set model_argument_names"
      by (simp_all add: model_argument_names_def)
    have "add_slash (attr ?m ''model_in_path'') = attr ?m ''model_in_path''" by (simp add: own assms(5) sl)
    moreover have "add_slash (attr ?m ''model_export_path'') = attr ?m ''model_export_path''"
      using n2 [of "''model_export_path''"] same [OF nm(1)] by (simp add: normal_value_def)
    moreover have "strip_slashes (attr ?m ''consul_endpoint_prefix'') = attr ?m ''consul_endpoint_prefix''"
      using n2 [of "''consul_endpoint_prefix''"] same [OF nm(2)] by (simp add: normal_value_def)
    ultimately show ?thesis by (simp add: normalized_def renormalize_same own)
  qed
  ultimately have "check_properties (W\<lparr>pw_dir_exists := ex\<rparr>) ?m = Inr ?m"
    by (simp add: check_properties_iff)
  then show ?thesis using own(2) same assms(5) by simp
qed

lemma demo_helper_defaults:
  "list_all (\<lambda>(n, d). n = ''module'' \<or> n = ''model_out_path'' \<or> attr demo_helper n = d) mixin_defaults"
proof -
  have d: "distinct (map fst mixin_defaults)" by (simp add: mixin_defaults_def)
  have "attr demo_helper n = d"
    if "(n, d) \<in> set mixin_defaults" "n \<noteq> ''module''" "n \<noteq> ''model_out_path''" for n d
    using new_helper_attr [OF map_of_is_SomeI [OF d that(1)], of "[(''module'', PObj ''net''), (''model_out_path'', PStr ''/out'')]"]
      that(2,3)
    by (simp add: demo_helper_def dict_get_def)
  then show ?thesis by (auto simp: list_all_iff)
qed

lemma demo_helper_valid: "valid_settings demo_world (attr demo_helper)"
proof -
  note a = demo_helper_defaults [unfolded mixin_defaults_def, simplified]
  have "valid_objects demo_world (attr demo_helper)"
    using a by (simp add: valid_objects_def callable_attributes_def demo_helper_attrs demo_world_def allowed_def
        is_pos_int_def)
  moreover have "valid_values (attr demo_helper)"
    using a by (simp add: valid_values_def allowed_def is_pos_int_def)
  moreover have "valid_combination (attr demo_helper)"
    using a by (simp add: valid_combination_def)
  moreover have "valid_paths demo_world (attr demo_helper)"
    using a by (simp add: valid_paths_def demo_helper_attrs demo_world_def allowed_def)
  ultimately show ?thesis by (simp add: valid_settings_def)
qed

theorem fitted_model_valid_witness:
  "\<exists>est. check_estimator demo_world demo_helper = Inr est \<and>
     check_properties (demo_world\<lparr>pw_dir_exists := \<lambda>_. Inr True\<rparr>) (create_model est (PObj ''net'')) =
       Inr (create_model est (PObj ''net''))"
proof -
  let ?e = "normalized demo_helper"
  have "check_properties demo_world demo_helper = Inr ?e"
    by (simp add: check_properties_iff demo_helper_valid)
  moreover have "given ?e ''model_out_path''"
    by (simp add: given_def attr_normalized normal_value_def demo_helper_attrs)
  ultimately have e: "check_estimator demo_world demo_helper = Inr ?e" by (simp add: check_estimator_def)
  have x: "extra_attributes ?e = []"
    by (simp add: extra_attributes_def attr_normalized normal_value_def demo_helper_attrs)
  have u: "attr ?e ''model_out_path'' = PStr ''/out/''"
    by (simp add: attr_normalized normal_value_def demo_helper_attrs endswith_def)
  have "pw_module demo_world (PObj ''net'')" by (simp add: demo_world_def)
  from fitted_model_valid [OF e x _ this u, of "\<lambda>_. Inr True"] e show ?thesis by simp
qed

section \<open>Progress, loss and order\<close>

text \<open>After \<open>n\<close> minibatches the metric was pushed once per full interval.\<close>

primrec progress_pushes :: "int \<Rightarrow> nat \<Rightarrow> (int \<times> nat) res" where
  "progress_pushes interval 0 = Inr (0, 0)"
| "progress_pushes interval (Suc n) =
     bindR (progress_pushes interval n) (\<lambda>(i, p).
     bindR (update_progress interval i) (\<lambda>(j, push). Inr (j, if push then Suc p else p)))"

lemma push_per_interval:
  "0 < k \<Longrightarrow> progress_pushes (int k) n = Inr (int n, n div k)"
proof (induction n)
  case (Suc n)
  have "(1 + int n) mod int k = 0 \<longleftrightarrow> Suc n mod k = 0"
    by (metis of_nat_Suc of_nat_0_eq_iff of_nat_mod)
  then show ?case
    using Suc by (auto simp: update_progress_def Let_def div_Suc add.commute)
qed simp

text \<open>
  The reported loss: the loss of a batch is its mean already, and the metric divides the sum of
  the means by the number of instances once more.
\<close>

lemma accumulated_loss:
  "accumulate_all bs m = Some m' \<Longrightarrow>
   loss_sum m' = loss_sum m + sum_list (map b_loss bs) \<and> instance_num m' = instance_num m + sum_list (map b_size bs)"
proof (induction bs arbitrary: m)
  case (Cons b bs)
  then obtain m1 where m1: "accumulate b m = Some m1" "accumulate_all bs m1 = Some m'"
    by (auto simp: bind_eq_Some_conv)
  have "loss_sum m1 = loss_sum m + b_loss b \<and> instance_num m1 = instance_num m + b_size b"
    using m1(1) by (auto simp: accumulate_def metric_defs Let_def bind_eq_Some_conv add_confusion_def split: if_splits)
  with Cons.IH [OF m1(2)] show ?case by simp
qed simp

lemma loss_divided_twice:
  assumes "accumulate_all bs (new_metric n t be) = Some m" "instance_num m \<noteq> 0"
    and "list_all (\<lambda>b. b_size b = int k \<and> b_loss b = default_compute_loss (raw b) k) bs"
  shows "compute_loss m = Some ((\<Sum>b\<leftarrow>bs. raw b) / real k / real_of_int (instance_num m))"
proof -
  have "sum_list (map b_loss bs) = (\<Sum>b\<leftarrow>bs. raw b) / real k"
    using assms(3) by (induction bs) (auto simp: default_compute_loss_def add_divide_distrib)
  then show ?thesis
    using assms(2) accumulated_loss [OF assms(1)] by (simp add: compute_loss_def new_metric_def)
qed

text \<open>One state is collected when there is a worker.\<close>

lemma collect_module_rank0: "collect_module state n = (if n = 0 then Inl ValueError else Inr (state 0))"
proof -
  have "concat (map (\<lambda>r. if r = 0 then [state r] else []) [0..<Suc n]) = [state 0]" for n
    by (induction n) auto
  then show ?thesis by (cases n) (simp_all add: collect_module_def del: upt_Suc)
qed

text \<open>The schema of a validation result has no name twice, unless label and prediction share theirs.\<close>

lemma validation_schema_names:
  assumes "distinct (map fst cols)"
  shows "distinct (map fst (validation_schema l lt p pt cols)) \<longleftrightarrow> l \<noteq> p"
  using assms by (auto simp: validation_schema_def distinct_map inj_on_def)

end
