(* ===== verification/Experiment.thy ===== *)
theory Experiment
  imports JobRunner Storage
begin

text \<open>
  \<open>python/metaspore/experiment.py\<close>: submitting a job to the scheduler. An \<open>Experiment\<close> makes an
  \<open>ExperimentOperate\<close> (the environment of a submission) and a \<open>Job\<close> (what is pickled), checks an online
  job against the jobs that are already online, writes its pickle below a local directory and copies it
  to S3. A \<open>site\<close> holds what these read and write: the environment variables, the directories and the
  pickle files, where a file that cannot be loaded has no job. The commands given to \<open>os.system\<close>, the
  pickler and the HTTP requests are arguments. Every operation returns the state also when it raises.
\<close>

section \<open>Dynamic values\<close>

fun py_number :: "pyval \<Rightarrow> pyfloat option" where
  "py_number (PBool b) = Some (FFin (if b then 1 else 0))"
| "py_number (PInt i) = Some (FFin (of_int i))"
| "py_number (PFloat x) = Some x"
| "py_number _ = None"

text \<open>
  \<open>==\<close> of values: numbers by value, containers by their elements; other objects by their text, which is
  enough for the dates and functions that a configuration holds.
\<close>

definition number_eq :: "pyval \<Rightarrow> pyval \<Rightarrow> bool" where
  "number_eq x y =
     (case (py_number x, py_number y) of (Some a, Some b) \<Rightarrow> a = b \<and> a \<noteq> FNaN | _ \<Rightarrow> False)"

fun py_eq :: "pyval \<Rightarrow> pyval \<Rightarrow> bool"
and py_eq_list :: "pyval list \<Rightarrow> pyval list \<Rightarrow> bool"
and py_eq_items :: "(string \<times> pyval) list \<Rightarrow> (string \<times> pyval) list \<Rightarrow> bool" where
  "py_eq (PList xs) y = (case y of PList ys \<Rightarrow> py_eq_list xs ys | _ \<Rightarrow> False)"
| "py_eq (PTuple xs) y = (case y of PTuple ys \<Rightarrow> py_eq_list xs ys | _ \<Rightarrow> False)"
| "py_eq (PDict d) y = (case y of PDict e \<Rightarrow> length d = length e \<and> py_eq_items d e | _ \<Rightarrow> False)"
| "py_eq PNone y = (y = PNone)"
| "py_eq (PStr s) y = (y = PStr s)"
| "py_eq (PBytes s) y = (y = PBytes s)"
| "py_eq (PObj s) y = (y = PObj s)"
| "py_eq (PBool b) y = number_eq (PBool b) y"
| "py_eq (PInt i) y = number_eq (PInt i) y"
| "py_eq (PFloat f) y = number_eq (PFloat f) y"
| "py_eq_list [] ys = (ys = [])"
| "py_eq_list (x # xs) ys = (case ys of [] \<Rightarrow> False | y # zs \<Rightarrow> py_eq x y \<and> py_eq_list xs zs)"
| "py_eq_items [] e = True"
| "py_eq_items ((k, v) # d) e =
     (case map_of e k of None \<Rightarrow> False | Some w \<Rightarrow> py_eq v w \<and> py_eq_items d e)"

text \<open>\<open>v[k]\<close> with a string key.\<close>

fun py_item :: "pyval \<Rightarrow> string \<Rightarrow> pyval res" where
  "py_item (PDict d) k = (case dict_get d k of None \<Rightarrow> Inl KeyError | Some v \<Rightarrow> Inr v)"
| "py_item _ k = Inl TypeError"

text \<open>\<open>s in v\<close> for a string \<open>s\<close>.\<close>

fun py_contains :: "pyval \<Rightarrow> string \<Rightarrow> bool res" where
  "py_contains (PStr t) s = Inr (list_ex (\<lambda>u. startswith u s) (suffixes t))"
| "py_contains (PList xs) s = Inr (list_ex (py_eq (PStr s)) xs)"
| "py_contains (PDict d) s = Inr (dict_get d s \<noteq> None)"
| "py_contains _ s = Inl TypeError"

section \<open>State\<close>

definition SUBMIT_DIR :: "string dict" where
  "SUBMIT_DIR = [(''backfill'', ''backfill_dir''), (''online'', ''online_dir'')]"

record experiment_obj =
  x_job_name :: string
  x_experiment_name :: string
  x_business_name :: string
  x_owner :: "string option"
  x_schedule_interval :: pyval
  x_func :: pyval
  x_start_date :: pyval
  x_end_date :: pyval
  x_upstream_job_names :: pyval
  x_extra_dag_conf :: "pyval dict"
  x_enable_auth_token :: bool
  x_is_local_test :: bool
  x_delay_backfill :: bool
  x_airflow_host :: "string option"

record operate =
  op_enable_auth_token :: bool
  op_is_local_test :: bool
  op_airflow_host :: string
  op_local_pickle_tmp_dir :: string
  op_airflow_s3_sync_path :: "string option"
  op_authorization_token :: string

record job =
  jo_submit_type :: string
  jo_experiment_operator :: operate
  jo_local_pickle_tmp_dir :: string
  jo_experiment_obj :: experiment_obj
  jo_name :: string
  jo_experiment :: string
  jo_business :: string
  jo_func :: pyval
  jo_schedule_interval :: pyval
  jo_start_date :: pyval
  jo_end_date :: pyval
  jo_extra_dag_conf :: "pyval dict"
  jo_dag_conf :: "pyval dict"
  jo_upstream_job_names :: pyval

record site =
  si_environ :: "string dict"
  si_dirs :: "string list"
  si_pickles :: "job option dict"

definition is_directory :: "string \<Rightarrow> site \<Rightarrow> bool" where
  "is_directory d st = (trim_slashes d \<in> set (si_dirs st))"

text \<open>\<open>os.makedirs\<close>, which the code calls for a missing directory; the parents of one that exists exist.\<close>

definition makedirs :: "string \<Rightarrow> site \<Rightarrow> site" where
  "makedirs d st = st\<lparr>si_dirs := fold List.insert (parent_dirs d) (si_dirs st)\<rparr>"

definition rmtree :: "string \<Rightarrow> site \<Rightarrow> site" where
  "rmtree u st =
     (let d = trim_slashes u
      in st\<lparr>si_pickles := [kv \<leftarrow> si_pickles st. \<not> under_dir d (fst kv)],
            si_dirs := [p \<leftarrow> si_dirs st. p \<noteq> d \<and> \<not> under_dir d p]\<rparr>)"

text \<open>A path with a component that starts with a dot, which \<open>glob\<close> does not list.\<close>

definition hidden :: "string \<Rightarrow> bool" where
  "hidden s = list_ex (\<lambda>i. s ! i = CHR ''.'' \<and> (i = 0 \<or> slash (s ! (i - 1)))) [0..<length s]"

definition glob_pickles :: "string \<Rightarrow> site \<Rightarrow> string list" where
  "glob_pickles d st =
     [p \<leftarrow> map fst (si_pickles st). under_dir d p \<and> endswith p ''.pickle'' \<and> \<not> hidden (drop (length d + 1) p)]"

section \<open>ExperimentOperate\<close>

definition getenv :: "string \<Rightarrow> site \<Rightarrow> string" where
  "getenv n st = (case dict_get (si_environ st) n of None \<Rightarrow> [] | Some v \<Rightarrow> v)"

definition get_airflow_hosts :: "bool \<Rightarrow> string option \<Rightarrow> site \<Rightarrow> string" where
  "get_airflow_hosts local customer st =
     (if local then ''http://localhost:8080''
      else if \<not> truthy customer then getenv ''AIRFLOW_HOST'' st else the customer)"

definition check_airflow_hosts :: "string \<Rightarrow> unit res" where
  "check_airflow_hosts host = raise_if (host = []) ValueError (Inr ())"

definition get_local_pickle_tmp_dir :: "bool \<Rightarrow> string" where
  "get_local_pickle_tmp_dir local =
     (if local then ''/opt/airflow/dags/s3-sync'' else ''.experiment_sdk/pickle_dir'')"

definition get_airflow_s3_sync_path :: "site \<Rightarrow> string option" where
  "get_airflow_s3_sync_path st = dict_get (si_environ st) ''AIRFLOW_S3_SYNC_PATH''"

definition get_airflow_rest_authorization_token :: "site \<Rightarrow> string res" where
  "get_airflow_rest_authorization_token st =
     (let token = getenv ''AIRFLOW_REST_AUTHORIZATION_TOKEN'' st in raise_if (token = []) RuntimeError (Inr token))"

definition new_operate :: "bool \<Rightarrow> bool \<Rightarrow> string option \<Rightarrow> site \<Rightarrow> operate res" where
  "new_operate auth local customer st =
     bindR (get_airflow_rest_authorization_token st) (\<lambda>token.
     Inr \<lparr>op_enable_auth_token = auth, op_is_local_test = local,
       op_airflow_host = get_airflow_hosts local customer st,
       op_local_pickle_tmp_dir = get_local_pickle_tmp_dir local,
       op_airflow_s3_sync_path = get_airflow_s3_sync_path st, op_authorization_token = token\<rparr>)"

text \<open>\<open>consul_host.split(':')\<close>: the host, and the second part without its slashes.\<close>

definition get_consul_host :: "string option \<Rightarrow> site \<Rightarrow> (string \<times> string) res" where
  "get_consul_host customer st =
     (let h = (if \<not> truthy customer then getenv ''CONSUL_HOST'' st else the customer) in
      raise_if (h = []) ValueError
      (case partition_at (CHR '':'') h of (host, found, rest) \<Rightarrow>
         raise_if (\<not> found) ValueError
         (Inr (host, filter (\<lambda>c. \<not> slash c) (takeWhile (\<lambda>c. c \<noteq> CHR '':'') rest)))))"

definition sync_from_s3_to_local ::
  "(string \<Rightarrow> site \<Rightarrow> site \<times> int) \<Rightarrow> string \<Rightarrow> string \<Rightarrow> site \<Rightarrow> site \<times> int res" where
  "sync_from_s3_to_local sys s3_path local_path st =
     (if \<not> is_directory local_path st then (st, Inl RuntimeError)
      else case sys (''aws s3 sync '' @ s3_path @ '' '' @ local_path) (makedirs local_path (rmtree local_path st)) of
        (st', r) \<Rightarrow> (st', Inr r))"

definition load_pickle_file :: "string \<Rightarrow> site \<Rightarrow> job res" where
  "load_pickle_file path st =
     (case dict_get (si_pickles st) path of
        None \<Rightarrow> Inl OSError | Some None \<Rightarrow> Inl Exception | Some (Some j) \<Rightarrow> Inr j)"

text \<open>The file is truncated before the pickler runs; the result says whether it succeeded.\<close>

definition dump_pickle_file :: "(job \<Rightarrow> bool) \<Rightarrow> job \<Rightarrow> string \<Rightarrow> site \<Rightarrow> site \<times> bool" where
  "dump_pickle_file picklable j path st =
     (st\<lparr>si_pickles := dict_set path (if picklable j then Some j else None) (si_pickles st)\<rparr>, picklable j)"

section \<open>Job\<close>

definition catchup :: "string \<Rightarrow> bool" where
  "catchup submit_type = (submit_type = ''backfill'')"

definition make_dag_id :: "string \<Rightarrow> string \<Rightarrow> string \<Rightarrow> string" where
  "make_dag_id submit_type business name =
     (if submit_type = ''backfill'' then business @ ''_'' @ name @ ''_'' @ ''backfill''
      else business @ ''_'' @ ''online'')"

definition dag_id :: "job \<Rightarrow> string" where
  "dag_id j = make_dag_id (jo_submit_type j) (jo_business j) (jo_experiment j)"

text \<open>The fallback \<open>experiment_obj.business\<close> is no attribute of an \<open>Experiment\<close>.\<close>

definition job_owner :: "experiment_obj \<Rightarrow> string res" where
  "job_owner x = (if truthy (x_owner x) then Inr (the (x_owner x)) else Inl AttributeError)"

definition pickle_file_name :: "string \<Rightarrow> string" where
  "pickle_file_name name = name @ ''.pickle''"

definition store_dir_path :: "string \<Rightarrow> string \<Rightarrow> string \<Rightarrow> string \<Rightarrow> string res" where
  "store_dir_path tmp business submit_type name =
     (case dict_get SUBMIT_DIR submit_type of
        None \<Rightarrow> Inl KeyError
      | Some d \<Rightarrow> Inr (join ''/'' [tmp, business, d, name]))"

text \<open>The property makes the directory of the file.\<close>

definition local_pickle_file_path :: "job \<Rightarrow> site \<Rightarrow> site \<times> string res" where
  "local_pickle_file_path j st =
     (case store_dir_path (jo_local_pickle_tmp_dir j) (jo_business j) (jo_submit_type j) (jo_experiment j) of
        Inl e \<Rightarrow> (st, Inl e)
      | Inr d \<Rightarrow> (makedirs d st, Inr (join ''/'' [d, pickle_file_name (jo_name j)])))"

text \<open>Joining or adding \<open>None\<close> to strings.\<close>

definition of_none :: "string option \<Rightarrow> string res" where
  "of_none v = (case v of None \<Rightarrow> Inl TypeError | Some s \<Rightarrow> Inr s)"

definition s3_target :: "operate \<Rightarrow> string \<Rightarrow> string res" where
  "s3_target q path =
     bindR (of_none (op_airflow_s3_sync_path q)) (\<lambda>s. Inr (s @ replace_all (op_local_pickle_tmp_dir q) [] path))"

definition pickle_file_s3_path :: "job \<Rightarrow> site \<Rightarrow> site \<times> string res" where
  "pickle_file_s3_path j st =
     (case local_pickle_file_path j st of
        (st1, Inl e) \<Rightarrow> (st1, Inl e)
      | (st1, Inr path) \<Rightarrow> (st1, s3_target (jo_experiment_operator j) path))"

definition get_dag_conf :: "job \<Rightarrow> site \<Rightarrow> site \<times> pyval dict res" where
  "get_dag_conf j st =
     (case job_owner (jo_experiment_obj j) of
        Inl e \<Rightarrow> (st, Inl e)
      | Inr owner \<Rightarrow>
          (case pickle_file_s3_path j st of
             (st1, Inl e) \<Rightarrow> (st1, Inl e)
           | (st1, Inr target) \<Rightarrow> (st1, Inr (dict_update
               [(''dag_id'', PStr (dag_id j)),
                (''schedule_interval'', jo_schedule_interval j),
                (''owner'', PStr owner),
                (''start_date'', jo_start_date j),
                (''end_date'', jo_end_date j),
                (''catchup'', PBool (catchup (jo_submit_type j))),
                (''airflow_kubernetes_operator_namespace'', PNone),
                (''airflow_kubernetes_operator_image'', PNone),
                (''airflow_kubernetes_operator_cpu'', PStr ''1''),
                (''airflow_kubernetes_operator_memory'', PStr ''5Gi''),
                (''pickle_file_s3_path'', PStr target)]
               (jo_extra_dag_conf j)))))"

fun get_upstream_job_names :: "pyval \<Rightarrow> pyval res" where
  "get_upstream_job_names (PList xs) = Inr (PList xs)"
| "get_upstream_job_names v = raise_if (py_truth v) ValueError (Inr v)"

definition new_job :: "experiment_obj \<Rightarrow> operate \<Rightarrow> string \<Rightarrow> site \<Rightarrow> site \<times> job res" where
  "new_job x q submit_type st =
     (let j = \<lparr>jo_submit_type = submit_type, jo_experiment_operator = q,
                jo_local_pickle_tmp_dir = op_local_pickle_tmp_dir q, jo_experiment_obj = x,
                jo_name = x_job_name x, jo_experiment = x_experiment_name x, jo_business = x_business_name x,
                jo_func = x_func x, jo_schedule_interval = x_schedule_interval x,
                jo_start_date = x_start_date x, jo_end_date = x_end_date x,
                jo_extra_dag_conf = x_extra_dag_conf x, jo_dag_conf = [], jo_upstream_job_names = PNone\<rparr> in
      case get_dag_conf j st of
        (st1, Inl e) \<Rightarrow> (st1, Inl e)
      | (st1, Inr conf) \<Rightarrow>
          (st1, bindR (get_upstream_job_names (x_upstream_job_names x)) (\<lambda>names.
             Inr (j\<lparr>jo_dag_conf := conf, jo_upstream_job_names := names\<rparr>))))"

section \<open>Submission\<close>

definition same_entry :: "job \<Rightarrow> string \<times> pyval \<Rightarrow> unit \<Rightarrow> unit res" where
  "same_entry j = (\<lambda>(k, r_v) u.
     case dict_get (jo_dag_conf j) k of
       None \<Rightarrow> Inl KeyError
     | Some j_v \<Rightarrow> raise_if (\<not> py_eq r_v j_v) ValueError (Inr u))"

definition job_dir :: "string \<Rightarrow> job \<Rightarrow> string res" where
  "job_dir base j =
     (if jo_submit_type j = ''online'' then Inr (join ''/'' [base, jo_business j, ''online_dir''])
      else if jo_submit_type j = ''backfill''
        then Inr (join ''/'' [base, jo_business j, ''backfill_dir'', jo_experiment j])
      else Inl ValueError)"

text \<open>The first pickle that is found stands for the jobs of the directory.\<close>

definition check_other_job :: "string \<Rightarrow> job \<Rightarrow> site \<Rightarrow> unit res" where
  "check_other_job d j st =
     (if \<not> is_directory d st then Inr ()
      else case glob_pickles d st of
        [] \<Rightarrow> Inr ()
      | f # _ \<Rightarrow> bindR (load_pickle_file f st) (\<lambda>other. foldR (same_entry j) (jo_dag_conf other) ()))"

definition check_exist_dag_conf ::
  "(string \<Rightarrow> site \<Rightarrow> site \<times> int) \<Rightarrow> operate \<Rightarrow> job \<Rightarrow> site \<Rightarrow> site \<times> unit res" where
  "check_exist_dag_conf sys q j st =
     (if \<not> op_is_local_test q then
        (case job_dir (op_local_pickle_tmp_dir q) j of
           Inl e \<Rightarrow> (st, Inl e)
         | Inr local_dir \<Rightarrow>
             (case bindR (of_none (op_airflow_s3_sync_path q)) (\<lambda>s3. job_dir s3 j) of
                Inl e \<Rightarrow> (st, Inl e)
              | Inr s3_dir \<Rightarrow>
                  (case sync_from_s3_to_local sys s3_dir local_dir st of
                     (st1, Inl e) \<Rightarrow> (st1, Inl e)
                   | (st1, Inr r) \<Rightarrow> (st1, raise_if (r \<noteq> 0) RuntimeError (check_other_job local_dir j st1)))))
      else
        (let d = (if jo_submit_type j = ''online''
                  then join ''/'' [op_local_pickle_tmp_dir q, jo_business j, ''online_dir'']
                  else join ''/'' [op_local_pickle_tmp_dir q, jo_business j, ''backfill_dir'', jo_experiment j])
         in (st, check_other_job d j st)))"

definition remove_file :: "string \<Rightarrow> site \<Rightarrow> site" where
  "remove_file path st = st\<lparr>si_pickles := [kv \<leftarrow> si_pickles st. fst kv \<noteq> path]\<rparr>"

definition dump_pickle :: "(job \<Rightarrow> bool) \<Rightarrow> job \<Rightarrow> site \<Rightarrow> site \<times> bool res" where
  "dump_pickle picklable j st =
     (case local_pickle_file_path j st of
        (st1, Inl e) \<Rightarrow> (st1, Inl e)
      | (st1, Inr path) \<Rightarrow>
          (let st2 = (if dict_get (si_pickles st1) path \<noteq> None then remove_file path st1 else st1);
               st3 = makedirs (dir_name path) st2
           in case dump_pickle_file picklable j path st3 of (st4, ok) \<Rightarrow> (st4, Inr ok)))"

text \<open>The exit code of the copy is not looked at.\<close>

definition upload_file_to_s3 ::
  "(string \<Rightarrow> site \<Rightarrow> site \<times> int) \<Rightarrow> operate \<Rightarrow> job \<Rightarrow> site \<Rightarrow> site \<times> unit res" where
  "upload_file_to_s3 sys q j st =
     (case local_pickle_file_path j st of
        (st1, Inl e) \<Rightarrow> (st1, Inl e)
      | (st1, Inr path) \<Rightarrow>
          (if startswith path (op_local_pickle_tmp_dir q) then
             (case s3_target q path of
                Inl e \<Rightarrow> (st1, Inl e)
              | Inr s3_path \<Rightarrow> (fst (sys (''aws s3 cp '' @ path @ '' '' @ s3_path) st1), Inr ()))
           else (st1, Inr ())))"

definition start_job ::
  "(string \<Rightarrow> site \<Rightarrow> site \<times> int) \<Rightarrow> (job \<Rightarrow> bool) \<Rightarrow> operate \<Rightarrow> job \<Rightarrow> site \<Rightarrow> site \<times> unit res" where
  "start_job sys picklable q j st =
     (case dump_pickle picklable j st of
        (st1, Inl e) \<Rightarrow> (st1, Inl e)
      | (st1, Inr ok) \<Rightarrow>
          (if op_is_local_test q then (st1, Inr ())
           else if ok then upload_file_to_s3 sys q j st1 else (st1, Inl RuntimeError)))"

definition run_submission ::
  "(string \<Rightarrow> site \<Rightarrow> site \<times> int) \<Rightarrow> (job \<Rightarrow> bool) \<Rightarrow> string \<Rightarrow> experiment_obj \<Rightarrow> site \<Rightarrow> site \<times> unit res" where
  "run_submission sys picklable submit_type x st =
     (case new_operate (x_enable_auth_token x) (x_is_local_test x) (x_airflow_host x) st of
        Inl e \<Rightarrow> (st, Inl e)
      | Inr q \<Rightarrow>
          (case new_job x q submit_type st of
             (st1, Inl e) \<Rightarrow> (st1, Inl e)
           | (st1, Inr j) \<Rightarrow>
               (case (if submit_type = ''online'' then check_exist_dag_conf sys q j st1 else (st1, Inr ())) of
                  (st2, Inl e) \<Rightarrow> (st2, Inl e)
                | (st2, Inr _) \<Rightarrow> start_job sys picklable q j st2)))"

definition submit_backfill ::
  "(string \<Rightarrow> site \<Rightarrow> site \<times> int) \<Rightarrow> (job \<Rightarrow> bool) \<Rightarrow> experiment_obj \<Rightarrow> site \<Rightarrow> site \<times> unit res" where
  "submit_backfill sys picklable x st = run_submission sys picklable ''backfill'' x st"

text \<open>The experiment itself is changed, whether or not the submission succeeds.\<close>

definition submit_online ::
  "(string \<Rightarrow> site \<Rightarrow> site \<times> int) \<Rightarrow> (job \<Rightarrow> bool) \<Rightarrow> experiment_obj \<Rightarrow> site \<Rightarrow> experiment_obj \<times> site \<times> unit res" where
  "submit_online sys picklable x st =
     (let x' = x\<lparr>x_end_date := PNone\<rparr> in (x', run_submission sys picklable ''online'' x' st))"

section \<open>Requests to the scheduler\<close>

text \<open>\<open>http url headers\<close> is the decoded JSON text of the response to a POST request.\<close>

type_synonym 's http = "string \<Rightarrow> string dict \<Rightarrow> 's \<Rightarrow> 's \<times> pyval res"

definition form_header :: "string dict" where
  "form_header = [(''Content-Type'', ''application/x-www-form-urlencoded'')]"

definition request_post :: "'s http \<Rightarrow> operate \<Rightarrow> string \<Rightarrow> 's \<Rightarrow> 's \<times> pyval res" where
  "request_post http q url s =
     http url (if op_enable_auth_token q then [(''rest_api_plugin_http_token'', op_authorization_token q)]
               else form_header) s"

definition request_post_jwt :: "'s http \<Rightarrow> operate \<Rightarrow> string \<Rightarrow> 's \<Rightarrow> 's \<times> pyval res" where
  "request_post_jwt http q url s =
     http url (if op_is_local_test q then form_header
               else (''Authorization'', op_authorization_token q) # form_header) s"

definition get_airflow_rest_authorization_token_jwt ::
  "(string \<Rightarrow> string dict \<Rightarrow> pyval dict \<Rightarrow> 's \<Rightarrow> 's \<times> pyval res) \<Rightarrow> operate \<Rightarrow> string \<Rightarrow> string \<Rightarrow> 's \<Rightarrow> 's \<times> string res" where
  "get_airflow_rest_authorization_token_jwt login q user passwd s =
     (if \<not> op_enable_auth_token q then (s, Inr [])
      else case login (op_airflow_host q @ ''/api/v1/security/login'') [(''Content-Type'', ''application/json'')]
          [(''username'', PStr user), (''password'', PStr passwd), (''refresh'', PStr ''true''), (''provider'', PStr ''db'')] s of
        (s1, r) \<Rightarrow> (s1, bindR r (\<lambda>v. bindR (py_item v ''access_token'') (\<lambda>t.
          case t of PStr token \<Rightarrow> Inr (''Bearer '' @ token) | _ \<Rightarrow> Inl TypeError))))"

definition api_url :: "operate \<Rightarrow> string \<Rightarrow> string" where
  "api_url q query = op_airflow_host q @ ''/admin/rest_api/api?api='' @ query"

definition set_airflow_pools :: "'s http \<Rightarrow> operate \<Rightarrow> string \<Rightarrow> string \<Rightarrow> 's \<Rightarrow> 's \<times> pyval res" where
  "set_airflow_pools http q pool_name slot_count s =
     request_post http q (api_url q (''pool&cmd=set&pool_name='' @ pool_name @ ''&slot_count='' @ slot_count
       @ ''&pool_description='' @ ''test'')) s"

definition stdout_of :: "pyval \<Rightarrow> pyval res" where
  "stdout_of v = bindR (py_item v ''output'') (\<lambda>out. py_item out ''stdout'')"

definition list_dag :: "'s http \<Rightarrow> operate \<Rightarrow> 's \<Rightarrow> 's \<times> pyval res" where
  "list_dag http q s =
     (case request_post http q (api_url q ''list_dags'') s of (s1, r) \<Rightarrow> (s1, bindR r stdout_of))"

definition unpause :: "'s http \<Rightarrow> operate \<Rightarrow> string \<Rightarrow> 's \<Rightarrow> 's \<times> pyval res" where
  "unpause http q d s =
     (case request_post http q (api_url q (''unpause&dag_id='' @ d)) s of (s1, r) \<Rightarrow> (s1, bindR r stdout_of))"

primrec unpause_tries :: "nat \<Rightarrow> 's http \<Rightarrow> operate \<Rightarrow> string \<Rightarrow> 's \<Rightarrow> 's \<times> unit res" where
  "unpause_tries 0 http q d s = (s, Inl ValueError)"
| "unpause_tries (Suc n) http q d s =
     (case list_dag http q s of
        (s1, Inl e) \<Rightarrow> (s1, Inl e)
      | (s1, Inr dags) \<Rightarrow>
          (case py_contains dags d of
             Inl e \<Rightarrow> (s1, Inl e)
           | Inr False \<Rightarrow> unpause_tries n http q d s1
           | Inr True \<Rightarrow>
               (case unpause http q d s1 of
                  (s2, Inl e) \<Rightarrow> (s2, Inl e)
                | (s2, Inr result) \<Rightarrow> if py_truth result then (s2, Inr ()) else unpause_tries n http q d s2)))"

definition unpause_dag :: "'s http \<Rightarrow> operate \<Rightarrow> job \<Rightarrow> 's \<Rightarrow> 's \<times> unit res" where
  "unpause_dag http q j s = unpause_tries 5 http q (dag_id j) s"

section \<open>Lemmas\<close>

definition online_dir :: "string \<Rightarrow> string" where
  "online_dir b = ''/opt/airflow/dags/s3-sync'' @ ''/'' @ b @ ''/online_dir''"

definition path_suffix :: "string \<Rightarrow> string" where
  "path_suffix p = replace_all ''/opt/airflow/dags/s3-sync'' [] p"

definition local_path :: "experiment_obj \<Rightarrow> string" where
  "local_path x = online_dir (x_business_name x) @ ''/'' @ x_experiment_name x @ ''/'' @ x_job_name x @ ''.pickle''"

text \<open>The pickles of the online directory that load hold jobs that recorded their own path.\<close>

definition recorded :: "string \<Rightarrow> site \<Rightarrow> bool" where
  "recorded b st = (\<forall>p \<in> set (glob_pickles (online_dir b) st). \<forall>j.
     dict_get (si_pickles st) p = Some (Some j) \<longrightarrow>
     (\<exists>s. dict_get (si_environ st) ''AIRFLOW_S3_SYNC_PATH'' = Some s \<and>
       dict_get (jo_dag_conf j) ''pickle_file_s3_path'' = Some (PStr (s @ path_suffix p))))"

definition single :: "string \<Rightarrow> site \<Rightarrow> bool" where
  "single b st = (\<exists>t. \<forall>p \<in> set (glob_pickles (online_dir b) st). path_suffix p = t)"

lemma glob_pickles_same: "si_pickles st' = si_pickles st \<Longrightarrow> glob_pickles d st' = glob_pickles d st"
  by (simp add: glob_pickles_def)

lemma makedirs_same [simp]:
  "si_pickles (makedirs d st) = si_pickles st"
  "si_environ (makedirs d st) = si_environ st"
  by (simp_all add: makedirs_def)

lemma fold_insert_set: "set (fold List.insert xs ys) = set xs \<union> set ys"
  by (induction xs arbitrary: ys) auto

lemma makedirs_parent: "d \<noteq> [] \<Longrightarrow> is_directory d (makedirs (d @ CHR ''/'' # t) st)"
proof -
  assume "d \<noteq> []"
  then have "trim_slashes d \<in> set (parent_dirs (d @ CHR ''/'' # t))"
    unfolding parent_dirs_def set_map set_append
    by (intro image_eqI [of _ _ d] UnI1) (auto intro!: bexI [of _ "length d"] simp: Suc_le_eq)
  then show ?thesis by (simp add: is_directory_def makedirs_def fold_insert_set)
qed

lemma SUBMIT_DIR_online [simp]: "dict_get SUBMIT_DIR ''online'' = Some ''online_dir''"
  by (simp add: SUBMIT_DIR_def dict_get_def)

lemma local_path_join:
  "join ''/'' [join ''/'' [''/opt/airflow/dags/s3-sync'', x_business_name x, ''online_dir'', x_experiment_name x],
     pickle_file_name (x_job_name x)] = local_path x"
  by (simp add: local_path_def online_dir_def pickle_file_name_def)

lemma dict_get_extra: "k \<notin> fst ` set e \<Longrightarrow> dict_get (dict_update d e) k = dict_get d k"
  by (simp add: dict_update_def pydict.get_put_all_absent)

lemma py_eq_PStr: "py_eq (PStr a) v \<longleftrightarrow> v = PStr a"
  by simp

lemma same_entries:
  assumes "foldR (same_entry j) d () = Inr ()" and "dict_get d k = Some v"
  shows "\<exists>w. dict_get (jo_dag_conf j) k = Some w \<and> py_eq v w"
proof -
  have "(k, v) \<in> set d" using assms(2) by (simp add: dict_get_def map_of_SomeD)
  with assms(1) show ?thesis
    by (induction d)
      (auto simp: bindR_Inr_iff same_entry_def raise_if_Inr_iff split: option.splits)
qed


lemma new_operate_local:
  "new_operate auth True h st = Inr q \<Longrightarrow>
   op_is_local_test q \<and> op_local_pickle_tmp_dir q = ''/opt/airflow/dags/s3-sync''
     \<and> op_airflow_s3_sync_path q = dict_get (si_environ st) ''AIRFLOW_S3_SYNC_PATH''"
  by (auto simp: new_operate_def bindR_Inr_iff get_local_pickle_tmp_dir_def get_airflow_s3_sync_path_def)

text \<open>What making a job leaves: the pickles as they were, the directory of the job, and the recorded path.\<close>

lemma new_job_state: "new_job x q t st = (st1, r) \<Longrightarrow> si_pickles st1 = si_pickles st \<and> si_environ st1 = si_environ st"
  by (auto simp: new_job_def get_dag_conf_def pickle_file_s3_path_def local_pickle_file_path_def Let_def
      split: sum.splits prod.splits)

lemma new_job_fields:
  assumes "new_job x q t st = (st1, Inr j)"
  shows "jo_submit_type j = t \<and> jo_business j = x_business_name x \<and> jo_experiment j = x_experiment_name x
    \<and> jo_name j = x_job_name x \<and> jo_local_pickle_tmp_dir j = op_local_pickle_tmp_dir q \<and> jo_experiment_operator j = q"
  using assms by (auto simp: new_job_def Let_def bindR_Inr_iff split: sum.splits prod.splits)

lemma new_job_local:
  assumes "new_job x q ''online'' st = (st1, Inr j)" and "op_local_pickle_tmp_dir q = ''/opt/airflow/dags/s3-sync''"
    and "''pickle_file_s3_path'' \<notin> fst ` set (x_extra_dag_conf x)"
  shows "is_directory (online_dir (x_business_name x)) st1"
    and "\<exists>s. op_airflow_s3_sync_path q = Some s \<and>
      dict_get (jo_dag_conf j) ''pickle_file_s3_path'' = Some (PStr (s @ path_suffix (local_path x)))"
proof -
  have path: "store_dir_path (op_local_pickle_tmp_dir q) (x_business_name x) ''online'' (x_experiment_name x) =
      Inr (online_dir (x_business_name x) @ CHR ''/'' # x_experiment_name x)"
    by (simp add: store_dir_path_def online_dir_def assms(2))
  have name: "join ''/'' [online_dir (x_business_name x) @ CHR ''/'' # x_experiment_name x, pickle_file_name (x_job_name x)]
      = local_path x"
    by (simp add: local_path_def pickle_file_name_def)
  note made = assms(1) [unfolded new_job_def Let_def get_dag_conf_def pickle_file_s3_path_def
    local_pickle_file_path_def job.simps path sum.case name]
  from made have st1: "st1 = makedirs (online_dir (x_business_name x) @ CHR ''/'' # x_experiment_name x) st"
    by (auto simp: bindR_Inr_iff split: sum.splits prod.splits)
  show "is_directory (online_dir (x_business_name x)) st1"
    unfolding st1 by (rule makedirs_parent) (simp add: online_dir_def)
  show "\<exists>s. op_airflow_s3_sync_path q = Some s \<and>
      dict_get (jo_dag_conf j) ''pickle_file_s3_path'' = Some (PStr (s @ path_suffix (local_path x)))"
    using made assms(3)
    by (auto simp: s3_target_def of_none_def bindR_Inr_iff dict_get_extra path_suffix_def assms(2)
        split: sum.splits prod.splits option.splits) (simp add: dict_get_def)
qed

definition listed :: "string \<Rightarrow> string \<Rightarrow> bool" where
  "listed d p = (under_dir d p \<and> endswith p ''.pickle'' \<and> \<not> hidden (drop (length d + 1) p))"

lemma set_glob_pickles: "p \<in> set (glob_pickles d st) \<longleftrightarrow> p \<in> fst ` set (si_pickles st) \<and> listed d p"
  by (auto simp: glob_pickles_def listed_def)

lemma glob_pickles_write:
  "si_pickles st' = dict_set p v [kv \<leftarrow> si_pickles st. fst kv \<noteq> p] \<Longrightarrow>
   set (glob_pickles b st') \<subseteq> insert p (set (glob_pickles b st))"
  by (auto simp: set_glob_pickles dict_set_def dom_update)

lemma dump_pickle_state:
  assumes "dump_pickle pk j st = (st', r)" and "jo_submit_type j = ''online''"
    and "jo_local_pickle_tmp_dir j = ''/opt/airflow/dags/s3-sync''"
    and "jo_business j = x_business_name x" "jo_experiment j = x_experiment_name x" "jo_name j = x_job_name x"
  shows "si_environ st' = si_environ st \<and> si_pickles st' =
    dict_set (local_path x) (if pk j then Some j else None) [kv \<leftarrow> si_pickles st. fst kv \<noteq> local_path x]"
proof -
  have path: "local_pickle_file_path j st =
      (makedirs (online_dir (x_business_name x) @ CHR ''/'' # x_experiment_name x) st, Inr (local_path x))"
    using assms(2-) by (simp add: local_pickle_file_path_def store_dir_path_def local_path_def online_dir_def
        pickle_file_name_def)
  have absent: "[kv \<leftarrow> si_pickles st. fst kv \<noteq> local_path x] = si_pickles st"
    if "dict_get (si_pickles st) (local_path x) = None"
    using that by (force simp: dict_get_def map_of_eq_None_iff filter_id_conv)
  show ?thesis
    using assms(1) absent
    by (auto simp: dump_pickle_def path dump_pickle_file_def Let_def remove_file_def)
qed

lemma dict_get_drop_other: "p \<noteq> q \<Longrightarrow> dict_get (dict_set q v [kv \<leftarrow> d. fst kv \<noteq> q]) p = dict_get d p"
  by (simp add: pydict.get_put_other) (induction d, auto simp: dict_get_def)

text \<open>A local online submission changes nothing but directories, or its check passed and it wrote its pickle.\<close>

lemma run_online_local:
  assumes "run_submission sys pk ''online'' x st = (st', r)" and "x_is_local_test x"
    and "''pickle_file_s3_path'' \<notin> fst ` set (x_extra_dag_conf x)"
  shows "si_environ st' = si_environ st \<and>
    (si_pickles st' = si_pickles st \<or>
     (\<exists>st1 j s. si_pickles st1 = si_pickles st \<and> is_directory (online_dir (x_business_name x)) st1
        \<and> check_other_job (online_dir (x_business_name x)) j st1 = Inr ()
        \<and> dict_get (si_environ st) ''AIRFLOW_S3_SYNC_PATH'' = Some s
        \<and> dict_get (jo_dag_conf j) ''pickle_file_s3_path'' = Some (PStr (s @ path_suffix (local_path x)))
        \<and> si_pickles st' = dict_set (local_path x) (if pk j then Some j else None)
            [kv \<leftarrow> si_pickles st. fst kv \<noteq> local_path x]))"
proof (cases "new_operate (x_enable_auth_token x) True (x_airflow_host x) st")
  case (Inl e)
  then show ?thesis using assms by (simp add: run_submission_def)
next
  case (Inr q)
  note q = new_operate_local [OF Inr]
  obtain st1 rj where job: "new_job x q ''online'' st = (st1, rj)" by fastforce
  note same = new_job_state [OF job]
  show ?thesis
  proof (cases rj)
    case (Inl e)
    then show ?thesis using assms(1,2) same \<open>new_operate _ _ _ _ = Inr q\<close> job by (simp add: run_submission_def)
  next
    case (Inr j)
    note f = new_job_fields [OF job [unfolded Inr]]
    note l = new_job_local [OF job [unfolded Inr] _ assms(3)]
    have check: "check_exist_dag_conf sys q j st1 = (st1, check_other_job (online_dir (x_business_name x)) j st1)"
      using q f by (simp add: check_exist_dag_conf_def online_dir_def)
    show ?thesis
    proof (cases "check_other_job (online_dir (x_business_name x)) j st1")
      case (Inl e)
      then show ?thesis
        using assms(1,2) same \<open>new_operate _ _ _ _ = Inr q\<close> job \<open>rj = Inr j\<close> check
        by (simp add: run_submission_def)
    next
      case (Inr u)
      obtain st2 rd where dump: "dump_pickle pk j st1 = (st2, rd)" by fastforce
      have "st' = st2"
        using assms(1,2) same \<open>new_operate _ _ _ _ = Inr q\<close> job \<open>rj = Inr j\<close> check Inr q dump
        by (auto simp: run_submission_def start_job_def split: sum.splits)
      with dump_pickle_state [OF dump, of x] f q l same Inr show ?thesis by auto
    qed
  qed
qed


lemma online_step:
  assumes "run_submission sys pk ''online'' x st = (st', r)" and "x_is_local_test x"
    and "''pickle_file_s3_path'' \<notin> fst ` set (x_extra_dag_conf x)" and "x_business_name x = b"
    and "recorded b st" and "single b st"
  shows "recorded b st' \<and> single b st'"
proof -
  from run_online_local [OF assms(1-3)] have env: "si_environ st' = si_environ st" by blast
  from run_online_local [OF assms(1-3)] consider
    "si_pickles st' = si_pickles st"
  | st1 j s where "si_pickles st1 = si_pickles st" "is_directory (online_dir b) st1"
      "check_other_job (online_dir b) j st1 = Inr ()"
      "dict_get (si_environ st) ''AIRFLOW_S3_SYNC_PATH'' = Some s"
      "dict_get (jo_dag_conf j) ''pickle_file_s3_path'' = Some (PStr (s @ path_suffix (local_path x)))"
      "si_pickles st' = dict_set (local_path x) (if pk j then Some j else None)
         [kv \<leftarrow> si_pickles st. fst kv \<noteq> local_path x]"
    using assms(4) by blast
  then show ?thesis
  proof cases
    case 1
    then show ?thesis using assms(5,6) env by (simp add: recorded_def single_def glob_pickles_same [OF 1])
  next
    case 2
    note sub = glob_pickles_write [OF 2(6), of "online_dir b"]
    have "recorded b st'"
      unfolding recorded_def
    proof (intro ballI allI impI)
      fix p i
      assume p: "p \<in> set (glob_pickles (online_dir b) st')" and i: "dict_get (si_pickles st') p = Some (Some i)"
      show "\<exists>s. dict_get (si_environ st') ''AIRFLOW_S3_SYNC_PATH'' = Some s \<and>
          dict_get (jo_dag_conf i) ''pickle_file_s3_path'' = Some (PStr (s @ path_suffix p))"
      proof (cases "p = local_path x")
        case True
        then show ?thesis using i 2 env by (auto simp: pydict.get_put_same split: if_splits)
      next
        case False
        then show ?thesis
          using p i sub assms(5) env by (auto simp: 2(6) dict_get_drop_other recorded_def)
      qed
    qed
    moreover have "path_suffix p = path_suffix (local_path x)" if "p \<in> set (glob_pickles (online_dir b) st)" for p
    proof -
      from that obtain f fs where f: "glob_pickles (online_dir b) st = f # fs" by (cases "glob_pickles (online_dir b) st") auto
      from 2(2,3) obtain i where "load_pickle_file f st = Inr i" and same: "foldR (same_entry j) (jo_dag_conf i) () = Inr ()"
        by (auto simp: check_other_job_def glob_pickles_same [OF 2(1)] f bindR_Inr_iff load_pickle_file_def 2(1))
      then have "dict_get (si_pickles st) f = Some (Some i)"
        by (auto simp: load_pickle_file_def split: option.splits)
      then have "dict_get (jo_dag_conf i) ''pickle_file_s3_path'' = Some (PStr (s @ path_suffix f))"
        using assms(5) 2(4) f by (auto simp: recorded_def)
      from same_entries [OF same this] 2(5) have "path_suffix f = path_suffix (local_path x)"
        by (simp add: py_eq_PStr)
      moreover obtain t where "\<forall>p \<in> set (glob_pickles (online_dir b) st). path_suffix p = t"
        using assms(6) by (auto simp: single_def)
      ultimately show ?thesis using that f by auto
    qed
    then have "single b st'" using sub by (auto simp: single_def)
    ultimately show ?thesis by blast
  qed
qed

definition submit_all_online ::
  "(string \<Rightarrow> site \<Rightarrow> site \<times> int) \<Rightarrow> (job \<Rightarrow> bool) \<Rightarrow> experiment_obj list \<Rightarrow> site \<Rightarrow> site" where
  "submit_all_online sys pk xs st = fold (\<lambda>x st. fst (snd (submit_online sys pk x st))) xs st"

text \<open>
  C38: in a local test, however many experiments of a business are put online one after the other, with
  whatever outcome, the online directory of the business never lists pickles of two different jobs:
  every dag configuration holds the path of its own pickle, and a new job must agree with it.
\<close>

theorem online_dag_single_pickle:
  assumes "\<forall>x \<in> set xs. x_business_name x = b \<and> x_is_local_test x \<and>
      ''pickle_file_s3_path'' \<notin> fst ` set (x_extra_dag_conf x)"
    and "glob_pickles (online_dir b) st = []"
  shows "\<exists>t. \<forall>p \<in> set (glob_pickles (online_dir b) (submit_all_online sys pk xs st)). path_suffix p = t"
proof -
  have "recorded b st" "single b st" using assms(2) by (auto simp: recorded_def single_def)
  with assms(1) have "recorded b (submit_all_online sys pk xs st) \<and> single b (submit_all_online sys pk xs st)"
  proof (induction xs arbitrary: st)
    case (Cons x xs)
    obtain st' r where run: "run_submission sys pk ''online'' (x\<lparr>x_end_date := PNone\<rparr>) st = (st', r)" by fastforce
    have "recorded b st' \<and> single b st'"
      using Cons.prems by (intro online_step [OF run]) auto
    with Cons show ?case by (simp add: submit_all_online_def submit_online_def Let_def run)
  qed (simp add: submit_all_online_def)
  then show ?thesis by (simp add: single_def)
qed

definition demo_experiment :: experiment_obj where
  "demo_experiment = \<lparr>x_job_name = ''train'', x_experiment_name = ''ctr'', x_business_name = ''shop'',
     x_owner = Some ''me'', x_schedule_interval = PStr ''@daily'', x_func = PObj ''f'', x_start_date = PObj ''2022-01-01'',
     x_end_date = PNone, x_upstream_job_names = PNone, x_extra_dag_conf = [], x_enable_auth_token = True,
     x_is_local_test = True, x_delay_backfill = False, x_airflow_host = None\<rparr>"

definition demo_site :: site where
  "demo_site = \<lparr>si_environ = [(''AIRFLOW_S3_SYNC_PATH'', ''s3://bucket/sync''), (''AIRFLOW_REST_AUTHORIZATION_TOKEN'', ''t'')],
     si_dirs = [], si_pickles = []\<rparr>"

theorem online_dag_single_pickle_witness:
  "(\<exists>t. \<forall>p \<in> set (glob_pickles (online_dir ''shop'') (submit_all_online (\<lambda>c st. (st, 1)) (\<lambda>j. True)
      [demo_experiment, demo_experiment\<lparr>x_job_name := ''publish''\<rparr>] demo_site)). path_suffix p = t)
   \<and> snd (snd (submit_online (\<lambda>c st. (st, 1)) (\<lambda>j. True) demo_experiment demo_site)) = Inr ()
   \<and> snd (snd (submit_online (\<lambda>c st. (st, 1)) (\<lambda>j. True) (demo_experiment\<lparr>x_job_name := ''publish''\<rparr>)
       (submit_all_online (\<lambda>c st. (st, 1)) (\<lambda>j. True) [demo_experiment] demo_site))) = Inl ValueError"
proof -
  have "\<exists>t. \<forall>p \<in> set (glob_pickles (online_dir ''shop'') (submit_all_online (\<lambda>c st. (st, 1)) (\<lambda>j. True)
      [demo_experiment, demo_experiment\<lparr>x_job_name := ''publish''\<rparr>] demo_site)). path_suffix p = t"
    by (rule online_dag_single_pickle) (auto simp: demo_experiment_def demo_site_def glob_pickles_def)
  moreover have "snd (snd (submit_online (\<lambda>c st. (st, 1)) (\<lambda>j. True) demo_experiment demo_site)) = Inr ()"
    by code_simp
  moreover have "snd (snd (submit_online (\<lambda>c st. (st, 1)) (\<lambda>j. True) (demo_experiment\<lparr>x_job_name := ''publish''\<rparr>)
       (submit_all_online (\<lambda>c st. (st, 1)) (\<lambda>j. True) [demo_experiment] demo_site))) = Inl ValueError"
    by code_simp
  ultimately show ?thesis by blast
qed


definition remote_dir :: "string \<Rightarrow> string" where
  "remote_dir b = ''.experiment_sdk/pickle_dir'' @ ''/'' @ b @ ''/online_dir''"

definition remote_path :: "experiment_obj \<Rightarrow> string" where
  "remote_path x = remote_dir (x_business_name x) @ ''/'' @ x_experiment_name x @ ''/'' @ x_job_name x @ ''.pickle''"

lemma glob_after_rmtree: "trim_slashes d = d \<Longrightarrow> glob_pickles d (makedirs e (rmtree d st)) = []"
  by (simp add: glob_pickles_def rmtree_def Let_def)

lemma trim_slashes_dir: "s = t @ ''dir'' \<Longrightarrow> trim_slashes s = s"
  by (simp add: trim_slashes_def)

text \<open>
  the first online job of a business, outside local tests: the synchronised directory is empty, so the
  job is pickled and copied to the S3 path that its dag configuration names, with no end date, and the
  submission succeeds whatever the exit code and the effect of the copy.
\<close>

theorem first_online_submission:
  assumes "\<not> x_is_local_test x" and "x_owner x = Some w" "w \<noteq> []"
    and "getenv ''AIRFLOW_REST_AUTHORIZATION_TOKEN'' st \<noteq> []"
    and "dict_get (si_environ st) ''AIRFLOW_S3_SYNC_PATH'' = Some s3"
    and "get_upstream_job_names (x_upstream_job_names x) = Inr names"
    and "fst ` set (x_extra_dag_conf x) \<inter> {''pickle_file_s3_path'', ''end_date'', ''dag_id''} = {}"
    and "\<And>j. picklable j"
    and "\<And>st'. sys (''aws s3 sync '' @ s3 @ ''/'' @ x_business_name x @ ''/online_dir '' @ remote_dir (x_business_name x)) st' = (st', 0)"
  shows "\<exists>j st1.
    submit_online sys picklable x st =
      (x\<lparr>x_end_date := PNone\<rparr>,
       fst (sys (''aws s3 cp '' @ remote_path x @ '' '' @ s3 @ replace_all ''.experiment_sdk/pickle_dir'' [] (remote_path x)) st1),
       Inr ())
    \<and> dict_get (si_pickles st1) (remote_path x) = Some (Some j)
    \<and> dict_get (jo_dag_conf j) ''pickle_file_s3_path'' =
        Some (PStr (s3 @ replace_all ''.experiment_sdk/pickle_dir'' [] (remote_path x)))
    \<and> dict_get (jo_dag_conf j) ''end_date'' = Some PNone
    \<and> dict_get (jo_dag_conf j) ''dag_id'' = Some (PStr (x_business_name x @ ''_online''))"
proof -
  let ?x = "x\<lparr>x_end_date := PNone\<rparr>" and ?b = "x_business_name x"
  let ?dir = "remote_dir ?b" and ?exp = "remote_dir ?b @ CHR ''/'' # x_experiment_name x"
  obtain q where op: "new_operate (x_enable_auth_token x) False (x_airflow_host x) st = Inr q"
      and q: "\<not> op_is_local_test q" "op_local_pickle_tmp_dir q = ''.experiment_sdk/pickle_dir''"
        "op_airflow_s3_sync_path q = Some s3"
    using assms(4,5)
    by (simp add: new_operate_def get_airflow_rest_authorization_token_def get_local_pickle_tmp_dir_def
        get_airflow_s3_sync_path_def Let_def)
  have path: "local_pickle_file_path j st' = (makedirs ?exp st', Inr (remote_path x))"
    if "jo_local_pickle_tmp_dir j = op_local_pickle_tmp_dir q" "jo_business j = ?b" "jo_submit_type j = ''online''"
      "jo_experiment j = x_experiment_name x" "jo_name j = x_job_name x" for j st'
    using that by (simp add: local_pickle_file_path_def store_dir_path_def remote_path_def remote_dir_def
        pickle_file_name_def q)
  obtain j where job: "new_job ?x q ''online'' st = (makedirs ?exp st, Inr j)"
      and conf: "dict_get (jo_dag_conf j) ''pickle_file_s3_path'' =
          Some (PStr (s3 @ replace_all ''.experiment_sdk/pickle_dir'' [] (remote_path x)))"
        "dict_get (jo_dag_conf j) ''end_date'' = Some PNone"
        "dict_get (jo_dag_conf j) ''dag_id'' = Some (PStr (?b @ ''_online''))"
    using assms(2,3,6,7)
    by (auto simp: new_job_def get_dag_conf_def Let_def job_owner_def truthy_def pickle_file_s3_path_def path
        s3_target_def of_none_def q dag_id_def make_dag_id_def dict_get_extra dict_get_def [of "_ # _"])
  note f = new_job_fields [OF job, simplified]
  have trim: "trim_slashes ?dir = ?dir"
    by (rule trim_slashes_dir [of _ "''.experiment_sdk/pickle_dir/'' @ ?b @ ''/online_''"]) (simp add: remote_dir_def)
  let ?st1 = "makedirs ?dir (rmtree ?dir (makedirs ?exp st))"
  have check: "check_exist_dag_conf sys q j (makedirs ?exp st) = (?st1, Inr ())"
  proof -
    have "job_dir (op_local_pickle_tmp_dir q) j = Inr ?dir" using f q by (simp add: job_dir_def remote_dir_def)
    moreover have "job_dir s3 j = Inr (s3 @ ''/'' @ ?b @ ''/online_dir'')" using f by (simp add: job_dir_def)
    moreover have "is_directory ?dir (makedirs ?exp st)" by (rule makedirs_parent) (simp add: remote_dir_def)
    ultimately show ?thesis
      using assms(9) q glob_after_rmtree [OF trim]
      by (simp add: check_exist_dag_conf_def of_none_def sync_from_s3_to_local_def check_other_job_def)
  qed
  obtain st2 where dump: "dump_pickle picklable j ?st1 = (st2, Inr True)"
      and st2: "dict_get (si_pickles st2) (remote_path x) = Some (Some j)"
    using assms(8) f by (auto simp: dump_pickle_def path Let_def dump_pickle_file_def pydict.get_put_same)
  have "startswith (remote_path x) (op_local_pickle_tmp_dir q)"
    by (simp add: remote_path_def remote_dir_def q startswith_iff)
  then have "submit_online sys picklable x st =
      (?x, fst (sys (''aws s3 cp '' @ remote_path x @ '' '' @ s3 @ replace_all ''.experiment_sdk/pickle_dir'' [] (remote_path x))
         (makedirs ?exp st2)), Inr ())"
    using f q assms(1) by (simp add: submit_online_def Let_def run_submission_def op job check start_job_def dump
        upload_file_to_s3_def path s3_target_def of_none_def)
  moreover have "dict_get (si_pickles (makedirs ?exp st2)) (remote_path x) = Some (Some j)" using st2 by simp
  ultimately show ?thesis using conf by blast
qed

text \<open>A command line on which only the copies fail.\<close>

definition failing_copy :: "string \<Rightarrow> site \<Rightarrow> site \<times> int" where
  "failing_copy c st = (st, if startswith c ''aws s3 cp'' then 1 else 0)"

theorem first_online_submission_witness:
  "\<exists>j st1. submit_online failing_copy (\<lambda>j. True) (demo_experiment\<lparr>x_is_local_test := False\<rparr>) demo_site =
      (demo_experiment\<lparr>x_is_local_test := False\<rparr>, st1, Inr ())
    \<and> dict_get (si_pickles st1) (remote_path (demo_experiment\<lparr>x_is_local_test := False\<rparr>)) = Some (Some j)
    \<and> dict_get (jo_dag_conf j) ''pickle_file_s3_path'' = Some (PStr ''s3://bucket/sync/shop/online_dir/ctr/train.pickle'')"
proof -
  let ?x = "demo_experiment\<lparr>x_is_local_test := False\<rparr>"
  have h: "\<not> x_is_local_test ?x" "x_owner ?x = Some ''me''" "''me'' \<noteq> []"
    "getenv ''AIRFLOW_REST_AUTHORIZATION_TOKEN'' demo_site \<noteq> []"
    "dict_get (si_environ demo_site) ''AIRFLOW_S3_SYNC_PATH'' = Some ''s3://bucket/sync''"
    "get_upstream_job_names (x_upstream_job_names ?x) = Inr PNone"
    "fst ` set (x_extra_dag_conf ?x) \<inter> {''pickle_file_s3_path'', ''end_date'', ''dag_id''} = {}"
    by (simp_all add: demo_experiment_def demo_site_def getenv_def dict_get_def)
  have sync: "failing_copy (''aws s3 sync '' @ t) st = (st, 0)" for t st
    by (simp add: failing_copy_def startswith_def)
  have fst_copy: "fst (failing_copy c st) = st" for c st by (simp add: failing_copy_def)
  have target: "''s3://bucket/sync'' @ replace_all ''.experiment_sdk/pickle_dir'' [] (remote_path ?x) =
      ''s3://bucket/sync/shop/online_dir/ctr/train.pickle''" by code_simp
  have same_x: "?x\<lparr>x_end_date := PNone\<rparr> = ?x" by (simp add: demo_experiment_def)
  show ?thesis
    using first_online_submission [where sys = failing_copy and picklable = "\<lambda>j. True", OF h TrueI sync]
    unfolding fst_copy target same_x by (elim exE conjE) (intro exI conjI; assumption)
qed

end
