(* ===== verification/Features.thy ===== *)
theory Features
  imports Storage
begin

text \<open>
  The declaration and input of features: \<open>feature_group.py\<close> (the rules of sparse feature groups),
  \<open>schema_utils.py\<close> and \<open>input.py\<close> (schemas and readers of delimited files), \<open>output.py\<close> (writers and
  the Cassandra catalog), \<open>cast.py\<close> (dense columns of a minibatch) and \<open>spark.py\<close> (the configuration of a
  session). What is asked of Spark is kept as data: a schema, column expressions, a list of settings.
\<close>

section \<open>Sparse feature groups\<close>

text \<open>
  The pattern of an identifier is \<open>[a-zA-z_0-9]+\<close>: the range from capital A to small z holds six
  characters that are no letters.
\<close>

definition ident_char :: "char \<Rightarrow> bool" where
  "ident_char c =
     (let n = (of_char c :: nat) in (97 \<le> n \<and> n \<le> 122) \<or> (65 \<le> n \<and> n \<le> 122) \<or> n = 95 \<or> is_digit c)"

text \<open>\<open>match\<close> of identifiers joined by number signs; the final \<open>$\<close> also accepts one newline.\<close>

definition combine_rule_match :: "string \<Rightarrow> bool" where
  "combine_rule_match rule =
     (let s = (if rule \<noteq> [] \<and> last rule = NL then butlast rule else rule)
      in list_all (\<lambda>p. p \<noteq> [] \<and> list_all ident_char p) (split_on (CHR ''#'') s))"

record feature_group =
  fg_name :: string
  fg_features :: "string list"

definition validate_spec :: "feature_group \<Rightarrow> feature_group res" where
  "validate_spec g = foldR (\<lambda>rule g. raise_if (\<not> combine_rule_match rule) RuntimeError (Inr g)) (fg_features g) g"

definition schema_source :: "feature_group \<Rightarrow> string" where
  "schema_source g = join [NL] (fg_features g)"

text \<open>
  \<open>get\<close>: the YAML file \<open>name.yaml\<close>, read by the argument; a group that does not have the form or the
  rules of a sparse feature group is a \<open>RuntimeError\<close>.
\<close>

definition get_feature_group :: "(string \<Rightarrow> feature_group option res) \<Rightarrow> string \<Rightarrow> feature_group res" where
  "get_feature_group load name =
     bindR (load (name @ ''.yaml'')) (\<lambda>g.
     case Option.bind g (\<lambda>g. case validate_spec g of Inl _ \<Rightarrow> None | Inr g \<Rightarrow> Some g) of
       None \<Rightarrow> Inl RuntimeError | Some g \<Rightarrow> Inr g)"

section \<open>Schemas of delimited files\<close>

datatype spark_type = StringT | FloatT | DoubleT | IntegerT | LongT | BooleanT | ArrayT spark_type | OtherT string

record spark_field =
  sf_name :: string
  sf_type :: spark_type
  sf_nullable :: bool

type_synonym spark_schema = "spark_field list"

definition make_csv_schema ::
  "spark_schema option \<Rightarrow> string list option \<Rightarrow> string list option \<Rightarrow> spark_schema res" where
  "make_csv_schema schema column_names multivalue_column_names =
     (case (schema, column_names) of
        (None, None) \<Rightarrow> Inl RuntimeError
      | (Some _, Some _) \<Rightarrow> Inl RuntimeError
      | (Some s, None) \<Rightarrow> Inr s
      | (None, Some names) \<Rightarrow>
          let multi = (case multivalue_column_names of None \<Rightarrow> {} | Some ns \<Rightarrow> set ns)
          in Inr (map (\<lambda>n. \<lparr>sf_name = n, sf_type = if n \<in> multi then ArrayT StringT else StringT,
                            sf_nullable = True\<rparr>) names))"

fun is_basic_type :: "spark_type \<Rightarrow> bool" where
  "is_basic_type (ArrayT _) = False"
| "is_basic_type (OtherT _) = False"
| "is_basic_type _ = True"

fun is_data_type_supported :: "spark_type \<Rightarrow> bool" where
  "is_data_type_supported (ArrayT t) = is_basic_type t"
| "is_data_type_supported t = is_basic_type t"

text \<open>A column as it is, or a text column split at a delimiter and converted.\<close>

datatype column_expr = Column string | SplitCast string string spark_type

definition transform_field :: "string \<Rightarrow> spark_field \<Rightarrow> (spark_field \<times> column_expr) res" where
  "transform_field delim f =
     raise_if (\<not> is_data_type_supported (sf_type f)) RuntimeError
     (Inr (case sf_type f of
        ArrayT t \<Rightarrow> (\<lparr>sf_name = sf_name f, sf_type = StringT, sf_nullable = sf_nullable f\<rparr>,
                      SplitCast (sf_name f) delim (ArrayT t))
      | _ \<Rightarrow> (f, Column (sf_name f))))"

definition make_csv_transformer :: "spark_schema \<Rightarrow> string \<Rightarrow> (spark_schema \<times> column_expr list) res" where
  "make_csv_transformer schema delim =
     bindR (mapR (transform_field delim) schema) (\<lambda>fs. Inr (map fst fs, map snd fs))"

section \<open>Reading and writing\<close>

text \<open>A read: the options, the schema and the location, then the selected columns, and a shuffle.\<close>

record csv_read =
  cr_options :: "string dict"
  cr_schema :: spark_schema
  cr_path :: string
  cr_select :: "column_expr list"
  cr_shuffle :: "int option"

definition bool_option :: "bool \<Rightarrow> string" where
  "bool_option b = (if b then ''true'' else ''false'')"

text \<open>\<open>shuffle_df\<close> repartitions by a random column into twice as many partitions as workers.\<close>

definition shuffle_partitions :: "int \<Rightarrow> int" where
  "shuffle_partitions num_workers = 2 * num_workers"

definition read_s3_csv ::
  "string \<Rightarrow> bool \<Rightarrow> int \<Rightarrow> bool \<Rightarrow> bool \<Rightarrow> string \<Rightarrow> string \<Rightarrow> string \<Rightarrow> spark_schema option \<Rightarrow>
   string list option \<Rightarrow> string list option \<Rightarrow> csv_read res" where
  "read_s3_csv url shuffle num_workers header nullable delimiter multivalue_delimiter encoding schema
     column_names multivalue_column_names =
     bindR (make_csv_schema schema column_names multivalue_column_names) (\<lambda>schema.
     bindR (make_csv_transformer schema multivalue_delimiter) (\<lambda>(input_schema, exprs).
     Inr \<lparr>cr_options = [(''header'', bool_option header), (''nullable'', bool_option nullable),
            (''delimiter'', delimiter), (''encoding'', encoding)],
          cr_schema = input_schema, cr_path = use_s3a url, cr_select = exprs,
          cr_shuffle = (if shuffle \<and> 1 < num_workers then Some (shuffle_partitions num_workers) else None)\<rparr>))"

definition write_s3_csv :: "string \<Rightarrow> string \<Rightarrow> bool \<Rightarrow> string \<Rightarrow> string \<Rightarrow> string \<times> string dict" where
  "write_s3_csv url mode header delimiter encoding =
     (use_s3a url, [(''mode'', mode), (''header'', bool_option header), (''sep'', delimiter), (''encoding'', encoding)])"

definition config_cassandra ::
  "string \<Rightarrow> string \<Rightarrow> int \<Rightarrow> string option \<Rightarrow> string option \<Rightarrow> string dict \<Rightarrow> string dict" where
  "config_cassandra catalog host_ip port user_name password conf =
     (let key = ''spark.sql.catalog.'' @ catalog;
          conf = dict_set key ''com.datastax.spark.connector.datasource.CassandraCatalog'' conf;
          conf = dict_set (key @ ''.spark.cassandra.connection.host'') host_ip conf;
          conf = dict_set (key @ ''.spark.cassandra.connection.port'') (str_int port) conf;
          conf = (case user_name of None \<Rightarrow> conf | Some u \<Rightarrow> dict_set (key @ ''.spark.cassandra.auth.username'') u conf)
      in (case password of None \<Rightarrow> conf | Some p \<Rightarrow> dict_set (key @ ''.spark.cassandra.auth.password'') p conf))"

definition ensure_cassandra_db :: "string \<Rightarrow> string \<Rightarrow> string \<Rightarrow> string" where
  "ensure_cassandra_db catalog db_name db_properties =
     ''CREATE DATABASE IF NOT EXISTS '' @ catalog @ ''.'' @ db_name @ '' WITH DBPROPERTIES ('' @ db_properties @ '')''"

definition write_cassandra :: "string \<Rightarrow> string \<Rightarrow> string \<Rightarrow> string" where
  "write_cassandra catalog db_name table_name = catalog @ ''.'' @ db_name @ ''.'' @ table_name"

section \<open>Dense columns\<close>

record 'o cast_op =
  selected_columns :: "string list"
  cast_dtype :: string
  cast_output :: "'o option"

text \<open>The output is \<open>None\<close> for the scalar zero that stands for no output.\<close>

definition new_cast :: "pyval \<Rightarrow> string \<Rightarrow> 'o cast_op res" where
  "new_cast columns dtype =
     (case (case columns of PList xs \<Rightarrow> Some xs | PTuple xs \<Rightarrow> Some xs | _ \<Rightarrow> None) of
        None \<Rightarrow> Inl TypeError
      | Some xs \<Rightarrow>
          raise_if (\<not> list_all is_str xs) TypeError
          (raise_if (xs = []) ValueError
          (raise_if (dtype \<notin> {''torch.int32'', ''torch.int64'', ''torch.float32'', ''torch.float64''}) TypeError
          (Inr \<lparr>selected_columns = map (\<lambda>x. case x of PStr s \<Rightarrow> s | _ \<Rightarrow> []) xs,
                cast_dtype = rev (takeWhile (\<lambda>c. c \<noteq> CHR ''.'') (rev dtype)), cast_output = None\<rparr>))))"

text \<open>\<open>astype dtype\<close> converts a column; the converted columns are stacked along the last axis.\<close>

definition do_cast ::
  "(string \<Rightarrow> 'c \<Rightarrow> 'n list res) \<Rightarrow> 'c dict \<Rightarrow> 'n list list cast_op \<Rightarrow> 'n list list res" where
  "do_cast astype minibatch op =
     bindR (mapR (\<lambda>n. case dict_get minibatch n of None \<Rightarrow> Inl KeyError | Some c \<Rightarrow> astype (cast_dtype op) c)
              (selected_columns op)) (\<lambda>columns.
     raise_if (\<exists>c \<in> set columns. length c \<noteq> length (hd columns)) ValueError
     (Inr (map (\<lambda>i. map (\<lambda>c. c ! i) columns) [0..<length (hd columns)])))"

definition cast_minibatch ::
  "(string \<Rightarrow> 'c \<Rightarrow> 'n list res) \<Rightarrow> 'c dict \<Rightarrow> 'n list list cast_op \<Rightarrow> 'n list list cast_op \<times> unit res" where
  "cast_minibatch astype minibatch op =
     (let op = op\<lparr>cast_output := None\<rparr> in
      case do_cast astype minibatch op of
        Inl e \<Rightarrow> (op, Inl e) | Inr out \<Rightarrow> (op\<lparr>cast_output := Some out\<rparr>, Inr ()))"

section \<open>The Spark session\<close>

record session_builder =
  sb_local :: bool
  sb_batch_size :: int
  sb_worker_count :: int
  sb_server_count :: int
  sb_worker_cpu :: int
  sb_server_cpu :: int
  sb_worker_memory :: pyval
  sb_server_memory :: pyval
  sb_coordinator_memory :: string
  sb_app_name :: "string option"
  sb_spark_master :: "string option"
  sb_log_level :: string
  sb_spark_confs :: "string dict"

text \<open>What the builder of Spark is told, in order; the last value of a setting holds.\<close>

datatype builder_call = AppNameCall string | MasterCall string | ConfigCall string string

definition spark_executor_count :: "session_builder \<Rightarrow> int" where
  "spark_executor_count b = sb_worker_count b + sb_server_count b"

definition config_app_name :: "bool \<Rightarrow> session_builder \<Rightarrow> builder_call list" where
  "config_app_name interactive b =
     [AppNameCall (case sb_app_name b of Some n \<Rightarrow> n
        | None \<Rightarrow> if interactive then ''MetaSpore-Notebook'' else ''MetaSpore-Job'')]"

definition config_spark_master :: "session_builder \<Rightarrow> builder_call list" where
  "config_spark_master b =
     (if sb_local b then [MasterCall (''local['' @ str_int (spark_executor_count b) @ '']'')]
      else case sb_spark_master b of None \<Rightarrow> [] | Some m \<Rightarrow> [MasterCall m])"

definition config_batch_size :: "session_builder \<Rightarrow> builder_call list" where
  "config_batch_size b = [ConfigCall ''spark.sql.execution.arrow.maxRecordsPerBatch'' (str_int (sb_batch_size b))]"

definition config_resources :: "session_builder \<Rightarrow> builder_call list res" where
  "config_resources b =
     bindR (merge_storage_size (sb_worker_memory b) (sb_server_memory b)) (\<lambda>memory.
     let threads = str_int (max (sb_worker_cpu b) (sb_server_cpu b)) in
     Inr [ConfigCall ''spark.driver.memory'' (sb_coordinator_memory b),
          ConfigCall ''spark.executor.memory'' memory,
          ConfigCall ''spark.executor.instances'' (str_int (spark_executor_count b)),
          ConfigCall ''spark.executor.cores'' threads,
          ConfigCall ''spark.task.cpus'' threads,
          ConfigCall ''spark.kubernetes.executor.request.cores'' threads,
          ConfigCall ''spark.executorEnv.OMP_NUM_THREADS'' threads])"

definition add_extra_configs :: "builder_call list" where
  "add_extra_configs =
     [ConfigCall ''spark.python.worker.reuse'' ''true'',
      ConfigCall ''spark.python.use.daemon'' ''true'',
      ConfigCall ''spark.python.worker.faulthandler.enabled'' ''true'',
      ConfigCall ''spark.sql.execution.pyspark.udf.simplifiedTraceback.enabled'' ''false'',
      ConfigCall ''spark.dynamicAllocation.enabled'' ''false'',
      ConfigCall ''spark.shuffle.service.enabled'' ''false'',
      ConfigCall ''spark.sql.execution.arrow.pyspark.enabled'' ''true'',
      ConfigCall ''spark.task.maxFailures'' ''1'',
      ConfigCall ''spark.yarn.maxAppAttempts'' ''1'',
      ConfigCall ''spark.scheduler.minRegisteredResourcesRatio'' ''1.0'',
      ConfigCall ''spark.scheduler.maxRegisteredResourcesWaitingTime'' ''1800s'']"

text \<open>\<open>_config_env\<close> publishes a variable in the environment and hands it to the executors.\<close>

definition config_env :: "string \<Rightarrow> string option \<Rightarrow> s3_env \<Rightarrow> s3_env \<times> builder_call list" where
  "config_env name v e =
     (let text = (case v of None \<Rightarrow> [] | Some t \<Rightarrow> t)
      in (publish_variable name v e,
          [ConfigCall (''spark.executorEnv.'' @ name) text, ConfigCall (''spark.yarn.appMasterEnv.'' @ name) text]))"

definition add_s3_configs :: "s3_env \<Rightarrow> s3_env \<times> builder_call list" where
  "add_s3_configs e =
     (case get_s3_config e of (c, e) \<Rightarrow>
      case config_env ''AWS_REGION'' (aws_region c) e of (e, c1) \<Rightarrow>
      case config_env ''AWS_ENDPOINT'' (aws_endpoint c) e of (e, c2) \<Rightarrow>
      case config_env ''AWS_ACCESS_KEY_ID'' (aws_access_key_id c) e of (e, c3) \<Rightarrow>
      case config_env ''AWS_SECRET_ACCESS_KEY'' (aws_secret_access_key c) e of (e, c4) \<Rightarrow>
        (e, c1 @ c2 @ c3 @ c4 @
            (case aws_endpoint c of Some (h # t) \<Rightarrow> [ConfigCall ''spark.hadoop.fs.s3a.endpoint'' (h # t)] | _ \<Rightarrow> []) @
            map (\<lambda>k. ConfigCall k ''org.apache.hadoop.fs.s3a.S3AFileSystem'')
              [''spark.hadoop.fs.s3a.impl'', ''spark.hadoop.fs.s3.impl'', ''spark.hadoop.fs.oss.impl'']))"

definition add_user_spark_configs :: "session_builder \<Rightarrow> builder_call list" where
  "add_user_spark_configs b = map (\<lambda>(k, v). ConfigCall k v) (sb_spark_confs b)"

definition build_session :: "bool \<Rightarrow> session_builder \<Rightarrow> s3_env \<Rightarrow> (s3_env \<times> builder_call list \<times> string) res" where
  "build_session interactive b e =
     bindR (config_resources b) (\<lambda>resources.
     case add_s3_configs e of (e, s3) \<Rightarrow>
       Inr (e, config_app_name interactive b @ config_spark_master b @ config_batch_size b @ resources @
              add_extra_configs @ s3 @ add_user_spark_configs b, sb_log_level b))"

section \<open>Lemmas\<close>

text \<open>What the rules of a feature group admit: more than identifiers, and a final newline.\<close>

lemma combine_rule_examples:
  "combine_rule_match ''user#item_1''" "combine_rule_match ''a[b]^`''" "combine_rule_match (''user'' @ [NL])"
  "\<not> combine_rule_match ''user##item''" "\<not> combine_rule_match []" "\<not> combine_rule_match ''a b''"
  by code_simp+

lemma validate_spec_iff: "validate_spec g = Inr h \<longleftrightarrow> h = g \<and> list_all combine_rule_match (fg_features g)"
proof -
  have "foldR (\<lambda>rule g. raise_if (\<not> combine_rule_match rule) RuntimeError (Inr g)) rs u = Inr h \<longleftrightarrow>
      h = u \<and> list_all combine_rule_match rs" for rs and u h :: feature_group
    by (induction rs) (auto simp: bindR_Inr_iff raise_if_Inr_iff)
  then show ?thesis by (simp add: validate_spec_def)
qed

text \<open>
  The schema source of a valid group splits into its features again when no feature ends in a newline.
\<close>

lemma ident_not_newline: "ident_char c \<Longrightarrow> c \<noteq> NL"
  by (auto simp: ident_char_def is_digit_def Let_def)

lemma split_on_set: "c \<in> set s \<Longrightarrow> c = d \<or> (\<exists>p \<in> set (split_on d s). c \<in> set p)"
proof (induction s)
  case (Cons x s)
  obtain p ps where ps: "split_on d s = p # ps" using split_on_nonempty [of d s] by (cases "split_on d s") auto
  show ?case using Cons by (auto simp: ps)
qed simp

lemma combine_rule_chars:
  assumes "combine_rule_match rule" and "last rule \<noteq> NL"
  shows "NL \<notin> set rule"
proof
  assume nl: "NL \<in> set rule"
  from assms have parts: "list_all (\<lambda>p. p \<noteq> [] \<and> list_all ident_char p) (split_on (CHR ''#'') rule)"
    by (simp add: combine_rule_match_def Let_def)
  from split_on_set [OF nl, of "CHR ''#''"] obtain p where "p \<in> set (split_on (CHR ''#'') rule)" "NL \<in> set p" by auto
  with parts show False using ident_not_newline by (auto simp: list_all_iff)
qed

lemma schema_source_lines:
  assumes "validate_spec g = Inr g" "fg_features g \<noteq> []" "\<forall>f \<in> set (fg_features g). last f \<noteq> NL"
  shows "split_on NL (schema_source g) = fg_features g"
  using assms unfolding schema_source_def validate_spec_iff
  by (intro split_on_join) (auto simp: list_all_iff dest: combine_rule_chars)

text \<open>The transformer of a schema: text for arrays, everything else as it is, in the same order.\<close>

lemma transform_field_iff:
  "transform_field d f = Inr (g, e) \<longleftrightarrow>
     is_data_type_supported (sf_type f) \<and>
     (g, e) = (case sf_type f of
        ArrayT t \<Rightarrow> (\<lparr>sf_name = sf_name f, sf_type = StringT, sf_nullable = sf_nullable f\<rparr>, SplitCast (sf_name f) d (ArrayT t))
      | _ \<Rightarrow> (f, Column (sf_name f)))"
  by (auto simp: transform_field_def raise_if_Inr_iff)

lemma make_csv_transformer_ok:
  "list_all (is_data_type_supported \<circ> sf_type) schema \<longleftrightarrow> (\<exists>r. make_csv_transformer schema d = Inr r)"
proof -
  have "list_all (is_data_type_supported \<circ> sf_type) schema \<longleftrightarrow> (\<exists>fs. mapR (transform_field d) schema = Inr fs)"
  proof (induction schema)
    case (Cons f fs)
    then show ?case
      by (cases "transform_field d f") (auto simp: transform_field_def bindR_Inr_iff raise_if_def split: if_splits)
  qed simp
  then show ?thesis by (auto simp: make_csv_transformer_def bindR_Inr_iff)
qed

lemma make_csv_transformer_fields:
  assumes "make_csv_transformer schema d = Inr (inp, exprs)"
  shows "map sf_name inp = map sf_name schema \<and> list_all (is_basic_type \<circ> sf_type) inp
    \<and> length exprs = length schema"
proof -
  from assms obtain fs where fs: "mapR (transform_field d) schema = Inr fs" "inp = map fst fs" "exprs = map snd fs"
    by (auto simp: make_csv_transformer_def bindR_Inr_iff)
  have "map sf_name (map fst fs) = map sf_name schema \<and> list_all (is_basic_type \<circ> sf_type) (map fst fs)
      \<and> length fs = length schema"
    using fs(1)
  proof (induction schema arbitrary: fs)
    case (Cons f schema)
    then obtain g e gs where "transform_field d f = Inr (g, e)" "mapR (transform_field d) schema = Inr gs" "fs = (g, e) # gs"
      by (auto simp: bindR_Inr_iff)
    then show ?case
      using Cons.IH [of gs] by (cases "sf_type f") (auto simp: transform_field_iff)
  qed simp
  then show ?thesis using fs by simp
qed

text \<open>The last setting of a key holds: the settings of the user win over all others.\<close>

definition setting_of :: "builder_call list \<Rightarrow> string \<Rightarrow> string option" where
  "setting_of calls k =
     map_of (rev (concat (map (\<lambda>c. case c of ConfigCall n v \<Rightarrow> [(n, v)] | _ \<Rightarrow> []) calls))) k"

lemma user_settings_win:
  assumes "build_session i b e = Inr (e', calls, level)" and "distinct (map fst (sb_spark_confs b))"
    and "dict_get (sb_spark_confs b) k = Some v"
  shows "setting_of calls k = Some v"
proof -
  obtain e1 s3 where "add_s3_configs e = (e1, s3)" by fastforce
  with assms(1) obtain xs where "calls = (xs @ add_extra_configs @ s3) @ add_user_spark_configs b"
    by (auto simp: build_session_def bindR_Inr_iff)
  then obtain ys where "calls = ys @ add_user_spark_configs b" by blast
  moreover have "concat (map (\<lambda>c. case c of ConfigCall n v \<Rightarrow> [(n, v)] | _ \<Rightarrow> []) (add_user_spark_configs b)) = sb_spark_confs b"
    by (simp add: add_user_spark_configs_def comp_def case_prod_beta)
  ultimately show ?thesis
    using assms(2,3) by (simp add: setting_of_def dict_get_def map_add_def map_of_rev)
qed

end
