(* ===== verification/Retrieval.thy ===== *)
theory Retrieval
  imports Fitting Features
begin

text \<open>
  \<open>python/metaspore/two_tower_retrieval.py\<close>: retrieval with a user tower and an item tower. The
  embeddings of the items go into an index, built in partitions by the workers, by Faiss or in a Milvus
  collection; queries search it with the embeddings of the users. An index file holds what the code
  writes to it; cells of a minibatch are dynamic values, and their \<open>str()\<close> is an argument. The searches
  themselves belong to Faiss and Milvus.
\<close>

section \<open>The settings of an agent\<close>

record index_agent =
  ia_item_embedding_size :: int
  ia_item_id_column_name :: string
  ia_item_ids_column_indices :: "nat list option"
  ia_item_ids_column_names :: "string list option"
  ia_item_ids_field_delimiter :: string
  ia_item_ids_value_delimiter :: string
  ia_enable_item_id_mapping :: bool
  ia_output_item_embeddings :: bool
  ia_output_user_embeddings :: bool
  ia_increasing_id_column_name :: string
  ia_recommendation_info_column_name :: string
  ia_retrieval_item_count :: int
  ia_model_in_path :: string
  ia_model_export_path :: "string option"
  ia_dataset :: spark_schema
  ia_rank :: nat
  ia_worker_count :: nat
  ia_is_coordinator :: bool

section \<open>Names and paths\<close>

definition index_type :: "string \<Rightarrow> string" where
  "index_type cls = to_lower_snake_case (simplify_name cls ''TwoTowerIndexBuilder'')"

definition index_meta_dir :: "string \<Rightarrow> index_agent \<Rightarrow> string" where
  "index_meta_dir cls a = use_s3 (ia_model_in_path a @ index_type cls @ ''/'')"

definition index_meta_path :: "string \<Rightarrow> index_agent \<Rightarrow> string" where
  "index_meta_path cls a = index_meta_dir cls a @ ''index_meta.json''"

definition item_ids_dir :: "string \<Rightarrow> index_agent \<Rightarrow> string" where
  "item_ids_dir cls a = use_s3 (ia_model_in_path a @ index_type cls @ ''/item_ids/'')"

definition item_index_dir :: "string \<Rightarrow> index_agent \<Rightarrow> string" where
  "item_index_dir cls a = use_s3 (ia_model_in_path a @ index_type cls @ ''/item_index/'')"

definition partition_file_name :: "nat \<Rightarrow> nat \<Rightarrow> string" where
  "partition_file_name n r = ''part_'' @ str_nat n @ ''_'' @ str_nat r @ ''.dat''"

definition item_ids_partition_path :: "string \<Rightarrow> index_agent \<Rightarrow> string" where
  "item_ids_partition_path cls a = item_ids_dir cls a @ partition_file_name (ia_worker_count a) (ia_rank a)"

definition item_index_partition_path :: "string \<Rightarrow> index_agent \<Rightarrow> string" where
  "item_index_partition_path cls a = item_index_dir cls a @ partition_file_name (ia_worker_count a) (ia_rank a)"

definition have_item_ids_partition_files :: "index_agent \<Rightarrow> bool" where
  "have_item_ids_partition_files a \<longleftrightarrow> ia_enable_item_id_mapping a \<or> ia_output_item_embeddings a"

section \<open>The type of the item identifiers\<close>

fun convert_spark_item_id_column_type :: "spark_type \<Rightarrow> string res" where
  "convert_spark_item_id_column_type StringT = Inr ''string''"
| "convert_spark_item_id_column_type IntegerT = Inr ''int64''"
| "convert_spark_item_id_column_type LongT = Inr ''int64''"
| "convert_spark_item_id_column_type _ = Inl RuntimeError"

text \<open>Faiss only knows 64-bit identifiers; text columns are converted.\<close>

definition faiss_item_id_column_type :: "spark_type \<Rightarrow> string res" where
  "faiss_item_id_column_type t = bindR (convert_spark_item_id_column_type t) (\<lambda>_. Inr ''int64'')"

definition item_id_column_type :: "(spark_type \<Rightarrow> string res) \<Rightarrow> index_agent \<Rightarrow> string res" where
  "item_id_column_type convert a =
     (if ia_enable_item_id_mapping a then Inr ''int64''
      else case ia_item_ids_column_indices a of
        Some idx \<Rightarrow>
          raise_if (length idx \<noteq> 1) AssertionError
          (raise_if (length (ia_dataset a) \<le> hd idx) RuntimeError (convert (sf_type (ia_dataset a ! hd idx))))
      | None \<Rightarrow>
          (case ia_item_ids_column_names a of
             None \<Rightarrow> Inl AssertionError
           | Some names \<Rightarrow>
               raise_if (length names \<noteq> 1) AssertionError
               (case find (\<lambda>f. sf_name f = hd names) (ia_dataset a) of
                  None \<Rightarrow> Inl RuntimeError | Some f \<Rightarrow> convert (sf_type f))))"

definition make_index_meta :: "(spark_type \<Rightarrow> string res) \<Rightarrow> string \<Rightarrow> pyval dict \<Rightarrow> index_agent \<Rightarrow> pyval dict res" where
  "make_index_meta convert cls extra a =
     bindR (item_id_column_type convert a) (\<lambda>t.
     Inr ([(''meta_version'', PInt 1), (''index_type'', PStr (index_type cls)),
       (''partition_count'', PInt (int (ia_worker_count a))),
       (''item_embedding_size'', PInt (ia_item_embedding_size a)),
       (''item_ids_field_delimiter'', PStr (ia_item_ids_field_delimiter a)),
       (''item_ids_value_delimiter'', PStr (ia_item_ids_value_delimiter a)),
       (''enable_item_id_mapping'', PBool (ia_enable_item_id_mapping a)),
       (''output_item_embeddings'', PBool (ia_output_item_embeddings a)),
       (''retrieval_item_count'', PInt (ia_retrieval_item_count a)),
       (''have_item_ids_partition_files'', PBool (have_item_ids_partition_files a)),
       (''item_id_column_type'', PStr t)] @ extra))"

section \<open>The mapping of item identifiers\<close>

text \<open>A minibatch is its columns in order; \<open>iloc\<close> reads by position and \<open>loc\<close> by name.\<close>

type_synonym minibatch = "pyval list dict"

definition iloc :: "minibatch \<Rightarrow> nat \<Rightarrow> pyval list res" where
  "iloc mb i = raise_if (length mb \<le> i) IndexError (Inr (snd (mb ! i)))"

definition loc :: "minibatch \<Rightarrow> string \<Rightarrow> pyval list res" where
  "loc mb n = (case dict_get mb n of None \<Rightarrow> Inl KeyError | Some c \<Rightarrow> Inr c)"

definition get_item_id_ndarray :: "index_agent \<Rightarrow> minibatch \<Rightarrow> pyval list res" where
  "get_item_id_ndarray a mb =
     (if ia_enable_item_id_mapping a then loc mb (ia_item_id_column_name a)
      else case ia_item_ids_column_indices a of
        Some idx \<Rightarrow> raise_if (length idx \<noteq> 1) AssertionError (iloc mb (hd idx))
      | None \<Rightarrow>
          (case ia_item_ids_column_names a of
             None \<Rightarrow> Inl AssertionError
           | Some names \<Rightarrow> raise_if (length names \<noteq> 1) AssertionError (loc mb (hd names))))"

text \<open>\<open>astype(numpy.int64)\<close> of a cell; a \<open>ValueError\<close> becomes a \<open>RuntimeError\<close>.\<close>

definition check_int64 :: "int \<Rightarrow> int res" where
  "check_int64 i = raise_if (i < - (2 ^ 63) \<or> 2 ^ 63 \<le> i) OverflowError (Inr i)"

fun to_int64 :: "pyval \<Rightarrow> int res" where
  "to_int64 (PInt i) = check_int64 i"
| "to_int64 (PBool b) = Inr (if b then 1 else 0)"
| "to_int64 (PFloat (FFin r)) = check_int64 (if r < 0 then \<lceil>r\<rceil> else \<lfloor>r\<rfloor>)"
| "to_int64 (PFloat (FInf _)) = Inl OverflowError"
| "to_int64 (PFloat FNaN) = Inl RuntimeError"
| "to_int64 (PStr s) = (case py_int s of None \<Rightarrow> Inl RuntimeError | Some i \<Rightarrow> check_int64 i)"
| "to_int64 _ = Inl TypeError"

definition faiss_item_ids :: "index_agent \<Rightarrow> minibatch \<Rightarrow> int list res" where
  "faiss_item_ids a mb = bindR (get_item_id_ndarray a mb) (mapR to_int64)"

text \<open>The text of a mapped field: nothing for \<open>None\<close>.\<close>

definition field_text :: "(pyval \<Rightarrow> string) \<Rightarrow> nat \<Rightarrow> pyval list \<Rightarrow> string res" where
  "field_text fmt i c = raise_if (length c \<le> i) IndexError (Inr (if c ! i = PNone then [] else fmt (c ! i)))"

definition mapped_fields :: "(pyval \<Rightarrow> string) \<Rightarrow> index_agent \<Rightarrow> minibatch \<Rightarrow> nat \<Rightarrow> string list res" where
  "mapped_fields fmt a mb i =
     (if \<not> ia_enable_item_id_mapping a then Inr []
      else case ia_item_ids_column_indices a of
        Some idx \<Rightarrow> mapR (\<lambda>j. bindR (iloc mb j) (field_text fmt i)) idx
      | None \<Rightarrow>
          (case ia_item_ids_column_names a of
             None \<Rightarrow> Inl TypeError
           | Some names \<Rightarrow> mapR (\<lambda>n. bindR (loc mb n) (field_text fmt i)) names))"

text \<open>The line of one item: identifier, delimiter, mapped fields, and a delimiter and the embedding.\<close>

definition item_line ::
  "(pyval \<Rightarrow> string) \<Rightarrow> ('e \<Rightarrow> string) \<Rightarrow> index_agent \<Rightarrow> minibatch \<Rightarrow> 'e list list \<Rightarrow> nat \<Rightarrow> string \<Rightarrow> string res" where
  "item_line fmt ffmt a mb embeddings i ident =
     bindR (mapped_fields fmt a mb i) (\<lambda>fs.
     raise_if (ia_output_item_embeddings a \<and> length embeddings \<le> i) IndexError
     (Inr (ident @ ia_item_ids_field_delimiter a @ join (ia_item_ids_value_delimiter a) fs @
       (if ia_output_item_embeddings a
        then ia_item_ids_field_delimiter a @ join (ia_item_ids_value_delimiter a) (map ffmt (embeddings ! i)) else []) @
       [NL])))"

definition make_item_ids_mapping_batch ::
  "(pyval \<Rightarrow> string) \<Rightarrow> ('e \<Rightarrow> string) \<Rightarrow> index_agent \<Rightarrow> minibatch \<Rightarrow> 'e list list \<Rightarrow> string list \<Rightarrow> string res" where
  "make_item_ids_mapping_batch fmt ffmt a mb embeddings idents =
     bindR (mapR (\<lambda>(i, s). item_line fmt ffmt a mb embeddings i s) (zip [0..<length idents] idents))
       (\<lambda>lines. Inr (concat lines))"

definition make_item_ids_schema :: "bool \<Rightarrow> bool \<Rightarrow> string \<Rightarrow> spark_schema" where
  "make_item_ids_schema mapping out id_type =
     (let f = (\<lambda>n t. \<lparr>sf_name = n, sf_type = t, sf_nullable = True\<rparr>) in
      (if mapping then [f ''id'' LongT, f ''name'' StringT]
       else [f ''id'' (if id_type = ''int64'' then LongT else StringT)]) @
      (if out then [f ''item_embedding'' (ArrayT FloatT)] else []))"

text \<open>The metadata are read with the types with which they were written.\<close>

definition meta_bool :: "pyval dict \<Rightarrow> string \<Rightarrow> bool res" where
  "meta_bool meta k = (case dict_get meta k of None \<Rightarrow> Inl KeyError | Some v \<Rightarrow> Inr (py_truth v))"

definition meta_str :: "pyval dict \<Rightarrow> string \<Rightarrow> string res" where
  "meta_str meta k = (case dict_get meta k of Some (PStr s) \<Rightarrow> Inr s | None \<Rightarrow> Inl KeyError | _ \<Rightarrow> Inl TypeError)"

definition load_item_ids :: "string \<Rightarrow> index_agent \<Rightarrow> pyval dict \<Rightarrow> csv_read option res" where
  "load_item_ids cls a meta =
     bindR (meta_str meta ''item_ids_field_delimiter'') (\<lambda>fd.
     bindR (meta_str meta ''item_ids_value_delimiter'') (\<lambda>vd.
     bindR (meta_bool meta ''have_item_ids_partition_files'') (\<lambda>with_files.
     if \<not> with_files then Inr None
     else
       bindR (meta_bool meta ''enable_item_id_mapping'') (\<lambda>mapping.
       bindR (meta_bool meta ''output_item_embeddings'') (\<lambda>out.
       bindR (meta_str meta ''item_id_column_type'') (\<lambda>t.
       bindR (read_s3_csv (item_ids_dir cls a) False 1 False False fd vd ''UTF-8''
                (Some (make_item_ids_schema mapping out t)) None None) (\<lambda>r. Inr (Some r))))))))"

section \<open>Building and loading a Faiss index\<close>

datatype 'e index_file = MetaFile "pyval dict" | IdsFile string | ShardFile "(int \<times> 'e list) list"

type_synonym 'e index_store = "string \<rightharpoonup> 'e index_file"

text \<open>The builder of a worker before, while and after it builds its partition.\<close>

datatype 'e partition_state = NotStarted | Building "(int \<times> 'e list) list" | Finished

abbreviation faiss_class :: string where "faiss_class \<equiv> ''TwoTowerFaissIndexBuilder''"

definition append_ids :: "string \<Rightarrow> string \<Rightarrow> 'e index_store \<Rightarrow> 'e index_store" where
  "append_ids path text st = (case st path of Some (IdsFile old) \<Rightarrow> st(path \<mapsto> IdsFile (old @ text)) | _ \<Rightarrow> st)"

definition begin_creating_index_partition ::
  "index_agent \<Rightarrow> 'e index_store \<Rightarrow> 'e index_store \<times> 'e partition_state" where
  "begin_creating_index_partition a st =
     (if have_item_ids_partition_files a then st(item_ids_partition_path faiss_class a \<mapsto> IdsFile []) else st,
      Building [])"

text \<open>\<open>_default_validate_minibatch\<close> on the embeddings that the item tower gave.\<close>

definition faiss_validate_minibatch ::
  "(pyval \<Rightarrow> string) \<Rightarrow> ('e \<Rightarrow> string) \<Rightarrow> index_agent \<Rightarrow> minibatch \<Rightarrow> 'e list list \<Rightarrow> (int \<times> 'e list) list \<Rightarrow>
   'e index_store \<Rightarrow> ('e index_store \<times> 'e partition_state) res" where
  "faiss_validate_minibatch fmt ffmt a mb embeddings shard st =
     bindR (faiss_item_ids a mb) (\<lambda>ids.
     bindR (if have_item_ids_partition_files a
            then bindR (make_item_ids_mapping_batch fmt ffmt a mb embeddings (map (\<lambda>i. fmt (PInt i)) ids))
                   (\<lambda>text. Inr (append_ids (item_ids_partition_path faiss_class a) text st))
            else Inr st) (\<lambda>st.
     raise_if (length ids \<noteq> length embeddings) AssertionError
     (Inr (st, Building (shard @ zip ids embeddings)))))"

definition end_creating_index_partition ::
  "index_agent \<Rightarrow> (int \<times> 'e list) list \<Rightarrow> 'e index_store \<Rightarrow> 'e index_store \<times> 'e partition_state" where
  "end_creating_index_partition a shard st =
     (st(item_index_partition_path faiss_class a \<mapsto> ShardFile shard), Finished)"

text \<open>
  The copy of \<open>_copy_index_files\<close> is that of a \<open>copy_dir\<close> which succeeds: every file below the source
  is laid over the destination. A copy that raises (a store that refuses, a source that is missing, a
  local destination that exists, which \<open>shutil.copytree\<close> does not accept) is not modelled.
\<close>

definition copy_index_files :: "string \<Rightarrow> index_agent \<Rightarrow> 'e index_store \<Rightarrow> 'e index_store" where
  "copy_index_files cls a st =
     (case ia_model_export_path a of
        None \<Rightarrow> st
      | Some p \<Rightarrow>
          let src = use_s3 (ia_model_in_path a @ index_type cls @ ''/'');
              dst = use_s3 (p @ index_type cls @ ''/'')
          in (\<lambda>k. if startswith k dst \<and> st (src @ drop (length dst) k) \<noteq> None
                  then st (src @ drop (length dst) k) else st k))"

definition faiss_meta :: "string \<Rightarrow> string \<Rightarrow> pyval dict" where
  "faiss_meta description metric =
     [(''faiss_index_description'', PStr description), (''faiss_metric_type'', PStr metric)]"

definition end_creating_index ::
  "string \<Rightarrow> string \<Rightarrow> index_agent \<Rightarrow> 'e index_store \<Rightarrow> 'e index_store res" where
  "end_creating_index description metric a st =
     bindR (make_index_meta faiss_item_id_column_type faiss_class (faiss_meta description metric) a) (\<lambda>meta.
     Inr (copy_index_files faiss_class a (st(index_meta_path faiss_class a \<mapsto> MetaFile meta))))"

definition get_index_meta :: "string \<Rightarrow> index_agent \<Rightarrow> 'e index_store \<Rightarrow> pyval dict res" where
  "get_index_meta cls a st = (case st (index_meta_path cls a) of Some (MetaFile m) \<Rightarrow> Inr m | _ \<Rightarrow> Inl OSError)"

definition meta_count :: "pyval dict \<Rightarrow> string \<Rightarrow> nat res" where
  "meta_count meta k = (case dict_get meta k of Some (PInt i) \<Rightarrow> Inr (nat i) | None \<Rightarrow> Inl KeyError | _ \<Rightarrow> Inl TypeError)"

definition read_shard :: "string \<Rightarrow> 'e index_store \<Rightarrow> (int \<times> 'e list) list res" where
  "read_shard path st = (case st path of Some (ShardFile s) \<Rightarrow> Inr s | _ \<Rightarrow> Inl RuntimeError)"

definition load_faiss_index :: "index_agent \<Rightarrow> 'e index_store \<Rightarrow> (int \<times> 'e list) list list res" where
  "load_faiss_index a st =
     bindR (get_index_meta faiss_class a st) (\<lambda>meta.
     bindR (meta_count meta ''partition_count'') (\<lambda>n.
     mapR (\<lambda>r. read_shard (item_index_dir faiss_class a @ partition_file_name n r) st) [0..<n]))"

text \<open>The constructor; \<open>known\<close> says which names are metric types of Faiss.\<close>

definition new_faiss_builder :: "(string \<Rightarrow> bool) \<Rightarrow> pyval option \<Rightarrow> pyval option \<Rightarrow> (string \<times> string) res" where
  "new_faiss_builder known description metric =
     (case (case description of None \<Rightarrow> PStr ''Flat'' | Some v \<Rightarrow> v,
            case metric of None \<Rightarrow> PStr ''METRIC_INNER_PRODUCT'' | Some v \<Rightarrow> v) of
        (PStr d, PStr m) \<Rightarrow>
          raise_if (d = [] \<or> m = []) TypeError (raise_if (\<not> known m) ValueError (Inr (d, m)))
      | _ \<Rightarrow> Inl TypeError)"

text \<open>A query returns identifiers and distances, and the embeddings when they are asked for.\<close>

definition search_item_embedding_batch ::
  "('x \<Rightarrow> 'e list list \<Rightarrow> int \<Rightarrow> (int list list \<times> 'd list list)) \<Rightarrow> index_agent \<Rightarrow> 'x \<Rightarrow> 'e list list \<Rightarrow>
   int list list \<times> 'd list list \<times> 'e list list option" where
  "search_item_embedding_batch search a index embeddings =
     (case search index embeddings (ia_retrieval_item_count a) of
        (indices, distances) \<Rightarrow>
          (indices, distances, if ia_output_user_embeddings a then Some embeddings else None))"

section \<open>All workers together\<close>

text \<open>
  The workers build their partitions in any order: a run is a list of labelled steps, each an operation of
  one worker. The agent of rank \<open>r\<close> has the settings of \<open>a\<close>.
\<close>

datatype 'e build_op = BeginPartition | Minibatch minibatch "'e list list" | EndPartition

record 'e build_state =
  bs_store :: "'e index_store"
  bs_parts :: "nat \<Rightarrow> 'e partition_state"

definition worker_agent :: "index_agent \<Rightarrow> nat \<Rightarrow> nat \<Rightarrow> index_agent" where
  "worker_agent a n r = a\<lparr>ia_rank := r, ia_worker_count := n, ia_is_coordinator := False\<rparr>"

inductive build_step ::
  "(pyval \<Rightarrow> string) \<Rightarrow> ('e \<Rightarrow> string) \<Rightarrow> index_agent \<Rightarrow> nat \<Rightarrow> nat \<times> 'e build_op \<Rightarrow>
   'e build_state \<Rightarrow> 'e build_state \<Rightarrow> bool"
  for fmt ffmt a n where
  begin_partition:
    "bs_parts s r = NotStarted \<Longrightarrow> begin_creating_index_partition (worker_agent a n r) (bs_store s) = (st, p) \<Longrightarrow>
     build_step fmt ffmt a n (r, BeginPartition) s \<lparr>bs_store = st, bs_parts = (bs_parts s)(r := p)\<rparr>"
| minibatch:
    "bs_parts s r = Building sh \<Longrightarrow>
     faiss_validate_minibatch fmt ffmt (worker_agent a n r) mb e sh (bs_store s) = Inr (st, p) \<Longrightarrow>
     build_step fmt ffmt a n (r, Minibatch mb e) s \<lparr>bs_store = st, bs_parts = (bs_parts s)(r := p)\<rparr>"
| end_partition:
    "bs_parts s r = Building sh \<Longrightarrow> end_creating_index_partition (worker_agent a n r) sh (bs_store s) = (st, p) \<Longrightarrow>
     build_step fmt ffmt a n (r, EndPartition) s \<lparr>bs_store = st, bs_parts = (bs_parts s)(r := p)\<rparr>"

inductive build_run ::
  "(pyval \<Rightarrow> string) \<Rightarrow> ('e \<Rightarrow> string) \<Rightarrow> index_agent \<Rightarrow> nat \<Rightarrow> 'e index_store \<Rightarrow> (nat \<times> 'e build_op) list \<Rightarrow>
   'e build_state \<Rightarrow> bool"
  for fmt ffmt a n st0 where
  start: "build_run fmt ffmt a n st0 [] \<lparr>bs_store = st0, bs_parts = (\<lambda>_. NotStarted)\<rparr>"
| step: "build_run fmt ffmt a n st0 ls s \<Longrightarrow> build_step fmt ffmt a n l s s' \<Longrightarrow>
     build_run fmt ffmt a n st0 (ls @ [l]) s'"

text \<open>The items of a minibatch with their embeddings, and those of a worker in a run.\<close>

definition item_rows :: "index_agent \<Rightarrow> minibatch \<Rightarrow> 'e list list \<Rightarrow> (int \<times> 'e list) list" where
  "item_rows a mb e = (case faiss_item_ids a mb of Inl _ \<Rightarrow> [] | Inr ids \<Rightarrow> zip ids e)"

definition rows_of_label :: "index_agent \<Rightarrow> nat \<Rightarrow> nat \<times> 'e build_op \<Rightarrow> (int \<times> 'e list) list" where
  "rows_of_label a r l = (case l of (r', Minibatch mb e) \<Rightarrow> if r' = r then item_rows a mb e else [] | _ \<Rightarrow> [])"

definition rows_of :: "index_agent \<Rightarrow> nat \<Rightarrow> (nat \<times> 'e build_op) list \<Rightarrow> (int \<times> 'e list) list" where
  "rows_of a r ls = concat (map (rows_of_label a r) ls)"

section \<open>Paths\<close>

lemma replace_scheme_suffix:
  assumes "CHR '':'' \<notin> set y" and "y \<noteq> []" "hd y \<noteq> CHR ''/''"
  shows "replace_all ''s3a://'' ''s3://'' (x @ CHR ''/'' # y) = replace_all ''s3a://'' ''s3://'' (x @ ''/'') @ y"
proof (induction "length x" arbitrary: x rule: less_induct)
  case less
  let ?p = "''s3a://''"
  have y: "replace_all ?p ''s3://'' y = y" by (rule replace_all_absent [of "CHR '':''"]) (use assms in auto)
  show ?case
  proof (cases x)
    case Nil
    then show ?thesis
      by (simp add: replace_all.simps [of _ _ "CHR ''/'' # _"] replace_all.simps [of _ _ "[]"] startswith_def y)
  next
    case (Cons c cs)
    let ?long = "x @ CHR ''/'' # y" and ?short = "x @ ''/''"
    have same: "startswith ?long ?p = startswith ?short ?p"
    proof (cases "5 \<le> length x")
      case True
      then have "6 - length x = 0 \<or> 6 - length x = 1" by arith
      then have "take (6 - length x) (CHR ''/'' # y) = take (6 - length x) ''/''" by auto
      then show ?thesis by (simp add: startswith_def numeral_eq_Suc del: take_Suc_Cons)
    next
      case False
      then have "length cs < 4" using Cons by simp
      then have "length cs = 0 \<or> length cs = 1 \<or> length cs = 2 \<or> length cs = 3" by arith
      then have "\<not> startswith ?long ?p"
        using assms Cons
        by (cases y; cases cs; cases "tl cs"; cases "tl (tl cs)") (auto simp: startswith_def)
      moreover have "\<not> startswith ?short ?p" using False by (auto simp: startswith_def)
      ultimately show ?thesis by simp
    qed
    show ?thesis
    proof (cases "startswith ?short ?p")
      case True
      then have len: "5 \<le> length x" by (auto simp: startswith_def dest!: arg_cong [of _ _ length])
      have "replace_all ?p ''s3://'' (drop 6 ?long) = replace_all ?p ''s3://'' (drop 6 ?short) @ y"
      proof (cases "length x = 5")
        case True
        then show ?thesis by (simp add: y replace_all.simps [of _ _ "[]"])
      next
        case False
        then have "length (drop 6 x) < length x" using len by simp
        from less [OF this] show ?thesis using False len by (simp add: drop_append)
      qed
      then show ?thesis
        using True same Cons by (simp add: replace_all.simps [of _ _ "c # _"] numeral_eq_Suc)
    next
      case False
      then show ?thesis
        using same Cons less [of cs] by (simp add: replace_all.simps [of _ _ "c # _"])
    qed
  qed
qed


lemma item_index_dir_eq: "item_index_dir cls a = index_meta_dir cls a @ ''item_index/''"
  using replace_scheme_suffix [of "''item_index/''" "ia_model_in_path a @ index_type cls"]
  by (simp add: item_index_dir_def index_meta_dir_def use_s3_def)

lemma item_ids_dir_eq: "item_ids_dir cls a = index_meta_dir cls a @ ''item_ids/''"
  using replace_scheme_suffix [of "''item_ids/''" "ia_model_in_path a @ index_type cls"]
  by (simp add: item_ids_dir_def index_meta_dir_def use_s3_def)

lemma worker_agent_simps [simp]:
  "index_meta_dir cls (worker_agent a n r) = index_meta_dir cls a"
  "ia_rank (worker_agent a n r) = r" "ia_worker_count (worker_agent a n r) = n"
  "have_item_ids_partition_files (worker_agent a n r) = have_item_ids_partition_files a"
  by (simp_all add: worker_agent_def index_meta_dir_def have_item_ids_partition_files_def)

lemma faiss_item_ids_worker [simp]: "faiss_item_ids (worker_agent a n r) mb = faiss_item_ids a mb"
  by (simp add: worker_agent_def faiss_item_ids_def get_item_id_ndarray_def cong: option.case_cong if_cong)

lemma partition_file_name_eq [simp]: "partition_file_name n r = partition_file_name n r' \<longleftrightarrow> r = r'"
proof -
  have "str_nat r = str_nat r' \<Longrightarrow> r = r'" by (metis nat_of_digits_str_nat)
  then show ?thesis by (auto simp: partition_file_name_def)
qed

lemmas index_paths =
  item_index_partition_path_def item_ids_partition_path_def item_index_dir_eq item_ids_dir_eq index_meta_path_def

text \<open>Appending to the identifiers of a worker leaves the shards and the metadata alone.\<close>

lemma append_ids_other [simp]: "k \<noteq> path \<Longrightarrow> append_ids path text st k = st k"
  by (auto simp: append_ids_def split: option.splits index_file.splits)

lemma faiss_validate_minibatch_shard:
  assumes "faiss_validate_minibatch fmt ffmt (worker_agent a n r) mb e sh st = Inr (st', p)"
  shows "p = Building (sh @ item_rows a mb e)"
    and "st' (index_meta_dir faiss_class a @ ''item_index/'' @ y) = st (index_meta_dir faiss_class a @ ''item_index/'' @ y)"
  using assms
  by (auto simp: faiss_validate_minibatch_def item_rows_def index_paths res_iffs split: if_splits)

section \<open>The finished index\<close>

definition partition_ok :: "index_agent \<Rightarrow> nat \<Rightarrow> (nat \<times> 'e build_op) list \<Rightarrow> 'e build_state \<Rightarrow> nat \<Rightarrow> bool" where
  "partition_ok a n ls s r =
     (case bs_parts s r of
        NotStarted \<Rightarrow> rows_of a r ls = []
      | Building sh \<Rightarrow> sh = rows_of a r ls
      | Finished \<Rightarrow> bs_store s (item_index_partition_path faiss_class (worker_agent a n r)) =
          Some (ShardFile (rows_of a r ls)))"

lemma rows_of_snoc [simp]: "rows_of a r (ls @ [l]) = rows_of a r ls @ rows_of_label a r l"
  by (simp add: rows_of_def)

lemma rows_of_Nil [simp]: "rows_of a r [] = []"
  by (simp add: rows_of_def)


lemma build_step_partition_ok:
  assumes "build_step fmt ffmt a n l s s'" and "\<And>r. partition_ok a n ls s r"
  shows "partition_ok a n (ls @ [l]) s' r"
  using assms(1)
proof cases
  case (begin_partition r0 st p)
  then show ?thesis
    using assms(2) [of r]
    by (auto simp: partition_ok_def rows_of_label_def begin_creating_index_partition_def index_paths
        split: if_splits partition_state.splits)
next
  case (minibatch r0 sh mb e st p)
  note shard = faiss_validate_minibatch_shard [OF minibatch(4)]
  show ?thesis
    using assms(2) [of r] minibatch(1-3) shard
    by (auto simp: partition_ok_def rows_of_label_def index_paths split: partition_state.splits)
next
  case (end_partition r0 sh st p)
  then show ?thesis
    using assms(2) [of r]
    by (auto simp: partition_ok_def rows_of_label_def end_creating_index_partition_def index_paths
        split: partition_state.splits)
qed

lemma build_run_partition_ok:
  assumes "build_run fmt ffmt a n st0 ls s"
  shows "partition_ok a n ls s r"
  using assms
proof (induction arbitrary: r)
  case start
  then show ?case by (simp add: partition_ok_def)
next
  case (step ls s l s')
  then show ?case using build_step_partition_ok by blast
qed

lemma mapR_Inr_map: "(\<And>x. x \<in> set xs \<Longrightarrow> f x = Inr (g x)) \<Longrightarrow> mapR f xs = Inr (map g xs)"
  by (induction xs) auto

lemma index_loaded:
  assumes run: "build_run fmt ffmt a (ia_worker_count a) st0 ls s"
    and finished: "\<And>r. r < ia_worker_count a \<Longrightarrow> bs_parts s r = Finished"
    and ended: "end_creating_index description metric a (bs_store s) = Inr st"
    and b: "ia_model_in_path b = (case ia_model_export_path a of None \<Rightarrow> ia_model_in_path a | Some p \<Rightarrow> p)"
  shows "load_faiss_index b st = Inr (map (\<lambda>r. rows_of a r ls) [0..<ia_worker_count a])"
proof -
  obtain meta where meta: "make_index_meta faiss_item_id_column_type faiss_class (faiss_meta description metric) a = Inr meta"
    and st: "st = copy_index_files faiss_class a ((bs_store s)(index_meta_path faiss_class a \<mapsto> MetaFile meta))"
    using ended by (auto simp: end_creating_index_def res_iffs)
  let ?old = "(bs_store s)(index_meta_path faiss_class a \<mapsto> MetaFile meta)"
  have copied: "st (index_meta_dir faiss_class b @ y) = ?old (index_meta_dir faiss_class a @ y)"
    if "?old (index_meta_dir faiss_class a @ y) \<noteq> None" for y
    using that b
    by (auto simp: st copy_index_files_def Let_def index_meta_dir_def startswith_def split: option.splits if_splits)
  have "get_index_meta faiss_class b st = Inr meta"
    using copied [of "''index_meta.json''"] by (simp add: get_index_meta_def index_meta_path_def)
  moreover have "meta_count meta ''partition_count'' = Inr (ia_worker_count a)"
    using meta by (auto simp: make_index_meta_def res_iffs meta_count_def dict_get_def)
  moreover have "mapR (\<lambda>r. read_shard (item_index_dir faiss_class b @ partition_file_name (ia_worker_count a) r) st)
      [0..<ia_worker_count a] = Inr (map (\<lambda>r. rows_of a r ls) [0..<ia_worker_count a])"
  proof (rule mapR_Inr_map)
    fix r assume "r \<in> set [0..<ia_worker_count a]"
    then have "?old (index_meta_dir faiss_class a @ ''item_index/'' @ partition_file_name (ia_worker_count a) r) =
        Some (ShardFile (rows_of a r ls))"
      using build_run_partition_ok [OF run, of r] finished [of r]
      by (simp add: partition_ok_def index_paths)
    then show "read_shard (item_index_dir faiss_class b @ partition_file_name (ia_worker_count a) r) st =
        Inr (rows_of a r ls)"
      using copied by (simp add: read_shard_def index_paths)
  qed
  ultimately show ?thesis by (simp add: load_faiss_index_def)
qed

section \<open>Executing the steps\<close>

fun build_next ::
  "(pyval \<Rightarrow> string) \<Rightarrow> ('e \<Rightarrow> string) \<Rightarrow> index_agent \<Rightarrow> nat \<Rightarrow> 'e build_state \<Rightarrow> nat \<times> 'e build_op \<Rightarrow>
   'e build_state option" where
  "build_next fmt ffmt a n s (r, op) =
     (case (bs_parts s r, op) of
        (NotStarted, BeginPartition) \<Rightarrow>
          (case begin_creating_index_partition (worker_agent a n r) (bs_store s) of
             (st, p) \<Rightarrow> Some \<lparr>bs_store = st, bs_parts = (bs_parts s)(r := p)\<rparr>)
      | (Building sh, Minibatch mb e) \<Rightarrow>
          (case faiss_validate_minibatch fmt ffmt (worker_agent a n r) mb e sh (bs_store s) of
             Inl _ \<Rightarrow> None
           | Inr (st, p) \<Rightarrow> Some \<lparr>bs_store = st, bs_parts = (bs_parts s)(r := p)\<rparr>)
      | (Building sh, EndPartition) \<Rightarrow>
          (case end_creating_index_partition (worker_agent a n r) sh (bs_store s) of
             (st, p) \<Rightarrow> Some \<lparr>bs_store = st, bs_parts = (bs_parts s)(r := p)\<rparr>)
      | _ \<Rightarrow> None)"

lemma build_step_next: "build_step fmt ffmt a n l s s' \<longleftrightarrow> build_next fmt ffmt a n s l = Some s'"
  by (cases l)
    (auto simp: build_step.simps split: partition_state.splits build_op.splits prod.splits sum.splits)

fun build_all ::
  "(pyval \<Rightarrow> string) \<Rightarrow> ('e \<Rightarrow> string) \<Rightarrow> index_agent \<Rightarrow> nat \<Rightarrow> 'e build_state \<Rightarrow> (nat \<times> 'e build_op) list \<Rightarrow>
   'e build_state option" where
  "build_all fmt ffmt a n s [] = Some s"
| "build_all fmt ffmt a n s (l # ls) =
     (case build_next fmt ffmt a n s l of None \<Rightarrow> None | Some s' \<Rightarrow> build_all fmt ffmt a n s' ls)"

lemma build_all_run:
  assumes "build_run fmt ffmt a n st0 ls s" and "build_all fmt ffmt a n s ls' = Some s'"
  shows "build_run fmt ffmt a n st0 (ls @ ls') s'"
  using assms
proof (induction ls' arbitrary: ls s)
  case (Cons l ls')
  then obtain s1 where "build_next fmt ffmt a n s l = Some s1" "build_all fmt ffmt a n s1 ls' = Some s'"
    by (auto split: option.splits)
  with Cons show ?case using build_run.step [of fmt ffmt a n st0 ls s l s1] by (fastforce simp: build_step_next)
qed simp

lemmas build_all_run_start = build_all_run [OF build_run.start, simplified]

definition example_agent :: index_agent where
  "example_agent = \<lparr>ia_item_embedding_size = 1, ia_item_id_column_name = ''item_id'',
     ia_item_ids_column_indices = None, ia_item_ids_column_names = Some [''name''],
     ia_item_ids_field_delimiter = '';'', ia_item_ids_value_delimiter = '','', ia_enable_item_id_mapping = True,
     ia_output_item_embeddings = True, ia_output_user_embeddings = False, ia_increasing_id_column_name = ''id'',
     ia_recommendation_info_column_name = ''rec'', ia_retrieval_item_count = 2, ia_model_in_path = ''s3://b/m/'',
     ia_model_export_path = Some ''s3://b/out/'', ia_dataset = [], ia_rank = 0, ia_worker_count = 2,
     ia_is_coordinator = True\<rparr>"

definition example_labels :: "(nat \<times> int build_op) list" where
  "example_labels =
     [(0, BeginPartition), (1, BeginPartition),
      (1, Minibatch [(''item_id'', [PInt 9]), (''name'', [PStr ''pen''])] [[4]]),
      (0, Minibatch [(''item_id'', [PInt 7, PInt 8]), (''name'', [PStr ''cup'', PNone])] [[1], [2]]),
      (0, EndPartition), (1, EndPartition)]"

definition example_state :: "int build_state option" where
  "example_state = build_all (\<lambda>v. case v of PInt i \<Rightarrow> str_int i | PStr s \<Rightarrow> s | _ \<Rightarrow> []) str_int example_agent 2
     \<lparr>bs_store = Map.empty, bs_parts = (\<lambda>_. NotStarted)\<rparr> example_labels"

lemma example_state_parts: "map_option (\<lambda>s. map (bs_parts s) [0, 1]) example_state = Some [Finished, Finished]"
  by code_simp


text \<open>
  C2: However the workers interleave their steps, once every partition is finished and the metadata are
  written, an agent that reads the exported index (the index itself when nothing is exported) finds in
  partition \<open>r\<close> exactly the items that worker \<open>r\<close> indexed, in the order of its minibatches.
\<close>

theorem index_complete:
  assumes run: "build_run fmt ffmt a (ia_worker_count a) st0 ls s"
    and finished: "\<And>r. r < ia_worker_count a \<Longrightarrow> bs_parts s r = Finished"
    and ended: "end_creating_index description metric a (bs_store s) = Inr st"
    and b: "ia_model_in_path b = (case ia_model_export_path a of None \<Rightarrow> ia_model_in_path a | Some p \<Rightarrow> p)"
  shows "load_faiss_index b st = Inr (map (\<lambda>r. rows_of a r ls) [0..<ia_worker_count a])"
  by (rule index_loaded) (fact assms)+

theorem index_complete_witness:
  "\<exists>(s :: int build_state) st. end_creating_index ''Flat'' ''METRIC_INNER_PRODUCT'' example_agent (bs_store s) = Inr st \<and>
     load_faiss_index (example_agent\<lparr>ia_model_in_path := ''s3://b/out/''\<rparr>) st = Inr [[(7, [1]), (8, [2])], [(9, [4::int])]]"
proof -
  obtain s where s: "example_state = Some s" and parts: "map (bs_parts s) [0, 1] = [Finished, Finished]"
    using example_state_parts by (auto split: option.splits)
  have count: "ia_worker_count example_agent = 2" by (simp add: example_agent_def)
  obtain fmt ffmt where run: "build_run fmt ffmt example_agent (ia_worker_count example_agent) Map.empty example_labels s"
    using build_all_run_start s by (fastforce simp: example_state_def count)
  have fin: "bs_parts s r = Finished" if "r < ia_worker_count example_agent" for r
    using that parts by (auto simp: count less_2_cases_iff)
  obtain st where st: "end_creating_index ''Flat'' ''METRIC_INNER_PRODUCT'' example_agent (bs_store s) = Inr st"
    by (simp add: end_creating_index_def make_index_meta_def item_id_column_type_def example_agent_def)
  have rows: "map (\<lambda>r. rows_of example_agent r example_labels) [0..<ia_worker_count example_agent] =
      [[(7, [1]), (8, [2])], [(9, [4])]]"
    by code_simp
  have b: "ia_model_in_path (example_agent\<lparr>ia_model_in_path := ''s3://b/out/''\<rparr>) =
      (case ia_model_export_path example_agent of None \<Rightarrow> ia_model_in_path example_agent | Some p \<Rightarrow> p)"
    by (simp add: example_agent_def)
  have "load_faiss_index (example_agent\<lparr>ia_model_in_path := ''s3://b/out/''\<rparr>) st =
      Inr [[(7, [1]), (8, [2])], [(9, [4])]]"
    using index_complete [OF run _ st b] fin by (simp only: rows)
  with st show ?thesis by (intro exI conjI)
qed

section \<open>The file of item identifiers\<close>

lemma item_line_fields:
  assumes "item_line fmt ffmt a mb e i ident = Inr line"
    and "ia_item_ids_field_delimiter a = [fd]" and "fd \<notin> set ident"
    and "\<And>fs. mapped_fields fmt a mb i = Inr fs \<Longrightarrow> fd \<notin> set (join (ia_item_ids_value_delimiter a) fs)"
    and "fd \<notin> set (join (ia_item_ids_value_delimiter a) (map ffmt (e ! i)))"
  shows "\<exists>fs. mapped_fields fmt a mb i = Inr fs \<and>
    split_on fd (butlast line) = [ident, join (ia_item_ids_value_delimiter a) fs] @
      (if ia_output_item_embeddings a then [join (ia_item_ids_value_delimiter a) (map ffmt (e ! i))] else [])"
proof -
  obtain fs where fs: "mapped_fields fmt a mb i = Inr fs"
    and line: "line = ident @ fd # join (ia_item_ids_value_delimiter a) fs @
       (if ia_output_item_embeddings a
        then fd # join (ia_item_ids_value_delimiter a) (map ffmt (e ! i)) else []) @ [NL]"
    using assms(1,2) by (auto simp: item_line_def res_iffs)
  show ?thesis
    using fs assms(3,5) assms(4) [OF fs]
    by (cases "ia_output_item_embeddings a")
      (simp_all add: line butlast_append split_on_field split_on_absent)
qed


text \<open>
  A line of the identifiers file splits at the field delimiter into the identifier, the mapped fields
  joined by the value delimiter and, when embeddings are written, the embedding, provided the delimiter occurs
  in none of them. These are as many columns as the schema with which the file is read has exactly when the
  identifiers are mapped: without a mapping the line still has the empty second column.
\<close>

theorem item_ids_columns:
  assumes "item_line fmt ffmt a mb e i ident = Inr line"
    and "ia_item_ids_field_delimiter a = [fd]" and "fd \<notin> set ident"
    and "\<And>fs. mapped_fields fmt a mb i = Inr fs \<Longrightarrow> fd \<notin> set (join (ia_item_ids_value_delimiter a) fs)"
    and "fd \<notin> set (join (ia_item_ids_value_delimiter a) (map ffmt (e ! i)))"
  shows "(\<exists>fs. mapped_fields fmt a mb i = Inr fs \<and>
      split_on fd (butlast line) = [ident, join (ia_item_ids_value_delimiter a) fs] @
        (if ia_output_item_embeddings a then [join (ia_item_ids_value_delimiter a) (map ffmt (e ! i))] else [])) \<and>
    (length (split_on fd (butlast line)) =
      length (make_item_ids_schema (ia_enable_item_id_mapping a) (ia_output_item_embeddings a) t) \<longleftrightarrow>
      ia_enable_item_id_mapping a)"
proof -
  have "\<exists>fs. mapped_fields fmt a mb i = Inr fs \<and>
      split_on fd (butlast line) = [ident, join (ia_item_ids_value_delimiter a) fs] @
        (if ia_output_item_embeddings a then [join (ia_item_ids_value_delimiter a) (map ffmt (e ! i))] else [])"
    by (rule item_line_fields) (fact assms)+
  then show ?thesis by (auto simp: make_item_ids_schema_def Let_def)
qed

definition unmapped_agent :: index_agent where
  "unmapped_agent = example_agent\<lparr>ia_enable_item_id_mapping := False, ia_item_ids_column_names := Some [''item_id'']\<rparr>"

theorem item_ids_columns_witness:
  "length (split_on CHR '';'' ''7;;1,2'') \<noteq> length (make_item_ids_schema False True ''int64'')"
proof -
  let ?fmt = "\<lambda>v. case v of PInt i \<Rightarrow> str_int i | _ \<Rightarrow> []"
  have line: "item_line ?fmt str_int unmapped_agent [(''item_id'', [PInt 7])] [[1, 2]] 0 ''7'' = Inr (''7;;1,2'' @ [NL])"
    by code_simp
  have "ia_item_ids_field_delimiter unmapped_agent = [CHR '';'']" "CHR '';'' \<notin> set ''7''"
    by (simp_all add: unmapped_agent_def example_agent_def)
  moreover have "CHR '';'' \<notin> set (join (ia_item_ids_value_delimiter unmapped_agent) fs)"
    if "mapped_fields ?fmt unmapped_agent [(''item_id'', [PInt 7])] 0 = Inr fs" for fs
    using that by (simp add: mapped_fields_def unmapped_agent_def)
  moreover have "CHR '';'' \<notin> set (join (ia_item_ids_value_delimiter unmapped_agent) (map str_int ([[1, 2]] ! 0)))"
    by code_simp
  ultimately show ?thesis
    using item_ids_columns [OF line, where t = "''int64''"]
    by (simp add: unmapped_agent_def example_agent_def)
qed

end
