(* ===== verification/Towers.thy ===== *)
theory Towers
  imports Retrieval
begin

text \<open>
  \<open>python/metaspore/two_tower_retrieval.py\<close>, the side of the user: the module of the two towers, the
  settings that \<open>TwoTowerRetrievalHelperMixin\<close> adds to those of an estimator or a model, their checks, the
  fit with its second session that builds the index, the result columns of a query and their text form.
\<close>

section \<open>The module\<close>

record 'm retrieval_module =
  user_module :: 'm
  item_module :: 'm
  similarity_module :: 'm

definition new_retrieval_module :: "('m \<Rightarrow> bool) \<Rightarrow> 'm \<Rightarrow> 'm \<Rightarrow> 'm \<Rightarrow> 'm retrieval_module res" where
  "new_retrieval_module is_module u i s =
     raise_if (\<not> is_module u) TypeError (raise_if (\<not> is_module i) TypeError (raise_if (\<not> is_module s) TypeError
     (Inr \<lparr>user_module = u, item_module = i, similarity_module = s\<rparr>)))"

definition retrieval_forward ::
  "('m \<Rightarrow> 'x \<Rightarrow> 'v) \<Rightarrow> ('m \<Rightarrow> 'v \<Rightarrow> 'v \<Rightarrow> 'w) \<Rightarrow> 'm retrieval_module \<Rightarrow> 'x \<Rightarrow> 'w" where
  "retrieval_forward apply1 apply2 m x =
     apply2 (similarity_module m) (apply1 (user_module m) x) (apply1 (item_module m) x)"

section \<open>The settings\<close>

definition tower_defaults :: "pyval dict" where
  "tower_defaults =
     [(''item_dataset'', PNone), (''index_builder_class'', PNone), (''index_building_agent_class'', PNone),
      (''retrieval_agent_class'', PNone), (''item_embedding_size'', PNone),
      (''item_id_column_name'', PStr ''item_id''), (''item_ids_column_indices'', PNone),
      (''item_ids_column_names'', PNone), (''item_ids_field_delimiter'', PStr [CHR 0x02]),
      (''item_ids_value_delimiter'', PStr [CHR 0x01]), (''enable_item_id_mapping'', PBool False),
      (''output_item_embeddings'', PBool False), (''output_user_embeddings'', PBool False),
      (''increasing_id_column_name'', PStr ''iid''), (''recommendation_info_column_name'', PStr ''rec_info''),
      (''user_embedding_column_name'', PStr ''user_embedding''), (''retrieval_item_count'', PInt 10)]"

abbreviation tower_names :: "string list" where
  "tower_names \<equiv> map fst tower_defaults"

text \<open>The settings that the constructor copies into the attributes of the agents.\<close>

definition tower_agent_names :: "string list" where
  "tower_agent_names =
     [''item_embedding_size'', ''item_id_column_name'', ''item_ids_column_indices'', ''item_ids_column_names'',
      ''item_ids_field_delimiter'', ''item_ids_value_delimiter'', ''enable_item_id_mapping'',
      ''output_item_embeddings'', ''output_user_embeddings'', ''increasing_id_column_name'',
      ''recommendation_info_column_name'', ''user_embedding_column_name'', ''retrieval_item_count'']"

definition tower_values :: "pyval dict \<Rightarrow> pyval dict" where
  "tower_values kwargs = map (\<lambda>(n, d). (n, case dict_get kwargs n of None \<Rightarrow> d | Some v \<Rightarrow> v)) tower_defaults"

definition new_two_tower :: "pyval dict \<Rightarrow> pyobj" where
  "new_two_tower kwargs =
     (let base = new_helper [(n, v) \<leftarrow> kwargs. n \<notin> set tower_names];
          obj = dict_update base (tower_values kwargs)
      in dict_set ''extra_agent_attributes''
           (PDict (dict_update (extra_attributes base) (map (\<lambda>n. (n, attr obj n)) tower_agent_names))) obj)"

section \<open>The checks\<close>

record tower_world =
  tw_retrieval_module :: "pyval \<Rightarrow> bool"
  tw_dataframe :: "pyval \<Rightarrow> bool"
  tw_index_builder :: "pyval \<Rightarrow> bool"
  tw_building_agent :: "pyval \<Rightarrow> bool"
  tw_retrieval_agent :: "pyval \<Rightarrow> bool"

fun seq_items :: "pyval \<Rightarrow> pyval list" where
  "seq_items (PList xs) = xs"
| "seq_items (PTuple xs) = xs"
| "seq_items _ = []"

definition nonempty_str :: "pyval \<Rightarrow> bool" where
  "nonempty_str v \<longleftrightarrow> (case v of PStr s \<Rightarrow> s \<noteq> [] | _ \<Rightarrow> False)"

definition one_char :: "pyval \<Rightarrow> bool" where
  "one_char v \<longleftrightarrow> (case v of PStr s \<Rightarrow> length s = 1 | _ \<Rightarrow> False)"

definition nonempty_seq_of :: "(pyval \<Rightarrow> bool) \<Rightarrow> pyval \<Rightarrow> bool" where
  "nonempty_seq_of p v \<longleftrightarrow> seq_items v \<noteq> [] \<and> list_all p (seq_items v)"

definition tower_checks :: "tower_world \<Rightarrow> (pyobj \<Rightarrow> pyobj res) list" where
  "tower_checks T =
     [need ''module'' (tw_retrieval_module T), optional ''item_dataset'' (tw_dataframe T),
      optional ''index_builder_class'' (tw_index_builder T),
      optional ''index_building_agent_class'' (tw_building_agent T),
      optional ''retrieval_agent_class'' (tw_retrieval_agent T), need ''item_embedding_size'' is_pos_int,
      need ''item_id_column_name'' nonempty_str,
      optional ''item_ids_column_indices'' (nonempty_seq_of is_nonneg_int),
      optional ''item_ids_column_names'' (nonempty_seq_of is_str),
      need ''item_ids_field_delimiter'' one_char, need ''item_ids_value_delimiter'' one_char,
      need ''increasing_id_column_name'' nonempty_str, need ''recommendation_info_column_name'' nonempty_str,
      need ''user_embedding_column_name'' nonempty_str, need ''retrieval_item_count'' is_pos_int]"

definition check_two_tower :: "py_world \<Rightarrow> tower_world \<Rightarrow> pyobj \<Rightarrow> pyobj res" where
  "check_two_tower W T obj = bindR (check_properties W obj) (foldR (\<lambda>c. c) (tower_checks T))"

definition id_columns :: "pyobj \<Rightarrow> string \<Rightarrow> nat" where
  "id_columns obj n = length (seq_items (attr obj n))"

definition tower_estimator_checks :: "(pyobj \<Rightarrow> pyobj res) list" where
  "tower_estimator_checks =
     [forbid RuntimeError (\<lambda>obj. given obj ''model_export_path'' \<and> \<not> given obj ''item_dataset''),
      forbid RuntimeError (\<lambda>obj. \<not> given obj ''item_ids_column_indices'' \<and> \<not> given obj ''item_ids_column_names''),
      forbid RuntimeError (\<lambda>obj. \<not> py_truth (attr obj ''enable_item_id_mapping'') \<and>
        given obj ''item_ids_column_indices'' \<and> id_columns obj ''item_ids_column_indices'' \<noteq> 1),
      forbid RuntimeError (\<lambda>obj. \<not> py_truth (attr obj ''enable_item_id_mapping'') \<and>
        given obj ''item_ids_column_names'' \<and> id_columns obj ''item_ids_column_names'' \<noteq> 1)]"

definition check_tower_estimator :: "py_world \<Rightarrow> tower_world \<Rightarrow> pyobj \<Rightarrow> pyobj res" where
  "check_tower_estimator W T obj =
     bindR (check_estimator W obj) (foldR (\<lambda>c. c) (tower_checks T @ tower_estimator_checks))"

section \<open>The launchers and the fit\<close>

definition or_default :: "pyval \<Rightarrow> string \<Rightarrow> pyval" where
  "or_default v cls = (if py_truth v then v else PObj cls)"

definition get_index_building_agent_class :: "pyobj \<Rightarrow> pyval" where
  "get_index_building_agent_class obj = or_default (attr obj ''index_building_agent_class'') ''TwoTowerIndexBuildingAgent''"

definition get_retrieval_agent_class :: "pyobj \<Rightarrow> pyval" where
  "get_retrieval_agent_class obj = or_default (attr obj ''retrieval_agent_class'') ''TwoTowerIndexRetrievalAgent''"

definition create_tower_launcher ::
  "(pyobj \<Rightarrow> pyobj res) \<Rightarrow> pyval \<Rightarrow> bool \<Rightarrow> pyobj \<Rightarrow> (pyobj \<times> pyobj) res" where
  "create_tower_launcher check dataset training obj =
     bindR (create_launcher check dataset training obj) (\<lambda>(obj, l).
     Inr (obj, dict_set ''index_builder_class'' (attr obj ''index_builder_class'') l))"

definition initialize_tower_agent :: "pyobj \<Rightarrow> py_agent \<Rightarrow> py_agent" where
  "initialize_tower_agent l a =
     initialize_agent l (set_agent_attr ''index_builder_class'' (attr l ''index_builder_class'') a)"

definition get_tower_arguments :: "pyobj \<Rightarrow> pyval \<Rightarrow> pyval dict" where
  "get_tower_arguments obj mdl =
     dict_update (get_model_arguments obj mdl) (map (\<lambda>n. (n, attr obj n)) tower_names)"

definition create_tower_model :: "pyobj \<Rightarrow> pyval \<Rightarrow> pyobj" where
  "create_tower_model obj mdl = new_two_tower (get_tower_arguments obj mdl)"

text \<open>The launcher of the second session, which builds the index with the item tower.\<close>

definition indexing_launcher :: "pyobj \<Rightarrow> pyval \<Rightarrow> pyobj \<Rightarrow> pyobj" where
  "indexing_launcher obj item_mdl l =
     dict_update l [(''module'', item_mdl), (''tensor_name_prefix'', PStr ''_item_module.''),
       (''agent_class'', get_index_building_agent_class obj), (''model_in_path'', attr obj ''model_out_path''),
       (''model_out_path'', PNone)]"

definition fit_two_tower ::
  "(string \<Rightarrow> 's \<Rightarrow> 's res) \<Rightarrow> (string \<Rightarrow> 's \<Rightarrow> bool res) \<Rightarrow> py_world \<Rightarrow> tower_world \<Rightarrow>
   (pyobj \<Rightarrow> 's \<Rightarrow> 's \<times> (pyval \<times> pyval) res) \<Rightarrow> (pyval \<Rightarrow> pyval) \<Rightarrow> pyobj \<Rightarrow> pyval \<Rightarrow> 's \<Rightarrow>
   's \<times> (pyobj \<times> pyobj) res" where
  "fit_two_tower del ex W T run item_of obj dataset st =
     (case clear_output del obj st of
        (st1, Inl e) \<Rightarrow> (st1, Inl e)
      | (st1, Inr _) \<Rightarrow>
     (case create_tower_launcher (check_tower_estimator (W\<lparr>pw_dir_exists := \<lambda>u. ex u st1\<rparr>) T) dataset True obj of
        Inl e \<Rightarrow> (st1, Inl e)
      | Inr (obj1, l) \<Rightarrow>
     (case run (dict_set ''model_export_selector'' (PTuple [PObj ''user_module'', PStr ''_user_module.'']) l) st1 of
        (st2, Inl e) \<Rightarrow> (st2, Inl e)
      | (st2, Inr (mdl, metric)) \<Rightarrow>
     (case (if given obj1 ''item_dataset''
            then case create_tower_launcher (check_tower_estimator (W\<lparr>pw_dir_exists := \<lambda>u. ex u st2\<rparr>) T)
                        (attr obj1 ''item_dataset'') False obj1 of
                   Inl e \<Rightarrow> (st2, Inl e)
                 | Inr (obj2, l2) \<Rightarrow>
                     (case run (indexing_launcher obj2 (item_of mdl) l2) st2 of
                        (st3, Inl e) \<Rightarrow> (st3, Inl e) | (st3, Inr _) \<Rightarrow> (st3, Inr obj2))
            else (st2, Inr obj1)) of
        (st3, Inl e) \<Rightarrow> (st3, Inl e)
      | (st3, Inr obj2) \<Rightarrow>
          (st3, Inr (create_tower_model obj2 mdl, dict_set ''final_metric'' metric obj2))))))"

text \<open>The launcher of a query, which runs the user tower.\<close>

definition query_launcher :: "pyobj \<Rightarrow> pyval \<Rightarrow> pyobj \<Rightarrow> pyobj" where
  "query_launcher obj user_mdl l =
     dict_update l [(''module'', user_mdl), (''tensor_name_prefix'', PStr ''_user_module.''),
       (''agent_class'', get_retrieval_agent_class obj)]"

text \<open>
  \<open>run\<close> gives the dataset with its increasing identifiers, the raw recommendations, the identifiers of the
  items if they are in files, and the metric; \<open>combine\<close> is the join of the three in Spark.
\<close>

definition transform_two_tower ::
  "(string \<Rightarrow> 's \<Rightarrow> bool res) \<Rightarrow> py_world \<Rightarrow> tower_world \<Rightarrow>
   (pyobj \<Rightarrow> 's \<Rightarrow> 's \<times> ('f \<times> 'f \<times> 'f option \<times> pyval) res) \<Rightarrow> (pyval \<Rightarrow> pyval) \<Rightarrow>
   ('f \<Rightarrow> 'f \<Rightarrow> 'f option \<Rightarrow> 'f res) \<Rightarrow> pyobj \<Rightarrow> pyval \<Rightarrow> 's \<Rightarrow> 's \<times> ('f \<times> pyobj) res" where
  "transform_two_tower ex W T run user_of combine obj dataset st =
     (case create_tower_launcher (check_two_tower (W\<lparr>pw_dir_exists := \<lambda>u. ex u st\<rparr>) T) dataset False obj of
        Inl e \<Rightarrow> (st, Inl e)
      | Inr (obj', l) \<Rightarrow>
     (case run (query_launcher obj' (user_of (attr obj' ''module'')) l) st of
        (st2, Inl e) \<Rightarrow> (st2, Inl e)
      | (st2, Inr (df, rec_info, item_ids, metric)) \<Rightarrow>
          (st2, bindR (combine df rec_info item_ids) (\<lambda>r. Inr (r, dict_set ''final_metric'' metric obj')))))"

section \<open>The result of a query\<close>

definition info_name :: "index_agent \<Rightarrow> string \<Rightarrow> string" where
  "info_name a s = ia_recommendation_info_column_name a @ s"

definition make_validation_result ::
  "index_agent \<Rightarrow> 'c \<Rightarrow> 'c \<Rightarrow> 'c option \<Rightarrow> 'c dict \<Rightarrow> 'c dict" where
  "make_validation_result a indices distances embeddings mb =
     (let mb = dict_set (info_name a ''_distances'') distances (dict_set (info_name a ''_indices'') indices mb)
      in case embeddings of None \<Rightarrow> mb | Some e \<Rightarrow> dict_set (info_name a ''_user_embedding'') e mb)"

definition plain_field :: "string \<Rightarrow> spark_type \<Rightarrow> spark_field" where
  "plain_field n t = \<lparr>sf_name = n, sf_type = t, sf_nullable = True\<rparr>"

definition reserved_names :: "index_agent \<Rightarrow> string set" where
  "reserved_names a =
     {info_name a ''_indices'', info_name a ''_distances''} \<union>
     (if ia_output_user_embeddings a then {info_name a ''_user_embedding''} else {})"

definition make_validation_result_schema :: "index_agent \<Rightarrow> pyval dict \<Rightarrow> spark_schema \<Rightarrow> spark_schema res" where
  "make_validation_result_schema a meta schema =
     bindR (meta_bool meta ''enable_item_id_mapping'') (\<lambda>mapping.
     bindR (meta_str meta ''item_id_column_type'') (\<lambda>t.
     Inr ([f \<leftarrow> schema. sf_name f \<notin> reserved_names a] @
       [plain_field (info_name a ''_indices'') (ArrayT (if mapping \<or> t = ''int64'' then LongT else StringT)),
        plain_field (info_name a ''_distances'') (ArrayT FloatT)] @
       (if ia_output_user_embeddings a then [plain_field (info_name a ''_user_embedding'') (ArrayT FloatT)] else []))))"

text \<open>The columns that \<open>_rename_validation_result\<close> puts into the structure, with their names there.\<close>

definition rename_validation_result :: "index_agent \<Rightarrow> string \<times> (string \<times> string) list \<times> string" where
  "rename_validation_result a =
     (ia_increasing_id_column_name a,
      [(info_name a ''_indices'', ''indices''), (info_name a ''_distances'', ''distances'')] @
      (if ia_output_user_embeddings a then [(info_name a ''_user_embedding'', ''user_embedding'')] else []),
      ia_recommendation_info_column_name a)"

text \<open>The fields of an item of the final result: the source column and the name.\<close>

definition get_item_struct_fields :: "string list option \<Rightarrow> (string \<times> string) list" where
  "get_item_struct_fields columns =
     [case columns of
        None \<Rightarrow> (''index'', ''name'')
      | Some cs \<Rightarrow> if ''name'' \<in> set cs then (''name'', ''name'') else (''id'', ''name''),
      (''distance'', ''distance'')] @
     (case columns of
        None \<Rightarrow> [] | Some cs \<Rightarrow> if ''item_embedding'' \<in> set cs then [(''item_embedding'', ''item_embedding'')] else [])"

section \<open>The text of a result\<close>

text \<open>An item has a name, a distance and, when embeddings were stored, an embedding.\<close>

record 'd rec_item =
  ri_name :: pyval
  ri_distance :: 'd
  ri_embedding :: "'d list option"

text \<open>Text plus anything but text is a \<open>TypeError\<close>.\<close>

definition format_item :: "('d \<Rightarrow> string) \<Rightarrow> string \<Rightarrow> string \<Rightarrow> 'd rec_item \<Rightarrow> string res" where
  "format_item fmt fd vd x =
     (case ri_name x of
        PStr n \<Rightarrow> Inr (n @ fd @ fmt (ri_distance x) @
          (case ri_embedding x of None \<Rightarrow> [] | Some e \<Rightarrow> fd @ join vd (map fmt e)))
      | _ \<Rightarrow> Inl TypeError)"

text \<open>The item delimiter is written only when the text is not empty.\<close>

definition append_item ::
  "('d \<Rightarrow> string) \<Rightarrow> string \<Rightarrow> string \<Rightarrow> string \<Rightarrow> 'd rec_item \<Rightarrow> string \<Rightarrow> string res" where
  "append_item fmt idl fd vd x text =
     bindR (format_item fmt fd vd x) (\<lambda>t. Inr (text @ (if text = [] then [] else idl) @ t))"

definition format_rec_info ::
  "('d \<Rightarrow> string) \<Rightarrow> string \<Rightarrow> string \<Rightarrow> string \<Rightarrow> 'd rec_item list \<Rightarrow> string res" where
  "format_rec_info fmt idl fd vd items = foldR (append_item fmt idl fd vd) items []"

text \<open>The columns that \<open>stringify\<close> replaces.\<close>

definition stringify_columns :: "pyobj \<Rightarrow> pyval list" where
  "stringify_columns obj =
     attr obj ''recommendation_info_column_name'' #
     (if py_truth (attr obj ''output_user_embeddings'') then [attr obj ''user_embedding_column_name''] else [])"

section \<open>What an agent sees\<close>

text \<open>The attributes that reach the agents, read with the types that the checks ask for.\<close>

fun str_value :: "pyval \<Rightarrow> string option" where
  "str_value (PStr s) = Some s"
| "str_value _ = None"

definition items_value :: "(pyval \<Rightarrow> 'a option) \<Rightarrow> pyval \<Rightarrow> 'a list option option" where
  "items_value f v =
     (if v = PNone then Some None
      else if list_all (\<lambda>x. f x \<noteq> None) (seq_items v) then Some (Some (map (\<lambda>x. the (f x)) (seq_items v))) else None)"

definition index_agent_of ::
  "pyval dict \<Rightarrow> string \<Rightarrow> string option \<Rightarrow> spark_schema \<Rightarrow> nat \<Rightarrow> nat \<Rightarrow> bool \<Rightarrow> index_agent option" where
  "index_agent_of d path export schema r n coordinator =
     Option.bind (as_int (attr d ''item_embedding_size'')) (\<lambda>size.
     Option.bind (str_value (attr d ''item_id_column_name'')) (\<lambda>idn.
     Option.bind (items_value (\<lambda>v. map_option nat (as_int v)) (attr d ''item_ids_column_indices'')) (\<lambda>indices.
     Option.bind (items_value str_value (attr d ''item_ids_column_names'')) (\<lambda>names.
     Option.bind (str_value (attr d ''item_ids_field_delimiter'')) (\<lambda>fd.
     Option.bind (str_value (attr d ''item_ids_value_delimiter'')) (\<lambda>vd.
     Option.bind (str_value (attr d ''increasing_id_column_name'')) (\<lambda>iid.
     Option.bind (str_value (attr d ''recommendation_info_column_name'')) (\<lambda>info.
     Option.bind (as_int (attr d ''retrieval_item_count'')) (\<lambda>k.
     Some \<lparr>ia_item_embedding_size = size, ia_item_id_column_name = idn, ia_item_ids_column_indices = indices,
       ia_item_ids_column_names = names, ia_item_ids_field_delimiter = fd, ia_item_ids_value_delimiter = vd,
       ia_enable_item_id_mapping = py_truth (attr d ''enable_item_id_mapping''),
       ia_output_item_embeddings = py_truth (attr d ''output_item_embeddings''),
       ia_output_user_embeddings = py_truth (attr d ''output_user_embeddings''),
       ia_increasing_id_column_name = iid, ia_recommendation_info_column_name = info,
       ia_retrieval_item_count = k, ia_model_in_path = path, ia_model_export_path = export,
       ia_dataset = schema, ia_rank = r, ia_worker_count = n, ia_is_coordinator = coordinator\<rparr>)))))))))"

section \<open>Constructed settings\<close>

lemma attr_update: "attr (dict_update d kvs) n = (case map_of (rev kvs) n of Some v \<Rightarrow> v | None \<Rightarrow> attr d n)"
  by (induction kvs arbitrary: d) (auto simp: attr_set map_add_def split: option.splits)

lemma attr_update_map:
  "attr (dict_update d (map (\<lambda>n. (n, g n)) ns)) n = (if n \<in> set ns then g n else attr d n)"
  by (simp add: attr_update rev_map map_of_map_restrict)

text \<open>What the constructor copies for the agents is what the attributes say.\<close>

lemma tower_extra_attributes:
  assumes "n \<in> set tower_agent_names"
  shows "attr (extra_attributes (new_two_tower kwargs)) n = attr (new_two_tower kwargs) n"
proof -
  have "n \<noteq> ''extra_agent_attributes''" using assms by (auto simp: tower_agent_names_def)
  then show ?thesis using assms by (simp add: new_two_tower_def Let_def extra_attributes_def attr_set attr_update_map)
qed

text \<open>An attribute that is assigned later does not reach the agents, although it is checked.\<close>

lemma later_assignment_stays:
  assumes "n \<in> set tower_agent_names"
  shows "attr (extra_attributes (dict_set n v obj)) k = attr (extra_attributes obj) k"
proof -
  have "n \<noteq> ''extra_agent_attributes''" using assms by (auto simp: tower_agent_names_def)
  then show ?thesis by (simp add: extra_attributes_def attr_set)
qed

definition valid_tower :: "tower_world \<Rightarrow> (string \<Rightarrow> pyval) \<Rightarrow> bool" where
  "valid_tower T a \<longleftrightarrow>
     tw_retrieval_module T (a ''module'') \<and> allowed (tw_dataframe T) (a ''item_dataset'') \<and>
     allowed (tw_index_builder T) (a ''index_builder_class'') \<and>
     allowed (tw_building_agent T) (a ''index_building_agent_class'') \<and>
     allowed (tw_retrieval_agent T) (a ''retrieval_agent_class'') \<and> is_pos_int (a ''item_embedding_size'') \<and>
     nonempty_str (a ''item_id_column_name'') \<and>
     allowed (nonempty_seq_of is_nonneg_int) (a ''item_ids_column_indices'') \<and>
     allowed (nonempty_seq_of is_str) (a ''item_ids_column_names'') \<and>
     one_char (a ''item_ids_field_delimiter'') \<and> one_char (a ''item_ids_value_delimiter'') \<and>
     nonempty_str (a ''increasing_id_column_name'') \<and> nonempty_str (a ''recommendation_info_column_name'') \<and>
     nonempty_str (a ''user_embedding_column_name'') \<and> is_pos_int (a ''retrieval_item_count'')"

definition valid_id_columns :: "(string \<Rightarrow> pyval) \<Rightarrow> bool" where
  "valid_id_columns a \<longleftrightarrow>
     (a ''model_export_path'' \<noteq> PNone \<longrightarrow> a ''item_dataset'' \<noteq> PNone) \<and>
     (a ''item_ids_column_indices'' \<noteq> PNone \<or> a ''item_ids_column_names'' \<noteq> PNone) \<and>
     (\<not> py_truth (a ''enable_item_id_mapping'') \<longrightarrow>
        (a ''item_ids_column_indices'' \<noteq> PNone \<longrightarrow> length (seq_items (a ''item_ids_column_indices'')) = 1) \<and>
        (a ''item_ids_column_names'' \<noteq> PNone \<longrightarrow> length (seq_items (a ''item_ids_column_names'')) = 1))"

lemma tower_checks_iff: "foldR (\<lambda>c. c) (tower_checks T) obj = Inr obj' \<longleftrightarrow> obj' = obj \<and> valid_tower T (attr obj)"
  by (auto simp: tower_checks_def foldR_checks check_simps valid_tower_def simp del: foldR.simps)

lemma tower_estimator_checks_iff:
  "foldR (\<lambda>c. c) tower_estimator_checks obj = Inr obj' \<longleftrightarrow> obj' = obj \<and> valid_id_columns (attr obj)"
  by (auto simp: tower_estimator_checks_def foldR_checks check_simps valid_id_columns_def given_def id_columns_def
      simp del: foldR.simps)

lemma check_tower_estimator_iff:
  "check_tower_estimator W T obj = Inr obj' \<longleftrightarrow>
     check_estimator W obj = Inr obj' \<and> valid_tower T (attr obj') \<and> valid_id_columns (attr obj')"
  by (auto simp: check_tower_estimator_def bindR_Inr_iff foldR_checks_append tower_checks_iff
      tower_estimator_checks_iff simp del: foldR.simps)

lemma check_estimator_keeps:
  assumes "check_estimator W obj = Inr obj'" and "n \<in> set tower_agent_names"
  shows "attr obj' n = attr obj n" and "extra_attributes obj' = extra_attributes obj"
proof -
  have o: "obj' = normalized obj"
    using assms(1) by (auto simp: check_estimator_def bindR_Inr_iff raise_if_Inr_iff check_properties_iff)
  show "attr obj' n = attr obj n" "extra_attributes obj' = extra_attributes obj"
    using assms(2) by (auto simp: o attr_normalized normal_value_def extra_attributes_def tower_agent_names_def)
qed

lemma items_value_ok:
  assumes "allowed (nonempty_seq_of p) v" and "\<And>x. p x \<Longrightarrow> f x \<noteq> None"
  shows "items_value f v = Some (if v = PNone then None else Some (map (\<lambda>x. the (f x)) (seq_items v)))"
proof -
  have "list_all (\<lambda>x. f x \<noteq> None) (seq_items v)" if "v \<noteq> PNone"
    using assms that by (auto simp only: allowed_def nonempty_seq_of_def list_all_iff)
  then show ?thesis by (simp add: items_value_def)
qed

lemma decoded:
  "is_pos_int v \<Longrightarrow> \<exists>i. as_int v = Some i \<and> 0 < i"
  "nonempty_str v \<Longrightarrow> \<exists>s. str_value v = Some s \<and> s \<noteq> []"
  "one_char v \<Longrightarrow> \<exists>c. str_value v = Some [c]"
  by (cases v; auto simp: is_pos_int_def nonempty_str_def one_char_def length_Suc_conv split: option.splits)+

text \<open>The agent only reads the copied attributes; the checks have seen those of the estimator.\<close>

lemma index_agent_of_tower:
  assumes "valid_tower T (attr obj)" and "\<And>m. m \<in> set tower_agent_names \<Longrightarrow> attr d m = attr obj m"
  shows "\<exists>a. index_agent_of d path export schema r n co = Some a \<and>
    0 < ia_item_embedding_size a \<and> 0 < ia_retrieval_item_count a \<and>
    length (ia_item_ids_field_delimiter a) = 1 \<and> length (ia_item_ids_value_delimiter a) = 1 \<and>
    ia_enable_item_id_mapping a = py_truth (attr obj ''enable_item_id_mapping'') \<and>
    map_option length (ia_item_ids_column_indices a) =
      (if attr obj ''item_ids_column_indices'' = PNone then None
       else Some (length (seq_items (attr obj ''item_ids_column_indices'')))) \<and>
    map_option length (ia_item_ids_column_names a) =
      (if attr obj ''item_ids_column_names'' = PNone then None
       else Some (length (seq_items (attr obj ''item_ids_column_names''))))"
proof -
  note valid = assms(1) [unfolded valid_tower_def]
  note same = assms(2) [unfolded tower_agent_names_def, simplified]
  obtain size k where ints: "as_int (attr obj ''item_embedding_size'') = Some size" "0 < size"
      "as_int (attr obj ''retrieval_item_count'') = Some k" "0 < k"
    using valid decoded(1) by meson
  obtain idn iid info where strs: "str_value (attr obj ''item_id_column_name'') = Some idn"
      "str_value (attr obj ''increasing_id_column_name'') = Some iid"
      "str_value (attr obj ''recommendation_info_column_name'') = Some info"
    using valid decoded(2) by meson
  obtain fc vc where chars: "str_value (attr obj ''item_ids_field_delimiter'') = Some [fc]"
      "str_value (attr obj ''item_ids_value_delimiter'') = Some [vc]"
    using valid decoded(3) by meson
  have "is_nonneg_int x \<Longrightarrow> map_option nat (as_int x) \<noteq> None" for x
    by (auto simp: is_nonneg_int_def split: option.splits)
  note indices = items_value_ok [of is_nonneg_int _ "\<lambda>v. map_option nat (as_int v)", OF _ this]
  have "is_str x \<Longrightarrow> str_value x \<noteq> None" for x by (cases x) simp_all
  note names = items_value_ok [of is_str _ str_value, OF _ this]
  show ?thesis
    using valid by (simp add: index_agent_of_def same ints strs chars indices names)
qed

text \<open>With one identifier column, or with a mapping, no assertion fails.\<close>

lemma no_assertion:
  assumes "ia_enable_item_id_mapping a \<or>
      (case ia_item_ids_column_indices a of Some idx \<Rightarrow> length idx = 1
       | None \<Rightarrow> (case ia_item_ids_column_names a of None \<Rightarrow> False | Some ns \<Rightarrow> length ns = 1))"
  shows "get_item_id_ndarray a mb \<noteq> Inl AssertionError"
    and "(\<And>t. convert t \<noteq> Inl AssertionError) \<Longrightarrow> item_id_column_type convert a \<noteq> Inl AssertionError"
  using assms
  by (auto simp: get_item_id_ndarray_def item_id_column_type_def iloc_def loc_def raise_if_def
      split: option.splits if_splits)

lemma convert_no_assertion: "convert_spark_item_id_column_type t \<noteq> Inl AssertionError"
  "faiss_item_id_column_type t \<noteq> Inl AssertionError"
  by (cases t; simp add: faiss_item_id_column_type_def)+

text \<open>
  C18: When the settings of the agents are those that were given to the constructor, whatever other attributes were
  assigned later, and the estimator passes its checks, they reach the agents with the right types, and an agent made
  from them never fails an assertion when it looks up the type of the item identifiers or reads them from a
  minibatch, whatever the schema and the minibatch: bad columns give the errors meant for them. A setting of the
  agents that is assigned later is the exception: it is checked, but the agents keep the one of the constructor.
\<close>

theorem checked_index_settings:
  assumes "check_tower_estimator W T (dict_update (new_two_tower kwargs) later) = Inr obj"
    and "list_all (\<lambda>(n, _). n \<notin> set tower_agent_names \<and> n \<noteq> ''extra_agent_attributes'') later"
  shows "\<exists>a. index_agent_of (extra_attributes obj) path export schema r n co = Some a \<and>
    0 < ia_item_embedding_size a \<and> 0 < ia_retrieval_item_count a \<and>
    length (ia_item_ids_field_delimiter a) = 1 \<and> length (ia_item_ids_value_delimiter a) = 1 \<and>
    item_id_column_type convert_spark_item_id_column_type a \<noteq> Inl AssertionError \<and>
    item_id_column_type faiss_item_id_column_type a \<noteq> Inl AssertionError \<and>
    get_item_id_ndarray a mb \<noteq> Inl AssertionError"
proof -
  note checked = assms(1) [unfolded check_tower_estimator_iff]
  have k: "attr (dict_update (new_two_tower kwargs) later) m = attr (new_two_tower kwargs) m"
    if "m \<in> set tower_agent_names \<or> m = ''extra_agent_attributes''" for m
  proof -
    have "m \<notin> fst ` set later" using assms(2) that by (auto simp: list_all_iff)
    then have "map_of (rev later) m = None" by (simp add: map_of_eq_None_iff)
    then show ?thesis by (simp add: attr_update)
  qed
  have e: "extra_attributes (dict_update (new_two_tower kwargs) later) = extra_attributes (new_two_tower kwargs)"
    using k [of "''extra_agent_attributes''"] by (simp add: extra_attributes_def)
  let ?d = "extra_attributes obj"
  have same: "attr ?d m = attr obj m" if "m \<in> set tower_agent_names" for m
    using check_estimator_keeps [of W "dict_update (new_two_tower kwargs) later" obj m] that checked
    by (simp add: tower_extra_attributes e k)
  obtain a where a: "index_agent_of ?d path export schema r n co = Some a"
    and sizes: "0 < ia_item_embedding_size a" "0 < ia_retrieval_item_count a"
      "length (ia_item_ids_field_delimiter a) = 1" "length (ia_item_ids_value_delimiter a) = 1"
    and mapping: "ia_enable_item_id_mapping a = py_truth (attr obj ''enable_item_id_mapping'')"
    and lens: "map_option length (ia_item_ids_column_indices a) =
        (if attr obj ''item_ids_column_indices'' = PNone then None
         else Some (length (seq_items (attr obj ''item_ids_column_indices''))))"
      "map_option length (ia_item_ids_column_names a) =
        (if attr obj ''item_ids_column_names'' = PNone then None
         else Some (length (seq_items (attr obj ''item_ids_column_names''))))"
    using index_agent_of_tower [of T obj ?d path export schema r n co] checked same by auto
  have one: "ia_enable_item_id_mapping a \<or>
      (case ia_item_ids_column_indices a of Some idx \<Rightarrow> length idx = 1
       | None \<Rightarrow> (case ia_item_ids_column_names a of None \<Rightarrow> False | Some ns \<Rightarrow> length ns = 1))"
    using checked lens mapping by (auto simp: valid_id_columns_def split: option.splits if_splits)
  show ?thesis
    using a sizes one by (intro exI [of _ a]) (simp add: no_assertion [OF one] convert_no_assertion)
qed

section \<open>The session that builds the index\<close>

lemma dict_get_update: "dict_get (dict_update d kvs) n = (case map_of (rev kvs) n of Some v \<Rightarrow> Some v | None \<Rightarrow> dict_get d n)"
  unfolding dict_update_def by (rule pydict.get_put_all)

lemma dict_get_update_map:
  "dict_get (dict_update d (map (\<lambda>n. (n, g n)) ns)) n = (if n \<in> set ns then Some (g n) else dict_get d n)"
  by (simp add: dict_get_update rev_map map_of_map_restrict)

lemma new_two_tower_attr:
  assumes "map_of tower_defaults n = Some d"
  shows "attr (new_two_tower kwargs) n = (case dict_get kwargs n of None \<Rightarrow> d | Some v \<Rightarrow> v)"
proof -
  have "n \<noteq> ''extra_agent_attributes''" using map_of_SomeD [OF assms] by (auto simp: tower_defaults_def)
  moreover have "distinct (map fst (tower_values kwargs))" by (simp add: tower_values_def tower_defaults_def)
  note map_of_rev [OF this]
  ultimately show ?thesis
    using assms by (simp add: new_two_tower_def Let_def attr_set attr_update tower_values_def
        map_of_with_default [of _ _ "[]", simplified])
qed

lemma map_of_filter_keys: "P n \<Longrightarrow> map_of (filter (\<lambda>(n, v). P n) d) n = map_of d n"
  by (induction d) auto

lemma new_two_tower_base:
  assumes "n \<notin> set tower_names" and "map_of mixin_defaults n = Some d"
  shows "attr (new_two_tower kwargs) n = (case dict_get kwargs n of None \<Rightarrow> d | Some v \<Rightarrow> v)"
proof -
  have "n \<noteq> ''extra_agent_attributes''" using map_of_SomeD [OF assms(2)] by (auto simp: mixin_defaults_def)
  moreover have "map_of (rev (tower_values kwargs)) n = None"
    using assms(1) by (force simp: map_of_eq_None_iff tower_values_def)
  moreover have "dict_get [(n, v) \<leftarrow> kwargs. n \<notin> set tower_names] n = dict_get kwargs n"
    unfolding dict_get_def by (rule map_of_filter_keys) (rule assms(1))
  ultimately show ?thesis
    by (simp add: new_two_tower_def Let_def attr_set attr_update new_helper_attr [OF assms(2)])
qed

lemma check_tower_keeps:
  assumes "create_tower_launcher (check_tower_estimator W T) ds training obj = Inr (obj', l)"
  shows "n \<notin> {''model_in_path'', ''model_out_path'', ''model_export_path'', ''consul_endpoint_prefix''} \<Longrightarrow> attr obj' n = attr obj n"
    and "l = dict_set ''index_builder_class'' (attr obj' ''index_builder_class'')
      (dict_update new_launcher (launcher_fields obj' ds training))"
  using assms
  by (auto simp: create_tower_launcher_def create_launcher_def bindR_Inr_iff check_tower_estimator_iff
      check_estimator_def raise_if_Inr_iff check_properties_iff attr_normalized normal_value_def)

text \<open>The attributes of the launcher of the second session.\<close>

lemma indexing_launcher_attrs:
  assumes "l = dict_set ''index_builder_class'' c (dict_update new_launcher (launcher_fields obj ds training))"
  shows "attr (indexing_launcher obj im l) ''model_in_path'' = attr obj ''model_out_path''"
    "attr (indexing_launcher obj im l) ''model_out_path'' = PNone"
    "attr (indexing_launcher obj im l) ''module'' = im"
    "attr (indexing_launcher obj im l) ''dataset'' = ds"
    "attr (indexing_launcher obj im l) ''index_builder_class'' = c"
    "attr (indexing_launcher obj im l) ''extra_agent_attributes'' = attr obj ''extra_agent_attributes''"
proof -
  have "map_of (rev (launcher_fields obj ds training)) ''dataset'' = Some ds"
    "map_of (rev (launcher_fields obj ds training)) ''extra_agent_attributes'' = Some (attr obj ''extra_agent_attributes'')"
    by (simp_all add: launcher_fields_def callable_attributes_def setting_names_def)
  then show "attr (indexing_launcher obj im l) ''model_in_path'' = attr obj ''model_out_path''"
    "attr (indexing_launcher obj im l) ''model_out_path'' = PNone"
    "attr (indexing_launcher obj im l) ''module'' = im"
    "attr (indexing_launcher obj im l) ''dataset'' = ds"
    "attr (indexing_launcher obj im l) ''index_builder_class'' = c"
    "attr (indexing_launcher obj im l) ''extra_agent_attributes'' = attr obj ''extra_agent_attributes''"
    by (simp_all add: assms indexing_launcher_def attr_set attr_update)
qed

lemma tower_model_attrs:
  "attr (create_tower_model obj mdl) ''model_in_path'' = attr obj ''model_out_path''"
  "n \<in> set tower_names \<Longrightarrow> attr (create_tower_model obj mdl) n = attr obj n"
proof -
  have t: "''model_in_path'' \<notin> set tower_names" by (simp add: tower_defaults_def)
  have "dict_get (get_model_arguments obj mdl) ''model_in_path'' = Some (attr obj ''model_out_path'')"
    unfolding get_model_arguments_def dict_get_update
    by (simp add: model_argument_names_def callable_attributes_def)
  then have get: "dict_get (get_tower_arguments obj mdl) ''model_in_path'' = Some (attr obj ''model_out_path'')"
    unfolding get_tower_arguments_def dict_get_update_map using t by (simp del: set_map)
  have m: "map_of mixin_defaults ''model_in_path'' = Some PNone" by (simp add: mixin_defaults_def)
  show "attr (create_tower_model obj mdl) ''model_in_path'' = attr obj ''model_out_path''"
    by (simp only: create_tower_model_def new_two_tower_base [OF t m] get option.case)
  show "attr (create_tower_model obj mdl) n = attr obj n" if n: "n \<in> set tower_names"
  proof -
    have "distinct tower_names" by (simp add: tower_defaults_def)
    then obtain d where "map_of tower_defaults n = Some d" using n by (auto dest: map_of_is_SomeI)
    then show ?thesis
      using n by (simp add: create_tower_model_def new_two_tower_attr get_tower_arguments_def dict_get_update_map
          del: set_map map_map)
  qed
qed


lemma tower_names_facts:
  "set tower_agent_names \<subseteq> set tower_names" "''item_dataset'' \<in> set tower_names"
  "''index_builder_class'' \<in> set tower_names"
  "n \<in> set tower_names \<Longrightarrow> n \<notin> {''model_in_path'', ''model_out_path'', ''model_export_path'', ''consul_endpoint_prefix''}"
  by (auto simp: tower_agent_names_def tower_defaults_def)

definition demo_towers :: tower_world where
  "demo_towers = \<lparr>tw_retrieval_module = (\<lambda>v. v = PObj ''net''), tw_dataframe = (\<lambda>_. True), tw_index_builder = (\<lambda>_. False),
     tw_building_agent = (\<lambda>_. False), tw_retrieval_agent = (\<lambda>_. False)\<rparr>"

definition demo_tower_settings :: "pyval dict" where
  "demo_tower_settings = [(''module'', PObj ''net''), (''model_out_path'', PStr ''/out''),
     (''item_dataset'', PObj ''items''), (''item_embedding_size'', PInt 16), (''item_ids_column_names'', PList [PStr ''item''])]"

lemma new_two_tower_other:
  assumes "n \<notin> set tower_names" and "n \<noteq> ''extra_agent_attributes''"
  shows "attr (new_two_tower kwargs) n = attr (new_helper [(n, v) \<leftarrow> kwargs. n \<notin> set tower_names]) n"
proof -
  have "map_of (rev (tower_values kwargs)) n = None"
    using assms(1) by (force simp: map_of_eq_None_iff tower_values_def)
  then show ?thesis using assms(2) by (simp add: new_two_tower_def Let_def attr_set attr_update)
qed

lemma valid_settings_agree:
  assumes "\<And>n. n \<in> set mixin_names \<Longrightarrow> a n = b n"
  shows "valid_settings W a = valid_settings W b"
proof -
  have "list_all (\<lambda>n. a n = b n) mixin_names" using assms by (simp add: list_all_iff)
  from this [unfolded mixin_defaults_def, simplified] show ?thesis
    by (simp add: valid_settings_def valid_objects_def callable_attributes_def valid_paths_def valid_values_def
        valid_combination_def)
qed

lemma demo_tower_base:
  assumes "n \<in> set mixin_names"
  shows "attr (new_two_tower demo_tower_settings) n = attr demo_helper n"
proof -
  have helper: "[(n, v) \<leftarrow> demo_tower_settings. n \<notin> set tower_names] =
      [(''module'', PObj ''net''), (''model_out_path'', PStr ''/out'')]"
    by (simp add: demo_tower_settings_def tower_defaults_def)
  have "n \<notin> set tower_names" "n \<noteq> ''extra_agent_attributes''"
    using assms by (auto simp: mixin_defaults_def tower_defaults_def)
  from new_two_tower_other [OF this, of demo_tower_settings] show ?thesis unfolding helper demo_helper_def .
qed

lemma demo_tower_paths:
  "attr (new_two_tower demo_tower_settings) ''module'' = PObj ''net''"
  "attr (new_two_tower demo_tower_settings) ''model_out_path'' = PStr ''/out''"
  "attr (new_two_tower demo_tower_settings) ''model_export_path'' = PNone"
proof -
  have m: "''module'' \<in> set mixin_names" "''model_out_path'' \<in> set mixin_names" "''model_export_path'' \<in> set mixin_names"
    by (simp_all add: mixin_defaults_def)
  have "attr demo_helper ''model_export_path'' = PNone"
    using demo_helper_defaults by (simp add: mixin_defaults_def)
  then show "attr (new_two_tower demo_tower_settings) ''module'' = PObj ''net''"
    "attr (new_two_tower demo_tower_settings) ''model_out_path'' = PStr ''/out''"
    "attr (new_two_tower demo_tower_settings) ''model_export_path'' = PNone"
    by (simp_all add: demo_tower_base m demo_helper_attrs del: set_map)
qed

lemma demo_towers_checked:
  "check_tower_estimator demo_world demo_towers (new_two_tower demo_tower_settings) =
     Inr (normalized (new_two_tower demo_tower_settings))" (is ?first)
  "check_tower_estimator demo_world demo_towers (normalized (new_two_tower demo_tower_settings)) =
     Inr (normalized (new_two_tower demo_tower_settings))" (is ?second)
  "attr (new_two_tower demo_tower_settings) ''item_dataset'' = PObj ''items''" (is ?third)
proof -
  let ?o = "new_two_tower demo_tower_settings"
  have d: "distinct (map fst tower_defaults)" by (simp add: tower_defaults_def)
  have "list_all (\<lambda>(n, d). attr ?o n = (case dict_get demo_tower_settings n of None \<Rightarrow> d | Some v \<Rightarrow> v)) tower_defaults"
    using new_two_tower_attr [OF map_of_is_SomeI [OF d]] by (auto simp: list_all_iff)
  note towers = this [unfolded tower_defaults_def demo_tower_settings_def dict_get_def, simplified,
      folded demo_tower_settings_def]
  have valid: "valid_settings demo_world (attr ?o)" using valid_settings_agree [OF demo_tower_base] demo_helper_valid by simp
  then have "valid_settings demo_world (attr (normalized ?o))"
    unfolding valid_settings_def using valid_cong [OF attr_normalized] by simp
  with valid have "check_properties demo_world ?o = Inr (normalized ?o)"
    "check_properties demo_world (normalized ?o) = Inr (normalized ?o)"
    by (simp_all add: check_properties_iff normalized_twice)
  then have e: "check_estimator demo_world ?o = Inr (normalized ?o)"
    "check_estimator demo_world (normalized ?o) = Inr (normalized ?o)"
    by (simp_all add: check_estimator_def given_def attr_normalized normal_value_def demo_tower_paths)
  have attrs: "attr (normalized ?o) ''module'' = PObj ''net''" "attr (normalized ?o) ''model_export_path'' = PNone"
    by (simp_all add: attr_normalized normal_value_def demo_tower_paths)
  have "valid_tower demo_towers (attr (normalized ?o))"
    using attrs towers
    by (simp add: valid_tower_def attr_normalized normal_value_def demo_towers_def demo_tower_settings_def
        allowed_def nonempty_seq_of_def is_pos_int_def nonempty_str_def one_char_def)
  moreover have "valid_id_columns (attr (normalized ?o))"
    using attrs towers
    by (simp add: valid_id_columns_def attr_normalized normal_value_def demo_tower_settings_def)
  ultimately show ?first ?second using e by (simp_all only: check_tower_estimator_iff simp_thms)
  show ?third using towers by simp
qed

theorem checked_index_settings_witness:
  "\<exists>obj a. check_tower_estimator demo_world demo_towers (new_two_tower demo_tower_settings) = Inr obj \<and>
    index_agent_of (extra_attributes obj) ''s3://b/m/'' None [] 0 1 True = Some a \<and> get_item_id_ndarray a [] \<noteq> Inl AssertionError"
proof -
  obtain obj where obj: "check_tower_estimator demo_world demo_towers (new_two_tower demo_tower_settings) = Inr obj"
    using demo_towers_checked(1) by blast
  then have o: "check_tower_estimator demo_world demo_towers (dict_update (new_two_tower demo_tower_settings) []) = Inr obj"
    by (simp add: dict_update_def)
  have nil: "list_all (\<lambda>(n, _). n \<notin> set tower_agent_names \<and> n \<noteq> ''extra_agent_attributes'') ([] :: pyval dict)" by simp
  show ?thesis
    using checked_index_settings [OF o nil, of "''s3://b/m/''" None "[]" 0 1 True "[]"] obj
    by (elim exE conjE) (intro exI conjI; assumption)
qed

text \<open>
  A later assignment can break the agents: an estimator with two columns of identifiers does not pass its checks, and
  passes them when one column is assigned, but the agents keep the two and fail an assertion.
\<close>

definition two_column_settings :: "pyval dict" where
  "two_column_settings = [(''module'', PObj ''net''), (''model_out_path'', PStr ''/out''), (''item_dataset'', PObj ''items''),
     (''item_embedding_size'', PInt 16), (''item_ids_column_names'', PList [PStr ''item'', PStr ''shop''])]"

definition reassigned :: pyobj where
  "reassigned = dict_set ''item_ids_column_names'' (PList [PStr ''item'']) (new_two_tower two_column_settings)"

lemma tower_values_of:
  "list_all (\<lambda>(n, d). attr (new_two_tower kwargs) n = (case dict_get kwargs n of None \<Rightarrow> d | Some v \<Rightarrow> v)) tower_defaults"
proof -
  have d: "distinct (map fst tower_defaults)" by (simp add: tower_defaults_def)
  show ?thesis using new_two_tower_attr [OF map_of_is_SomeI [OF d]] by (auto simp: list_all_iff)
qed

lemma reassigned_base:
  assumes "n \<in> set mixin_names"
  shows "attr reassigned n = attr demo_helper n"
proof -
  have helper: "[(n, v) \<leftarrow> two_column_settings. n \<notin> set tower_names] =
      [(''module'', PObj ''net''), (''model_out_path'', PStr ''/out'')]"
    by (simp add: two_column_settings_def tower_defaults_def)
  have n: "n \<notin> set tower_names" "n \<noteq> ''extra_agent_attributes''" "n \<noteq> ''item_ids_column_names''"
    using assms by (auto simp: mixin_defaults_def tower_defaults_def)
  have "attr reassigned n = attr (new_two_tower two_column_settings) n" using n(3) by (simp add: reassigned_def attr_set)
  also have "\<dots> = attr demo_helper n"
    using new_two_tower_other [OF n(1,2), of two_column_settings] unfolding helper demo_helper_def .
  finally show ?thesis .
qed

lemma later_assignment_fails:
  "check_tower_estimator demo_world demo_towers reassigned = Inr (normalized reassigned)"
  "\<exists>a. index_agent_of (extra_attributes (normalized reassigned)) path export schema r n co = Some a \<and>
     get_item_id_ndarray a mb = Inl AssertionError"
proof -
  let ?n = "new_two_tower two_column_settings"
  note towers = tower_values_of [of two_column_settings, unfolded tower_defaults_def two_column_settings_def dict_get_def,
      simplified, folded two_column_settings_def]
  have m: "''module'' \<in> set mixin_names" "''model_out_path'' \<in> set mixin_names" "''model_export_path'' \<in> set mixin_names"
    by (simp_all add: mixin_defaults_def)
  have "attr demo_helper ''model_export_path'' = PNone"
    using demo_helper_defaults by (simp add: mixin_defaults_def)
  then have b: "attr reassigned ''module'' = PObj ''net''" "attr reassigned ''model_out_path'' = PStr ''/out''"
    "attr reassigned ''model_export_path'' = PNone"
    by (simp_all add: reassigned_base m demo_helper_attrs del: set_map)
  have valid: "valid_settings demo_world (attr reassigned)"
    using valid_settings_agree [OF reassigned_base] demo_helper_valid by simp
  then have "valid_settings demo_world (attr (normalized reassigned))"
    unfolding valid_settings_def using valid_cong [OF attr_normalized] by simp
  with valid have "check_properties demo_world reassigned = Inr (normalized reassigned)"
    by (simp add: check_properties_iff)
  then have e: "check_estimator demo_world reassigned = Inr (normalized reassigned)"
    by (simp add: check_estimator_def given_def attr_normalized normal_value_def b)
  have "valid_tower demo_towers (attr (normalized reassigned))"
    using towers b
    by (simp add: valid_tower_def attr_normalized normal_value_def demo_towers_def reassigned_def attr_set
        two_column_settings_def allowed_def nonempty_seq_of_def is_pos_int_def nonempty_str_def one_char_def)
  moreover have "valid_id_columns (attr (normalized reassigned))"
    using towers b
    by (simp add: valid_id_columns_def attr_normalized normal_value_def reassigned_def attr_set two_column_settings_def)
  ultimately show "check_tower_estimator demo_world demo_towers reassigned = Inr (normalized reassigned)"
    using e by (simp only: check_tower_estimator_iff simp_thms)
  have x: "attr (extra_attributes (normalized reassigned)) k = attr ?n k" if "k \<in> set tower_agent_names" for k
  proof -
    have "extra_attributes (normalized reassigned) = extra_attributes ?n"
      by (simp add: extra_attributes_def attr_normalized normal_value_def reassigned_def attr_set)
    then show ?thesis using tower_extra_attributes [OF that] by simp
  qed
  note xs = x [unfolded tower_agent_names_def, simplified]
  show "\<exists>a. index_agent_of (extra_attributes (normalized reassigned)) path export schema r n co = Some a \<and>
     get_item_id_ndarray a mb = Inl AssertionError"
    using towers
    by (simp add: index_agent_of_def xs two_column_settings_def items_value_def get_item_id_ndarray_def raise_if_def)
qed

text \<open>
  C17: A fit with an item dataset ends with the session that builds the index: it runs on the item dataset
  with the item tower, reads and writes where the model that the fit returns reads, writes no model, and the
  model hands its agents the settings of the estimator.
\<close>

theorem fitted_towers_share_index:
  assumes "fit_two_tower del ex W T run item_of obj dataset st = (st3, Inr (model, obj'))"
    and "given obj ''item_dataset''"
  shows "\<exists>l st2 mdl r. run l st2 = (st3, Inr r) \<and> attr l ''module'' = item_of mdl \<and>
    attr l ''dataset'' = attr obj ''item_dataset'' \<and> attr l ''model_in_path'' = attr model ''model_in_path'' \<and>
    attr l ''model_out_path'' = PNone \<and> attr l ''index_builder_class'' = attr model ''index_builder_class'' \<and>
    (\<forall>n \<in> set tower_agent_names. attr (extra_attributes model) n = attr obj n)"
proof -
  let ?chk = "\<lambda>st. check_tower_estimator (W\<lparr>pw_dir_exists := \<lambda>u. ex u st\<rparr>) T"
  note fit = assms(1) [unfolded fit_two_tower_def]
  obtain st1 c where c: "clear_output del obj st = (st1, c)" by (cases "clear_output del obj st")
  then obtain u where u: "c = Inr u" using fit by (cases c) simp_all
  obtain obj1 l1 where c1: "create_tower_launcher (?chk st1) dataset True obj = Inr (obj1, l1)"
    using fit by (cases "create_tower_launcher (?chk st1) dataset True obj") (auto simp: c u)
  let ?l1 = "dict_set ''model_export_selector'' (PTuple [PObj ''user_module'', PStr ''_user_module.'']) l1"
  obtain st2 c2 where r1: "run ?l1 st1 = (st2, c2)" by (cases "run ?l1 st1")
  then obtain mdl metric where mm: "c2 = Inr (mdl, metric)" using fit by (cases c2) (auto simp: c u c1)
  have keep1: "n \<in> set tower_names \<Longrightarrow> attr obj1 n = attr obj n" for n
    by (rule check_tower_keeps(1) [OF c1 tower_names_facts(4)])
  have g: "given obj1 ''item_dataset''" using assms(2) keep1 [OF tower_names_facts(2)] by (simp add: given_def)
  obtain obj2 l2 where c2: "create_tower_launcher (?chk st2) (attr obj1 ''item_dataset'') False obj1 = Inr (obj2, l2)"
    using fit by (cases "create_tower_launcher (?chk st2) (attr obj1 ''item_dataset'') False obj1") (auto simp: c u c1 r1 mm g)
  obtain st c3 where r2: "run (indexing_launcher obj2 (item_of mdl) l2) st2 = (st, c3)"
    by (cases "run (indexing_launcher obj2 (item_of mdl) l2) st2")
  then obtain r where r: "c3 = Inr r" using fit by (cases c3) (auto simp: c u c1 r1 mm g c2)
  have m: "model = create_tower_model obj2 mdl" and run: "run (indexing_launcher obj2 (item_of mdl) l2) st2 = (st3, Inr r)"
    using fit r2 by (auto simp: c u c1 r1 mm g c2 r)
  have keep2: "n \<in> set tower_names \<Longrightarrow> attr obj2 n = attr obj n" for n
    by (rule trans [OF check_tower_keeps(1) [OF c2 tower_names_facts(4)] keep1])
  note l2 = indexing_launcher_attrs [OF check_tower_keeps(2) [OF c2]]
  have "attr (extra_attributes model) n = attr obj n" if "n \<in> set tower_agent_names" for n
    using that tower_names_facts(1) keep2 tower_model_attrs(2) tower_extra_attributes
    by (metis create_tower_model_def m subset_iff)
  moreover have "attr obj1 ''item_dataset'' = attr obj ''item_dataset''"
    "attr model ''index_builder_class'' = attr obj2 ''index_builder_class''"
    "attr model ''model_in_path'' = attr obj2 ''model_out_path''"
    using keep1 tower_names_facts(2,3) tower_model_attrs by (simp_all add: m del: set_map)
  ultimately show ?thesis
    by (intro exI [of _ "indexing_launcher obj2 (item_of mdl) l2"] exI [of _ st2] exI [of _ mdl] exI [of _ r])
      (simp add: run l2)
qed

theorem fitted_towers_share_index_witness:
  "\<exists>model obj' l. (2::nat, Inr (model, obj')) =
      fit_two_tower (\<lambda>_ st. Inr st) (\<lambda>_ _. Inr True) demo_world demo_towers
        (\<lambda>l st. (st + 1, Inr (PObj ''net'', PNone))) id (new_two_tower demo_tower_settings) PNone 0 \<and>
     attr l ''model_in_path'' = attr model ''model_in_path'' \<and> attr l ''dataset'' = PObj ''items''"
proof -
  let ?o = "new_two_tower demo_tower_settings" and ?run = "\<lambda>l st. (st + 1 :: nat, Inr (PObj ''net'', PNone) :: (pyval \<times> pyval) res)"
  let ?fit = "fit_two_tower (\<lambda>_ st. Inr st) (\<lambda>_ _. Inr True) demo_world demo_towers ?run id ?o PNone 0"
  have w: "demo_world\<lparr>pw_dir_exists := \<lambda>u. Inr True\<rparr> = demo_world" by (simp add: demo_world_def)
  have item: "given (normalized ?o) ''item_dataset''" "given ?o ''item_dataset''"
    using demo_towers_checked(3) by (simp_all add: given_def attr_normalized normal_value_def)
  have clear: "clear_output (\<lambda>_ st. Inr st) ?o 0 = (0::nat, Inr ())" by (simp add: clear_output_def demo_tower_paths)
  obtain model obj' where fit: "?fit = (2, Inr (model, obj'))"
    by (simp add: fit_two_tower_def clear w create_tower_launcher_def create_launcher_def demo_towers_checked(1,2) item)
  from fitted_towers_share_index [OF fit item(2)] fit show ?thesis
    unfolding demo_towers_checked(3)
    by (elim exE conjE) (intro exI conjI; simp)
qed

section \<open>The text of a result, item by item\<close>

definition item_text :: "('d \<Rightarrow> string) \<Rightarrow> string \<Rightarrow> string \<Rightarrow> 'd rec_item \<Rightarrow> string" where
  "item_text fmt fd vd x = (case format_item fmt fd vd x of Inl _ \<Rightarrow> [] | Inr t \<Rightarrow> t)"

lemma format_item_cases:
  "format_item fmt fd vd x = (if is_str (ri_name x) then Inr (item_text fmt fd vd x) else Inl TypeError)"
  by (cases "ri_name x") (simp_all add: item_text_def format_item_def)

lemma item_text_nonempty: "fd \<noteq> [] \<Longrightarrow> is_str (ri_name x) \<Longrightarrow> item_text fmt fd vd x \<noteq> []"
  by (cases "ri_name x") (simp_all add: item_text_def format_item_def)

lemma append_items:
  assumes "fd \<noteq> []" "acc \<noteq> []"
  shows "foldR (append_item fmt idl fd vd) items acc =
    (if list_all (\<lambda>x. is_str (ri_name x)) items
     then Inr (acc @ concat (map (\<lambda>x. idl @ item_text fmt fd vd x) items)) else Inl TypeError)"
  using assms(2)
  by (induction items arbitrary: acc) (simp_all add: append_item_def format_item_cases)

lemma join_concat: "join sep (x # xs) = x @ concat (map (\<lambda>y. sep @ y) xs)"
  by (induction xs arbitrary: x) simp_all

lemma format_rec_info_cases:
  assumes "fd \<noteq> []"
  shows "format_rec_info fmt idl fd vd items =
    (if list_all (\<lambda>x. is_str (ri_name x)) items then Inr (join idl (map (item_text fmt fd vd) items)) else Inl TypeError)"
proof (cases items)
  case (Cons x xs)
  then show ?thesis
    by (simp add: format_rec_info_def append_item_def [of _ _ _ _ x] format_item_cases join_concat comp_def
        append_items [OF assms item_text_nonempty [OF assms]] del: join.simps(2))
qed (simp add: format_rec_info_def)

text \<open>
  The text of a result splits at the item delimiter into its items, provided the delimiter occurs in none
  of them, when every item has a name that is text; the first name that is not text, as every name is when the
  identifiers are integers that are not mapped, makes \<open>stringify\<close> fail with a \<open>TypeError\<close>.
\<close>

theorem format_rec_info_items:
  assumes "fd \<noteq> []" and "items \<noteq> []" and "\<And>x. x \<in> set items \<Longrightarrow> idc \<notin> set (item_text fmt fd vd x)"
  shows "if list_all (\<lambda>x. is_str (ri_name x)) items
    then (\<exists>text. format_rec_info fmt [idc] fd vd items = Inr text \<and> split_on idc text = map (item_text fmt fd vd) items)
    else format_rec_info fmt [idc] fd vd items = Inl TypeError"
  using assms by (simp add: format_rec_info_cases split_on_join)

theorem format_rec_info_items_witness:
  "(\<exists>text. format_rec_info str_int ''|'' '':'' '','' [\<lparr>ri_name = PStr ''a'', ri_distance = 1, ri_embedding = None\<rparr>] = Inr text \<and>
      split_on CHR ''|'' text = [''a:1'']) \<and>
   format_rec_info str_int ''|'' '':'' '','' [\<lparr>ri_name = PInt 7, ri_distance = 1, ri_embedding = None\<rparr>] = Inl TypeError"
proof -
  let ?a = "\<lparr>ri_name = PStr ''a'', ri_distance = 1, ri_embedding = None\<rparr>"
  let ?i = "\<lparr>ri_name = PInt 7, ri_distance = 1, ri_embedding = None\<rparr>"
  have texts: "item_text str_int '':'' '','' ?a = ''a:1''" "item_text str_int '':'' '','' ?i = []" by code_simp+
  show ?thesis
    using format_rec_info_items [of "'':''" "[?a]" "CHR ''|''" str_int "'',''"]
      format_rec_info_items [of "'':''" "[?i]" "CHR ''|''" str_int "'',''"]
    by (simp add: texts)
qed

end
