(* ===== verification/Milvus.thy ===== *)
theory Milvus
  imports Towers
begin

text \<open>
  \<open>python/metaspore/two_tower_retrieval.py\<close>: the index in a Milvus collection, and the agents that build and
  query an index. The calls to the client library of Milvus are values, in the order in which the code makes
  them; what the server does with them is not modelled.
\<close>

section \<open>The settings\<close>

definition milvus_defaults :: "pyval dict" where
  "milvus_defaults =
     [(''milvus_collection_name'', PNone), (''milvus_host'', PStr ''localhost''), (''milvus_port'', PInt 19530),
      (''milvus_item_id_field_name'', PStr ''item_id''),
      (''milvus_item_embedding_field_name'', PStr ''item_embedding''),
      (''milvus_string_item_id_max_length'', PInt 65535), (''milvus_index_type'', PStr ''IVF_FLAT''),
      (''milvus_index_params'', PDict [(''nlist'', PInt 1024)]), (''milvus_metric_type'', PStr ''IP''),
      (''milvus_search_params'', PDict [(''nprobe'', PInt 128)]), (''milvus_extra_fields'', PNone),
      (''milvus_extra_string_max_length'', PInt 65535),
      (''milvus_extra_array_multivalue_delimiter'', PStr [CHR 0x01])]"

definition get_milvus_attributes :: "string list" where
  "get_milvus_attributes = map fst milvus_defaults"

fun is_dict :: "pyval \<Rightarrow> bool" where
  "is_dict (PDict _) = True"
| "is_dict _ = False"

definition varchar_length :: "pyval \<Rightarrow> bool" where
  "varchar_length v \<longleftrightarrow> (case as_int v of None \<Rightarrow> False | Some i \<Rightarrow> 1 \<le> i \<and> i \<le> 65535)"

definition milvus_checks :: "(pyobj \<Rightarrow> pyobj res) list" where
  "milvus_checks =
     [forbid RuntimeError (\<lambda>b. \<not> given b ''milvus_collection_name''),
      need ''milvus_collection_name'' nonempty_str, need ''milvus_host'' nonempty_str,
      need ''milvus_port'' is_pos_int, need ''milvus_item_id_field_name'' nonempty_str,
      need ''milvus_item_embedding_field_name'' nonempty_str,
      need ''milvus_string_item_id_max_length'' varchar_length, need ''milvus_index_type'' nonempty_str,
      need ''milvus_index_params'' is_dict, need ''milvus_metric_type'' nonempty_str,
      need ''milvus_search_params'' is_dict, optional ''milvus_extra_fields'' is_str_list,
      need ''milvus_extra_string_max_length'' varchar_length,
      need ''milvus_extra_array_multivalue_delimiter'' nonempty_str]"

text \<open>\<open>getattr(agent, name, default)\<close> for each setting, then the checks.\<close>

definition new_milvus_builder :: "pyval dict \<Rightarrow> pyobj res" where
  "new_milvus_builder agent =
     foldR (\<lambda>c. c) milvus_checks
       (map (\<lambda>(n, d). (n, case dict_get agent n of None \<Rightarrow> d | Some v \<Rightarrow> v)) milvus_defaults)"

text \<open>The class of the builder: the one that is given, else Milvus as soon as an attribute of it is set.\<close>

definition get_index_builder_class :: "pyval dict \<Rightarrow> pyval" where
  "get_index_builder_class agent =
     (if attr agent ''index_builder_class'' \<noteq> PNone then attr agent ''index_builder_class''
      else if list_ex (\<lambda>n. dict_get agent n \<noteq> None) get_milvus_attributes then PObj ''TwoTowerMilvusIndexBuilder''
      else PObj ''TwoTowerFaissIndexBuilder'')"

abbreviation milvus_class :: string where "milvus_class \<equiv> ''TwoTowerMilvusIndexBuilder''"

definition milvus_meta :: "pyobj \<Rightarrow> pyval dict" where
  "milvus_meta b = map (\<lambda>n. (n, attr b n)) get_milvus_attributes"

definition str_attr :: "pyobj \<Rightarrow> string \<Rightarrow> string" where
  "str_attr b n = (case attr b n of PStr s \<Rightarrow> s | _ \<Rightarrow> [])"

definition int_attr :: "pyobj \<Rightarrow> string \<Rightarrow> int" where
  "int_attr b n = (case as_int (attr b n) of Some i \<Rightarrow> i | None \<Rightarrow> 0)"

definition milvus_alias :: "pyobj \<Rightarrow> bool \<Rightarrow> nat \<Rightarrow> nat \<Rightarrow> string" where
  "milvus_alias b coordinator n r =
     str_attr b ''milvus_collection_name'' @
     (if coordinator then ''_connection_coordinator'' else ''_connection_worker_'' @ str_nat n @ ''_'' @ str_nat r)"

section \<open>The fields of the collection\<close>

datatype milvus_type = MInt32 | MInt64 | MFloat | MDouble | MBool | MVarchar int | MFloatVector int

record milvus_field =
  mf_name :: string
  mf_type :: milvus_type
  mf_primary :: bool

definition plain_milvus_field :: "string \<Rightarrow> milvus_type \<Rightarrow> milvus_field" where
  "plain_milvus_field n t = \<lparr>mf_name = n, mf_type = t, mf_primary = False\<rparr>"

fun map_spark_type :: "int \<Rightarrow> spark_type \<Rightarrow> milvus_type res" where
  "map_spark_type len StringT = Inr (MVarchar len)"
| "map_spark_type len FloatT = Inr MFloat"
| "map_spark_type len DoubleT = Inr MDouble"
| "map_spark_type len IntegerT = Inr MInt32"
| "map_spark_type len LongT = Inr MInt64"
| "map_spark_type len BooleanT = Inr MBool"
| "map_spark_type len (ArrayT t) = (if is_basic_type t then Inr (MVarchar len) else Inl AssertionError)"
| "map_spark_type len (OtherT _) = Inl AssertionError"

definition map_spark_field :: "int \<Rightarrow> spark_field \<Rightarrow> milvus_field res" where
  "map_spark_field len f = bindR (map_spark_type len (sf_type f)) (\<lambda>t. Inr (plain_milvus_field (sf_name f) t))"

text \<open>A name among the extra fields is looked up in the schema of the items and must have a supported type.\<close>

definition extra_field :: "spark_schema \<Rightarrow> string \<Rightarrow> spark_field res" where
  "extra_field schema n =
     (case find (\<lambda>f. sf_name f = n) schema of
        None \<Rightarrow> Inl RuntimeError
      | Some f \<Rightarrow> raise_if (\<not> is_data_type_supported (sf_type f)) RuntimeError (Inr f))"

definition extra_names :: "pyobj \<Rightarrow> string list" where
  "extra_names b = map (\<lambda>v. case v of PStr s \<Rightarrow> s | _ \<Rightarrow> []) (seq_items (attr b ''milvus_extra_fields''))"

definition add_milvus_extra_fields :: "pyobj \<Rightarrow> spark_schema \<Rightarrow> milvus_field list res" where
  "add_milvus_extra_fields b schema =
     mapR (\<lambda>n. bindR (extra_field schema n) (map_spark_field (int_attr b ''milvus_extra_string_max_length''))) (extra_names b)"

definition get_milvus_fields :: "pyobj \<Rightarrow> index_agent \<Rightarrow> milvus_field list res" where
  "get_milvus_fields b a =
     bindR (item_id_column_type convert_spark_item_id_column_type a) (\<lambda>t.
     bindR (add_milvus_extra_fields b (ia_dataset a)) (\<lambda>extra.
     Inr ([\<lparr>mf_name = str_attr b ''milvus_item_id_field_name'',
            mf_type = (if t = ''int64'' then MInt64 else MVarchar (int_attr b ''milvus_string_item_id_max_length'')),
            mf_primary = True\<rparr>,
          plain_milvus_field (str_attr b ''milvus_item_embedding_field_name'') (MFloatVector (ia_item_embedding_size a))] @
          extra)))"

section \<open>The columns of a minibatch\<close>

datatype column_processor = ColumnValues string | JoinText string string | JoinBooleans string string | JoinValues string string

fun make_column_processor :: "string \<Rightarrow> spark_field \<Rightarrow> column_processor res" where
  "make_column_processor delim f =
     (case sf_type f of
        ArrayT t \<Rightarrow>
          raise_if (\<not> is_basic_type t) AssertionError
          (Inr (if t = StringT then JoinText (sf_name f) delim
                else if t = BooleanT then JoinBooleans (sf_name f) delim else JoinValues (sf_name f) delim))
      | t \<Rightarrow> raise_if (\<not> is_basic_type t) AssertionError (Inr (ColumnValues (sf_name f))))"

definition make_minibatch_processor :: "pyobj \<Rightarrow> spark_schema \<Rightarrow> column_processor list res" where
  "make_minibatch_processor b schema =
     mapR (\<lambda>n. bindR (extra_field schema n)
       (make_column_processor (str_attr b ''milvus_extra_array_multivalue_delimiter''))) (extra_names b)"

definition array_cells :: "pyval \<Rightarrow> pyval list res" where
  "array_cells v = (case v of PList xs \<Rightarrow> Inr xs | PTuple xs \<Rightarrow> Inr xs | _ \<Rightarrow> Inl TypeError)"

definition str_cell :: "pyval \<Rightarrow> string res" where
  "str_cell v = (case v of PStr s \<Rightarrow> Inr s | _ \<Rightarrow> Inl TypeError)"

fun process_column :: "(pyval \<Rightarrow> string) \<Rightarrow> minibatch \<Rightarrow> column_processor \<Rightarrow> pyval list res" where
  "process_column fmt mb (ColumnValues n) = loc mb n"
| "process_column fmt mb (JoinText n d) =
     bindR (loc mb n) (mapR (\<lambda>v. bindR (array_cells v) (\<lambda>xs. bindR (mapR str_cell xs) (\<lambda>ts. Inr (PStr (join d ts))))))"
| "process_column fmt mb (JoinBooleans n d) =
     bindR (loc mb n) (mapR (\<lambda>v. bindR (array_cells v) (\<lambda>xs. Inr (PStr (map to_lower (join d (map fmt xs)))))))"
| "process_column fmt mb (JoinValues n d) =
     bindR (loc mb n) (mapR (\<lambda>v. bindR (array_cells v) (\<lambda>xs. Inr (PStr (join d (map fmt xs))))))"

definition extra_ndarrays :: "(pyval \<Rightarrow> string) \<Rightarrow> column_processor list \<Rightarrow> minibatch \<Rightarrow> pyval list list res" where
  "extra_ndarrays fmt ps mb = mapR (process_column fmt mb) ps"

section \<open>The calls of a builder\<close>

text \<open>
  A call names the alias of the connection that it uses; all concern the collection of the builder. Opening a
  collection is the constructor \<open>Collection(name, using=alias)\<close>, after which the alias has a handle.
\<close>

datatype 'r milvus_call =
    ConnectTo (call_alias: string)
  | DisconnectFrom (call_alias: string)
  | HasCollection (call_alias: string)
  | OpenCollection (call_alias: string)
  | DropCollection (call_alias: string)
  | CreateCollection (call_alias: string) "milvus_field list"
  | LoadCollection (call_alias: string)
  | CreateIndex (call_alias: string) string "pyval dict"
  | InsertRows (call_alias: string) 'r

definition milvus_index_params :: "pyobj \<Rightarrow> pyval dict" where
  "milvus_index_params b =
     [(''index_type'', attr b ''milvus_index_type''), (''metric_type'', attr b ''milvus_metric_type''),
      (''params'', attr b ''milvus_index_params'')]"

text \<open>
  \<open>begin_creating_index\<close>: connect, drop what exists, and create; the schema is computed for the creation, so
  an error in it comes after the drop. \<open>exists\<close> is the answer of the server.
\<close>

definition drop_milvus_collection_if_exists :: "bool \<Rightarrow> string \<Rightarrow> 'r milvus_call list" where
  "drop_milvus_collection_if_exists found al =
     HasCollection al # (if found then [OpenCollection al, DropCollection al] else [])"

definition begin_creating_milvus :: "bool \<Rightarrow> pyobj \<Rightarrow> index_agent \<Rightarrow> 'r milvus_call list \<times> unit res" where
  "begin_creating_milvus found b a =
     (let al = milvus_alias b True (ia_worker_count a) (ia_rank a);
          calls = ConnectTo al # drop_milvus_collection_if_exists found al
      in case get_milvus_fields b a of
           Inl e \<Rightarrow> (calls, Inl e)
         | Inr fs \<Rightarrow> (calls @ [CreateCollection al fs], Inr ()))"

definition end_creating_milvus :: "pyobj \<Rightarrow> index_agent \<Rightarrow> 'r milvus_call list" where
  "end_creating_milvus b a =
     (let al = milvus_alias b True (ia_worker_count a) (ia_rank a)
      in [CreateIndex al (str_attr b ''milvus_item_embedding_field_name'') (milvus_index_params b), DisconnectFrom al])"

definition begin_milvus_partition :: "pyobj \<Rightarrow> nat \<Rightarrow> nat \<Rightarrow> 'r milvus_call list" where
  "begin_milvus_partition b n r = [ConnectTo (milvus_alias b False n r), OpenCollection (milvus_alias b False n r)]"

definition output_milvus_batch :: "pyobj \<Rightarrow> nat \<Rightarrow> nat \<Rightarrow> 'r \<Rightarrow> 'r milvus_call" where
  "output_milvus_batch b n r rows = InsertRows (milvus_alias b False n r) rows"

definition end_milvus_partition :: "pyobj \<Rightarrow> nat \<Rightarrow> nat \<Rightarrow> 'r milvus_call list" where
  "end_milvus_partition b n r = [DisconnectFrom (milvus_alias b False n r)]"

definition begin_querying_milvus :: "pyobj \<Rightarrow> bool \<Rightarrow> nat \<Rightarrow> nat \<Rightarrow> 'r milvus_call list" where
  "begin_querying_milvus b coordinator n r =
     (let al = milvus_alias b coordinator n r
      in [ConnectTo al, OpenCollection al] @ (if coordinator then [LoadCollection al] else []))"

text \<open>\<open>_release_milvus_collection\<close> calls \<open>load\<close> once more.\<close>

definition end_querying_milvus :: "pyobj \<Rightarrow> bool \<Rightarrow> nat \<Rightarrow> nat \<Rightarrow> 'r milvus_call list" where
  "end_querying_milvus b coordinator n r =
     (let al = milvus_alias b coordinator n r in (if coordinator then [LoadCollection al] else []) @ [DisconnectFrom al])"

section \<open>The agents\<close>

text \<open>
  The coordinator makes its calls before the workers start and after they have stopped; in between every worker
  connects, works on its minibatches and disconnects, independently of the others.
\<close>

definition building_worker_calls :: "pyobj \<Rightarrow> nat \<Rightarrow> nat \<Rightarrow> 'r list \<Rightarrow> 'r milvus_call list" where
  "building_worker_calls b n r batches =
     begin_milvus_partition b n r @ map (output_milvus_batch b n r) batches @ end_milvus_partition b n r"

datatype tower_event = BuilderCreated | BuilderStep string | ClassDistributed | WorkersStarted | WorkersStopped

definition base_start_workers :: "tower_event list" where
  "base_start_workers = [ClassDistributed, WorkersStarted]"

definition building_start_workers :: "tower_event list" where
  "building_start_workers =
     [BuilderCreated, BuilderStep ''begin_creating_index''] @ base_start_workers @ [BuilderStep ''distribute_state'']"

definition building_stop_workers :: "tower_event list" where
  "building_stop_workers = [WorkersStopped, BuilderStep ''end_creating_index'']"

definition building_worker_start :: "tower_event list" where
  "building_worker_start = [WorkersStarted, BuilderCreated, BuilderStep ''begin_creating_index_partition'']"

definition building_worker_stop :: "tower_event list" where
  "building_worker_stop = [BuilderStep ''end_creating_index_partition'', WorkersStopped]"

definition retrieval_start_workers :: "tower_event list" where
  "retrieval_start_workers = [BuilderCreated, BuilderStep ''begin_querying_index''] @ base_start_workers"

definition retrieval_stop_workers :: "tower_event list" where
  "retrieval_stop_workers = [WorkersStopped, BuilderStep ''end_querying_index'']"

section \<open>The protocol of a connection\<close>

text \<open>
  What a client has to observe: it uses an alias between connecting and disconnecting it, drops, opens and loads
  only a collection that exists, creates one only when there is none, and inserts and builds the index through
  a handle.
\<close>

record 'r protocol_state =
  ps_open :: "string set"
  ps_handles :: "string set"
  ps_exists :: bool
  ps_rows :: "'r list"
  ps_indexed :: bool
  ps_loads :: nat

fun protocol_step :: "'r protocol_state \<Rightarrow> 'r milvus_call \<Rightarrow> 'r protocol_state option" where
  "protocol_step s (ConnectTo al) = (if al \<in> ps_open s then None else Some (s\<lparr>ps_open := insert al (ps_open s)\<rparr>))"
| "protocol_step s (DisconnectFrom al) =
     (if al \<notin> ps_open s then None
      else Some (s\<lparr>ps_open := ps_open s - {al}, ps_handles := ps_handles s - {al}\<rparr>))"
| "protocol_step s (HasCollection al) = (if al \<notin> ps_open s then None else Some s)"
| "protocol_step s (OpenCollection al) =
     (if al \<notin> ps_open s \<or> \<not> ps_exists s then None else Some (s\<lparr>ps_handles := insert al (ps_handles s)\<rparr>))"
| "protocol_step s (DropCollection al) =
     (if al \<notin> ps_handles s \<or> \<not> ps_exists s then None
      else Some (s\<lparr>ps_exists := False, ps_rows := [], ps_indexed := False, ps_handles := {}\<rparr>))"
| "protocol_step s (CreateCollection al fs) =
     (if al \<notin> ps_open s \<or> ps_exists s then None
      else Some (s\<lparr>ps_exists := True, ps_rows := [], ps_indexed := False, ps_handles := insert al (ps_handles s)\<rparr>))"
| "protocol_step s (LoadCollection al) = (if al \<notin> ps_handles s then None else Some (s\<lparr>ps_loads := Suc (ps_loads s)\<rparr>))"
| "protocol_step s (CreateIndex al f ps) = (if al \<notin> ps_handles s then None else Some (s\<lparr>ps_indexed := True\<rparr>))"
| "protocol_step s (InsertRows al rows) = (if al \<notin> ps_handles s then None else Some (s\<lparr>ps_rows := ps_rows s @ [rows]\<rparr>))"

fun protocol_run :: "'r protocol_state \<Rightarrow> 'r milvus_call list \<Rightarrow> 'r protocol_state option" where
  "protocol_run s [] = Some s"
| "protocol_run s (c # cs) = Option.bind (protocol_step s c) (\<lambda>s. protocol_run s cs)"

lemma protocol_run_append: "protocol_run s (xs @ ys) = Option.bind (protocol_run s xs) (\<lambda>s. protocol_run s ys)"
  by (induction xs arbitrary: s) (auto split: Option.bind_splits)

definition inserted :: "'r milvus_call list \<Rightarrow> 'r list" where
  "inserted cs = concat (map (\<lambda>c. case c of InsertRows _ rows \<Rightarrow> [rows] | _ \<Rightarrow> []) cs)"

lemma inserted_simps [simp]: "inserted [] = []" "inserted (c # cs) = (case c of InsertRows _ rows \<Rightarrow> [rows] | _ \<Rightarrow> []) @ inserted cs"
  by (simp_all add: inserted_def)

lemma milvus_alias_distinct [simp]:
  "milvus_alias b False n r \<noteq> milvus_alias b True m q" "milvus_alias b True m q \<noteq> milvus_alias b False n r"
  "milvus_alias b False n r = milvus_alias b False n r' \<longleftrightarrow> r = r'"
proof -
  have "str_nat r = str_nat r' \<Longrightarrow> r = r'" by (metis nat_of_digits_str_nat)
  then show "milvus_alias b False n r = milvus_alias b False n r' \<longleftrightarrow> r = r'" by (auto simp: milvus_alias_def)
qed (simp_all add: milvus_alias_def)

section \<open>The workers under every interleaving\<close>

text \<open>What is left of the calls of a worker, given what the protocol knows of its connection.\<close>

definition worker_left :: "pyobj \<Rightarrow> nat \<Rightarrow> 'r protocol_state \<Rightarrow> nat \<Rightarrow> 'r milvus_call list \<Rightarrow> bool" where
  "worker_left b n s r l \<longleftrightarrow>
     (let al = milvus_alias b False n r in
      (al \<notin> ps_open s \<and> (\<exists>xs. l = building_worker_calls b n r xs)) \<or>
      (al \<in> ps_open s \<and> (\<exists>xs. l = OpenCollection al # map (output_milvus_batch b n r) xs @ [DisconnectFrom al])) \<or>
      (al \<in> ps_open s \<and> al \<in> ps_handles s \<and> (\<exists>xs. l = map (output_milvus_batch b n r) xs @ [DisconnectFrom al])) \<or>
      (al \<notin> ps_open s \<and> l = []))"

definition workers_run :: "pyobj \<Rightarrow> nat \<Rightarrow> 'r protocol_state \<Rightarrow> 'r milvus_call list \<Rightarrow> bool" where
  "workers_run b n s W \<longleftrightarrow>
     (\<forall>r < n. worker_left b n s r (filter (\<lambda>c. call_alias c = milvus_alias b False n r) W)) \<and>
     (\<forall>c \<in> set W. \<exists>r < n. call_alias c = milvus_alias b False n r)"

lemma worker_first:
  assumes "worker_left b n s r (c # l)" and "ps_exists s"
  shows "\<exists>s'. protocol_step s c = Some s' \<and> worker_left b n s' r l \<and>
    ps_exists s' \<and> ps_indexed s' = ps_indexed s \<and> ps_loads s' = ps_loads s \<and>
    ps_rows s' = ps_rows s @ (case c of InsertRows _ rows \<Rightarrow> [rows] | _ \<Rightarrow> []) \<and>
    (\<forall>al. al \<noteq> milvus_alias b False n r \<longrightarrow> (al \<in> ps_open s') = (al \<in> ps_open s) \<and> (al \<in> ps_handles s') = (al \<in> ps_handles s))"
proof -
  let ?al = "milvus_alias b False n r"
  consider (start) xs where "?al \<notin> ps_open s" "c = ConnectTo ?al" "l = OpenCollection ?al # map (output_milvus_batch b n r) xs @ [DisconnectFrom ?al]"
    | (opened) xs where "?al \<in> ps_open s" "c = OpenCollection ?al" "l = map (output_milvus_batch b n r) xs @ [DisconnectFrom ?al]"
    | (insert) x xs where "?al \<in> ps_open s" "?al \<in> ps_handles s" "c = output_milvus_batch b n r x" "l = map (output_milvus_batch b n r) xs @ [DisconnectFrom ?al]"
    | (stop) "?al \<in> ps_open s" "c = DisconnectFrom ?al" "l = []"
    using assms(1)
    by (auto simp: worker_left_def Let_def building_worker_calls_def begin_milvus_partition_def end_milvus_partition_def
        Cons_eq_append_conv map_eq_Cons_conv)
  then show ?thesis
  proof cases
    case start
    then show ?thesis using assms(2) by (auto simp: worker_left_def Let_def)
  next
    case opened
    then show ?thesis using assms(2) by (auto simp: worker_left_def Let_def)
  next
    case insert
    then show ?thesis using assms(2) by (auto simp: worker_left_def Let_def output_milvus_batch_def)
  next
    case stop
    then show ?thesis using assms(2) by (auto simp: worker_left_def Let_def)
  qed
qed

lemma worker_left_other:
  assumes "worker_left b n s r l"
    and "\<forall>al. al \<noteq> milvus_alias b False n q \<longrightarrow> (al \<in> ps_open s') = (al \<in> ps_open s) \<and> (al \<in> ps_handles s') = (al \<in> ps_handles s)"
    and "r \<noteq> q"
  shows "worker_left b n s' r l"
  using assms by (simp add: worker_left_def)

lemma workers_run_ok:
  assumes "workers_run b n s W" and "ps_exists s"
  shows "\<exists>s'. protocol_run s W = Some s' \<and> workers_run b n s' [] \<and> ps_exists s' \<and> ps_indexed s' = ps_indexed s \<and>
    ps_loads s' = ps_loads s \<and> ps_rows s' = ps_rows s @ inserted W \<and>
    (\<forall>al. (\<forall>r < n. al \<noteq> milvus_alias b False n r) \<longrightarrow> (al \<in> ps_open s') = (al \<in> ps_open s) \<and> (al \<in> ps_handles s') = (al \<in> ps_handles s))"
  using assms
proof (induction W arbitrary: s)
  case (Cons c W)
  obtain q where q: "q < n" "call_alias c = milvus_alias b False n q" using Cons.prems(1) by (auto simp: workers_run_def)
  let ?f = "\<lambda>r W. filter (\<lambda>c. call_alias c = milvus_alias b False n r) W"
  have "worker_left b n s q (c # ?f q W)" using Cons.prems(1) q by (auto simp: workers_run_def)
  from worker_first [OF this Cons.prems(2)] obtain s1 where s1: "protocol_step s c = Some s1"
      "worker_left b n s1 q (?f q W)" "ps_exists s1" "ps_indexed s1 = ps_indexed s" "ps_loads s1 = ps_loads s"
      "ps_rows s1 = ps_rows s @ (case c of InsertRows _ rows \<Rightarrow> [rows] | _ \<Rightarrow> [])"
      "\<forall>al. al \<noteq> milvus_alias b False n q \<longrightarrow> (al \<in> ps_open s1) = (al \<in> ps_open s) \<and> (al \<in> ps_handles s1) = (al \<in> ps_handles s)"
    by blast
  have "worker_left b n s1 r (?f r W)" if "r < n" for r
  proof (cases "r = q")
    case False
    have "worker_left b n s r (?f r (c # W))" using Cons.prems(1) that by (auto simp only: workers_run_def)
    then have "worker_left b n s r (?f r W)" using q False by simp
    from worker_left_other [OF this s1(7) False] show ?thesis .
  qed (use s1(2) in simp)
  then have "workers_run b n s1 W" using Cons.prems(1) by (simp add: workers_run_def)
  from Cons.IH [OF this s1(3)] obtain s2 where s2: "protocol_run s1 W = Some s2" "workers_run b n s2 []" "ps_exists s2"
      "ps_indexed s2 = ps_indexed s1" "ps_loads s2 = ps_loads s1" "ps_rows s2 = ps_rows s1 @ inserted W"
      "\<forall>al. (\<forall>r < n. al \<noteq> milvus_alias b False n r) \<longrightarrow> (al \<in> ps_open s2) = (al \<in> ps_open s1) \<and> (al \<in> ps_handles s2) = (al \<in> ps_handles s1)"
    by blast
  show ?case using s1 s2 q(1) by (intro exI [of _ s2]) (simp split: milvus_call.splits)
qed simp

definition fresh_protocol :: "bool \<Rightarrow> 'r protocol_state" where
  "fresh_protocol found =
     \<lparr>ps_open = {}, ps_handles = {}, ps_exists = found, ps_rows = [], ps_indexed = False, ps_loads = 0\<rparr>"

text \<open>An interleaving \<open>W\<close> of the calls of \<open>n\<close> workers with the minibatches \<open>ins\<close>.\<close>

definition worker_interleaving :: "pyobj \<Rightarrow> nat \<Rightarrow> (nat \<Rightarrow> 'r milvus_call list) \<Rightarrow> 'r milvus_call list \<Rightarrow> bool" where
  "worker_interleaving b n calls W \<longleftrightarrow>
     (\<forall>r < n. filter (\<lambda>c. call_alias c = milvus_alias b False n r) W = calls r) \<and>
     (\<forall>c \<in> set W. \<exists>r < n. call_alias c = milvus_alias b False n r)"

text \<open>
  C7: Building a Milvus index keeps to the protocol in every interleaving of the workers: the old collection
  is dropped and the new one created before any worker opens it, every batch goes through an open handle, the
  index is built when all batches are in, every connection is closed, and the collection holds the batches
  of all workers. The workers make their calls between those of the coordinator.
\<close>

theorem milvus_build_protocol:
  fixes W :: "'r milvus_call list"
  assumes "worker_interleaving b (ia_worker_count a) (\<lambda>r. building_worker_calls b (ia_worker_count a) r (ins r)) W"
    and "get_milvus_fields b a = Inr fs"
  shows "\<exists>s. protocol_run (fresh_protocol found) (fst (begin_creating_milvus found b a) @ W @ end_creating_milvus b a) = Some s \<and>
    ps_open s = {} \<and> ps_exists s \<and> ps_indexed s \<and> ps_rows s = inserted W"
proof -
  let ?n = "ia_worker_count a"
  let ?ca = "milvus_alias b True ?n (ia_rank a)"
  obtain s0 :: "'r protocol_state" where s0: "protocol_run (fresh_protocol found) (fst (begin_creating_milvus found b a)) = Some s0"
      "ps_open s0 = {?ca}" "ps_handles s0 = {?ca}" "ps_exists s0" "ps_rows s0 = []" "\<not> ps_indexed s0"
    using assms(2)
    by (cases found) (simp_all add: begin_creating_milvus_def drop_milvus_collection_if_exists_def fresh_protocol_def Let_def)
  have "worker_left b ?n s0 r (building_worker_calls b ?n r (ins r))" for r
    using s0(2) by (auto simp: worker_left_def Let_def)
  then have "workers_run b ?n s0 W" using assms(1) by (simp add: workers_run_def worker_interleaving_def)
  from workers_run_ok [OF this s0(4)] obtain s1 where s1: "protocol_run s0 W = Some s1" "workers_run b ?n s1 []"
      "ps_exists s1" "ps_rows s1 = inserted W"
      "\<forall>al. (\<forall>r < ?n. al \<noteq> milvus_alias b False ?n r) \<longrightarrow> (al \<in> ps_open s1) = (al \<in> ps_open s0) \<and> (al \<in> ps_handles s1) = (al \<in> ps_handles s0)"
    using s0(5) by auto
  have closed: "milvus_alias b False ?n r \<notin> ps_open s1" if "r < ?n" for r
    using s1(2) that by (auto simp: workers_run_def worker_left_def Let_def building_worker_calls_def begin_milvus_partition_def)
  have other: "(al \<in> ps_open s1) = (al = ?ca)" "(al \<in> ps_handles s1) = (al = ?ca)"
    if "\<forall>r < ?n. al \<noteq> milvus_alias b False ?n r" for al
    using s1(5) [rule_format, OF that [rule_format]] by (simp_all add: s0(2,3))
  have "\<forall>r < ?n. ?ca \<noteq> milvus_alias b False ?n r" by simp
  note ca = other [OF this, simplified]
  have o: "ps_open s1 = {?ca}"
  proof (rule set_eqI)
    fix al
    show "al \<in> ps_open s1 \<longleftrightarrow> al \<in> {?ca}"
    proof (cases "\<forall>r < ?n. al \<noteq> milvus_alias b False ?n r")
      case True
      from other(1) [OF this] show ?thesis by simp
    next
      case False
      then obtain r where "r < ?n" "al = milvus_alias b False ?n r" by auto
      with closed [of r] show ?thesis by simp
    qed
  qed
  have "protocol_run s1 (end_creating_milvus b a) =
      Some (s1\<lparr>ps_indexed := True, ps_open := {}, ps_handles := ps_handles s1 - {?ca}\<rparr>)"
    using o ca(2) by (simp add: end_creating_milvus_def Let_def)
  then show ?thesis
    using s0(1) s1(1,3,4) by (simp add: protocol_run_append)
qed

definition demo_builder :: pyobj where
  "demo_builder = [(''milvus_collection_name'', PStr ''items''), (''milvus_item_id_field_name'', PStr ''id''),
     (''milvus_item_embedding_field_name'', PStr ''emb''), (''milvus_string_item_id_max_length'', PInt 9)]"

definition demo_interleaving :: "int milvus_call list" where
  "demo_interleaving =
     (let w0 = milvus_alias demo_builder False 2 0; w1 = milvus_alias demo_builder False 2 1
      in [ConnectTo w0, ConnectTo w1, OpenCollection w0, OpenCollection w1, InsertRows w1 20, InsertRows w0 10,
          DisconnectFrom w0, InsertRows w1 21, DisconnectFrom w1])"

theorem milvus_build_protocol_witness:
  "\<exists>s. protocol_run (fresh_protocol True) (fst (begin_creating_milvus True demo_builder example_agent) @
      demo_interleaving @ end_creating_milvus demo_builder example_agent) = Some s \<and> ps_rows s = [20, 10, 21]"
proof -
  have count: "ia_worker_count example_agent = 2" by (simp add: example_agent_def)
  have "\<not> Option.is_none (case get_milvus_fields demo_builder example_agent of Inl _ \<Rightarrow> None | Inr fs \<Rightarrow> Some fs)"
    by code_simp
  then obtain fs where fs: "get_milvus_fields demo_builder example_agent = Inr fs" by (auto split: sum.splits)
  let ?ins = "\<lambda>r :: nat. if r = 0 then [10] else [20, 21 :: int]"
  have "worker_interleaving demo_builder 2 (\<lambda>r. building_worker_calls demo_builder 2 r (?ins r)) demo_interleaving"
    unfolding worker_interleaving_def less_2_cases_iff
    by (auto simp: demo_interleaving_def Let_def building_worker_calls_def begin_milvus_partition_def
        output_milvus_batch_def end_milvus_partition_def)
  then have "worker_interleaving demo_builder (ia_worker_count example_agent)
      (\<lambda>r. building_worker_calls demo_builder (ia_worker_count example_agent) r (?ins r)) demo_interleaving"
    unfolding count .
  moreover have "inserted demo_interleaving = [20, 10, 21]" by (simp add: demo_interleaving_def Let_def)
  ultimately show ?thesis using milvus_build_protocol [OF _ fs] by metis
qed

text \<open>
  Querying a Milvus index keeps to the protocol too, but the coordinator loads the collection twice: where
  it should release it, it loads it again.
\<close>

theorem milvus_query_loads_twice:
  "\<exists>s :: 'r protocol_state. protocol_run (fresh_protocol True) (begin_querying_milvus b True n r @ end_querying_milvus b True n r) = Some s \<and>
    ps_open s = {} \<and> ps_loads s = 2"
  by (simp add: begin_querying_milvus_def end_querying_milvus_def Let_def fresh_protocol_def)

text \<open>A bad extra field is found out only when the old collection has been dropped.\<close>

lemma milvus_drop_before_check:
  assumes "get_milvus_fields b a = Inl e"
  shows "snd (begin_creating_milvus True b a) = Inl e \<and>
    map_option ps_exists (protocol_run (fresh_protocol True) (fst (begin_creating_milvus True b a))) = Some False"
  using assms
  by (simp add: begin_creating_milvus_def drop_milvus_collection_if_exists_def fresh_protocol_def Let_def)

section \<open>Fields and columns agree\<close>

text \<open>The value that a column of a Milvus type takes: text for \<open>VARCHAR\<close> columns that hold arrays.\<close>

definition column_fits :: "spark_field \<Rightarrow> milvus_field \<Rightarrow> column_processor \<Rightarrow> bool" where
  "column_fits f m p \<longleftrightarrow>
     mf_name m = sf_name f \<and>
     (case sf_type f of
        ArrayT _ \<Rightarrow> (\<exists>len. mf_type m = MVarchar len) \<and> (\<exists>d. p \<in> {JoinText (sf_name f) d, JoinBooleans (sf_name f) d, JoinValues (sf_name f) d})
      | _ \<Rightarrow> p = ColumnValues (sf_name f))"

lemma supported_type_total:
  "is_data_type_supported t \<Longrightarrow> \<exists>m. map_spark_type len t = Inr m"
  by (cases t) simp_all

lemma supported_field_total:
  assumes "is_data_type_supported (sf_type f)"
  shows "\<exists>m p. map_spark_field len f = Inr m \<and> make_column_processor d f = Inr p \<and> column_fits f m p"
  using assms
  by (cases "sf_type f")
    (auto simp: map_spark_field_def plain_milvus_field_def column_fits_def raise_if_def)

text \<open>
  The extra fields of the collection and the extra columns of a minibatch are computed apart, on different
  nodes, and agree: either both fail with the same error, a \<open>RuntimeError\<close>, or both succeed with fields and columns of the
  same names in the same order, arrays as joined text in \<open>VARCHAR\<close> fields. No assertion fails.
\<close>

theorem milvus_columns_match:
  "(add_milvus_extra_fields b schema = Inl RuntimeError \<and> make_minibatch_processor b schema = Inl RuntimeError) \<or>
   (\<exists>fs ms ps. mapR (extra_field schema) (extra_names b) = Inr fs \<and> add_milvus_extra_fields b schema = Inr ms \<and>
      make_minibatch_processor b schema = Inr ps \<and> length ms = length fs \<and> length ps = length fs \<and>
      list_all (\<lambda>(f, m, p). column_fits f m p) (zip fs (zip ms ps)))"
proof -
  let ?len = "int_attr b ''milvus_extra_string_max_length''"
  let ?d = "str_attr b ''milvus_extra_array_multivalue_delimiter''"
  let ?F = "\<lambda>n. bindR (extra_field schema n) (map_spark_field ?len)"
  let ?P = "\<lambda>n. bindR (extra_field schema n) (make_column_processor ?d)"
  have "(mapR ?F ns = Inl RuntimeError \<and> mapR ?P ns = Inl RuntimeError) \<or>
      (\<exists>fs ms ps. mapR (extra_field schema) ns = Inr fs \<and> mapR ?F ns = Inr ms \<and> mapR ?P ns = Inr ps \<and>
        length ms = length fs \<and> length ps = length fs \<and> list_all (\<lambda>(f, m, p). column_fits f m p) (zip fs (zip ms ps)))" for ns
  proof (induction ns)
    case (Cons n ns)
    show ?case
    proof (cases "extra_field schema n")
      case (Inl e)
      then have "e = RuntimeError" by (auto simp: extra_field_def raise_if_def split: option.splits if_splits)
      with Inl show ?thesis by simp
    next
      case (Inr f)
      then have "is_data_type_supported (sf_type f)" by (auto simp: extra_field_def raise_if_def split: option.splits if_splits)
      from supported_field_total [OF this, of ?len ?d]
      obtain m p where mp: "map_spark_field ?len f = Inr m" "make_column_processor ?d f = Inr p" "column_fits f m p" by blast
      from Cons.IH show ?thesis
      proof (elim disjE exE conjE)
        assume "mapR ?F ns = Inl RuntimeError" "mapR ?P ns = Inl RuntimeError"
        then show ?thesis by (simp add: Inr mp(1,2) del: make_column_processor.simps)
      next
        fix fs ms ps
        assume "mapR (extra_field schema) ns = Inr fs" "mapR ?F ns = Inr ms" "mapR ?P ns = Inr ps" "length ms = length fs"
          "length ps = length fs" "list_all (\<lambda>(f, m, p). column_fits f m p) (zip fs (zip ms ps))"
        then show ?thesis
          by (intro disjI2 exI [of _ "f # fs"] exI [of _ "m # ms"] exI [of _ "p # ps"])
            (simp add: Inr mp del: make_column_processor.simps)
      qed
    qed
  qed simp
  then show ?thesis unfolding add_milvus_extra_fields_def make_minibatch_processor_def by blast
qed

end
