(* ===== verification/Flow.thy ===== *)
theory Flow
  imports Utils Dict
begin

text \<open>
  \<open>python/metasporeflow/python/metasporeflow\<close>: the resources of a MetaSpore flow (\<open>resources/\<close>), how a flow
  file and the files that it uses are loaded, the choice of the executor (\<open>executors/\<close>), and the tasks and
  schedulers of the offline part (\<open>offline/\<close>). Reading and typing a file (YAML and cattrs) is an argument.
\<close>

section \<open>Resources\<close>

record 'd resource =
  res_name :: string
  res_path :: string
  res_kind :: string
  res_data :: 'd

text \<open>
  The manager keeps the resources by name and, for every class on the method resolution order of their data
  (an argument), by type. Freezing makes both read-only and the lists of the types tuples.
\<close>

record 'd resource_manager =
  rm_by_name :: "'d resource dict"
  rm_by_type :: "'d resource list dict"
  rm_frozen :: bool
  rm_tuples :: bool

definition new_manager :: "'d resource_manager" where
  "new_manager = \<lparr>rm_by_name = [], rm_by_type = [], rm_frozen = False, rm_tuples = False\<rparr>"

definition add_type :: "'d resource \<Rightarrow> string \<Rightarrow> 'd resource_manager \<Rightarrow> 'd resource_manager res" where
  "add_type r t m =
     (case dict_get (rm_by_type m) t of
        None \<Rightarrow> Inr (m\<lparr>rm_by_type := dict_set t [r] (rm_by_type m)\<rparr>)
      | Some rs \<Rightarrow>
          raise_if (rm_tuples m) AttributeError
          (Inr (m\<lparr>rm_by_type := dict_set t (rs @ [r]) (rm_by_type m)\<rparr>)))"

text \<open>
  A name that is taken is reported by unpacking the existing resource into three variables, which a resource
  with four fields, not being iterable, refuses with a \<open>TypeError\<close>. The view of a frozen dictionary refuses
  the assignment.
\<close>

definition add_resource ::
  "('d \<Rightarrow> string) \<Rightarrow> (string \<Rightarrow> string list) \<Rightarrow> string \<Rightarrow> string \<Rightarrow> 'd \<Rightarrow> 'd resource_manager \<Rightarrow> 'd resource_manager res" where
  "add_resource kind mro n p d m =
     (let r = \<lparr>res_name = n, res_path = p, res_kind = kind d, res_data = d\<rparr>
      in raise_if (dict_get (rm_by_name m) n \<noteq> None) TypeError
         (raise_if (rm_frozen m) TypeError
         (foldR (add_type r) (mro (kind d)) (m\<lparr>rm_by_name := dict_set n r (rm_by_name m)\<rparr>))))"

definition freeze :: "'d resource_manager \<Rightarrow> 'd resource_manager" where
  "freeze m = m\<lparr>rm_frozen := True, rm_tuples := True\<rparr>"

text \<open>What is saved is a copy that is not frozen; the tuples stay tuples.\<close>

definition save_manager :: "'d resource_manager \<Rightarrow> 'd resource_manager" where
  "save_manager m = m\<lparr>rm_frozen := False\<rparr>"

definition try_find_by_name :: "'d resource_manager \<Rightarrow> string \<Rightarrow> 'd resource option" where
  "try_find_by_name m n = dict_get (rm_by_name m) n"

definition find_by_name :: "'d resource_manager \<Rightarrow> string \<Rightarrow> 'd resource res" where
  "find_by_name m n = (case try_find_by_name m n of None \<Rightarrow> Inl RuntimeError | Some r \<Rightarrow> Inr r)"

definition try_find_by_type :: "'d resource_manager \<Rightarrow> string \<Rightarrow> 'd resource option res" where
  "try_find_by_type m t =
     (case dict_get (rm_by_type m) t of
        None \<Rightarrow> Inr None
      | Some rs \<Rightarrow> raise_if (1 < length rs) RuntimeError (raise_if (rs = []) IndexError (Inr (Some (hd rs)))))"

definition find_by_type :: "'d resource_manager \<Rightarrow> string \<Rightarrow> 'd resource res" where
  "find_by_type m t =
     bindR (try_find_by_type m t) (\<lambda>r. case r of None \<Rightarrow> Inl RuntimeError | Some r \<Rightarrow> Inr r)"

definition find_all :: "'d resource_manager \<Rightarrow> string \<Rightarrow> 'd resource list" where
  "find_all m t = (case dict_get (rm_by_type m) t of None \<Rightarrow> [] | Some rs \<Rightarrow> rs)"

section \<open>Names and versions of resource types\<close>

text \<open>The last \<open>V\<close> before digits at the end of the name, behind an identifier.\<close>

definition ident_start :: "char \<Rightarrow> bool" where
  "ident_start c \<longleftrightarrow> is_lower c \<or> is_upper c \<or> c = CHR 0x5F"

definition is_identifier :: "string \<Rightarrow> bool" where
  "is_identifier s \<longleftrightarrow> s \<noteq> [] \<and> ident_start (hd s) \<and> list_all (\<lambda>c. ident_start c \<or> is_digit c) s"

definition get_name_and_version :: "string \<Rightarrow> string \<times> string" where
  "get_name_and_version s =
     (let digits = rev (takeWhile is_digit (rev s)); rest = take (length s - length digits) s
      in if digits \<noteq> [] \<and> rest \<noteq> [] \<and> last rest = CHR ''V'' \<and> is_identifier (butlast rest)
         then (butlast rest, CHR ''v'' # digits) else (s, ''v1''))"

text \<open>The variables of a file are added to the context for the substitution in its text.\<close>

definition create_context :: "string dict option \<Rightarrow> string dict \<Rightarrow> string dict" where
  "create_context vars context = (case vars of None \<Rightarrow> context | Some vs \<Rightarrow> dict_update context vs)"

section \<open>Paths\<close>

definition norm_step :: "bool \<Rightarrow> string list \<Rightarrow> string \<Rightarrow> string list" where
  "norm_step absolute new part =
     (if part = [] \<or> part = ''.'' then new
      else if part \<noteq> ''..'' \<or> (\<not> absolute \<and> new = []) \<or> (new \<noteq> [] \<and> last new = ''..'') then new @ [part]
      else butlast new)"

text \<open>\<open>os.path.normpath\<close>: exactly two leading slashes are kept.\<close>

definition normpath :: "string \<Rightarrow> string" where
  "normpath path =
     (if path = [] then ''.''
      else
        let slashes = (if \<not> startswith path ''/'' then 0
              else if startswith path ''//'' \<and> \<not> startswith path ''///'' then 2 else 1);
            comps = foldl (norm_step (0 < slashes)) [] (split_on (CHR ''/'') path);
            result = replicate slashes (CHR ''/'') @ join ''/'' comps
        in if result = [] then ''.'' else result)"

definition dirname :: "string \<Rightarrow> string" where
  "dirname path =
     (let head = rev (dropWhile (\<lambda>c. c \<noteq> CHR ''/'') (rev path))
      in if list_all (\<lambda>c. c = CHR ''/'') head then head else rev (dropWhile (\<lambda>c. c = CHR ''/'') (rev head)))"

section \<open>Loading a flow\<close>

text \<open>A file as the loader of its type gives it.\<close>

record 'd loaded_file =
  lf_name :: string
  lf_uses :: "string list option"
  lf_spec :: 'd

definition use_paths :: "string \<Rightarrow> 'd loaded_file \<Rightarrow> string list" where
  "use_paths p f = (case lf_uses f of None \<Rightarrow> [] | Some us \<Rightarrow> map (\<lambda>u. normpath (path_join (dirname p) u)) us)"

text \<open>
  The queue of \<open>load_into\<close>: a path is put into it while it is not loaded, even when it is there already.
  The loop has no bound; \<open>None\<close> means that it does not return.
\<close>

partial_function (option) load_queue ::
  "('d \<Rightarrow> string) \<Rightarrow> (string \<Rightarrow> string list) \<Rightarrow> (string \<Rightarrow> 'd loaded_file res) \<Rightarrow> string list \<Rightarrow> string list \<Rightarrow>
   'd resource_manager \<Rightarrow> 'd resource_manager res option" where
  "load_queue kind mro load queue loaded m =
     (case queue of
        [] \<Rightarrow> Some (Inr m)
      | p # rest \<Rightarrow>
          (case load p of
             Inl e \<Rightarrow> Some (Inl e)
           | Inr f \<Rightarrow>
               (case add_resource kind mro (lf_name f) p (lf_spec f) m of
                  Inl e \<Rightarrow> Some (Inl e)
                | Inr m' \<Rightarrow>
                    load_queue kind mro load (rest @ filter (\<lambda>u. u \<notin> set (p # loaded)) (use_paths p f)) (p # loaded) m')))"

definition load_into ::
  "('d \<Rightarrow> string) \<Rightarrow> (string \<Rightarrow> string list) \<Rightarrow> (string \<Rightarrow> 'd loaded_file res) \<Rightarrow> string \<Rightarrow>
   'd resource_manager \<Rightarrow> 'd resource_manager res option" where
  "load_into kind mro load path m = load_queue kind mro load [normpath path] [] m"

definition load_flow ::
  "('d \<Rightarrow> string) \<Rightarrow> (string \<Rightarrow> string list) \<Rightarrow> (string \<Rightarrow> 'd loaded_file res) \<Rightarrow> string \<Rightarrow> 'd resource_manager res option" where
  "load_flow kind mro load path =
     map_option (\<lambda>r. bindR r (\<lambda>m. Inr (freeze m))) (load_into kind mro load path new_manager)"


section \<open>The index of the types\<close>

text \<open>Types and names agree: the resources of a type are those whose class has it, in the order of insertion.\<close>

definition of_type :: "(string \<Rightarrow> string list) \<Rightarrow> string \<Rightarrow> 'd resource dict \<Rightarrow> 'd resource list" where
  "of_type mro t d = filter (\<lambda>r. t \<in> set (mro (res_kind r))) (map snd d)"

definition manager_ok :: "(string \<Rightarrow> string list) \<Rightarrow> 'd resource_manager \<Rightarrow> bool" where
  "manager_ok mro m \<longleftrightarrow>
     distinct (map fst (rm_by_name m)) \<and> list_all (\<lambda>(n, r). res_name r = n) (rm_by_name m) \<and>
     (\<forall>t. dict_get (rm_by_type m) t = (if of_type mro t (rm_by_name m) = [] then None else Some (of_type mro t (rm_by_name m))))"

lemma add_types:
  assumes "foldR (add_type r) ts m = Inr m'" and "distinct ts"
  shows "rm_by_name m' = rm_by_name m \<and>
    dict_get (rm_by_type m') t =
      (if t \<in> set ts then Some ((case dict_get (rm_by_type m) t of None \<Rightarrow> [] | Some rs \<Rightarrow> rs) @ [r]) else dict_get (rm_by_type m) t)"
  using assms
  by (induction ts arbitrary: m) (auto simp: bindR_Inr_iff add_type_def raise_if_Inr_iff pydict.get_put split: option.splits)

lemma add_resource_result:
  assumes "add_resource kind mro n p d m = Inr m'"
  shows "dict_get (rm_by_name m) n = None"
    and "distinct (mro (kind d)) \<Longrightarrow> rm_by_name m' = rm_by_name m @ [(n, \<lparr>res_name = n, res_path = p, res_kind = kind d, res_data = d\<rparr>)]"
proof -
  show new: "dict_get (rm_by_name m) n = None"
    using assms by (simp add: add_resource_def Let_def raise_if_Inr_iff)
  then have "n \<notin> fst ` set (rm_by_name m)" by (simp add: dict_get_def map_of_eq_None_iff)
  then show "rm_by_name m' = rm_by_name m @ [(n, \<lparr>res_name = n, res_path = p, res_kind = kind d, res_data = d\<rparr>)]"
    if "distinct (mro (kind d))"
    using assms that by (auto simp: add_resource_def Let_def raise_if_Inr_iff dict_set_new dest: add_types)
qed

lemma add_resource_ok:
  assumes "manager_ok mro m" and "add_resource kind mro n p d m = Inr m'" and "distinct (mro (kind d))"
  shows "manager_ok mro m'"
proof -
  let ?r = "\<lparr>res_name = n, res_path = p, res_kind = kind d, res_data = d\<rparr>"
  note names = add_resource_result(2) [OF assms(2,3)]
  have new: "n \<notin> fst ` set (rm_by_name m)"
    using add_resource_result(1) [OF assms(2)] by (simp add: dict_get_def map_of_eq_None_iff)
  have "foldR (add_type ?r) (mro (kind d)) (m\<lparr>rm_by_name := dict_set n ?r (rm_by_name m)\<rparr>) = Inr m'"
    using assms(2) by (simp add: add_resource_def Let_def raise_if_Inr_iff)
  note types = add_types [OF this assms(3)]
  have "dict_get (rm_by_type m') t =
      (if of_type mro t (rm_by_name m') = [] then None else Some (of_type mro t (rm_by_name m')))" for t
  proof -
    have old: "dict_get (rm_by_type m) t =
        (if of_type mro t (rm_by_name m) = [] then None else Some (of_type mro t (rm_by_name m)))"
      using assms(1) by (simp add: manager_ok_def)
    have "of_type mro t (rm_by_name m') = of_type mro t (rm_by_name m) @ (if t \<in> set (mro (kind d)) then [?r] else [])"
      by (simp add: names of_type_def)
    then show ?thesis using types [of t] old by simp
  qed
  then show ?thesis using assms(1) new by (simp add: manager_ok_def names)
qed

lemma manager_ok_new: "manager_ok mro new_manager"
  by (simp add: manager_ok_def new_manager_def of_type_def dict_get_def)

text \<open>What the lookups give on a manager whose index agrees.\<close>

lemma lookups_ok:
  assumes "manager_ok mro m"
  shows "find_all m t = of_type mro t (rm_by_name m)"
    and "find_by_type m t = (case of_type mro t (rm_by_name m) of [r] \<Rightarrow> Inr r | _ \<Rightarrow> Inl RuntimeError)"
  using assms
  by (auto simp: manager_ok_def find_all_def find_by_type_def try_find_by_type_def raise_if_def split: list.splits)

section \<open>What is loaded\<close>

text \<open>The files that a flow file uses, directly or through others.\<close>

inductive reaches :: "(string \<Rightarrow> 'd loaded_file res) \<Rightarrow> string \<Rightarrow> string \<Rightarrow> bool" for load p0 where
  itself: "reaches load p0 p0"
| uses: "reaches load p0 p \<Longrightarrow> load p = Inr f \<Longrightarrow> u \<in> set (use_paths p f) \<Longrightarrow> reaches load p0 u"

text \<open>
  The invariant of the loop: the resources are those of the loaded paths, everything they use is loaded or
  waits, and nothing else does.
\<close>

definition loading :: "('d \<Rightarrow> string) \<Rightarrow> (string \<Rightarrow> string list) \<Rightarrow> (string \<Rightarrow> 'd loaded_file res) \<Rightarrow> string \<Rightarrow>
  string list \<Rightarrow> string list \<Rightarrow> 'd resource_manager \<Rightarrow> bool" where
  "loading kind mro load p0 queue loaded m \<longleftrightarrow>
     manager_ok mro m \<and> distinct loaded \<and> map (\<lambda>r. res_path (snd r)) (rm_by_name m) = rev loaded \<and>
     list_all (\<lambda>(n, r). \<exists>f. load (res_path r) = Inr f \<and> n = lf_name f \<and> res_data r = lf_spec f) (rm_by_name m) \<and>
     p0 \<in> set queue \<union> set loaded \<and> (\<forall>p \<in> set queue \<union> set loaded. reaches load p0 p) \<and>
     (\<forall>p \<in> set loaded. \<forall>f. load p = Inr f \<longrightarrow> set (use_paths p f) \<subseteq> set queue \<union> set loaded)"

lemma loaded_name_taken:
  assumes "loading kind mro load p0 queue loaded m" and "p \<in> set loaded" and "load p = Inr f"
  shows "dict_get (rm_by_name m) (lf_name f) \<noteq> None"
proof -
  have "p \<in> set (map (\<lambda>r. res_path (snd r)) (rm_by_name m))" using assms(1,2) by (simp add: loading_def)
  then obtain n r where "(n, r) \<in> set (rm_by_name m)" "res_path r = p" by auto
  moreover from this have "n = lf_name f" using assms(1,3) by (auto simp: loading_def list_all_iff)
  ultimately show ?thesis by (auto simp: dict_get_def map_of_eq_None_iff rev_image_eqI)
qed

lemma loading_step:
  assumes "loading kind mro load p0 (p # rest) loaded m" and "load p = Inr f"
    and "add_resource kind mro (lf_name f) p (lf_spec f) m = Inr m'" and "\<And>k. distinct (mro k)"
  shows "p \<notin> set loaded"
    and "loading kind mro load p0 (rest @ filter (\<lambda>u. u \<notin> set (p # loaded)) (use_paths p f)) (p # loaded) m'"
proof -
  show p: "p \<notin> set loaded"
    using loaded_name_taken [OF assms(1) _ assms(2)] add_resource_result(1) [OF assms(3)] by blast
  have "manager_ok mro m'" using assms(1) add_resource_ok [OF _ assms(3,4)] by (simp add: loading_def)
  moreover have "reaches load p0 u" if "u \<in> set (use_paths p f)" for u
    using assms(1,2) that by (auto simp: loading_def intro: reaches.uses)
  moreover have "set (use_paths q g) \<subseteq> set (rest @ filter (\<lambda>u. u \<notin> set (p # loaded)) (use_paths p f)) \<union> set (p # loaded)"
    if "q \<in> set (p # loaded)" "load q = Inr g" for q g
  proof (cases "q = p")
    case True
    then show ?thesis using that(2) assms(2) by auto
  next
    case False
    then have "set (use_paths q g) \<subseteq> set (p # rest) \<union> set loaded"
      using assms(1) that unfolding loading_def by (metis set_ConsD)
    then show ?thesis by auto
  qed
  ultimately show "loading kind mro load p0 (rest @ filter (\<lambda>u. u \<notin> set (p # loaded)) (use_paths p f)) (p # loaded) m'"
    using assms(1,2) p unfolding loading_def add_resource_result(2) [OF assms(3,4)] by auto
qed


lemma load_queue_ends:
  assumes "finite {p. \<exists>f. load p = Inr f}" and "\<And>k. distinct (mro k)"
    and "loading kind mro load p0 queue loaded m"
  shows "\<exists>y. load_queue kind mro load queue loaded m = Some y \<and>
    (\<forall>m'. y = Inr m' \<longrightarrow> (\<exists>loaded'. loading kind mro load p0 [] loaded' m'))"
  using assms(3)
proof (induction "card ({p. \<exists>f. load p = Inr f} - set loaded)" arbitrary: queue loaded m rule: less_induct)
  case less
  show ?case
  proof (cases queue)
    case Nil
    then show ?thesis using less.prems by (auto simp: load_queue.simps)
  next
    case (Cons p rest)
    show ?thesis
    proof (cases "load p")
      case (Inl e)
      then show ?thesis using Cons by (simp add: load_queue.simps)
    next
      case f: (Inr f)
      show ?thesis
      proof (cases "add_resource kind mro (lf_name f) p (lf_spec f) m")
        case (Inl e)
        then show ?thesis using Cons f by (simp add: load_queue.simps)
      next
        case (Inr m')
        note step = loading_step [OF less.prems [unfolded Cons] f Inr assms(2)]
        have "card ({p. \<exists>f. load p = Inr f} - set (p # loaded)) < card ({p. \<exists>f. load p = Inr f} - set loaded)"
          using f step(1) assms(1) by (intro psubset_card_mono) auto
        from less.hyps [OF this step(2)] show ?thesis using Cons f Inr by (simp add: load_queue.simps)
      qed
    qed
  qed
qed

lemma loading_start: "loading kind mro load p0 [p0] [] new_manager"
  by (simp add: loading_def manager_ok_new reaches.itself) (simp add: new_manager_def)

lemma loading_closed:
  assumes "loading kind mro load p0 [] loaded m"
  shows "set (map (\<lambda>r. res_path (snd r)) (rm_by_name m)) = {p. reaches load p0 p}"
proof -
  have "p \<in> set loaded" if "reaches load p0 p" for p
    using that assms by induction (auto simp: loading_def)
  then show ?thesis using assms by (auto simp: loading_def)
qed

text \<open>
  C12: Loading a flow returns when the files are finitely many, whatever they use, cycles included. When it
  succeeds, the manager holds every file that the flow file reaches through \<open>uses\<close>, once and under its own
  name, and nothing else, and the lookup by type agrees with the names.
\<close>

theorem load_into_closure:
  assumes "finite {p. \<exists>f. load p = Inr f}" and "\<And>k. distinct (mro k)"
  shows "\<exists>y. load_into kind mro load path new_manager = Some y \<and>
    (\<forall>m. y = Inr m \<longrightarrow>
       manager_ok mro m \<and> distinct (map (\<lambda>r. res_path (snd r)) (rm_by_name m)) \<and>
       set (map (\<lambda>r. res_path (snd r)) (rm_by_name m)) = {p. reaches load (normpath path) p} \<and>
       list_all (\<lambda>(n, r). \<exists>f. load (res_path r) = Inr f \<and> n = lf_name f \<and> res_data r = lf_spec f) (rm_by_name m))"
proof -
  obtain y where y: "load_queue kind mro load [normpath path] [] new_manager = Some y"
      "\<forall>m'. y = Inr m' \<longrightarrow> (\<exists>loaded'. loading kind mro load (normpath path) [] loaded' m')"
    using load_queue_ends [where mro = mro and kind = kind, OF assms loading_start] by blast
  have "manager_ok mro m \<and> distinct (map (\<lambda>r. res_path (snd r)) (rm_by_name m)) \<and>
       set (map (\<lambda>r. res_path (snd r)) (rm_by_name m)) = {p. reaches load (normpath path) p} \<and>
       list_all (\<lambda>(n, r). \<exists>f. load (res_path r) = Inr f \<and> n = lf_name f \<and> res_data r = lf_spec f) (rm_by_name m)"
    if y_m: "y = Inr m" for m
  proof -
    obtain loaded where l: "loading kind mro load (normpath path) [] loaded m" using y(2) y_m by blast
    have "set (map (\<lambda>r. res_path (snd r)) (rm_by_name m)) = {p. reaches load (normpath path) p}"
      using l by (rule loading_closed)
    moreover have "distinct (map (\<lambda>r. res_path (snd r)) (rm_by_name m))"
      using l by (simp add: loading_def)
    ultimately show ?thesis using l unfolding loading_def by blast
  qed
  then show ?thesis using y(1) by (auto simp: load_into_def)
qed

text \<open>A flow whose two other files use each other.\<close>

definition read_file :: "(string \<times> string loaded_file) list \<Rightarrow> string \<Rightarrow> string loaded_file res" where
  "read_file fs p = (case map_of fs p of None \<Rightarrow> Inl RuntimeError | Some f \<Rightarrow> Inr f)"

lemma finite_read_file: "finite {p. \<exists>f. read_file fs p = Inr f}"
proof (rule finite_subset)
  show "{p. \<exists>f. read_file fs p = Inr f} \<subseteq> dom (map_of fs)"
    by (auto simp: read_file_def split: option.splits)
qed (rule finite_dom_map_of)

definition example_files :: "(string \<times> string loaded_file) list" where
  "example_files =
     [(''flow.yml'', \<lparr>lf_name = ''flow'', lf_uses = Some [''conf/a.yml''], lf_spec = ''Flow''\<rparr>),
      (''conf/a.yml'', \<lparr>lf_name = ''a'', lf_uses = Some [''./b.yml''], lf_spec = ''Offline''\<rparr>),
      (''conf/b.yml'', \<lparr>lf_name = ''b'', lf_uses = Some [''../conf/a.yml''], lf_spec = ''Online''\<rparr>)]"

lemma load_into_closure_witness:
  "(\<exists>m. load_into id (\<lambda>k. [k]) (read_file example_files) ''./flow.yml'' new_manager = Some (Inr m) \<and>
     manager_ok (\<lambda>k. [k]) m \<and>
     {p. reaches (read_file example_files) ''flow.yml'' p} = set [''flow.yml'', ''conf/a.yml'', ''conf/b.yml''])"
proof -
  have path: "normpath ''./flow.yml'' = ''flow.yml''" by code_simp
  have reads: "read_file example_files ''flow.yml'' = Inr (snd (example_files ! 0))"
      "read_file example_files ''conf/a.yml'' = Inr (snd (example_files ! Suc 0))"
      "read_file example_files ''conf/b.yml'' = Inr (snd (example_files ! 2))"
    by (simp_all add: read_file_def example_files_def)
  have used: "use_paths ''flow.yml'' (snd (example_files ! 0)) = [''conf/a.yml'']"
      "use_paths ''conf/a.yml'' (snd (example_files ! Suc 0)) = [''conf/b.yml'']"
      "use_paths ''conf/b.yml'' (snd (example_files ! 2)) = [''conf/a.yml'']"
      "lf_name (snd (example_files ! 0)) = ''flow''" "lf_name (snd (example_files ! Suc 0)) = ''a''"
      "lf_name (snd (example_files ! 2)) = ''b''"
      "lf_spec (snd (example_files ! 0)) = ''Flow''" "lf_spec (snd (example_files ! Suc 0)) = ''Offline''"
      "lf_spec (snd (example_files ! 2)) = ''Online''"
    by code_simp+
  have run: "map_option (map_sum id (\<lambda>m. map (\<lambda>r. res_path (snd r)) (rm_by_name m)))
      (load_into id (\<lambda>k. [k]) (read_file example_files) ''./flow.yml'' new_manager) =
      Some (Inr [''flow.yml'', ''conf/a.yml'', ''conf/b.yml''])"
    by (simp add: load_into_def load_queue.simps path reads used add_resource_def new_manager_def raise_if_def add_type_def
        dict_get_def dict_set_def Let_def)
  obtain m where m: "load_into id (\<lambda>k. [k]) (read_file example_files) ''./flow.yml'' new_manager = Some (Inr m)"
      "map (\<lambda>r. res_path (snd r)) (rm_by_name m) = [''flow.yml'', ''conf/a.yml'', ''conf/b.yml'']"
    using run by (cases "the (load_into id (\<lambda>k. [k]) (read_file example_files) ''./flow.yml'' new_manager)") auto
  have "manager_ok (\<lambda>k. [k]) m \<and>
      set (map (\<lambda>r. res_path (snd r)) (rm_by_name m)) = {p. reaches (read_file example_files) ''flow.yml'' p}"
    using load_into_closure [where kind = id and mro = "\<lambda>k. [k]" and path = "''./flow.yml''",
        OF finite_read_file [of example_files]] m(1) path by auto
  then show ?thesis using m by auto
qed

text \<open>
  A file that two files use, neither of which has loaded it before the other is read, is queued twice; its
  second loading finds its own name taken, and loading the flow fails, with a \<open>TypeError\<close> instead of the
  message about the conflict.
\<close>

theorem shared_use_fails:
  assumes "load (normpath path) = Inr f" "load a = Inr fa" "load b = Inr fb" "load c = Inr fc"
    and "use_paths (normpath path) f = [a, b]" "use_paths a fa = [c]" "use_paths b fb = [c]" "use_paths c fc = []"
    and "distinct [normpath path, a, b, c]" "distinct [lf_name f, lf_name fa, lf_name fb, lf_name fc]"
    and "\<And>k. distinct (mro k)"
  shows "load_into kind mro load path new_manager = Some (Inl TypeError)"
proof -
  have fresh: "\<exists>m'. add_resource kind mro n p d m = Inr m' \<and> map fst (rm_by_name m') = map fst (rm_by_name m) @ [n] \<and>
      rm_frozen m' = rm_frozen m \<and> rm_tuples m' = rm_tuples m"
    if free: "n \<notin> set (map fst (rm_by_name m))" "\<not> rm_frozen m" "\<not> rm_tuples m" for n p d m
  proof -
    have total: "\<exists>m'. foldR (add_type r) ts m = Inr m' \<and> rm_by_name m' = rm_by_name m \<and> rm_frozen m' = rm_frozen m \<and>
        rm_tuples m' = rm_tuples m" if "\<not> rm_tuples m" for r ts and m :: "'a resource_manager"
      using that
    proof (induction ts arbitrary: m)
      case (Cons t ts)
      obtain m1 where m1: "add_type r t m = Inr m1" "rm_by_name m1 = rm_by_name m" "rm_frozen m1 = rm_frozen m" "\<not> rm_tuples m1"
        using Cons.prems by (cases "dict_get (rm_by_type m) t") (auto simp: add_type_def raise_if_def)
      from Cons.IH [OF m1(4)] show ?case using m1 Cons.prems by auto
    qed simp
    let ?r = "\<lparr>res_name = n, res_path = p, res_kind = kind d, res_data = d\<rparr>"
    have new: "n \<notin> fst ` set (rm_by_name m)" using free(1) by simp
    obtain m' where "foldR (add_type ?r) (mro (kind d)) (m\<lparr>rm_by_name := rm_by_name m @ [(n, ?r)]\<rparr>) = Inr m'"
        "rm_by_name m' = rm_by_name m @ [(n, ?r)]" "rm_frozen m' = rm_frozen m" "rm_tuples m' = rm_tuples m"
      using total [of "m\<lparr>rm_by_name := rm_by_name m @ [(n, ?r)]\<rparr>" ?r "mro (kind d)"] free(3) by auto
    then show ?thesis
      using free new by (auto simp: add_resource_def Let_def raise_if_def dict_get_def dict_set_new map_of_eq_None_iff)
  qed
  have start: "rm_by_name new_manager = []" "\<not> rm_frozen new_manager" "\<not> rm_tuples new_manager"
    by (simp_all add: new_manager_def)
  obtain m1 where m1: "add_resource kind mro (lf_name f) (normpath path) (lf_spec f) new_manager = Inr m1"
      "map fst (rm_by_name m1) = [lf_name f]" "\<not> rm_frozen m1" "\<not> rm_tuples m1"
    using fresh [of "lf_name f" new_manager "normpath path" "lf_spec f"] by (auto simp: start)
  obtain m2 where m2: "add_resource kind mro (lf_name fa) a (lf_spec fa) m1 = Inr m2"
      "map fst (rm_by_name m2) = [lf_name f, lf_name fa]" "\<not> rm_frozen m2" "\<not> rm_tuples m2"
    using fresh [of "lf_name fa" m1 a "lf_spec fa"] m1 assms(10) by auto
  obtain m3 where m3: "add_resource kind mro (lf_name fb) b (lf_spec fb) m2 = Inr m3"
      "map fst (rm_by_name m3) = [lf_name f, lf_name fa, lf_name fb]" "\<not> rm_frozen m3" "\<not> rm_tuples m3"
    using fresh [of "lf_name fb" m2 b "lf_spec fb"] m2 assms(10) by auto
  obtain m4 where m4: "add_resource kind mro (lf_name fc) c (lf_spec fc) m3 = Inr m4"
      "map fst (rm_by_name m4) = [lf_name f, lf_name fa, lf_name fb, lf_name fc]"
    using fresh [of "lf_name fc" m3 c "lf_spec fc"] m3 assms(10) by auto
  have "lf_name fc \<in> fst ` set (rm_by_name m4)" using m4(2) by (metis list.set_intros(1,2) list.set_map)
  then have again: "add_resource kind mro (lf_name fc) c (lf_spec fc) m4 = Inl TypeError"
    by (auto simp: add_resource_def Let_def raise_if_def dict_get_def map_of_eq_None_iff)
  have ne: "a \<noteq> normpath path" "b \<noteq> normpath path" "c \<noteq> normpath path" "b \<noteq> a" "c \<noteq> a" "c \<noteq> b"
    using assms(9) by auto
  show ?thesis
    by (simp add: load_into_def load_queue.simps assms(1-8) m1(1) m2(1) m3(1) m4(1) again ne ne [symmetric])
qed


text \<open>A flow whose two parts use one file.\<close>

definition shared_files :: "(string \<times> string loaded_file) list" where
  "shared_files =
     [(''flow.yml'', \<lparr>lf_name = ''flow'', lf_uses = Some [''offline.yml'', ''online.yml''], lf_spec = ''Flow''\<rparr>),
      (''offline.yml'', \<lparr>lf_name = ''offline'', lf_uses = Some [''s3.yml''], lf_spec = ''Offline''\<rparr>),
      (''online.yml'', \<lparr>lf_name = ''online'', lf_uses = Some [''s3.yml''], lf_spec = ''Online''\<rparr>),
      (''s3.yml'', \<lparr>lf_name = ''s3'', lf_uses = None, lf_spec = ''S3Config''\<rparr>)]"

lemma shared_use_fails_witness:
  "load_into id (\<lambda>k. [k]) (read_file shared_files) ''./flow.yml'' new_manager = Some (Inl TypeError)"
  by (rule shared_use_fails [where a = "''offline.yml''" and b = "''online.yml''" and c = "''s3.yml''"
        and f = "snd (shared_files ! 0)" and fa = "snd (shared_files ! 1)" and fb = "snd (shared_files ! 2)"
        and fc = "snd (shared_files ! 3)"])
    (code_simp | simp)+

end
