(* ===== verification/Schedulers.thy ===== *)
theory Schedulers
  imports Shell Flow
begin

text \<open>
  \<open>metasporeflow/flows\<close> and \<open>metasporeflow/offline\<close>: the data of the offline part of a flow, its tasks, the
  order in which a scheduler runs them, and the crontab and Kubernetes schedulers. The graph functions of
  networkx and the YAML writer are arguments; the commands that are run are kept as argument vectors.
\<close>

section \<open>The data of the flow files\<close>

datatype flow_data =
    MetaSporeFlow "string option" "string option"
  | SageMakerConfig string "string list" "string list" string string
  | OfflineLocalFlow string string
  | OfflineScheduler string "string list dict"
  | OfflineCrontabScheduler string "string list dict"
  | OfflineK8sCronjobScheduler string "string list dict" string string string "(string \<times> string \<times> string) option"
  | OfflineSageMakerScheduler string "string list dict" "string option"
  | OfflineTask string string
  | OfflinePythonTask string string
  | OtherData string

fun class_name :: "flow_data \<Rightarrow> string" where
  "class_name (MetaSporeFlow _ _) = ''MetaSporeFlow''"
| "class_name (SageMakerConfig _ _ _ _ _) = ''SageMakerConfig''"
| "class_name (OfflineLocalFlow _ _) = ''OfflineLocalFlow''"
| "class_name (OfflineScheduler _ _) = ''OfflineScheduler''"
| "class_name (OfflineCrontabScheduler _ _) = ''OfflineCrontabScheduler''"
| "class_name (OfflineK8sCronjobScheduler _ _ _ _ _ _) = ''OfflineK8sCronjobScheduler''"
| "class_name (OfflineSageMakerScheduler _ _ _) = ''OfflineSageMakerScheduler''"
| "class_name (OfflineTask _ _) = ''OfflineTask''"
| "class_name (OfflinePythonTask _ _) = ''OfflinePythonTask''"
| "class_name (OtherData c) = c"

definition class_mro :: "string \<Rightarrow> string list" where
  "class_mro c =
     (if c = ''object'' then [c]
      else if c \<in> {''OfflineCrontabScheduler'', ''OfflineK8sCronjobScheduler'', ''OfflineSageMakerScheduler''}
        then [c, ''OfflineScheduler'', ''object'']
      else if c = ''OfflinePythonTask'' then [c, ''OfflineTask'', ''object'']
      else [c, ''object''])"

type_synonym flow_resource = "flow_data resource"
type_synonym flow_resources = "flow_data resource_manager"

text \<open>\<open>cronExpr\<close> and \<open>dag\<close> of a scheduler, which other data do not have.\<close>

fun cron_and_dag :: "flow_data \<Rightarrow> (string \<times> string list dict) res" where
  "cron_and_dag (OfflineScheduler e d) = Inr (e, d)"
| "cron_and_dag (OfflineCrontabScheduler e d) = Inr (e, d)"
| "cron_and_dag (OfflineK8sCronjobScheduler e d _ _ _ _) = Inr (e, d)"
| "cron_and_dag (OfflineSageMakerScheduler e d _) = Inr (e, d)"
| "cron_and_dag _ = Inl AttributeError"

section \<open>Tasks\<close>

record task =
  tk_name :: string
  tk_type :: string
  tk_script :: string
  tk_config :: string

definition execute_task :: "task \<Rightarrow> string" where
  "execute_task t = ''python -u '' @ tk_script t @ '' --conf '' @ tk_config t"

text \<open>Every failure of the constructor is reported as an invalid type.\<close>

definition create_task :: "string \<Rightarrow> string \<Rightarrow> flow_data \<Rightarrow> task res" where
  "create_task name type d =
     (if type = ''OfflinePythonTask''
      then (case d of
              OfflineTask s c \<Rightarrow> Inr \<lparr>tk_name = name, tk_type = type, tk_script = s, tk_config = c\<rparr>
            | OfflinePythonTask s c \<Rightarrow> Inr \<lparr>tk_name = name, tk_type = type, tk_script = s, tk_config = c\<rparr>
            | _ \<Rightarrow> Inl Exception)
      else Inl Exception)"

definition create_tasks :: "flow_resource list \<Rightarrow> task dict res" where
  "create_tasks conf =
     foldR (\<lambda>r tasks. bindR (create_task (res_name r) (res_kind r) (res_data r)) (\<lambda>t. Inr (dict_set (res_name r) t tasks))) conf []"

section \<open>Schedulers\<close>

record scheduler =
  sd_name :: string
  sd_type :: string
  sd_cron :: string
  sd_conf :: flow_data
  sd_dag :: "(string \<times> string) list"
  sd_tasks :: "task list"

text \<open>The graph has edges only: a task with an empty list of successors and no predecessor is not in it.\<close>

definition dag_edges :: "string list dict \<Rightarrow> (string \<times> string) list" where
  "dag_edges conf = concat (map (\<lambda>(k, vs). map (Pair k) vs) conf)"

definition get_dag :: "((string \<times> string) list \<Rightarrow> bool) \<Rightarrow> string list dict \<Rightarrow> (string \<times> string) list res" where
  "get_dag is_dag conf = raise_if (\<not> is_dag (dag_edges conf)) Exception (Inr (dag_edges conf))"

definition get_dag_tasks :: "((string \<times> string) list \<Rightarrow> string list) \<Rightarrow> task dict \<Rightarrow> (string \<times> string) list \<Rightarrow> task list res" where
  "get_dag_tasks topo tasks edges =
     mapR (\<lambda>n. case dict_get tasks n of None \<Rightarrow> Inl KeyError | Some t \<Rightarrow> Inr t) (topo edges)"

definition new_scheduler ::
  "((string \<times> string) list \<Rightarrow> bool) \<Rightarrow> ((string \<times> string) list \<Rightarrow> string list) \<Rightarrow> flow_resource \<Rightarrow> task dict \<Rightarrow> scheduler res" where
  "new_scheduler is_dag topo conf tasks =
     bindR (cron_and_dag (res_data conf)) (\<lambda>(e, d).
     bindR (get_dag is_dag d) (\<lambda>edges.
     bindR (get_dag_tasks topo tasks edges) (\<lambda>ts.
       Inr \<lparr>sd_name = res_name conf, sd_type = res_kind conf, sd_cron = e, sd_conf = res_data conf, sd_dag = edges,
            sd_tasks = ts\<rparr>)))"

section \<open>The crontab scheduler\<close>

text \<open>What a scheduler does to its surroundings: files, commands, commands with an input that must succeed.\<close>

datatype effect = WriteFile string string | Run "string list" | RunInput "string list" string bool

abbreviation local_temp_dir :: string where "local_temp_dir \<equiv> ''.tmp''"
abbreviation docker_temp_dir :: string where "docker_temp_dir \<equiv> ''/opt/.tmp''"

definition generate_cmd :: "scheduler \<Rightarrow> string" where
  "generate_cmd s = join ('' '' @ [NL]) (map execute_task (sd_tasks s))"

definition local_crontab_script_file :: "scheduler \<Rightarrow> string" where
  "local_crontab_script_file s = local_temp_dir @ ''/'' @ sd_name s @ ''.sh''"

definition docker_crontab_script_file :: "scheduler \<Rightarrow> string" where
  "docker_crontab_script_file s = docker_temp_dir @ ''/'' @ sd_name s @ ''.sh''"

definition crontab_script_content :: "scheduler \<Rightarrow> string" where
  "crontab_script_content s =
     ''#!/bin/bash'' @ [NL] @ ''SCHEDULER_TIME='' @ [DQ, CHR 0x60] @ ''date --iso-8601=seconds'' @ [CHR 0x60, DQ, NL] @
     generate_cmd s"

definition docker_exec :: "string \<Rightarrow> string \<Rightarrow> string list" where
  "docker_exec container command = [''docker'', ''exec'', ''-i'', container, ''/bin/bash'', ''-c'', command]"

definition copy_tmp_to_docker_container :: "string \<Rightarrow> effect list" where
  "copy_tmp_to_docker_container container =
     [Run (docker_exec container (''rm -rf '' @ docker_temp_dir @ '' && mkdir -p '' @ docker_temp_dir @ '' '')),
      Run [''docker'', ''cp'', local_temp_dir @ ''/.'', container @ '':'' @ docker_temp_dir @ ''/'']]"

definition crontab_line :: "scheduler \<Rightarrow> string" where
  "crontab_line s = sd_cron s @ '' sh '' @ docker_crontab_script_file s @ '' >> /tmp/'' @ sd_name s @ ''.log''"

definition publish_crontab_msg :: "scheduler \<Rightarrow> string" where
  "publish_crontab_msg s = ''crontab -l | { cat; echo '' @ [DQ] @ crontab_line s @ [DQ] @ ''; } | crontab -''"

definition publish_crontab :: "string \<Rightarrow> scheduler \<Rightarrow> effect list" where
  "publish_crontab container s =
     WriteFile (local_crontab_script_file s) (crontab_script_content s) #
     copy_tmp_to_docker_container container @
     [Run (docker_exec container (publish_crontab_msg s)),
      Run (docker_exec container (''sh '' @ docker_crontab_script_file s @ '' ''))]"

section \<open>The Kubernetes scheduler\<close>

definition get_job_command :: "scheduler \<Rightarrow> string" where
  "get_job_command s = join '' && '' (map execute_task (sd_tasks s))"

definition pairs :: "(string \<times> string) list \<Rightarrow> pyval" where
  "pairs kvs = PDict (map (\<lambda>(k, v). (k, PStr v)) kvs)"

definition job_template_metadata :: "string \<Rightarrow> pyval" where
  "job_template_metadata namespace =
     PDict [(''namespace'', PStr namespace), (''labels'', pairs [(''app'', ''metasporeflow-offline'')]),
            (''annotations'', pairs [(''sidecar.istio.io/inject'', ''false'')])]"

definition secret_env :: "string \<Rightarrow> string \<Rightarrow> pyval" where
  "secret_env name key =
     PDict [(''name'', PStr name),
            (''valueFrom'', PDict [(''secretKeyRef'', pairs [(''name'', ''aws-secret''), (''key'', key)])])]"

definition k8s_job_env :: "pyval list" where
  "k8s_job_env =
     [PDict [(''name'', PStr ''SPARK_LOCAL_HOSTNAME''),
             (''valueFrom'', PDict [(''fieldRef'', pairs [(''fieldPath'', ''status.podIP'')])])],
      secret_env ''AWS_ENDPOINT'' ''aws_endpoint'',
      secret_env ''AWS_ACCESS_KEY_ID'' ''aws_access_key_id'',
      secret_env ''AWS_SECRET_ACCESS_KEY'' ''aws_secret_access_key'',
      pairs [(''name'', ''SPARK_CONF_DIR''), (''value'', ''/opt/spark/conf'')]]"

definition key_items :: "string list \<Rightarrow> pyval" where
  "key_items keys = PList (map (\<lambda>k. pairs [(''key'', k), (''path'', k)]) keys)"

definition config_volume :: "string \<Rightarrow> string \<Rightarrow> string list \<Rightarrow> pyval" where
  "config_volume name configmap keys =
     PDict [(''name'', PStr name), (''configMap'', PDict [(''name'', PStr configmap), (''items'', key_items keys)])]"

definition volume_mount :: "string \<Rightarrow> string \<Rightarrow> pyval" where
  "volume_mount name path = pairs [(''name'', name), (''mountPath'', path)]"

text \<open>The keys of the config map of the shared volume are asked of the cluster, which may not have it.\<close>

definition configmap_keys :: "string list option \<Rightarrow> string list option \<Rightarrow> string list" where
  "configmap_keys data binary_data =
     (case data of None \<Rightarrow> [] | Some ks \<Rightarrow> ks) @ (case binary_data of None \<Rightarrow> [] | Some ks \<Rightarrow> ks)"

definition resource_spec :: pyval where
  "resource_spec = PDict [(''cpu'', PInt 2), (''memory'', PStr ''4Gi'')]"

definition job_template_spec ::
  "(string \<Rightarrow> string \<Rightarrow> (string list option \<times> string list option) res) \<Rightarrow> string \<Rightarrow> string \<Rightarrow> string \<Rightarrow>
   (string \<times> string \<times> string) option \<Rightarrow> string \<Rightarrow> pyval res" where
  "job_template_spec get_configmap namespace account img shared command =
     bindR (case shared of
              None \<Rightarrow> Inr ([], [])
            | Some (name, configmap, path) \<Rightarrow>
                bindR (get_configmap namespace configmap) (\<lambda>(d, b).
                  Inr ([volume_mount name path], [config_volume name configmap (configmap_keys d b)])))
       (\<lambda>(mounts, volumes). Inr (PDict
         [(''serviceAccountName'', PStr account),
          (''restartPolicy'', PStr ''Never''),
          (''containers'', PTuple [PDict
             [(''name'', PStr ''metasporeflow-offline-cronjob''),
              (''image'', PStr img),
              (''imagePullPolicy'', PStr ''Always''),
              (''command'', PList [PStr ''/bin/bash'', PStr ''-c'', PStr ''--'']),
              (''args'', PList [PStr command]),
              (''env'', PList k8s_job_env),
              (''resources'', PDict [(''requests'', resource_spec), (''limits'', resource_spec)]),
              (''volumeMounts'', PList ([volume_mount ''spark-config-volume'' ''/opt/spark/conf'',
                                        volume_mount ''aws-config-volume'' ''/home/spark/.aws''] @ mounts))]]),
          (''volumes'', PList (
             [config_volume ''spark-config-volume'' ''spark-configmap''
                [''spark-defaults.conf'', ''driver-podTemplate.yaml'', ''executor-podTemplate.yaml''],
              config_volume ''aws-config-volume'' ''spark-configmap'' [''config'']] @ volumes))]))"

definition job_metadata :: "string \<Rightarrow> string \<Rightarrow> pyval" where
  "job_metadata name namespace =
     PDict [(''name'', PStr name), (''namespace'', PStr namespace), (''labels'', pairs [(''app'', ''metasporeflow-offline'')]),
            (''annotations'', pairs [(''sidecar.istio.io/inject'', ''false'')])]"

definition batch_job :: "string \<Rightarrow> pyval \<Rightarrow> pyval" where
  "batch_job namespace template =
     PDict [(''apiVersion'', PStr ''batch/v1''), (''kind'', PStr ''Job''),
            (''metadata'', job_metadata ''metasporeflow-offline-job'' namespace),
            (''spec'', PDict [(''template'', template)])]"

definition cron_job :: "string \<Rightarrow> string \<Rightarrow> pyval \<Rightarrow> pyval" where
  "cron_job namespace schedule template =
     PDict [(''apiVersion'', PStr ''batch/v1''), (''kind'', PStr ''CronJob''),
            (''metadata'', job_metadata ''metasporeflow-offline-cronjob'' namespace),
            (''spec'', PDict [(''schedule'', PStr schedule),
               (''jobTemplate'', PDict [(''spec'', PDict [(''template'', template)])])])]"

definition generate_job_config ::
  "(string \<Rightarrow> string \<Rightarrow> (string list option \<times> string list option) res) \<Rightarrow> scheduler \<Rightarrow> bool \<Rightarrow> pyval res" where
  "generate_job_config get_configmap s for_cronjob =
     (case sd_conf s of
        OfflineK8sCronjobScheduler e d namespace account img shared \<Rightarrow>
          bindR (job_template_spec get_configmap namespace account img shared (get_job_command s)) (\<lambda>spec.
            let template = PDict [(''metadata'', job_template_metadata namespace), (''spec'', spec)]
            in Inr (if for_cronjob then cron_job namespace e template else batch_job namespace template))
      | _ \<Rightarrow> Inl AttributeError)"

abbreviation kubectl_apply :: "string list" where "kubectl_apply \<equiv> [''kubectl'', ''apply'', ''-f'', ''-'']"
abbreviation kubectl_delete :: "string list" where "kubectl_delete \<equiv> [''kubectl'', ''delete'', ''-f'', ''-'']"

text \<open>Publishing runs the job once; what it deletes is the job and a cron job that it does not create.\<close>

definition publish_k8s ::
  "(string \<Rightarrow> string \<Rightarrow> (string list option \<times> string list option) res) \<Rightarrow> (pyval \<Rightarrow> string) \<Rightarrow> scheduler \<Rightarrow> effect list res" where
  "publish_k8s get_configmap dump s =
     bindR (generate_job_config get_configmap s False) (\<lambda>c. Inr [RunInput kubectl_apply (dump c) True])"

definition destroy_k8s ::
  "(string \<Rightarrow> string \<Rightarrow> (string list option \<times> string list option) res) \<Rightarrow> (pyval \<Rightarrow> string) \<Rightarrow> scheduler \<Rightarrow> effect list res" where
  "destroy_k8s get_configmap dump s =
     bindR (generate_job_config get_configmap s True) (\<lambda>c.
     bindR (generate_job_config get_configmap s False) (\<lambda>j.
       Inr [RunInput kubectl_delete (dump c) False, RunInput kubectl_delete (dump j) False]))"

section \<open>The entry point of a SageMaker job\<close>

definition generate_entrypoint :: "task list \<Rightarrow> string" where
  "generate_entrypoint tasks =
     ''#!/bin/bash'' @ [NL, NL] @ ''set -ex'' @ [NL, NL] @ ''cd $(dirname ${BASH_SOURCE[0]})'' @
     [NL] @ ''echo '' @ [DQ] @ ''PWD: ${PWD}'' @ [DQ] @
     [NL, NL] @ ''echo '' @ [DQ] @ ''MetaSpore Offline Flow begin ...'' @ [DQ] @ [NL] @
     concat (map (\<lambda>t. NL # execute_task t) tasks) @
     [NL, NL] @ ''echo '' @ [DQ] @ ''MetaSpore Offline Flow done'' @ [DQ] @ [NL]"

section \<open>How bash runs the scripts\<close>

text \<open>
  How bash reads the scripts that are made here: one list of commands joined by \<open>&&\<close> per line, which stops at the
  first command that fails; comments and empty lines are skipped; after \<open>set -e\<close> the script ends when the last
  command of a line fails. \<open>ok\<close> tells which commands succeed; the result is the commands that run. This is bash only
  where no command has quotes, expansions, comments, redirections or other operators: the commands of the tasks must
  be plain, as is said below; the lines that the schedulers themselves write are single commands.
\<close>

primrec run_chain :: "(string \<Rightarrow> bool) \<Rightarrow> string list \<Rightarrow> string list" where
  "run_chain ok [] = []"
| "run_chain ok (c # cs) = c # (if ok c then run_chain ok cs else [])"

fun split_and :: "string \<Rightarrow> string list" where
  "split_and (c # d # cs) =
     (if c = CHR ''&'' \<and> d = CHR ''&'' then [] # split_and cs
      else case split_and (d # cs) of [] \<Rightarrow> [[c]] | x # xs \<Rightarrow> (c # x) # xs)"
| "split_and s = [s]"

definition chain_of :: "string \<Rightarrow> string list" where
  "chain_of line = map (strip is_space) (split_and line)"

fun run_lines :: "(string \<Rightarrow> bool) \<Rightarrow> bool \<Rightarrow> string list \<Rightarrow> string list" where
  "run_lines ok errexit [] = []"
| "run_lines ok errexit (l # ls) =
     (if l = [] \<or> startswith l ''#'' then run_lines ok errexit ls
      else if startswith l ''set -e'' then run_lines ok True ls
      else
        let cs = chain_of l; ran = run_chain ok cs
        in ran @ (if errexit \<and> ran = cs \<and> \<not> ok (last cs) then [] else run_lines ok errexit ls))"

definition run_script :: "(string \<Rightarrow> bool) \<Rightarrow> string \<Rightarrow> string list" where
  "run_script ok s = run_lines ok False (split_on NL s)"

text \<open>
  A task whose paths are of characters that mean nothing to bash. A blank only separates words, and the command
  begins with \<open>python\<close>, so no word of it is an assignment or a keyword.
\<close>

definition plain_char :: "char \<Rightarrow> bool" where
  "plain_char c \<longleftrightarrow> is_upper c \<or> is_lower c \<or> is_digit c \<or> c \<in> set ''_-./:=,+@% ''"

definition plain_task :: "task \<Rightarrow> bool" where
  "plain_task t \<longleftrightarrow> list_all plain_char (tk_script t @ tk_config t) \<and>
     tk_config t \<noteq> [] \<and> \<not> is_space (last (tk_config t))"

lemma plain_char_not: "plain_char c \<Longrightarrow> c \<noteq> NL \<and> c \<noteq> CHR ''&''"
  by (auto simp: plain_char_def is_upper_def is_lower_def is_digit_def)

lemma plain_command:
  assumes "plain_task t"
  shows "NL \<notin> set (execute_task t)" "CHR ''&'' \<notin> set (execute_task t)" "execute_task t \<noteq> []"
    "hd (execute_task t) = CHR ''p''" "\<not> is_space (last (execute_task t))"
  using assms by (auto simp: plain_task_def execute_task_def list_all_iff dest: plain_char_not)

lemma split_and_absent: "CHR ''&'' \<notin> set u \<Longrightarrow> split_and u = [u]"
  by (induction u rule: split_and.induct) auto

lemma split_and_field: "CHR ''&'' \<notin> set u \<Longrightarrow> split_and (u @ ''&&'' @ r) = u # split_and r"
proof (induction u)
  case (Cons c u)
  then show ?case by (cases u) auto
qed simp

lemma strip_inner:
  assumes "s \<noteq> []" "\<not> p (hd s)" "\<not> p (last s)" and "list_all p u" "list_all p v"
  shows "strip p (u @ s @ v) = s"
proof -
  have s: "dropWhile p (rev s) = rev s"
    using assms(1,3) by (cases s rule: rev_cases) simp_all
  have "dropWhile p (u @ s @ v) = s @ v"
    using assms(1,2,4) by (cases s) (auto simp: dropWhile_append list_all_iff)
  moreover have "dropWhile p (rev v @ rev s) = rev s"
    using assms(5) s by (auto simp: dropWhile_append list_all_iff)
  ultimately show ?thesis by (simp add: strip_def)
qed

lemma strip_command:
  assumes "plain_task t" and "list_all is_space u" "list_all is_space v"
  shows "strip is_space (u @ execute_task t @ v) = execute_task t"
  using plain_command [OF assms(1)] assms(2,3) by (intro strip_inner) (simp_all add: is_space_def)

lemma is_space_blank: "is_space (CHR '' '')"
  by code_simp

text \<open>The command list of a job is read back as the commands of its tasks.\<close>

lemma chain_join:
  assumes "list_all plain_task ts" "ts \<noteq> []" and "list_all (\<lambda>c. c = CHR '' '') u" "list_all (\<lambda>c. c = CHR '' '') v"
  shows "chain_of (u @ join '' && '' (map execute_task ts) @ v) = map execute_task ts"
  using assms
proof (induction ts arbitrary: u)
  case (Cons t ts)
  have t: "plain_task t" using Cons.prems(1) by simp
  have blank: "list_all is_space u" "list_all is_space v" "CHR ''&'' \<notin> set u" "CHR ''&'' \<notin> set v"
    using Cons.prems(3,4) is_space_blank by (force simp: list_all_iff)+
  show ?case
  proof (cases "ts = []")
    case True
    then show ?thesis
      using plain_command [OF t] blank strip_command [OF t blank(1,2)] by (simp add: chain_of_def split_and_absent)
  next
    case False
    let ?rest = "join '' && '' (map execute_task ts) @ v"
    have "split_and (u @ join '' && '' (map execute_task (t # ts)) @ v) =
        (u @ execute_task t @ '' '') # split_and ('' '' @ ?rest)"
      using False plain_command(2) [OF t] blank(3) split_and_field [of "u @ execute_task t @ '' ''" "'' '' @ ?rest"]
      by simp
    moreover have "chain_of ('' '' @ ?rest) = map execute_task ts"
      using Cons.IH [of "'' ''"] Cons.prems False by simp
    ultimately show ?thesis
      using strip_command [OF t blank(1), of "'' ''"] by (simp add: chain_of_def is_space_blank)
  qed
qed simp

lemma run_one_command:
  assumes "plain_task t" and "list_all (\<lambda>c. c = CHR '' '') v"
  shows "run_lines ok e ((execute_task t @ v) # ls) =
    execute_task t # (if e \<and> \<not> ok (execute_task t) then [] else run_lines ok e ls)"
proof -
  have "chain_of (execute_task t @ v) = [execute_task t]"
    using chain_join [of "[t]" "[]" v] assms by simp
  moreover obtain cs where "execute_task t @ v = CHR ''p'' # cs" by (simp add: execute_task_def)
  then have "execute_task t @ v \<noteq> []" "\<not> startswith (execute_task t @ v) ''#''" "\<not> startswith (execute_task t @ v) ''set -e''"
    by (simp_all add: startswith_def)
  ultimately show ?thesis using plain_command(3) [OF assms(1)] by (simp add: Let_def)
qed

lemma run_commands:
  assumes "list_all plain_task ts"
  shows "run_lines ok True (map execute_task ts @ ls) =
      (let ran = run_chain ok (map execute_task ts) in ran @ (if list_all ok ran then run_lines ok True ls else []))"
    and "run_lines ok False (map (\<lambda>t. execute_task t @ '' '') ts @ ls) = map execute_task ts @ run_lines ok False ls"
  using assms
  by (induction ts) (simp_all add: run_one_command [where v = "[]", simplified append_Nil2] run_one_command [where v = "'' ''"] Let_def del: run_lines.simps(2))

lemma split_script:
  assumes "list_all plain_task ts"
  shows "split_on NL (join ('' '' @ [NL]) (map execute_task ts)) =
      (if ts = [] then [[]] else map (\<lambda>t. execute_task t @ '' '') (butlast ts) @ [execute_task (last ts)])"
    and "NL \<notin> set x \<Longrightarrow> split_on NL (x @ concat (map (\<lambda>t. NL # execute_task t) ts) @ NL # r) = x # map execute_task ts @ split_on NL r"
proof -
  show "split_on NL (join ('' '' @ [NL]) (map execute_task ts)) =
      (if ts = [] then [[]] else map (\<lambda>t. execute_task t @ '' '') (butlast ts) @ [execute_task (last ts)])"
    using assms
  proof (induction ts)
    case (Cons t ts)
    have "NL \<notin> set (execute_task t)" using Cons.prems plain_command(1) by simp
    then show ?case
      using Cons split_on_field [of NL "execute_task t @ '' ''" "join ('' '' @ [NL]) (map execute_task ts)"]
      by (auto simp: split_on_absent)
  qed simp
  show "split_on NL (x @ concat (map (\<lambda>t. NL # execute_task t) ts) @ NL # r) = x # map execute_task ts @ split_on NL r"
    if "NL \<notin> set x"
    using assms that
  proof (induction ts arbitrary: x)
    case (Cons t ts)
    then show ?case using plain_command(1) [of t] Cons.IH [of "execute_task t"] by (simp add: split_on_field)
  qed (simp add: split_on_field)
qed

lemma run_single:
  assumes "chain_of l = [l]" "l \<noteq> []" "\<not> startswith l ''#''" "\<not> startswith l ''set -e''"
  shows "run_lines ok e (l # ls) = l # (if e \<and> \<not> ok l then [] else run_lines ok e ls)"
  using assms by (simp add: Let_def)

abbreviation entry_lines :: "string list" where
  "entry_lines \<equiv> [''cd $(dirname ${BASH_SOURCE[0]})'', ''echo '' @ [DQ] @ ''PWD: ${PWD}'' @ [DQ],
     ''echo '' @ [DQ] @ ''MetaSpore Offline Flow begin ...'' @ [DQ]]"

abbreviation done_line :: string where
  "done_line \<equiv> ''echo '' @ [DQ] @ ''MetaSpore Offline Flow done'' @ [DQ]"

abbreviation time_line :: string where
  "time_line \<equiv> ''SCHEDULER_TIME='' @ [DQ, CHR 0x60] @ ''date --iso-8601=seconds'' @ [CHR 0x60, DQ]"

lemma chain_single:
  assumes "CHR ''&'' \<notin> set l" "l \<noteq> []" "\<not> is_space (hd l)" "\<not> is_space (last l)"
  shows "chain_of l = [l]"
  using strip_inner [of l is_space "[]" "[]"] assms by (simp add: chain_of_def split_and_absent)

lemma not_spaces: "\<not> is_space (CHR ''e'')" "\<not> is_space (CHR ''c'')" "\<not> is_space (CHR '')'')" "\<not> is_space DQ" "\<not> is_space (CHR ''S'')"
  by code_simp+

lemma run_script_line:
  assumes "l \<in> set (time_line # done_line # entry_lines)"
  shows "run_lines ok e (l # ls) = l # (if e \<and> \<not> ok l then [] else run_lines ok e ls)"
proof (rule run_single)
  show "chain_of l = [l]"
    using assms by (intro chain_single) (auto simp: not_spaces)
  show "l \<noteq> []" "\<not> startswith l ''#''" "\<not> startswith l ''set -e''"
    using assms by (auto simp: startswith_def)
qed

lemma run_job_command:
  assumes "list_all plain_task ts"
  shows "run_script ok (join '' && '' (map execute_task ts)) = run_chain ok (map execute_task ts)"
proof (cases ts)
  case (Cons t us)
  let ?c = "join '' && '' (map execute_task ts)"
  have "NL \<notin> set ?c" using assms by (induction ts) (auto simp: plain_command(1))
  moreover obtain cs where cs: "?c = CHR ''p'' # cs" by (cases "us = []") (simp_all add: Cons execute_task_def)
  have "\<not> startswith ?c ''#''" "\<not> startswith ?c ''set -e''" by (simp_all add: cs startswith_def)
  moreover have "chain_of ?c = map execute_task ts" using chain_join [of ts "[]" "[]"] assms Cons by simp
  ultimately show ?thesis by (simp add: run_script_def split_on_absent cs Let_def)
qed (simp add: run_script_def)

lemma run_preamble:
  "run_lines ok True (l # ls) = run_chain ok [l] @ (if ok l then run_lines ok True ls else [])"
  if "l \<in> set (time_line # done_line # entry_lines)"
  using run_script_line [OF that] by simp

lemma entrypoint_lines:
  "generate_entrypoint ts =
     join [NL] ([''#!/bin/bash'', [], ''set -ex'', []] @ butlast entry_lines @ [[], last entry_lines, []] @
       map execute_task ts @ [[], done_line, []])"
proof -
  have shift: "concat (map (\<lambda>t. NL # execute_task t) ts) @ NL # r = NL # concat (map (\<lambda>t. execute_task t @ [NL]) ts) @ r" for r
    by (induction ts) auto
  have "join [NL] (map execute_task ts @ [[], done_line, []]) =
      concat (map (\<lambda>t. execute_task t @ [NL]) ts) @ NL # done_line @ [NL]"
    by (induction ts) auto
  then show ?thesis
    using shift [of "NL # done_line @ [NL]"] by (simp add: generate_entrypoint_def)
qed

lemma run_entrypoint:
  assumes "list_all plain_task ts"
  shows "run_script ok (generate_entrypoint ts) = run_chain ok (entry_lines @ map execute_task ts @ [done_line])"
proof -
  have split: "split_on NL (generate_entrypoint ts) =
      [''#!/bin/bash'', [], ''set -ex'', []] @ butlast entry_lines @ [[], last entry_lines, []] @
      map execute_task ts @ [[], done_line, []]"
    unfolding entrypoint_lines using assms by (intro split_on_join) (auto simp: list_all_iff dest: plain_command(1))
  have empty: "run_lines ok e ([] # ls) = run_lines ok e ls" "run_lines ok e (''#!/bin/bash'' # ls) = run_lines ok e ls"
      "run_lines ok e (''set -ex'' # ls) = run_lines ok True ls" for e ls
    by (simp_all add: startswith_def)
  have tail: "run_lines ok True ([[], done_line, []]) = run_chain ok [done_line]"
    by (simp only: empty run_script_line [of done_line] list.set insert_iff simp_thms) simp
  have chain: "run_chain ok (xs @ ys) = run_chain ok xs @ (if list_all ok (run_chain ok xs) then run_chain ok ys else [])" for xs ys
    by (induction xs) auto
  have "run_lines ok True (map execute_task ts @ [[], done_line, []]) = run_chain ok (map execute_task ts @ [done_line])"
    unfolding run_commands(1) [OF assms] tail chain Let_def by simp
  then have body: "run_lines ok True ([] # map execute_task ts @ [[], done_line, []]) =
      run_chain ok (map execute_task ts @ [done_line])"
    by (simp only: empty)
  have entry: "run_lines ok True (entry_lines @ ls) =
      run_chain ok entry_lines @ (if list_all ok (run_chain ok entry_lines) then run_lines ok True ls else [])" for ls
    using run_script_line [of "entry_lines ! 0" ok True] run_script_line [of "entry_lines ! 1" ok True]
      run_script_line [of "entry_lines ! 2" ok True]
    by (simp del: run_lines.simps(2))
  have "run_lines ok True (butlast entry_lines @ [[], last entry_lines] @ ls) = run_lines ok True (entry_lines @ ls)" for ls
    using run_script_line [of "entry_lines ! 0" ok True] run_script_line [of "entry_lines ! 1" ok True]
    by (simp add: empty del: run_lines.simps(2))
  note skip = this [of "[] # map execute_task ts @ [[], done_line, []]"]
  have "run_lines ok True (butlast entry_lines @ [[], last entry_lines, []] @ map execute_task ts @ [[], done_line, []]) =
      run_chain ok (entry_lines @ map execute_task ts @ [done_line])"
    using skip unfolding entry body chain [of entry_lines] by simp
  moreover have "run_lines ok False ([''#!/bin/bash'', [], ''set -ex'', []] @ ls) = run_lines ok True ls" for ls
    by (simp add: empty del: run_lines.simps(2))
  ultimately show ?thesis
    unfolding run_script_def split by simp
qed

lemma run_crontab_script:
  assumes "list_all plain_task (sd_tasks s)"
  shows "run_script ok (crontab_script_content s) = time_line # map execute_task (sd_tasks s)"
proof -
  let ?ts = "sd_tasks s"
  have "run_lines ok False (split_on NL (generate_cmd s)) = map execute_task ?ts"
  proof (cases "?ts = []")
    case True
    then show ?thesis by (simp add: generate_cmd_def)
  next
    case False
    have "list_all plain_task (butlast ?ts)" "plain_task (last ?ts)"
      using assms False by (auto simp: list_all_iff dest: in_set_butlastD)
    then have "run_lines ok False (map (\<lambda>t. execute_task t @ '' '') (butlast ?ts) @ [execute_task (last ?ts)]) =
        map execute_task (butlast ?ts @ [last ?ts])"
      using run_commands(2) [of "butlast ?ts"] run_one_command [of "last ?ts" "[]" ok False "[]"] by simp
    then show ?thesis using False split_script(1) [OF assms] by (simp add: generate_cmd_def)
  qed
  moreover have "split_on NL (crontab_script_content s) = ''#!/bin/bash'' # time_line # split_on NL (generate_cmd s)"
    using split_on_field [of NL "''#!/bin/bash''" "time_line @ NL # generate_cmd s"]
      split_on_field [of NL time_line "generate_cmd s"]
    by (simp add: crontab_script_content_def del: split_on.simps)
  moreover have "run_lines ok False (''#!/bin/bash'' # ls) = run_lines ok False ls" for ls
    by (simp add: startswith_def)
  ultimately show ?thesis
    using run_script_line [of time_line ok False "split_on NL (generate_cmd s)"] by (simp add: run_script_def)
qed

text \<open>
  C26: What bash runs, when the paths of the tasks are of letters, digits, blanks and \<open>_ - . / : = , + @ %\<close>, so that
  nothing in their commands is quoted, expanded or an operator: the command of a Kubernetes job is the tasks until the
  first that fails; the entry point of a SageMaker job, which sets \<open>-e\<close>, stops there too, after its preamble; the
  crontab script runs every task, whatever fails before it.
\<close>

theorem failing_task:
  assumes "list_all plain_task (sd_tasks s)"
  shows "run_script ok (get_job_command s) = run_chain ok (map execute_task (sd_tasks s)) \<and>
    run_script ok (generate_entrypoint (sd_tasks s)) =
      run_chain ok ([''cd $(dirname ${BASH_SOURCE[0]})'', ''echo '' @ [DQ] @ ''PWD: ${PWD}'' @ [DQ],
          ''echo '' @ [DQ] @ ''MetaSpore Offline Flow begin ...'' @ [DQ]] @
        map execute_task (sd_tasks s) @ [''echo '' @ [DQ] @ ''MetaSpore Offline Flow done'' @ [DQ]]) \<and>
    run_script ok (crontab_script_content s) =
      (''SCHEDULER_TIME='' @ [DQ, CHR 0x60] @ ''date --iso-8601=seconds'' @ [CHR 0x60, DQ]) # map execute_task (sd_tasks s)"
  using run_job_command [OF assms] run_entrypoint [OF assms] run_crontab_script [OF assms]
  unfolding get_job_command_def by (intro conjI)


text \<open>Two tasks of which the first fails.\<close>

definition prepare_task :: task where
  "prepare_task = \<lparr>tk_name = ''prepare'', tk_type = ''OfflinePythonTask'', tk_script = ''prepare.py'', tk_config = ''p.yml''\<rparr>"

definition train_task :: task where
  "train_task = \<lparr>tk_name = ''train'', tk_type = ''OfflinePythonTask'', tk_script = ''train.py'', tk_config = ''t.yml''\<rparr>"

definition example_scheduler :: scheduler where
  "example_scheduler = \<lparr>sd_name = ''daily'', sd_type = ''OfflineCrontabScheduler'', sd_cron = ''0 2 * * *'',
     sd_conf = OfflineCrontabScheduler ''0 2 * * *'' [(''prepare'', [''train''])],
     sd_dag = [(''prepare'', ''train'')], sd_tasks = [prepare_task, train_task]\<rparr>"

lemma failing_task_witness:
  "run_script (\<lambda>c. c \<noteq> execute_task prepare_task) (get_job_command example_scheduler) =
     [''python -u prepare.py --conf p.yml''] \<and>
   tl (run_script (\<lambda>c. c \<noteq> execute_task prepare_task) (crontab_script_content example_scheduler)) =
     [''python -u prepare.py --conf p.yml'', ''python -u train.py --conf t.yml'']"
proof -
  have "list_all plain_task (sd_tasks example_scheduler)" by code_simp
  note runs = failing_task [OF this, of "\<lambda>c. c \<noteq> execute_task prepare_task"]
  have cmds: "map execute_task (sd_tasks example_scheduler) =
      [''python -u prepare.py --conf p.yml'', ''python -u train.py --conf t.yml'']"
      "execute_task prepare_task = ''python -u prepare.py --conf p.yml''"
    by code_simp+
  show ?thesis using runs by (simp add: cmds)
qed

section \<open>The order of the tasks\<close>

definition precedes :: "string list \<Rightarrow> string \<Rightarrow> string \<Rightarrow> bool" where
  "precedes xs a b \<longleftrightarrow> b \<in> set (tl (dropWhile (\<lambda>x. x \<noteq> a) xs))"

text \<open>What \<open>networkx.topological_sort\<close> promises of an acyclic graph.\<close>

definition topological :: "(string \<times> string) list \<Rightarrow> string list \<Rightarrow> bool" where
  "topological edges ns \<longleftrightarrow>
     distinct ns \<and> set ns = fst ` set edges \<union> snd ` set edges \<and> list_all (\<lambda>(a, b). precedes ns a b) edges"

lemma create_task_name: "create_task n k d = Inr t \<Longrightarrow> tk_name t = n"
  by (cases d) (auto simp: create_task_def split: if_splits)

lemma created_task_names:
  assumes "create_tasks rs = Inr tasks"
  shows "list_all (\<lambda>(n, t). tk_name t = n) tasks"
proof -
  have put: "list_all (\<lambda>(n, t). tk_name t = n) (dict_set k t d)"
    if "list_all (\<lambda>(n, t). tk_name t = n) d" "tk_name t = k" for k d and t :: task
    using that by (induction d) (auto simp: dict_set_def)
  show ?thesis
    using assms unfolding create_tasks_def
  proof (rule foldR_invariant)
    show "list_all (\<lambda>(n, t). tk_name t = n) (u :: task dict)"
      if "list_all (\<lambda>(n, t). tk_name t = n) d"
        "bindR (create_task (res_name r) (res_kind r) (res_data r)) (\<lambda>t. Inr (dict_set (res_name r) t d)) = Inr u"
      for r :: flow_resource and d u
      using that put [OF that(1) create_task_name] by (auto simp: bindR_Inr_iff)
  qed simp
qed

text \<open>
  C27: A scheduler runs every task that an edge of its graph names once, each task before its successors;
  a task without an edge is not run. A graph with a cycle is refused.
\<close>

theorem scheduler_order:
  assumes "\<And>edges. is_dag edges \<Longrightarrow> topological edges (topo edges)"
    and "create_tasks rs = Inr tasks" and "new_scheduler is_dag topo conf tasks = Inr s"
    and "cron_and_dag (res_data conf) = Inr (e, d)"
  shows "is_dag (dag_edges d) \<and> distinct (map tk_name (sd_tasks s)) \<and>
    set (map tk_name (sd_tasks s)) = fst ` set (dag_edges d) \<union> snd ` set (dag_edges d) \<and>
    (\<forall>(k, vs) \<in> set d. \<forall>v \<in> set vs. precedes (map tk_name (sd_tasks s)) k v)"
proof -
  have dag: "is_dag (dag_edges d)" and ts: "get_dag_tasks topo tasks (dag_edges d) = Inr (sd_tasks s)"
    using assms(3,4) by (auto simp: new_scheduler_def get_dag_def bindR_Inr_iff raise_if_Inr_iff)
  have "list_all2 (\<lambda>n t. tk_name t = n) (topo (dag_edges d)) (sd_tasks s)"
    using ts unfolding get_dag_tasks_def mapR_Inr_iff
    by (rule list_all2_mono) (use created_task_names [OF assms(2)] in
        \<open>auto simp: dict_get_def list_all_iff dest: map_of_SomeD split: option.splits\<close>)
  then have names: "map tk_name (sd_tasks s) = topo (dag_edges d)"
    by (induction rule: list_all2_induct) auto
  have "(k, v) \<in> set (dag_edges d)" if "(k, vs) \<in> set d" "v \<in> set vs" for k vs v
    using that by (auto simp: dag_edges_def)
  then show ?thesis
    using assms(1) [OF dag] dag unfolding names topological_def list_all_iff by fastforce
qed

text \<open>A sort of the graphs with at most two layers, enough for an example.\<close>

definition two_layers :: "(string \<times> string) list \<Rightarrow> bool" where
  "two_layers edges \<longleftrightarrow> list_all (\<lambda>e. snd e \<notin> fst ` set edges) edges"

definition layer_sort :: "(string \<times> string) list \<Rightarrow> string list" where
  "layer_sort edges = remdups (map fst edges) @ remdups (map snd edges)"

lemma precedes_append: "a \<in> set xs \<Longrightarrow> b \<in> set ys \<Longrightarrow> precedes (xs @ ys) a b"
  by (cases "dropWhile (\<lambda>x. x \<noteq> a) xs") (auto simp: precedes_def dropWhile_append1 [of a])

lemma layer_sort_topological: "two_layers edges \<Longrightarrow> topological edges (layer_sort edges)"
  by (auto simp: topological_def layer_sort_def two_layers_def list_all_iff intro!: precedes_append)
    (force simp: image_iff)+

definition example_resources :: "flow_resource list" where
  "example_resources =
     map (\<lambda>n. \<lparr>res_name = n, res_path = n @ ''.yml'', res_kind = ''OfflinePythonTask'',
              res_data = OfflinePythonTask (n @ ''.py'') (n @ ''.conf'')\<rparr>) [''train'', ''prepare'', ''report'']"

definition daily_resource :: flow_resource where
  "daily_resource =
     \<lparr>res_name = ''daily'', res_path = ''daily.yml'', res_kind = ''OfflineCrontabScheduler'',
      res_data = OfflineCrontabScheduler ''0 2 * * *'' [(''prepare'', [''train'']), (''report'', [])]\<rparr>"

lemma scheduler_order_witness:
  "\<exists>tasks s. create_tasks example_resources = Inr tasks \<and>
     new_scheduler two_layers layer_sort daily_resource tasks = Inr s \<and>
     precedes (map tk_name (sd_tasks s)) ''prepare'' ''train'' \<and>
     set (map tk_name (sd_tasks s)) = {''train'', ''prepare''}"
proof -
  let ?s = "\<lambda>tasks. new_scheduler two_layers layer_sort daily_resource tasks"
  have run: "case bindR (create_tasks example_resources) ?s of Inl e \<Rightarrow> False | Inr s \<Rightarrow> True"
    by code_simp
  obtain tasks s where s: "create_tasks example_resources = Inr tasks" "?s tasks = Inr s"
    using run by (cases "create_tasks example_resources"; cases "?s (projr (create_tasks example_resources))") auto
  have conf: "cron_and_dag (res_data daily_resource) = Inr (''0 2 * * *'', [(''prepare'', [''train'']), (''report'', [])])"
    by (simp add: daily_resource_def)
  have edges: "dag_edges [(''prepare'', [''train'']), (''report'', [])] = [(''prepare'', ''train'')]"
    by (simp add: dag_edges_def)
  have "precedes (map tk_name (sd_tasks s)) ''prepare'' ''train'' \<and> set (map tk_name (sd_tasks s)) = {''train'', ''prepare''}"
    using scheduler_order [OF layer_sort_topological s conf] unfolding edges by simp
  then show ?thesis using s by blast
qed


section \<open>The crontab of the container\<close>

text \<open>
  A reader of the crontab commands: what a command that runs in the container leaves in its crontab, one entry
  per line. \<open>None\<close> is a quoted text that bash would not take literally.
\<close>

abbreviation append_prefix :: string where "append_prefix \<equiv> ''crontab -l | { cat; echo '' @ [DQ]"
abbreviation append_suffix :: string where "append_suffix \<equiv> DQ # ''; } | crontab -''"

definition crontab_command_effect :: "string \<Rightarrow> string list \<Rightarrow> string list option" where
  "crontab_command_effect c tab =
     (if c = ''crontab -r'' then Some []
      else if startswith c append_prefix \<and> endswith c append_suffix then
        (let entry = drop (length append_prefix) (take (length c - length append_suffix) c)
         in if list_all (\<lambda>x. dq_plain x \<and> x \<noteq> DQ \<and> x \<noteq> NL) entry then Some (tab @ [entry]) else None)
      else Some tab)"

fun crontab_effect :: "string \<Rightarrow> effect \<Rightarrow> string list \<Rightarrow> string list option" where
  "crontab_effect container (Run [a, b, c, d, e, f, g]) tab =
     (if [a, b, c, d, e, f] = [''docker'', ''exec'', ''-i'', container, ''/bin/bash'', ''-c'']
      then crontab_command_effect g tab else Some tab)"
| "crontab_effect container _ tab = Some tab"

primrec crontab_effects :: "string \<Rightarrow> effect list \<Rightarrow> string list \<Rightarrow> string list option" where
  "crontab_effects container [] tab = Some tab"
| "crontab_effects container (x # xs) tab = Option.bind (crontab_effect container x tab) (crontab_effects container xs)"

lemma crontab_effects_append:
  "crontab_effects container (xs @ ys) tab = Option.bind (crontab_effects container xs tab) (crontab_effects container ys)"
  by (induction xs arbitrary: tab) (auto split: bind_splits)

text \<open>A schedule and a name that bash takes literally between double quotes.\<close>

definition plain_entry :: "scheduler \<Rightarrow> bool" where
  "plain_entry s \<longleftrightarrow> list_all (\<lambda>x. dq_plain x \<and> x \<noteq> DQ \<and> x \<noteq> NL) (sd_cron s @ sd_name s)"

lemma publish_adds_entry:
  assumes "plain_entry s"
  shows "crontab_effects container (publish_crontab container s) tab = Some (tab @ [crontab_line s])"
proof -
  have msg: "publish_crontab_msg s = append_prefix @ crontab_line s @ append_suffix"
    by (simp add: publish_crontab_msg_def)
  have "list_all (\<lambda>x. dq_plain x \<and> x \<noteq> DQ \<and> x \<noteq> NL) (crontab_line s)"
    using assms by (simp add: plain_entry_def crontab_line_def docker_crontab_script_file_def dq_plain_def)
  then have "crontab_command_effect (publish_crontab_msg s) tab = Some (tab @ [crontab_line s])"
    unfolding msg crontab_command_effect_def by (simp add: endswith_def startswith_def)
  moreover have "crontab_command_effect (''sh '' @ x @ '' '') tab' = Some tab'"
      "crontab_command_effect (''rm '' @ x) tab' = Some tab'" for x tab'
    by (simp_all add: crontab_command_effect_def startswith_def)
  ultimately show ?thesis
    by (simp add: publish_crontab_def copy_tmp_to_docker_container_def docker_exec_def)
qed

end
