(* ===== verification/SageMaker.thy ===== *)
theory SageMaker
  imports Schedulers
begin

text \<open>
  \<open>metasporeflow/offline/scheduler/offline_sage_maker_scheduler.py\<close> and
  \<open>metasporeflow/runners/crontab_sage_maker_runner.py\<close>: the scheduler that puts a training run into the crontab
  of the user, and the runner that the crontab starts. Which commands succeed and what the services answer are
  arguments.
\<close>

section \<open>Lines, words and names\<close>

definition is_linebreak :: "char \<Rightarrow> bool" where
  "is_linebreak c = (let n = (of_char c :: nat) in (10 \<le> n \<and> n \<le> 13) \<or> (28 \<le> n \<and> n \<le> 30) \<or> n = 133)"

text \<open>\<open>str.splitlines()\<close>: a carriage return and the newline behind it are one break.\<close>

fun splitlines :: "string \<Rightarrow> string list" where
  "splitlines [] = []"
| "splitlines (c # cs) =
     (if is_linebreak c
      then [] # splitlines (if c = CHR 0x0D \<and> startswith cs [NL] then tl cs else cs)
      else (case splitlines cs of [] \<Rightarrow> [[c]] | l # ls \<Rightarrow> (c # l) # ls))"

definition is_alnum :: "char \<Rightarrow> bool" where
  "is_alnum c \<longleftrightarrow> is_upper c \<or> is_lower c \<or> is_digit c"

text \<open>\<open>re.sub('[^A-Za-z0-9]', '-', name)\<close>.\<close>

definition dashed :: "string \<Rightarrow> string" where
  "dashed s = map (\<lambda>c. if is_alnum c then c else CHR ''-'') s"

text \<open>The region in an S3 endpoint; the pattern admits a newline at the end.\<close>

definition endpoint_region :: "string \<Rightarrow> string res" where
  "endpoint_region endpoint =
     (let s = drop 3 endpoint;
          region = takeWhile (\<lambda>c. is_alnum c \<or> c = CHR ''-'') s;
          rest = drop (length region) s;
          rest' = (if endswith rest [NL] then butlast rest else rest)
      in if startswith endpoint ''s3.'' \<and> region \<noteq> [] \<and> (rest' = ''.amazonaws.com'' \<or> rest' = ''.amazonaws.com.cn'')
         then Inr region else Inl RuntimeError)"

text \<open>\<open>shlex.split\<close>, with quotes and the backslash.\<close>

fun shlex_words :: "string option \<Rightarrow> string \<Rightarrow> string list res"
  and shlex_single :: "string \<Rightarrow> string \<Rightarrow> string list res"
  and shlex_double :: "string \<Rightarrow> string \<Rightarrow> string list res" where
  "shlex_words None [] = Inr []"
| "shlex_words (Some w) [] = Inr [w]"
| "shlex_words acc (c # cs) =
     (let w = (case acc of None \<Rightarrow> [] | Some w \<Rightarrow> w)
      in if c \<in> set [CHR '' '', CHR 0x09, CHR 0x0D, NL] then
           (case acc of None \<Rightarrow> shlex_words None cs | Some w \<Rightarrow> bindR (shlex_words None cs) (\<lambda>ws. Inr (w # ws)))
         else if c = SQ then shlex_single w cs
         else if c = DQ then shlex_double w cs
         else if c = CHR 0x5C then (case cs of [] \<Rightarrow> Inl ValueError | d # ds \<Rightarrow> shlex_words (Some (w @ [d])) ds)
         else shlex_words (Some (w @ [c])) cs)"
| "shlex_single w [] = Inl ValueError"
| "shlex_single w (c # cs) = (if c = SQ then shlex_words (Some w) cs else shlex_single (w @ [c]) cs)"
| "shlex_double w [] = Inl ValueError"
| "shlex_double w (c # cs) =
     (if c = DQ then shlex_words (Some w) cs
      else if c = CHR 0x5C then
        (case cs of
           [] \<Rightarrow> Inl ValueError
         | d # ds \<Rightarrow> shlex_double (w @ (if d = DQ \<or> d = CHR 0x5C then [d] else [c, d])) ds)
      else shlex_double (w @ [c]) cs)"

section \<open>The scheduler\<close>

text \<open>What the properties of the scheduler read: its resources, its own data, the interpreter and the home.\<close>

record sage_env =
  se_resources :: flow_resources
  se_scheduler :: scheduler
  se_python :: string
  se_home :: string

definition scene_name :: "flow_resources \<Rightarrow> string res" where
  "scene_name m = bindR (find_by_type m ''MetaSporeFlow'') (\<lambda>r. Inr (res_name r))"

definition training_job_name_prefix :: "string \<Rightarrow> string" where
  "training_job_name_prefix scene = dashed scene @ ''-''"

definition sage_maker_config :: "flow_resources \<Rightarrow> (string \<times> string list \<times> string list \<times> string \<times> string) res" where
  "sage_maker_config m =
     bindR (find_by_type m ''SageMakerConfig'') (\<lambda>r.
       case res_data r of SageMakerConfig role groups subnets endpoint dir \<Rightarrow> Inr (role, groups, subnets, endpoint, dir)
       | _ \<Rightarrow> Inl AttributeError)"

definition s3_endpoint :: "flow_resources \<Rightarrow> string res" where
  "s3_endpoint m = bindR (sage_maker_config m) (\<lambda>(_, _, _, e, _). Inr e)"

definition s3_work_dir :: "flow_resources \<Rightarrow> string res" where
  "s3_work_dir m = bindR (sage_maker_config m) (\<lambda>(_, _, _, _, d). Inr d)"

definition crontab_command :: "string \<Rightarrow> string \<Rightarrow> string" where
  "crontab_command python scene =
     python @ '' -m metasporeflow.runners.crontab_sage_maker_runner --scene '' @ scene @ '' --redirect-stdio''"

definition crontab_entry :: "string \<Rightarrow> string \<Rightarrow> string" where
  "crontab_entry expr command = expr @ '' '' @ command"

definition s3_config_dir_path :: "string \<Rightarrow> string \<Rightarrow> string" where
  "s3_config_dir_path work_dir scene =
     path_join (path_join (path_join (path_join work_dir ''flow'') ''scene'') scene) ''config''"

definition flow_scene_dir :: "string \<Rightarrow> string \<Rightarrow> string" where
  "flow_scene_dir home scene =
     path_join (path_join (path_join (path_join home ''.metaspore'') ''flow'') ''scene'') scene"

definition flow_config_path :: "string \<Rightarrow> string \<Rightarrow> string" where
  "flow_config_path home scene = path_join (flow_scene_dir home scene) ''metaspore-flow.dat''"

definition ensure_trailing_slash :: "string \<Rightarrow> string" where
  "ensure_trailing_slash path = (if endswith path ''/'' then path else path @ ''/'')"

fun config_dir :: "flow_data \<Rightarrow> string option res" where
  "config_dir (OfflineSageMakerScheduler _ _ d) = Inr d"
| "config_dir _ = Inl AttributeError"

definition local_config_dir_path :: "sage_env \<Rightarrow> string res" where
  "local_config_dir_path env =
     bindR (config_dir (sd_conf (se_scheduler env))) (\<lambda>d.
       case d of
         Some d \<Rightarrow> Inr d
       | None \<Rightarrow> bindR (find_by_type (se_resources env) ''MetaSporeFlow'') (\<lambda>r.
           Inr (path_join (dirname (res_path r)) ''volumes'')))"

subsection \<open>The crontab\<close>

definition kept_lines :: "string \<Rightarrow> string \<Rightarrow> string list" where
  "kept_lines command spec = filter (\<lambda>l. l \<noteq> [] \<and> \<not> endswith l command) (splitlines spec)"

definition make_new_crontab_spec :: "string \<Rightarrow> string \<Rightarrow> string \<Rightarrow> string" where
  "make_new_crontab_spec expr command old = join [NL] (kept_lines command old @ [crontab_entry expr command]) @ [NL]"

definition filter_crontab_spec :: "string \<Rightarrow> string \<Rightarrow> string" where
  "filter_crontab_spec command old =
     (if kept_lines command old = [] then [] else join [NL] (kept_lines command old) @ [NL])"

definition installed_in_crontab :: "string \<Rightarrow> string \<Rightarrow> bool" where
  "installed_in_crontab command spec = list_ex (\<lambda>l. endswith l command) (splitlines spec)"

subsection \<open>Publishing and destroying\<close>

text \<open>
  The machine: the region variable, the commands that ran with their input, the crontab, \<open>None\<close> when the user
  has none, the saved configurations, and whether the directory of the scene holds something else.
\<close>

record machine =
  ma_region :: "string option"
  ma_commands :: "(string list \<times> string) list"
  ma_crontab :: "string option"
  ma_saved :: "flow_resources dict"
  ma_dirs :: "string list"

definition andthen :: "(machine \<Rightarrow> machine res) \<Rightarrow> (machine \<Rightarrow> machine res) \<Rightarrow> machine \<Rightarrow> machine res" where
  "andthen f g w = bindR (f w) g"

definition check_call :: "(string list \<Rightarrow> string \<Rightarrow> bool) \<Rightarrow> string list \<Rightarrow> string \<Rightarrow> machine \<Rightarrow> machine res" where
  "check_call ok argv inp w =
     raise_if (\<not> ok argv inp) CalledProcessError (Inr (w\<lparr>ma_commands := ma_commands w @ [(argv, inp)]\<rparr>))"

definition set_aws_region :: "flow_resources \<Rightarrow> machine \<Rightarrow> machine res" where
  "set_aws_region m w =
     bindR (s3_endpoint m) (\<lambda>e. bindR (endpoint_region e) (\<lambda>r. Inr (w\<lparr>ma_region := Some r\<rparr>)))"

definition upload_config :: "(string list \<Rightarrow> string \<Rightarrow> bool) \<Rightarrow> sage_env \<Rightarrow> machine \<Rightarrow> machine res" where
  "upload_config ok env w =
     bindR (local_config_dir_path env) (\<lambda>local.
     bindR (scene_name (se_resources env)) (\<lambda>scene.
     bindR (s3_work_dir (se_resources env)) (\<lambda>dir.
       let s3_path = ensure_trailing_slash (s3_config_dir_path dir scene)
       in bindR (check_call ok [''aws'', ''s3'', ''sync'', ''--delete'', ensure_trailing_slash local, s3_path] [] w)
            (check_call ok [''aws'', ''s3'', ''cp'', ''-'', path_join s3_path ''custom_entrypoint.sh'']
               (generate_entrypoint (sd_tasks (se_scheduler env)))))))"

definition clear_config :: "(string list \<Rightarrow> string \<Rightarrow> bool) \<Rightarrow> sage_env \<Rightarrow> machine \<Rightarrow> machine res" where
  "clear_config ok env w =
     bindR (scene_name (se_resources env)) (\<lambda>scene.
     bindR (s3_work_dir (se_resources env)) (\<lambda>dir.
       check_call ok [''aws'', ''s3'', ''rm'', ''--recursive'', ensure_trailing_slash (s3_config_dir_path dir scene)] [] w))"

definition save_flow_config :: "sage_env \<Rightarrow> machine \<Rightarrow> machine res" where
  "save_flow_config env w =
     bindR (scene_name (se_resources env)) (\<lambda>scene.
       let path = flow_config_path (se_home env) scene; dir = dirname path
       in Inr (w\<lparr>ma_dirs := (if dir \<in> set (ma_dirs w) then ma_dirs w else dir # ma_dirs w),
                 ma_saved := dict_set path (save_manager (se_resources env)) (ma_saved w)\<rparr>))"

text \<open>The directory goes when nothing is left in it.\<close>

definition clear_flow_config :: "(string \<Rightarrow> bool) \<Rightarrow> sage_env \<Rightarrow> machine \<Rightarrow> machine res" where
  "clear_flow_config others env w =
     bindR (scene_name (se_resources env)) (\<lambda>scene.
       let path = flow_config_path (se_home env) scene; dir = dirname path
       in Inr (w\<lparr>ma_saved := filter (\<lambda>(p, _). p \<noteq> path) (ma_saved w),
                 ma_dirs := (if others dir then ma_dirs w else removeAll dir (ma_dirs w))\<rparr>))"

definition old_crontab_spec :: "machine \<Rightarrow> string" where
  "old_crontab_spec w = (case ma_crontab w of None \<Rightarrow> [] | Some t \<Rightarrow> t)"

definition update_crontab :: "(string list \<Rightarrow> string \<Rightarrow> bool) \<Rightarrow> string \<Rightarrow> machine \<Rightarrow> machine res" where
  "update_crontab ok spec w =
     bindR (check_call ok [''crontab'', ''-''] spec w) (\<lambda>w. Inr (w\<lparr>ma_crontab := Some spec\<rparr>))"

definition env_command :: "sage_env \<Rightarrow> string res" where
  "env_command env = bindR (scene_name (se_resources env)) (\<lambda>scene. Inr (crontab_command (se_python env) scene))"

definition install_crontab :: "(string list \<Rightarrow> string \<Rightarrow> bool) \<Rightarrow> sage_env \<Rightarrow> machine \<Rightarrow> machine res" where
  "install_crontab ok env w =
     bindR (env_command env) (\<lambda>c.
       update_crontab ok (make_new_crontab_spec (sd_cron (se_scheduler env)) c (old_crontab_spec w)) w)"

definition uninstall_crontab :: "(string list \<Rightarrow> string \<Rightarrow> bool) \<Rightarrow> sage_env \<Rightarrow> machine \<Rightarrow> machine res" where
  "uninstall_crontab ok env w =
     bindR (env_command env) (\<lambda>c. update_crontab ok (filter_crontab_spec c (old_crontab_spec w)) w)"

definition run_job_once :: "(string list \<Rightarrow> string \<Rightarrow> bool) \<Rightarrow> sage_env \<Rightarrow> machine \<Rightarrow> machine res" where
  "run_job_once ok env w =
     bindR (env_command env) (\<lambda>c.
     bindR (shlex_words None c) (\<lambda>args.
       raise_if (args = [] \<or> last args \<noteq> ''--redirect-stdio'') AssertionError
         (check_call ok (butlast args) [] w)))"

definition publish_sage :: "(string list \<Rightarrow> string \<Rightarrow> bool) \<Rightarrow> sage_env \<Rightarrow> machine \<Rightarrow> machine res" where
  "publish_sage ok env =
     andthen (set_aws_region (se_resources env))
     (andthen (upload_config ok env)
     (andthen (save_flow_config env)
     (andthen (install_crontab ok env) (run_job_once ok env))))"

definition destroy_sage :: "(string list \<Rightarrow> string \<Rightarrow> bool) \<Rightarrow> (string \<Rightarrow> bool) \<Rightarrow> sage_env \<Rightarrow> machine \<Rightarrow> machine res" where
  "destroy_sage ok others env =
     andthen (set_aws_region (se_resources env))
     (andthen (uninstall_crontab ok env)
     (andthen (clear_flow_config others env) (clear_config ok env)))"

subsection \<open>Training jobs and the status\<close>

text \<open>The service lists the jobs in pages; behind the first page the loop stops at ten jobs.\<close>

abbreviation max_training_jobs :: nat where "max_training_jobs \<equiv> 10"

fun more_training_jobs :: "'j list list \<Rightarrow> 'j list \<Rightarrow> 'j list" where
  "more_training_jobs [] jobs = jobs"
| "more_training_jobs (page # pages) jobs =
     (if length jobs < max_training_jobs
      then more_training_jobs pages (jobs @ take (max_training_jobs - length jobs) page)
      else jobs)"

fun get_training_jobs :: "'j list list \<Rightarrow> 'j list" where
  "get_training_jobs [] = []"
| "get_training_jobs (page # pages) = more_training_jobs pages page"

definition training_job_url :: "string \<Rightarrow> string \<Rightarrow> string" where
  "training_job_url region job =
     ''https://'' @ region @ ''.console.amazonaws.cn/sagemaker/home?region='' @ region @ ''#/jobs/'' @ job"

record sage_status =
  ss_status :: string
  ss_last_name :: "string option"
  ss_last_status :: "string option"
  ss_last_url :: "string option"
  ss_recent :: "(string \<times> string) list"

definition status_of :: "bool \<Rightarrow> string option \<Rightarrow> string res" where
  "status_of installed last_status =
     (if \<not> installed then Inr ''DOWN''
      else (case last_status of
              None \<Rightarrow> Inr ''UP''
            | Some s \<Rightarrow>
                if s = ''InProgress'' then Inr ''TRAINING''
                else if s = ''Failed'' then Inr ''FAIL''
                else raise_if (s \<noteq> ''Completed'' \<and> s \<noteq> ''Stopping'' \<and> s \<noteq> ''Stopped'') AssertionError (Inr ''UP'')))"

definition get_status ::
  "(string \<Rightarrow> (string \<times> string) list list) \<Rightarrow> (string \<Rightarrow> string option) \<Rightarrow> sage_env \<Rightarrow> machine \<Rightarrow> sage_status res" where
  "get_status list_jobs describe env w =
     bindR (set_aws_region (se_resources env) w) (\<lambda>w.
     bindR (scene_name (se_resources env)) (\<lambda>scene.
       let jobs = get_training_jobs (list_jobs (training_job_name_prefix scene));
           name = (case jobs of [] \<Rightarrow> None | (n, _) # _ \<Rightarrow> Some n)
       in bindR (case name of
                   None \<Rightarrow> Inr None
                 | Some n \<Rightarrow> (case describe n of None \<Rightarrow> Inl RuntimeError | Some s \<Rightarrow> Inr (Some s))) (\<lambda>last.
          bindR (status_of (installed_in_crontab (crontab_command (se_python env) scene) (old_crontab_spec w)) last) (\<lambda>st.
            Inr \<lparr>ss_status = st, ss_last_name = name, ss_last_status = last,
                 ss_last_url = map_option (training_job_url (the (ma_region w))) name, ss_recent = jobs\<rparr>))))"

section \<open>The lines of the crontab\<close>

definition one_line :: "string \<Rightarrow> bool" where
  "one_line s \<longleftrightarrow> list_all (\<lambda>c. \<not> is_linebreak c) s"

lemma newline_breaks: "is_linebreak NL"
  by code_simp

lemma splitlines_line: "one_line l \<Longrightarrow> splitlines (l @ NL # r) = l # splitlines r"
  by (induction l) (auto simp: newline_breaks one_line_def)

lemma splitlines_join: "list_all one_line ls \<Longrightarrow> ls \<noteq> [] \<Longrightarrow> splitlines (join [NL] ls @ [NL]) = ls"
  by (induction ls) (auto simp: splitlines_line)

lemma splitlines_one_line: "list_all one_line (splitlines s)"
proof (induction s rule: splitlines.induct)
  case (2 c cs)
  then show ?case
    by (cases "splitlines cs") (auto simp: one_line_def)
qed simp

lemma kept_lines_one_line: "list_all one_line (kept_lines command spec)"
  using splitlines_one_line [of spec] by (auto simp: kept_lines_def list_all_iff)

lemma kept_lines_again:
  "splitlines s = kept_lines command old @ ls \<Longrightarrow>
   kept_lines command s = kept_lines command old @ filter (\<lambda>l. l \<noteq> [] \<and> \<not> endswith l command) ls"
  by (simp add: kept_lines_def)

lemma filtered_lines: "splitlines (filter_crontab_spec command old) = kept_lines command old"
  using splitlines_join [OF kept_lines_one_line] by (simp add: filter_crontab_spec_def)

lemma entry_endswith: "endswith (crontab_entry expr command) command"
  using endswith_append [of "expr @ '' ''" command] by (simp add: crontab_entry_def)

lemma installed_lines:
  assumes "one_line (crontab_entry expr command)"
  shows "splitlines (make_new_crontab_spec expr command old) = kept_lines command old @ [crontab_entry expr command]"
  unfolding make_new_crontab_spec_def
  using kept_lines_one_line [of command old] assms by (intro splitlines_join) simp_all

text \<open>
  Installing the entry keeps the other lines of the crontab in their order, drops the empty ones and the entries
  with the same command, and puts one entry at the end; doing it again changes nothing. Uninstalling removes the
  entry and nothing else.
\<close>

lemma crontab_installed:
  assumes "one_line (crontab_entry expr command)"
  shows "splitlines (make_new_crontab_spec expr command old) =
      filter (\<lambda>l. l \<noteq> [] \<and> \<not> endswith l command) (splitlines old) @ [crontab_entry expr command] \<and>
    installed_in_crontab command (make_new_crontab_spec expr command old) \<and>
    make_new_crontab_spec expr command (make_new_crontab_spec expr command old) = make_new_crontab_spec expr command old \<and>
    filter_crontab_spec command (make_new_crontab_spec expr command old) = filter_crontab_spec command old \<and>
    splitlines (filter_crontab_spec command old) = filter (\<lambda>l. l \<noteq> [] \<and> \<not> endswith l command) (splitlines old) \<and>
    \<not> installed_in_crontab command (filter_crontab_spec command old)"
proof -
  note new = installed_lines [OF assms, of old]
  have kept: "kept_lines command (make_new_crontab_spec expr command old) = kept_lines command old"
    using kept_lines_again [OF new] entry_endswith [of expr command] by simp
  have "installed_in_crontab command (make_new_crontab_spec expr command old)"
    using entry_endswith [of expr command] by (simp add: installed_in_crontab_def new)
  moreover have "make_new_crontab_spec expr command (make_new_crontab_spec expr command old) = make_new_crontab_spec expr command old"
    by (simp add: make_new_crontab_spec_def [of expr command "make_new_crontab_spec expr command old"] kept)
      (simp add: make_new_crontab_spec_def)
  moreover have "filter_crontab_spec command (make_new_crontab_spec expr command old) = filter_crontab_spec command old"
    by (simp add: filter_crontab_spec_def kept)
  moreover have "\<not> installed_in_crontab command (filter_crontab_spec command old)"
    by (auto simp: installed_in_crontab_def filtered_lines list_ex_iff kept_lines_def)
  ultimately show ?thesis using new filtered_lines by (simp add: kept_lines_def)
qed

text \<open>
  Installing the entry keeps the other lines of the crontab in their order, drops the empty ones and the entries
  with the same command, and puts one entry at the end; doing it again changes nothing. Uninstalling removes the
  entry and nothing else.
\<close>

theorem crontab_install:
  assumes "one_line (crontab_entry expr command)"
  shows "splitlines (make_new_crontab_spec expr command old) =
      filter (\<lambda>l. l \<noteq> [] \<and> \<not> endswith l command) (splitlines old) @ [crontab_entry expr command] \<and>
    make_new_crontab_spec expr command (make_new_crontab_spec expr command old) = make_new_crontab_spec expr command old \<and>
    filter_crontab_spec command (make_new_crontab_spec expr command old) = filter_crontab_spec command old \<and>
    splitlines (filter_crontab_spec command old) = filter (\<lambda>l. l \<noteq> [] \<and> \<not> endswith l command) (splitlines old)"
  using crontab_installed [OF assms, of old] by simp

lemma crontab_install_witness:
  "splitlines (make_new_crontab_spec ''0 2 * * *'' (crontab_command ''python3'' ''demo'')
     (''MAILTO=me'' @ [NL, NL] @ ''5 * * * * '' @ crontab_command ''python3'' ''demo'' @ [NL])) =
   [''MAILTO=me'', ''0 2 * * * '' @ crontab_command ''python3'' ''demo'']"
proof -
  have "one_line (crontab_entry ''0 2 * * *'' (crontab_command ''python3'' ''demo''))" by code_simp
  note new = this [THEN crontab_install, THEN conjunct1,
      of "''MAILTO=me'' @ [NL, NL] @ ''5 * * * * '' @ crontab_command ''python3'' ''demo'' @ [NL]"]
  have "filter (\<lambda>l. l \<noteq> [] \<and> \<not> endswith l (crontab_command ''python3'' ''demo''))
      (splitlines (''MAILTO=me'' @ [NL, NL] @ ''5 * * * * '' @ crontab_command ''python3'' ''demo'' @ [NL])) =
      [''MAILTO=me'']"
    by code_simp
  then show ?thesis unfolding new by (simp only: crontab_entry_def append.simps)
qed

section \<open>The jobs that are listed\<close>

lemma more_training_jobs_take:
  "length jobs \<le> 10 \<Longrightarrow> more_training_jobs pages jobs = take 10 (jobs @ concat pages)"
proof (induction pages jobs rule: more_training_jobs.induct)
  case (2 page pages jobs)
  then show ?case by (cases "length page \<le> 10 - length jobs") auto
qed simp

text \<open>
  With pages of at most ten jobs, the status lists the first ten jobs of all pages together.
\<close>

theorem training_jobs_first_ten:
  assumes "list_all (\<lambda>page. length page \<le> 10) pages"
  shows "get_training_jobs pages = take 10 (concat pages)"
  using assms by (cases pages) (simp_all add: more_training_jobs_take)

lemma training_jobs_first_ten_witness:
  "get_training_jobs [[1 :: nat], [], [2, 3], replicate 8 4, [5]] = [1, 2, 3] @ replicate 7 4"
  by (subst training_jobs_first_ten) (simp_all add: eval_nat_numeral)


section \<open>Publishing and destroying\<close>

lemma andthen_Inr_iff: "andthen f g w = Inr w' \<longleftrightarrow> (\<exists>u. f w = Inr u \<and> g u = Inr w')"
  by (simp add: andthen_def bindR_Inr_iff)

lemmas sage_steps = set_aws_region_def upload_config_def clear_config_def save_flow_config_def clear_flow_config_def
  install_crontab_def uninstall_crontab_def update_crontab_def run_job_once_def check_call_def env_command_def

lemmas sage_iffs = andthen_Inr_iff bindR_Inr_iff raise_if_Inr_iff

lemma publish_effect:
  assumes "publish_sage ok env w = Inr w'"
  shows "\<exists>scene. scene_name (se_resources env) = Inr scene \<and>
    ma_crontab w' = Some (make_new_crontab_spec (sd_cron (se_scheduler env)) (crontab_command (se_python env) scene)
      (old_crontab_spec w)) \<and>
    ma_saved w' = dict_set (flow_config_path (se_home env) scene) (save_manager (se_resources env)) (ma_saved w)"
  using assms by (auto simp: publish_sage_def sage_steps sage_iffs Let_def old_crontab_spec_def split: prod.splits)

lemma destroy_effect:
  assumes "destroy_sage ok others env w = Inr w'"
  shows "\<exists>scene. scene_name (se_resources env) = Inr scene \<and>
    ma_crontab w' = Some (filter_crontab_spec (crontab_command (se_python env) scene) (old_crontab_spec w)) \<and>
    ma_saved w' = filter (\<lambda>(p, _). p \<noteq> flow_config_path (se_home env) scene) (ma_saved w)"
  using assms by (auto simp: destroy_sage_def sage_steps sage_iffs Let_def old_crontab_spec_def split: prod.splits)

text \<open>
  C23: Once a SageMaker flow is published, the crontab has the entry of its scene and its configuration is saved;
  destroying it then restores the other lines of the crontab and removes that configuration and no other.
\<close>

theorem publish_then_destroy:
  assumes "publish_sage ok env w = Inr w'" and "destroy_sage ok others env w' = Inr w''"
    and "one_line (sd_cron (se_scheduler env))" "one_line (se_python env)"
    and "scene_name (se_resources env) = Inr scene" "one_line scene"
  shows "installed_in_crontab (crontab_command (se_python env) scene) (old_crontab_spec w') \<and>
    dict_get (ma_saved w') (flow_config_path (se_home env) scene) = Some (save_manager (se_resources env)) \<and>
    \<not> installed_in_crontab (crontab_command (se_python env) scene) (old_crontab_spec w'') \<and>
    splitlines (old_crontab_spec w'') =
      filter (\<lambda>l. l \<noteq> [] \<and> \<not> endswith l (crontab_command (se_python env) scene)) (splitlines (old_crontab_spec w)) \<and>
    (\<forall>p. dict_get (ma_saved w'') p =
      (if p = flow_config_path (se_home env) scene then None else dict_get (ma_saved w) p))"
proof -
  let ?c = "crontab_command (se_python env) scene" and ?p = "flow_config_path (se_home env) scene"
  have "one_line (crontab_entry (sd_cron (se_scheduler env)) ?c)"
    using assms(3,4,6) by (simp add: crontab_entry_def crontab_command_def one_line_def is_linebreak_def)
  note tab = crontab_installed [OF this, of "old_crontab_spec w"]
  note new = publish_effect [OF assms(1)] and gone = destroy_effect [OF assms(2)]
  have w': "old_crontab_spec w' = make_new_crontab_spec (sd_cron (se_scheduler env)) ?c (old_crontab_spec w)"
      "ma_saved w' = dict_set ?p (save_manager (se_resources env)) (ma_saved w)"
    using new assms(5) by (auto simp: old_crontab_spec_def)
  have w'': "old_crontab_spec w'' = filter_crontab_spec ?c (old_crontab_spec w')"
      "ma_saved w'' = filter (\<lambda>(p, _). p \<noteq> ?p) (ma_saved w')"
    using gone assms(5) by (auto simp: old_crontab_spec_def)
  have "dict_get (filter (\<lambda>(p, _). p \<noteq> ?p) d) p = (if p = ?p then None else dict_get d p)" for p and d :: "flow_resources dict"
    by (induction d) (auto simp: dict_get_def)
  then show ?thesis using tab by (simp add: w' w'' pydict.get_put)
qed

text \<open>A flow with its SageMaker configuration on a machine with a crontab.\<close>

definition demo_resources :: flow_resources where
  "demo_resources =
     (case foldR (\<lambda>(n, d). add_resource class_name class_mro n (''/flow/'' @ n @ ''.yml'') d)
        [(''demo'', MetaSporeFlow None (Some ''SageMaker'')),
         (''sage'', SageMakerConfig ''role'' [] [] ''s3.cn-north-1.amazonaws.com.cn'' ''s3://bucket/work'')] new_manager of
        Inl e \<Rightarrow> new_manager | Inr m \<Rightarrow> freeze m)"

definition sage_demo_env :: sage_env where
  "sage_demo_env = \<lparr>se_resources = demo_resources,
     se_scheduler = example_scheduler\<lparr>sd_conf := OfflineSageMakerScheduler ''0 2 * * *'' [] None\<rparr>,
     se_python = ''/usr/bin/python3'', se_home = ''/home/me''\<rparr>"

definition demo_machine :: machine where
  "demo_machine = \<lparr>ma_region = None, ma_commands = [], ma_crontab = Some (''MAILTO=me'' @ [NL]), ma_saved = [], ma_dirs = []\<rparr>"

lemma publish_then_destroy_witness:
  "\<exists>w' w''. publish_sage (\<lambda>_ _. True) sage_demo_env demo_machine = Inr w' \<and>
     destroy_sage (\<lambda>_ _. True) (\<lambda>_. False) sage_demo_env w' = Inr w'' \<and>
     splitlines (old_crontab_spec w'') = [''MAILTO=me'']"
proof -
  let ?p = "publish_sage (\<lambda>_ _. True) sage_demo_env" and ?d = "destroy_sage (\<lambda>_ _. True) (\<lambda>_. False) sage_demo_env"
  have run: "case bindR (?p demo_machine) ?d of Inl e \<Rightarrow> False | Inr w \<Rightarrow> True"
    by code_simp
  obtain w' w'' where w: "?p demo_machine = Inr w'" "?d w' = Inr w''"
    using run by (cases "?p demo_machine"; cases "?d (projr (?p demo_machine))") auto
  have pre: "one_line (sd_cron (se_scheduler sage_demo_env))" "one_line (se_python sage_demo_env)"
      "scene_name (se_resources sage_demo_env) = Inr ''demo''" "one_line ''demo''"
    by code_simp+
  have "filter (\<lambda>l. l \<noteq> [] \<and> \<not> endswith l (crontab_command (se_python sage_demo_env) ''demo'')) (splitlines (old_crontab_spec demo_machine)) =
      [''MAILTO=me'']"
    by code_simp
  then have "splitlines (old_crontab_spec w'') = [''MAILTO=me'']"
    using publish_then_destroy [OF w pre] by simp
  then show ?thesis using w by blast
qed

end
