(* ===== verification/Runner.thy ===== *)
theory Runner
  imports SageMaker Storage
begin

text \<open>
  \<open>metasporeflow/runners/crontab_sage_maker_runner.py\<close>, what the crontab starts: one training job, waited for
  under a lock, whose model then goes online; and \<open>metasporeflow/online/sagemaker_executor.py\<close>, the endpoint
  that serves it. The answers of the services are arguments.
\<close>

section \<open>Paths and names\<close>

definition pid_path :: "string \<Rightarrow> string \<Rightarrow> string" where
  "pid_path home scene = path_join (flow_scene_dir home scene) ''metaspore-flow.pid''"

definition logs_dir :: "string \<Rightarrow> string \<Rightarrow> string" where
  "logs_dir home scene = path_join (flow_scene_dir home scene) ''logs''"

definition stdout_path :: "string \<Rightarrow> string \<Rightarrow> string \<Rightarrow> string" where
  "stdout_path home scene job = path_join (logs_dir home scene) (job @ ''.stdout'')"

definition stderr_path :: "string \<Rightarrow> string \<Rightarrow> string \<Rightarrow> string" where
  "stderr_path home scene job = path_join (logs_dir home scene) (job @ ''.stderr'')"

definition s3_model_dir :: "string \<Rightarrow> string \<Rightarrow> string \<Rightarrow> string" where
  "s3_model_dir work_dir scene version =
     path_join (path_join (path_join (path_join (path_join (path_join work_dir ''flow'') ''scene'') scene) ''model'') ''export'') version"

definition training_job_name :: "string \<Rightarrow> string \<Rightarrow> string" where
  "training_job_name scene version = dashed scene @ ''-'' @ version @ ''-train''"

section \<open>The runner\<close>

record flow_runner =
  ru_scene :: string
  ru_redirect :: bool
  ru_resources :: flow_resources
  ru_version :: string
  ru_job_name :: string
  ru_region :: string

text \<open>
  A line of the crontab is five fields and the command, which is given to a shell; on words that mean nothing to a
  shell this is \<open>shlex.split\<close>. With \<open>-m\<close> the interpreter runs a module on the words behind its name.
\<close>

definition cron_blank :: "char \<Rightarrow> bool" where
  "cron_blank c \<longleftrightarrow> c = CHR '' '' \<or> c = CHR 0x09"

primrec drop_fields :: "nat \<Rightarrow> string \<Rightarrow> string" where
  "drop_fields 0 s = dropWhile cron_blank s"
| "drop_fields (Suc n) s = drop_fields n (dropWhile (\<lambda>c. \<not> cron_blank c) (dropWhile cron_blank s))"

definition started_module :: "string \<Rightarrow> (string \<times> string list) option" where
  "started_module line =
     (case shlex_words None (drop_fields 5 line) of
        Inr (_ # m # n # args) \<Rightarrow> if m = ''-m'' then Some (n, args) else None
      | _ \<Rightarrow> None)"

text \<open>
  The arguments as \<open>argparse\<close> reads them: options by their long names, which may be cut short and may hold their value
  behind \<open>=\<close>, or by one letter, which may hold it directly; several letters may share a dash. A word with a dash in
  front is no value, unless it looks like a negative number, is the dash alone or has a space. Every other word, and
  a missing scene, ends the process.
\<close>

definition negative_number :: "string \<Rightarrow> bool" where
  "negative_number s \<longleftrightarrow> (let ds = tl s; b = dropWhile is_digit ds
     in startswith s ''-'' \<and> (ds \<noteq> [] \<and> b = [] \<or> startswith b ''.'' \<and> tl b \<noteq> [] \<and> list_all is_digit (tl b)))"

definition option_like :: "string \<Rightarrow> bool" where
  "option_like s \<longleftrightarrow> startswith s ''-'' \<and> s \<noteq> ''-'' \<and> CHR '' '' \<notin> set s \<and> \<not> negative_number s"

datatype runner_option = SceneNext | SceneValue string | RedirectStdio | BadOption

definition runner_option :: "string \<Rightarrow> runner_option" where
  "runner_option w =
     (if startswith w ''--'' then
        (let name = takeWhile (\<lambda>c. c \<noteq> CHR ''='') w; v = drop (length name) w
         in if 2 < length name \<and> startswith ''--scene'' name then (if v = [] then SceneNext else SceneValue (tl v))
            else if 2 < length name \<and> startswith ''--redirect-stdio'' name \<and> v = [] then RedirectStdio
            else BadOption)
      else if w = ''-s'' then SceneNext
      else if w = ''-r'' then RedirectStdio
      else if startswith w ''-s'' then SceneValue (drop 2 w)
      else BadOption)"

function split_flags :: "string \<Rightarrow> string list" where
  "split_flags w = (if startswith w ''-r'' \<and> 2 < length w then ''-r'' # split_flags (''-'' @ drop 2 w) else [w])"
  by pat_completeness auto
termination
  by (relation "measure length") auto

declare split_flags.simps [simp del]

fun parse_runner_args :: "string list \<Rightarrow> string option \<Rightarrow> bool \<Rightarrow> (string \<times> bool) res" where
  "parse_runner_args [] scene redirect = (case scene of None \<Rightarrow> Inl SystemExit | Some s \<Rightarrow> Inr (s, redirect))"
| "parse_runner_args (w # ws) scene redirect =
     (case runner_option w of
        BadOption \<Rightarrow> Inl SystemExit
      | RedirectStdio \<Rightarrow> parse_runner_args ws scene True
      | SceneValue v \<Rightarrow> parse_runner_args ws (Some v) redirect
      | SceneNext \<Rightarrow>
          (case ws of
             [] \<Rightarrow> Inl SystemExit
           | v # vs \<Rightarrow> if option_like v then Inl SystemExit else parse_runner_args vs (Some v) redirect))"

text \<open>A missing configuration ends the process, too.\<close>

definition start_runner ::
  "(string \<Rightarrow> flow_resources option) \<Rightarrow> string \<Rightarrow> string list \<Rightarrow> string \<Rightarrow> flow_runner res" where
  "start_runner saved home args version =
     bindR (parse_runner_args (concat (map split_flags args)) None False) (\<lambda>(scene, redirect).
     case saved (flow_config_path home scene) of
        None \<Rightarrow> Inl SystemExit
      | Some m \<Rightarrow>
          bindR (s3_endpoint m) (\<lambda>e. bindR (endpoint_region e) (\<lambda>r.
            Inr \<lparr>ru_scene = scene, ru_redirect = redirect, ru_resources = m, ru_version = version,
                 ru_job_name = training_job_name scene version, ru_region = r\<rparr>)))"

text \<open>Log files older than seven days go; one that cannot be removed stays.\<close>

definition prune_logs :: "(string \<Rightarrow> bool) \<Rightarrow> rat \<Rightarrow> (string \<times> rat) list \<Rightarrow> (string \<times> rat) list" where
  "prune_logs removable now files = filter (\<lambda>(f, mtime). \<not> (mtime < now - 7 * 24 * 3600 \<and> removable f)) files"

definition redirect_paths :: "string \<Rightarrow> flow_runner \<Rightarrow> (string \<times> string) option" where
  "redirect_paths home r =
     (if ru_redirect r then Some (stdout_path home (ru_scene r) (ru_job_name r), stderr_path home (ru_scene r) (ru_job_name r))
      else None)"

definition rstrip_slash :: "string \<Rightarrow> string" where
  "rstrip_slash s = rev (dropWhile slash (rev s))"

abbreviation channel_name :: string where "channel_name \<equiv> ''metaspore''"

definition training_image :: string where
  "training_image = ''132825542956.dkr.ecr.cn-northwest-1.amazonaws.com.cn/dmetasoul-repo'' @
     ''/metaspore-spark-training-release:v1.1.2-sagemaker-entrypoint''"

definition training_environment :: "flow_runner \<Rightarrow> string \<Rightarrow> string \<Rightarrow> (string \<times> string) list" where
  "training_environment r endpoint work_dir =
     [(''AWS_ENDPOINT'', endpoint),
      (''METASPORE_ENTRYPOINT'', ''bash /opt/ml/input/data/'' @ channel_name @ ''/custom_entrypoint.sh''),
      (''METASPORE_FLOW_S3_WORK_DIR'', work_dir),
      (''METASPORE_FLOW_SCENE_NAME'', ru_scene r),
      (''METASPORE_FLOW_MODEL_NAME'', ''widedeep''),
      (''METASPORE_FLOW_MODEL_VERSION'', ru_version r),
      (''METASPORE_FLOW_LAST_MODEL_VERSION'', []),
      (''SPARK_JAVA_OPTS'', ''-Djava.io.tmpdir=/opt/spark/work-dir'')]"

definition training_job_config :: "flow_runner \<Rightarrow> pyval dict res" where
  "training_job_config r =
     bindR (sage_maker_config (ru_resources r)) (\<lambda>(role, groups, subnets, endpoint, work_dir).
       Inr [(''TrainingJobName'', PStr (ru_job_name r)),
         (''AlgorithmSpecification'', pairs [(''TrainingImage'', training_image), (''TrainingInputMode'', ''Pipe'')]),
         (''RoleArn'', PStr role),
         (''InputDataConfig'', PList [PDict
            [(''ChannelName'', PStr channel_name),
             (''DataSource'', PDict [(''S3DataSource'', pairs
                [(''S3DataDistributionType'', ''FullyReplicated''), (''S3DataType'', ''S3Prefix''),
                 (''S3Uri'', rstrip_slash (s3_config_dir_path work_dir (ru_scene r)) @ ''/'')])]),
             (''InputMode'', PStr ''File'')]]),
         (''OutputDataConfig'', pairs [(''S3OutputPath'', rstrip_slash (s3_model_dir work_dir (ru_scene r) (ru_version r)) @ ''/'')]),
         (''ResourceConfig'', PDict [(''InstanceType'', PStr ''ml.m5.2xlarge''), (''InstanceCount'', PInt 1), (''VolumeSizeInGB'', PInt 20)]),
         (''VpcConfig'', PDict [(''SecurityGroupIds'', PTuple (map PStr groups)), (''Subnets'', PTuple (map PStr subnets))]),
         (''StoppingCondition'', PDict [(''MaxRuntimeInSeconds'', PInt 72000), (''MaxWaitTimeInSeconds'', PInt 72000)]),
         (''EnableNetworkIsolation'', PBool False),
         (''EnableInterContainerTrafficEncryption'', PBool False),
         (''EnableManagedSpotTraining'', PBool False),
         (''Environment'', pairs (training_environment r endpoint work_dir)),
         (''RetryStrategy'', PDict [(''MaximumRetryAttempts'', PInt 1)])])"

subsection \<open>Waiting\<close>

text \<open>
  \<open>poll n\<close> is the status that the service gives the (n+1)-st time, a minute after the time before; the loop gives
  up when the counter, in seconds, has passed its limit, whatever the status then is.
\<close>

definition job_ended :: "string \<Rightarrow> bool" where
  "job_ended s \<longleftrightarrow> s \<in> {''Completed'', ''Failed'', ''Stopped''}"

function wait_training_job :: "(nat \<Rightarrow> string res) \<Rightarrow> nat \<Rightarrow> string res" where
  "wait_training_job poll counter =
     (case poll (counter div 60) of
        Inl e \<Rightarrow> Inl e
      | Inr s \<Rightarrow>
          if 72000 < counter then Inl RuntimeError
          else if job_ended s then Inr s
          else wait_training_job poll (counter + 60))"
  by pat_completeness auto
termination
  by (relation "measure (\<lambda>(poll, counter). 72060 - counter)") auto

declare wait_training_job.simps [simp del]

subsection \<open>The models of the job\<close>

definition get_model_paths :: "(string \<Rightarrow> string \<Rightarrow> string list option) \<Rightarrow> string \<Rightarrow> string dict" where
  "get_model_paths list_prefixes model_dir =
     (case url_parse model_dir of (_, bucket, path) \<Rightarrow>
        let start = strip slash path @ ''/''
        in case list_prefixes bucket start of
             None \<Rightarrow> []
           | Some ps \<Rightarrow>
               dict_update [] (map (\<lambda>p. let name = strip slash (drop (length start) p)
                                        in (name, ''s3://'' @ bucket @ ''/'' @ start @ name @ ''/'')) ps))"

definition update_online_service :: "(flow_resources \<Rightarrow> string dict \<Rightarrow> 'e res) \<Rightarrow> flow_runner \<Rightarrow> string dict \<Rightarrow> 'e res" where
  "update_online_service reload r models =
     raise_if (length models \<noteq> 1) RuntimeError (reload (ru_resources r) models)"

text \<open>The result tells whether the service has been updated; a job that fails is no error.\<close>

definition create_training_job ::
  "(pyval dict \<Rightarrow> unit res) \<Rightarrow> (nat \<Rightarrow> string res) \<Rightarrow> (string \<Rightarrow> string \<Rightarrow> string list option) \<Rightarrow>
   (flow_resources \<Rightarrow> string dict \<Rightarrow> 'e res) \<Rightarrow> flow_runner \<Rightarrow> 'e option res" where
  "create_training_job create poll list_prefixes reload r =
     bindR (training_job_config r) (\<lambda>config.
     bindR (create config) (\<lambda>_.
     bindR (wait_training_job poll 0) (\<lambda>s.
       if s = ''Completed''
       then bindR (s3_work_dir (ru_resources r)) (\<lambda>dir.
            bindR (update_online_service reload r
              (get_model_paths list_prefixes (s3_model_dir dir (ru_scene r) (ru_version r)))) (\<lambda>x. Inr (Some x)))
       else Inr None)))"

section \<open>The lock\<close>

text \<open>
  The runners of a scene share the file at \<open>pid_path\<close>. A runner opens it, creating it when it is missing, then
  locks what it has opened; at the end it closes the file, which drops the lock, and only then removes whatever is
  at the path. Files are told apart by their number, as the lock belongs to the file and not to the path.
\<close>

datatype runner_phase = Away | Opened nat | Running nat | Closed | Gone

record lock_state =
  lk_path :: "nat option"
  lk_next :: nat
  lk_phase :: "nat \<Rightarrow> runner_phase"

datatype lock_label = OpenPid nat | Lock nat | Refused nat | ClosePid nat | RemovePid nat | Crash nat

definition lock_init :: lock_state where
  "lock_init = \<lparr>lk_path = None, lk_next = 0, lk_phase = (\<lambda>_. Away)\<rparr>"

definition enter :: "nat \<Rightarrow> runner_phase \<Rightarrow> lock_state \<Rightarrow> lock_state" where
  "enter p ph s = s\<lparr>lk_phase := (lk_phase s)(p := ph)\<rparr>"

inductive lock_step :: "lock_state \<Rightarrow> lock_label \<Rightarrow> lock_state \<Rightarrow> bool" where
  open_old: "lk_phase s p = Away \<Longrightarrow> lk_path s = Some i \<Longrightarrow> lock_step s (OpenPid p) (enter p (Opened i) s)"
| open_new: "lk_phase s p = Away \<Longrightarrow> lk_path s = None \<Longrightarrow>
    lock_step s (OpenPid p) (enter p (Opened (lk_next s)) (s\<lparr>lk_path := Some (lk_next s), lk_next := Suc (lk_next s)\<rparr>))"
| lock: "lk_phase s p = Opened i \<Longrightarrow> (\<And>q. lk_phase s q \<noteq> Running i) \<Longrightarrow> lock_step s (Lock p) (enter p (Running i) s)"
| refused: "lk_phase s p = Opened i \<Longrightarrow> lk_phase s q = Running i \<Longrightarrow> lock_step s (Refused p) (enter p Gone s)"
| close: "lk_phase s p = Running i \<Longrightarrow> lock_step s (ClosePid p) (enter p Closed s)"
| remove: "lk_phase s p = Closed \<Longrightarrow> lock_step s (RemovePid p) (enter p Gone (s\<lparr>lk_path := None\<rparr>))"
| crash: "lk_phase s p \<noteq> Away \<Longrightarrow> lock_step s (Crash p) (enter p Gone s)"

inductive lock_run :: "lock_label list \<Rightarrow> lock_state \<Rightarrow> bool" where
  start: "lock_run [] lock_init"
| more: "lock_run ls s \<Longrightarrow> lock_step s l t \<Longrightarrow> lock_run (ls @ [l]) t"

section \<open>The endpoint\<close>

definition serving_dir :: "string \<Rightarrow> string \<Rightarrow> string" where
  "serving_dir work_dir scene =
     path_join (path_join (path_join (path_join (path_join work_dir ''flow'') ''scene'') scene) ''model'') ''serving''"

definition bucket_and_prefix :: "string \<Rightarrow> string \<times> string" where
  "bucket_and_prefix dir = (case url_parse dir of (_, bucket, path) \<Rightarrow> (bucket, strip slash path @ ''/''))"

text \<open>The wait for an endpoint: a poll every second.\<close>

function wait_endpoint :: "(nat \<Rightarrow> string res) \<Rightarrow> nat \<Rightarrow> string res" where
  "wait_endpoint poll counter =
     (case poll counter of
        Inl e \<Rightarrow> Inl e
      | Inr s \<Rightarrow>
          if 7200 < counter then Inl RuntimeError
          else if s = ''InService'' \<or> s = ''Failed'' then Inr s
          else wait_endpoint poll (counter + 1))"
  by pat_completeness auto
termination
  by (relation "measure (\<lambda>(poll, counter). 7202 - counter)") auto

declare wait_endpoint.simps [simp del]

text \<open>What the service holds.\<close>

record endpoints =
  ep_endpoints :: "string dict"
  ep_configs :: "string dict"
  ep_models :: "string dict"

definition model_name :: "string \<Rightarrow> string \<Rightarrow> string" where
  "model_name endpoint version = endpoint @ ''-model-'' @ version"

definition endpoint_config_name :: "string \<Rightarrow> string \<Rightarrow> string" where
  "endpoint_config_name endpoint version = endpoint @ ''-config-'' @ version"

text \<open>The service refuses a name that is taken.\<close>

definition create_named :: "string \<Rightarrow> string \<Rightarrow> string dict \<Rightarrow> string dict res" where
  "create_named n v d = raise_if (dict_get d n \<noteq> None) ClientError (Inr (dict_set n v d))"

definition create_endpoint_model :: "string \<Rightarrow> string \<Rightarrow> string \<Rightarrow> string \<Rightarrow> endpoints \<Rightarrow> (string \<times> endpoints) res" where
  "create_endpoint_model bucket version endpoint key s =
     bindR (create_named (model_name endpoint version) (''s3://'' @ bucket @ ''/'' @ key) (ep_models s)) (\<lambda>ms.
     bindR (create_named (endpoint_config_name endpoint version) (model_name endpoint version) (ep_configs s)) (\<lambda>cs.
       Inr (endpoint_config_name endpoint version, s\<lparr>ep_models := ms, ep_configs := cs\<rparr>)))"

text \<open>Creating or updating; the status that the wait returns is printed and not tested.\<close>

definition create_or_update_endpoint ::
  "(nat \<Rightarrow> string res) \<Rightarrow> string \<Rightarrow> string \<Rightarrow> endpoints \<Rightarrow> endpoints res" where
  "create_or_update_endpoint poll endpoint config s =
     bindR (wait_endpoint poll 0) (\<lambda>_. Inr (s\<lparr>ep_endpoints := dict_set endpoint config (ep_endpoints s)\<rparr>))"

text \<open>The bucket and the key of a model that is given by its URL, by default in the bucket of the flow.\<close>

definition model_location :: "string \<Rightarrow> string \<Rightarrow> (string \<times> string) option" where
  "model_location bucket path =
     (if startswith path ''s3://''
      then (let rest = drop 5 path
            in if CHR ''/'' \<in> set rest
               then Some (takeWhile (\<lambda>c. c \<noteq> CHR ''/'') rest, tl (dropWhile (\<lambda>c. c \<noteq> CHR ''/'') rest)) else None)
      else Some (bucket, path))"

definition model_info :: "string \<Rightarrow> pyval" where
  "model_info name =
     PDict [(''modelName'', PStr name), (''version'', PStr ''1''),
            (''dirPath'', PStr (path_join ''/opt/ml/model'' (path_join ''model'' name))),
            (''host'', PStr ''127.0.0.1''), (''port'', PInt 50000)]"

text \<open>The models that are packed: where each comes from and its entry; a malformed URL is skipped.\<close>

definition process_model_info :: "string \<Rightarrow> string dict \<Rightarrow> (string \<times> string \<times> pyval) list" where
  "process_model_info bucket models =
     concat (map (\<lambda>(name, path). case model_location bucket path of
         None \<Rightarrow> [] | Some (b, k) \<Rightarrow> [(b, k, model_info name)]) models)"

definition tarball_key :: "string \<Rightarrow> string \<Rightarrow> string \<Rightarrow> string" where
  "tarball_key start endpoint version = path_join start (endpoint @ ''-'' @ version @ ''.tar.gz'')"

definition reload_endpoint ::
  "(nat \<Rightarrow> string res) \<Rightarrow> string \<Rightarrow> flow_resources \<Rightarrow> string dict \<Rightarrow> endpoints \<Rightarrow> ((string \<times> string \<times> pyval) list \<times> endpoints) res" where
  "reload_endpoint poll version m models s =
     bindR (scene_name m) (\<lambda>scene.
     bindR (s3_work_dir m) (\<lambda>dir.
       case bucket_and_prefix (serving_dir dir scene) of (bucket, start) \<Rightarrow>
         bindR (create_endpoint_model bucket version (dashed scene) (tarball_key start (dashed scene) version) s) (\<lambda>(config, s).
         bindR (create_or_update_endpoint poll (dashed scene) config s) (\<lambda>s.
           Inr (process_model_info bucket models, s)))))"

text \<open>Deleting an endpoint deletes every configuration and model whose name contains that of the endpoint.\<close>

fun contains :: "string \<Rightarrow> string \<Rightarrow> bool" where
  "contains [] p = (p = [])"
| "contains (c # cs) p = (startswith (c # cs) p \<or> contains cs p)"

definition drop_keys :: "string list \<Rightarrow> 'v dict \<Rightarrow> 'v dict" where
  "drop_keys ks d = filter (\<lambda>(k, _). k \<notin> set ks) d"

definition endpoint_down ::
  "(string \<Rightarrow> string dict \<Rightarrow> string list list) \<Rightarrow> string \<Rightarrow> endpoints \<Rightarrow> endpoints" where
  "endpoint_down list_names endpoint s =
     s\<lparr>ep_endpoints := drop_keys [endpoint] (ep_endpoints s),
       ep_configs := drop_keys (filter (\<lambda>n. n \<noteq> []) (concat (list_names (endpoint @ ''-config-'') (ep_configs s)))) (ep_configs s),
       ep_models := drop_keys (filter (\<lambda>n. n \<noteq> []) (concat (list_names (endpoint @ ''-model-'') (ep_models s)))) (ep_models s)\<rparr>"

text \<open>The status of an endpoint; a missing one is no error.\<close>

definition endpoint_status :: "string option \<Rightarrow> string \<times> string" where
  "endpoint_status described =
     (case described of
        None \<Rightarrow> (''DOWN'', ''NOT_EXIST'')
      | Some st \<Rightarrow> (if st = ''InService'' \<or> st = ''Updating'' then ''UP'' else ''DOWN'', st))"

section \<open>The wait ends\<close>

lemma wait_from:
  assumes "counter = 60 * n" and "n \<le> 1201"
  shows "\<exists>k. n \<le> k \<and> k \<le> 1201 \<and> (\<forall>j. n \<le> j \<and> j < k \<longrightarrow> (\<exists>s. poll j = Inr s \<and> \<not> job_ended s)) \<and>
    (k = 1201 \<or> (\<exists>e. poll k = Inl e) \<or> (\<exists>s. poll k = Inr s \<and> job_ended s)) \<and>
    wait_training_job poll counter =
      (case poll k of Inl e \<Rightarrow> Inl e | Inr s \<Rightarrow> if k = 1201 then Inl RuntimeError else Inr s)"
  using assms
proof (induction "1201 - n" arbitrary: n counter)
  case (0 n counter)
  then have "n = 1201" by simp
  then show ?case using 0 by (subst wait_training_job.simps) (auto split: sum.splits)
next
  case (Suc d n counter)
  then have n: "n \<le> 1200" "1201 - Suc n = d" by auto
  have unfold: "wait_training_job poll counter =
      (case poll n of Inl e \<Rightarrow> Inl e | Inr s \<Rightarrow> if job_ended s then Inr s else wait_training_job poll (60 * Suc n))"
    using n(1) Suc.prems by (subst wait_training_job.simps) (auto simp: add.commute split: sum.splits)
  show ?case
  proof (cases "\<exists>s. poll n = Inr s \<and> \<not> job_ended s")
    case True
    obtain k where k: "Suc n \<le> k" "k \<le> 1201" "\<forall>j. Suc n \<le> j \<and> j < k \<longrightarrow> (\<exists>s. poll j = Inr s \<and> \<not> job_ended s)"
        "k = 1201 \<or> (\<exists>e. poll k = Inl e) \<or> (\<exists>s. poll k = Inr s \<and> job_ended s)"
        "wait_training_job poll (60 * Suc n) =
          (case poll k of Inl e \<Rightarrow> Inl e | Inr s \<Rightarrow> if k = 1201 then Inl RuntimeError else Inr s)"
      using Suc.hyps(1) [of "Suc n" "60 * Suc n"] n Suc.hyps(2) by auto
    have "\<forall>j. n \<le> j \<and> j < k \<longrightarrow> (\<exists>s. poll j = Inr s \<and> \<not> job_ended s)"
      using k(3) True by (metis le_antisym not_less_eq_eq)
    then show ?thesis using k True unfold by (intro exI [of _ k]) auto
  next
    case False
    then show ?thesis using unfold n(1) by (intro exI [of _ n]) (auto split: sum.splits)
  qed
qed

text \<open>
  C30: The wait for the training job ends: it returns the first status that ends a job or the first failure of a
  request, unless the first 1201 answers, twenty hours of them, are neither; then the next answer that is no
  failure raises an error, whatever it says.
\<close>

theorem wait_training_job_ends:
  "\<exists>k \<le> 1201. (\<forall>j < k. \<exists>s. poll j = Inr s \<and> \<not> job_ended s) \<and>
    (k = 1201 \<or> (\<exists>e. poll k = Inl e) \<or> (\<exists>s. poll k = Inr s \<and> job_ended s)) \<and>
    wait_training_job poll 0 =
      (case poll k of Inl e \<Rightarrow> Inl e | Inr s \<Rightarrow> if k = 1201 then Inl RuntimeError else Inr s)"
  using wait_from [of 0 0 poll] by auto

lemma wait_training_job_ends_witness:
  "wait_training_job (\<lambda>n. Inr (if n < 3 then ''InProgress'' else ''Failed'')) 0 = Inr ''Failed'' \<and>
   wait_training_job (\<lambda>n. Inr (if n < 1201 then ''InProgress'' else ''Completed'')) 0 = Inl RuntimeError"
proof -
  have ended: "\<not> job_ended ''InProgress''" "job_ended ''Failed''" "job_ended ''Completed''" by (simp_all add: job_ended_def)
  let ?p = "\<lambda>n :: nat. Inr (if n < 3 then ''InProgress'' else ''Failed'') :: string res"
  let ?q = "\<lambda>n :: nat. Inr (if n < 1201 then ''InProgress'' else ''Completed'') :: string res"
  obtain k where k: "k \<le> 1201" "\<forall>j < k. \<exists>s. ?p j = Inr s \<and> \<not> job_ended s"
      "k = 1201 \<or> (\<exists>s. ?p k = Inr s \<and> job_ended s)"
      "wait_training_job ?p 0 = (case ?p k of Inl e \<Rightarrow> Inl e | Inr s \<Rightarrow> if k = 1201 then Inl RuntimeError else Inr s)"
    using wait_training_job_ends [of ?p] by auto
  have "\<not> 3 < k" using k(2) ended by auto
  moreover have "\<not> k < 3" using k(1,3) ended by auto
  ultimately have first: "wait_training_job ?p 0 = Inr ''Failed''" using k(4) by simp
  obtain k where k: "k \<le> 1201"
      "k = 1201 \<or> (\<exists>s. ?q k = Inr s \<and> job_ended s)"
      "wait_training_job ?q 0 = (case ?q k of Inl e \<Rightarrow> Inl e | Inr s \<Rightarrow> if k = 1201 then Inl RuntimeError else Inr s)"
    using wait_training_job_ends [of ?q] by auto
  have "k = 1201" using k(1,2) ended by (cases "k < 1201") auto
  then show ?thesis using first k(3) by simp
qed

section \<open>The runners of a scene\<close>

text \<open>The lock excludes on a file, and the numbers of the files that are open are old.\<close>

definition lock_inv :: "lock_state \<Rightarrow> bool" where
  "lock_inv s \<longleftrightarrow>
     (\<forall>p q i. lk_phase s p = Running i \<longrightarrow> lk_phase s q = Running i \<longrightarrow> p = q) \<and>
     (\<forall>p i. lk_phase s p = Opened i \<or> lk_phase s p = Running i \<longrightarrow> i < lk_next s) \<and>
     (\<forall>i. lk_path s = Some i \<longrightarrow> i < lk_next s)"

lemma lock_inv_step: "lock_step s l t \<Longrightarrow> lock_inv s \<Longrightarrow> lock_inv t"
  by (induction rule: lock_step.induct) (auto simp: lock_inv_def enter_def less_SucI)

lemma lock_inv_run: "lock_run ls s \<Longrightarrow> lock_inv s"
proof (induction rule: lock_run.induct)
  case (more ls s l t)
  then show ?case by (blast intro: lock_inv_step)
qed (simp add: lock_inv_def lock_init_def)

text \<open>While nobody has removed the file, all runners have opened the one at the path.\<close>

definition one_file :: "lock_state \<Rightarrow> bool" where
  "one_file s \<longleftrightarrow> (\<forall>p i. lk_phase s p = Opened i \<or> lk_phase s p = Running i \<longrightarrow> lk_path s = Some i)"

lemma one_file_step: "lock_step s l t \<Longrightarrow> one_file s \<Longrightarrow> (\<And>p. l \<noteq> RemovePid p) \<Longrightarrow> one_file t"
  by (induction rule: lock_step.induct) (auto simp: one_file_def enter_def, (metis option.inject)+)

lemma one_file_run: "lock_run ls s \<Longrightarrow> (\<And>p. RemovePid p \<notin> set ls) \<Longrightarrow> one_file s"
proof (induction rule: lock_run.induct)
  case (more ls s l t)
  then have "one_file s" "\<And>p. l \<noteq> RemovePid p" by auto
  with more.hyps(2) show ?case by (rule one_file_step)
qed (simp add: one_file_def lock_init_def)

text \<open>
  C24: As long as no runner has removed the lock file, at most one runner of a scene is running, crashes included.
\<close>

theorem one_runner:
  assumes "lock_run ls s" and "\<forall>p. RemovePid p \<notin> set ls"
    and "lk_phase s p = Running i" and "lk_phase s q = Running j"
  shows "p = q"
proof -
  have "one_file s" using one_file_run [OF assms(1)] assms(2) by simp
  then have "lk_path s = Some i" "lk_path s = Some j" using assms(3,4) unfolding one_file_def by blast+
  then have "i = j" by simp
  then show ?thesis using lock_inv_run [OF assms(1)] assms(3,4) by (auto simp: lock_inv_def)
qed

text \<open>
  C25: A runner that ends closes the file before it removes the path. When a second runner locks the file in between
  and a third comes afterwards, the third makes a new file, and both run.
\<close>

theorem two_runners:
  "\<exists>s. lock_run [OpenPid 1, Lock 1, OpenPid 2, ClosePid 1, Lock 2, RemovePid 1, OpenPid 3, Lock 3] s \<and>
     lk_phase s 2 = Running 0 \<and> lk_phase s 3 = Running 1"
proof -
  let ?s = "\<lambda>path next phases. \<lparr>lk_path = path, lk_next = next, lk_phase = phases\<rparr>"
  let ?a = "\<lambda>_ :: nat. Away"
  have "lock_run ([] @ [OpenPid 1]) (?s (Some 0) 1 (?a(1 := Opened 0)))"
    using lock_run.more [OF lock_run.start lock_step.open_new [of lock_init 1]] by (simp add: lock_init_def enter_def)
  then have "lock_run ([OpenPid 1] @ [Lock 1]) (?s (Some 0) 1 (?a(1 := Running 0)))"
    using lock_run.more [OF _ lock_step.lock [of "?s (Some 0) 1 (?a(1 := Opened 0))" 1 0], of "[OpenPid 1]"]
    by (simp add: enter_def)
  then have "lock_run ([OpenPid 1, Lock 1] @ [OpenPid 2]) (?s (Some 0) 1 (?a(1 := Running 0, 2 := Opened 0)))"
    using lock_run.more [OF _ lock_step.open_old [of "?s (Some 0) 1 (?a(1 := Running 0))" 2 0], of "[OpenPid 1, Lock 1]"]
    by (simp add: enter_def)
  then have "lock_run ([OpenPid 1, Lock 1, OpenPid 2] @ [ClosePid 1]) (?s (Some 0) 1 (?a(1 := Closed, 2 := Opened 0)))"
    using lock_run.more [OF _ lock_step.close [of "?s (Some 0) 1 (?a(1 := Running 0, 2 := Opened 0))" 1 0],
        of "[OpenPid 1, Lock 1, OpenPid 2]"]
    by (simp add: enter_def fun_upd_twist)
  then have "lock_run ([OpenPid 1, Lock 1, OpenPid 2, ClosePid 1] @ [Lock 2]) (?s (Some 0) 1 (?a(1 := Closed, 2 := Running 0)))"
    using lock_run.more [OF _ lock_step.lock [of "?s (Some 0) 1 (?a(1 := Closed, 2 := Opened 0))" 2 0],
        of "[OpenPid 1, Lock 1, OpenPid 2, ClosePid 1]"]
    by (simp add: enter_def)
  then have "lock_run ([OpenPid 1, Lock 1, OpenPid 2, ClosePid 1, Lock 2] @ [RemovePid 1])
      (?s None 1 (?a(1 := Gone, 2 := Running 0)))"
    using lock_run.more [OF _ lock_step.remove [of "?s (Some 0) 1 (?a(1 := Closed, 2 := Running 0))" 1],
        of "[OpenPid 1, Lock 1, OpenPid 2, ClosePid 1, Lock 2]"]
    by (simp add: enter_def fun_upd_twist)
  then have "lock_run ([OpenPid 1, Lock 1, OpenPid 2, ClosePid 1, Lock 2, RemovePid 1] @ [OpenPid 3])
      (?s (Some 1) 2 (?a(1 := Gone, 2 := Running 0, 3 := Opened 1)))"
    using lock_run.more [OF _ lock_step.open_new [of "?s None 1 (?a(1 := Gone, 2 := Running 0))" 3],
        of "[OpenPid 1, Lock 1, OpenPid 2, ClosePid 1, Lock 2, RemovePid 1]"]
    by (simp add: enter_def eval_nat_numeral)
  then have "lock_run ([OpenPid 1, Lock 1, OpenPid 2, ClosePid 1, Lock 2, RemovePid 1, OpenPid 3] @ [Lock 3])
      (?s (Some 1) 2 (?a(1 := Gone, 2 := Running 0, 3 := Running 1)))"
    using lock_run.more [OF _ lock_step.lock [of "?s (Some 1) 2 (?a(1 := Gone, 2 := Running 0, 3 := Opened 1))" 3 1],
        of "[OpenPid 1, Lock 1, OpenPid 2, ClosePid 1, Lock 2, RemovePid 1, OpenPid 3]"]
    by (simp add: enter_def)
  then show ?thesis by (intro exI conjI) (simp, simp_all)
qed


text \<open>Two runners of which the second is refused; the first stays alone.\<close>

lemma one_runner_witness:
  "\<exists>s. lock_run [OpenPid 1, Lock 1, OpenPid 2, Refused 2] s \<and> lk_phase s 1 = Running 0 \<and> lk_phase s 2 = Gone \<and>
     (\<forall>p i. lk_phase s p = Running i \<longrightarrow> p = 1)"
proof -
  let ?s = "\<lambda>phases. \<lparr>lk_path = Some 0, lk_next = 1, lk_phase = phases\<rparr>"
  let ?a = "\<lambda>_ :: nat. Away"
  have "lock_run ([] @ [OpenPid 1]) (?s (?a(1 := Opened 0)))"
    using lock_run.more [OF lock_run.start lock_step.open_new [of lock_init 1]] by (simp add: lock_init_def enter_def)
  then have "lock_run ([OpenPid 1] @ [Lock 1]) (?s (?a(1 := Running 0)))"
    using lock_run.more [OF _ lock_step.lock [of "?s (?a(1 := Opened 0))" 1 0], of "[OpenPid 1]"] by (simp add: enter_def)
  then have "lock_run ([OpenPid 1, Lock 1] @ [OpenPid 2]) (?s (?a(1 := Running 0, 2 := Opened 0)))"
    using lock_run.more [OF _ lock_step.open_old [of "?s (?a(1 := Running 0))" 2 0], of "[OpenPid 1, Lock 1]"]
    by (simp add: enter_def)
  then have run: "lock_run [OpenPid 1, Lock 1, OpenPid 2, Refused 2] (?s (?a(1 := Running 0, 2 := Gone)))"
    using lock_run.more [OF _ lock_step.refused [of "?s (?a(1 := Running 0, 2 := Opened 0))" 2 0 1],
        of "[OpenPid 1, Lock 1, OpenPid 2]"]
    by (simp add: enter_def)
  have "p = 1" if "lk_phase (?s (?a(1 := Running 0, 2 := Gone))) p = Running i" for p i
    using one_runner [OF run _ that, of 1 0] by simp
  then show ?thesis using run by (intro exI [of _ "?s (?a(1 := Running 0, 2 := Gone))"]) simp
qed

section \<open>From the scheduler to the runner\<close>

lemma save_manager_find: "find_by_type (save_manager m) t = find_by_type m t"
  by (simp add: find_by_type_def try_find_by_type_def save_manager_def)

lemma save_manager_reads:
  "scene_name (save_manager m) = scene_name m" "s3_endpoint (save_manager m) = s3_endpoint m"
  "sage_maker_config (save_manager m) = sage_maker_config m"
  by (simp_all add: scene_name_def s3_endpoint_def sage_maker_config_def save_manager_find)

lemma rstrip_config_dir: "rstrip_slash (s3_config_dir_path d scene) @ ''/'' = ensure_trailing_slash (s3_config_dir_path d scene)"
proof -
  have "\<exists>u. path_join a ''config'' = u @ ''config''" for a
    by (auto simp: path_join_def startswith_def)
  then obtain u where "s3_config_dir_path d scene = u @ ''config''" unfolding s3_config_dir_path_def by blast
  then show ?thesis by (simp add: rstrip_slash_def ensure_trailing_slash_def endswith_def)
qed

text \<open>Words that neither a shell nor cron reads as anything else, and the fields of a schedule.\<close>

definition plain_word :: "string \<Rightarrow> bool" where
  "plain_word w \<longleftrightarrow> w \<noteq> [] \<and> list_all (\<lambda>c. is_alnum c \<or> c \<in> set ''-_./'') w"

definition cron_field :: "string \<Rightarrow> bool" where
  "cron_field f \<longleftrightarrow> f \<noteq> [] \<and> list_all (\<lambda>c. is_alnum c \<or> c \<in> set ''*,-/'') f"

lemma shlex_plain_char:
  assumes "is_alnum c \<or> c \<in> set ''-_./''"
  shows "shlex_words acc (c # cs) = shlex_words (Some ((case acc of None \<Rightarrow> [] | Some w \<Rightarrow> w) @ [c])) cs"
proof -
  have "c \<notin> set [CHR '' '', CHR 0x09, CHR 0x0D, NL]" "c \<noteq> SQ" "c \<noteq> DQ" "c \<noteq> CHR 0x5C"
    using assms by (auto simp: is_alnum_def is_upper_def is_lower_def is_digit_def)
  then show ?thesis by (simp add: Let_def)
qed

lemma shlex_plain_chars:
  "list_all (\<lambda>c. is_alnum c \<or> c \<in> set ''-_./'') p \<Longrightarrow> shlex_words (Some w) (p @ r) = shlex_words (Some (w @ p)) r"
proof (induction p arbitrary: w)
  case (Cons c p)
  then show ?case using shlex_plain_char [of c "Some w" "p @ r"] by simp
qed simp

lemma shlex_plain:
  assumes "plain_word p"
  shows "shlex_words None (p @ CHR '' '' # r) = bindR (shlex_words None r) (\<lambda>ws. Inr (p # ws))" "shlex_words None p = Inr [p]"
proof -
  obtain c q where p: "p = c # q" "is_alnum c \<or> c \<in> set ''-_./''" "list_all (\<lambda>c. is_alnum c \<or> c \<in> set ''-_./'') q"
    using assms by (cases p) (auto simp: plain_word_def)
  have "shlex_words None (p @ x) = shlex_words (Some p) x" for x
    using shlex_plain_char [OF p(2), of None "q @ x"] shlex_plain_chars [OF p(3), of "[c]" x] by (simp add: p(1))
  from this [of "CHR '' '' # r"] this [of "[]"]
  show "shlex_words None (p @ CHR '' '' # r) = bindR (shlex_words None r) (\<lambda>ws. Inr (p # ws))" "shlex_words None p = Inr [p]"
    by simp_all
qed

lemma plain_not_blank: "is_alnum c \<or> c \<in> set ''-_./'' \<Longrightarrow> \<not> cron_blank c"
  by (auto simp: is_alnum_def is_upper_def is_lower_def is_digit_def cron_blank_def)

lemma field_not_blank: "is_alnum c \<or> c \<in> set ''*,-/'' \<Longrightarrow> \<not> cron_blank c \<and> \<not> is_linebreak c"
  by (auto simp: is_alnum_def is_upper_def is_lower_def is_digit_def cron_blank_def is_linebreak_def Let_def)

lemma plain_one_line: "plain_word w \<Longrightarrow> one_line w"
  by (auto simp: plain_word_def one_line_def list_all_iff is_alnum_def is_upper_def is_lower_def is_digit_def
      is_linebreak_def Let_def)

lemma drop_one_field:
  assumes "cron_field f"
  shows "drop_fields (Suc n) (f @ CHR '' '' # s) = drop_fields n s"
proof -
  have f: "list_all (\<lambda>c. \<not> cron_blank c) f" "f \<noteq> []"
    using assms field_not_blank by (auto simp: cron_field_def list_all_iff)
  obtain c g where c: "f = c # g" "\<not> cron_blank c" using f by (cases f) auto
  have "dropWhile (\<lambda>c. \<not> cron_blank c) (f @ CHR '' '' # s) = CHR '' '' # s"
    using f(1) by (induction f) (simp_all add: cron_blank_def)
  moreover have "dropWhile cron_blank (f @ CHR '' '' # s) = f @ CHR '' '' # s" using c by simp
  moreover have "drop_fields n (CHR '' '' # s) = drop_fields n s" by (cases n) (simp_all add: cron_blank_def)
  ultimately show ?thesis by simp
qed

lemma drop_schedule:
  assumes "list_all cron_field fs" "fs \<noteq> []" "plain_word p"
  shows "drop_fields (length fs) (join '' '' fs @ CHR '' '' # p @ s) = p @ s"
  using assms(1,2)
proof (induction fs)
  case (Cons f fs)
  have p: "drop_fields 0 (p @ s) = p @ s"
    using assms(3) plain_not_blank by (cases p) (auto simp: plain_word_def)
  have f: "cron_field f" using Cons.prems by simp
  show ?case
  proof (cases "fs = []")
    case True
    then show ?thesis using drop_one_field [OF f, of 0 "p @ s"] p by simp
  next
    case False
    then show ?thesis
      using drop_one_field [OF f, of "length fs" "join '' '' fs @ CHR '' '' # p @ s"] Cons by simp
  qed
qed simp

lemma schedule_one_line: "list_all cron_field fs \<Longrightarrow> one_line (join '' '' fs)"
proof (induction fs)
  case (Cons f fs)
  then have "one_line f" using field_not_blank by (auto simp: cron_field_def one_line_def list_all_iff)
  with Cons show ?case by (auto simp: one_line_def is_linebreak_def)
qed (simp add: one_line_def)

abbreviation runner_module :: string where
  "runner_module \<equiv> ''metasporeflow.runners.crontab_sage_maker_runner''"

lemma entry_starts_module:
  assumes "list_all cron_field fs" "length fs = 5" "plain_word python" "plain_word scene"
  shows "started_module (crontab_entry (join '' '' fs) (crontab_command python scene)) =
    Some (runner_module, [''--scene'', scene, ''--redirect-stdio''])"
proof -
  have w: "plain_word ''-m''" "plain_word runner_module" "plain_word ''--scene''" "plain_word ''--redirect-stdio''"
    by code_simp+
  have c: "crontab_command python scene = python @ CHR '' '' # ''-m'' @ CHR '' '' # runner_module @ CHR '' '' #
      ''--scene'' @ CHR '' '' # scene @ CHR '' '' # ''--redirect-stdio''"
    by (simp add: crontab_command_def)
  have f: "fs \<noteq> []" using assms(2) by auto
  have "drop_fields 5 (crontab_entry (join '' '' fs) (crontab_command python scene)) = crontab_command python scene"
    using drop_schedule [OF assms(1) f assms(3)] unfolding crontab_entry_def c assms(2) by simp
  moreover have "shlex_words None (crontab_command python scene) =
      Inr [python, ''-m'', runner_module, ''--scene'', scene, ''--redirect-stdio'']"
    unfolding c shlex_plain(1) [OF assms(3)] shlex_plain(1) [OF w(1)] shlex_plain(1) [OF w(2)] shlex_plain(1) [OF w(3)]
      shlex_plain(1) [OF assms(4)] shlex_plain(2) [OF w(4)] bindR_simps ..
  ultimately show ?thesis by (simp add: started_module_def)
qed

lemma entry_arguments:
  assumes "plain_word scene" "hd scene \<noteq> CHR ''-''"
  shows "parse_runner_args (concat (map split_flags [''--scene'', scene, ''--redirect-stdio''])) None False = Inr (scene, True)"
proof -
  obtain c t where "scene = c # t" "c \<noteq> CHR ''-''" using assms by (cases scene) (auto simp: plain_word_def)
  then have "split_flags scene = [scene]" "\<not> option_like scene"
    by (simp_all add: split_flags.simps startswith_def option_like_def)
  moreover have "split_flags ''--scene'' = [''--scene'']" "split_flags ''--redirect-stdio'' = [''--redirect-stdio'']"
    "runner_option ''--scene'' = SceneNext" "runner_option ''--redirect-stdio'' = RedirectStdio"
    by (simp_all add: split_flags.simps startswith_def runner_option_def Let_def)
  ultimately show ?thesis by simp
qed

text \<open>
  C22: When a SageMaker flow is published, the crontab has an entry whose command starts the runner, and the runner
  that is started with the words of that entry is the one of the flow: it reads its scene from them, finds the
  configuration of the flow, gives its job a name that the status of the scheduler lists, and reads in the job the
  directory to which the scheduler has uploaded the entry point. The schedule has five fields, and the path of the
  interpreter and the name of the scene are made of letters, digits and \<open>- _ . /\<close>, since they are not quoted; nor
  may the scene begin with a dash.
\<close>

theorem published_runner:
  assumes "publish_sage ok env w = Inr w'" and "scene_name (se_resources env) = Inr scene"
    and "sd_cron (se_scheduler env) = join '' '' fs" "length fs = 5" "list_all cron_field fs"
    and "plain_word (se_python env)" "plain_word scene" "hd scene \<noteq> CHR ''-''"
  shows "\<exists>line args r config. line \<in> set (splitlines (old_crontab_spec w')) \<and>
    started_module line = Some (''metasporeflow.runners.crontab_sage_maker_runner'', args) \<and>
    start_runner (dict_get (ma_saved w')) (se_home env) args version = Inr r \<and>
    ru_scene r = scene \<and> ru_redirect r \<and> ru_resources r = save_manager (se_resources env) \<and> ru_version r = version \<and>
    startswith (ru_job_name r) (training_job_name_prefix scene) \<and>
    training_job_config r = Inr config \<and> dict_get config ''TrainingJobName'' = Some (PStr (ru_job_name r)) \<and>
    (\<exists>dir. s3_work_dir (se_resources env) = Inr dir \<and>
      (let uploaded = ensure_trailing_slash (s3_config_dir_path dir scene)
       in ([''aws'', ''s3'', ''cp'', ''-'', path_join uploaded ''custom_entrypoint.sh''],
           generate_entrypoint (sd_tasks (se_scheduler env))) \<in> set (ma_commands w') \<and>
          dict_get config ''InputDataConfig'' = Some (PList [PDict
            [(''ChannelName'', PStr ''metaspore''),
             (''DataSource'', PDict [(''S3DataSource'', pairs
                [(''S3DataDistributionType'', ''FullyReplicated''), (''S3DataType'', ''S3Prefix''), (''S3Uri'', uploaded)])]),
             (''InputMode'', PStr ''File'')]])))"
proof -
  let ?m = "se_resources env"
  let ?up = "\<lambda>dir. ensure_trailing_slash (s3_config_dir_path dir scene)"
  let ?line = "crontab_entry (sd_cron (se_scheduler env)) (crontab_command (se_python env) scene)"
  let ?args = "[''--scene'', scene, ''--redirect-stdio'']"
  obtain e g dir where pub: "s3_endpoint ?m = Inr e" "endpoint_region e = Inr g" "s3_work_dir ?m = Inr dir"
      "([''aws'', ''s3'', ''cp'', ''-'', path_join (?up dir) ''custom_entrypoint.sh''],
        generate_entrypoint (sd_tasks (se_scheduler env))) \<in> set (ma_commands w')"
    using assms(1,2) by (auto simp: publish_sage_def sage_steps sage_iffs Let_def)
  obtain role groups subnets where c: "sage_maker_config ?m = Inr (role, groups, subnets, e, dir)"
    using pub(1,3) by (auto simp: s3_endpoint_def s3_work_dir_def bindR_Inr_iff)
  have effect: "ma_crontab w' = Some (make_new_crontab_spec (sd_cron (se_scheduler env))
        (crontab_command (se_python env) scene) (old_crontab_spec w))"
    "ma_saved w' = dict_set (flow_config_path (se_home env) scene) (save_manager ?m) (ma_saved w)"
    using publish_effect [OF assms(1)] assms(2) by auto
  have "one_line ?line"
    using schedule_one_line [OF assms(5)] plain_one_line [OF assms(6)] plain_one_line [OF assms(7)]
    by (simp add: assms(3) crontab_entry_def crontab_command_def one_line_def is_linebreak_def)
  then have line: "?line \<in> set (splitlines (old_crontab_spec w'))"
    using crontab_installed [of "sd_cron (se_scheduler env)" "crontab_command (se_python env) scene" "old_crontab_spec w"]
    by (simp add: old_crontab_spec_def effect(1))
  have module: "started_module ?line = Some (runner_module, ?args)"
    unfolding assms(3) by (rule entry_starts_module [OF assms(5,4,6,7)])
  let ?r = "\<lparr>ru_scene = scene, ru_redirect = True, ru_resources = save_manager ?m, ru_version = version,
    ru_job_name = training_job_name scene version, ru_region = g\<rparr>"
  have start: "start_runner (dict_get (ma_saved w')) (se_home env) ?args version = Inr ?r"
    unfolding start_runner_def entry_arguments [OF assms(7,8)]
    by (simp add: effect(2) pydict.get_put save_manager_reads pub(1,2))
  have "startswith (training_job_name scene version) (training_job_name_prefix scene)"
    using startswith_append [of "dashed scene @ ''-''" "version @ ''-train''"]
    by (simp add: training_job_name_def training_job_name_prefix_def)
  then show ?thesis
    using line module start pub(3,4)
    by (intro exI [of _ ?line] exI [of _ ?args] exI [of _ ?r])
      (simp add: training_job_config_def save_manager_reads c dict_get_def rstrip_config_dir Let_def)
qed

lemma published_runner_witness:
  "\<exists>w' line args r. publish_sage (\<lambda>_ _. True) sage_demo_env demo_machine = Inr w' \<and>
     line \<in> set (splitlines (old_crontab_spec w')) \<and> started_module line = Some (runner_module, args) \<and>
     start_runner (dict_get (ma_saved w')) ''/home/me'' args ''20220927-0200'' = Inr r \<and>
     ru_scene r = ''demo'' \<and> startswith (ru_job_name r) ''demo-''"
proof -
  have "case publish_sage (\<lambda>_ _. True) sage_demo_env demo_machine of Inl e \<Rightarrow> False | Inr w \<Rightarrow> True" by code_simp
  then obtain w' where w: "publish_sage (\<lambda>_ _. True) sage_demo_env demo_machine = Inr w'"
    by (cases "publish_sage (\<lambda>_ _. True) sage_demo_env demo_machine") auto
  have env: "scene_name (se_resources sage_demo_env) = Inr ''demo''" "training_job_name_prefix ''demo'' = ''demo-''"
      "se_home sage_demo_env = ''/home/me''" "sd_cron (se_scheduler sage_demo_env) = join '' '' [''0'', ''2'', ''*'', ''*'', ''*'']"
      "length [''0'', ''2'', ''*'', ''*'', ''*''] = 5" "list_all cron_field [''0'', ''2'', ''*'', ''*'', ''*'']"
      "plain_word (se_python sage_demo_env)" "plain_word ''demo''" "hd ''demo'' \<noteq> CHR ''-''"
    by code_simp+
  show ?thesis
    using published_runner [OF w env(1,4-9), of "''20220927-0200''"] w unfolding env(2,3) by blast
qed

text \<open>The entry of a scene whose name has a space starts a runner that ends at once.\<close>

lemma scene_with_space:
  "map_option snd (started_module (crontab_entry ''0 2 * * *'' (crontab_command ''python3'' ''my flow''))) =
     Some [''--scene'', ''my'', ''flow'', ''--redirect-stdio'']"
  "start_runner saved home [''--scene'', ''my'', ''flow'', ''--redirect-stdio''] version = Inl SystemExit"
  by code_simp (simp add: start_runner_def split_flags.simps startswith_def runner_option_def option_like_def bindR_def)

section \<open>Deleting an endpoint\<close>

lemma contains_iff: "contains s p \<longleftrightarrow> (\<exists>u v. s = u @ p @ v)"
proof (induction s)
  case (Cons c s)
  then show ?case by (auto simp: startswith_iff Cons_eq_append_conv)
qed simp

lemma drop_keys_get: "dict_get (drop_keys ks d) k = (if k \<in> set ks then None else dict_get d k)"
  by (induction d) (auto simp: drop_keys_def dict_get_def)

text \<open>
  Deleting an endpoint leaves no configuration or model of its own, when the service lists, page by page, the
  names that contain a text; but it also deletes those of every scene whose name, dashed, ends with its name.
\<close>

theorem endpoint_down_scope:
  assumes "\<And>p (d :: string dict). set (concat (list_names p d)) = {n \<in> fst ` set d. contains n p}"
  shows "(\<forall>v. dict_get (ep_configs (endpoint_down list_names e s)) (endpoint_config_name e v) = None) \<and>
    (\<forall>x v. dict_get (ep_configs (endpoint_down list_names e s)) (endpoint_config_name (x @ e) v) = None \<and>
           dict_get (ep_models (endpoint_down list_names e s)) (model_name (x @ e) v) = None) \<and>
    (\<forall>n. \<not> contains n (e @ ''-config-'') \<longrightarrow>
      dict_get (ep_configs (endpoint_down list_names e s)) n = dict_get (ep_configs s) n)"
proof -
  have gone: "dict_get (drop_keys (filter (\<lambda>n. n \<noteq> []) (concat (list_names p d))) d) n =
      (if contains n p then None else dict_get d n)" if "p \<noteq> []" for p n and d :: "string dict"
  proof -
    have "n \<in> set (filter (\<lambda>n. n \<noteq> []) (concat (list_names p d))) \<longleftrightarrow> n \<in> fst ` set d \<and> contains n p"
      using assms [of p d] that by (cases "n = []") auto
    moreover have "n \<notin> fst ` set d \<Longrightarrow> dict_get d n = None"
      by (simp add: dict_get_def map_of_eq_None_iff)
    ultimately show ?thesis unfolding drop_keys_get by presburger
  qed
  have "contains (endpoint_config_name (x @ e) v) (e @ ''-config-'')" "contains (model_name (x @ e) v) (e @ ''-model-'')" for x v
    unfolding contains_iff endpoint_config_name_def model_name_def by (metis append.assoc)+
  note inside = this this [of "[]", simplified]
  have "e @ ''-config-'' \<noteq> []" "e @ ''-model-'' \<noteq> []" by simp_all
  then show ?thesis unfolding endpoint_down_def by (simp add: gone inside)
qed

definition list_all_names :: "string \<Rightarrow> string dict \<Rightarrow> string list list" where
  "list_all_names p d = map (\<lambda>n. [n]) (filter (\<lambda>n. contains n p) (map fst d))"

lemma endpoint_down_scope_witness:
  "dict_get (ep_models (endpoint_down list_all_names ''demo''
     \<lparr>ep_endpoints = [], ep_configs = [], ep_models = [(''my-demo-model-1'', ''s3://b/k'')]\<rparr>)) ''my-demo-model-1'' = None"
proof -
  have "set (concat (list_all_names p d)) = {n \<in> fst ` set d. contains n p}" for p d
    by (auto simp: list_all_names_def)
  note endpoint_down_scope [OF this, THEN conjunct2, THEN conjunct1, THEN spec [of _ "''my-''"], THEN spec [of _ "''1''"], THEN conjunct2,
      of "''demo''" "\<lparr>ep_endpoints = [], ep_configs = [], ep_models = [(''my-demo-model-1'', ''s3://b/k'')]\<rparr>"]
  then show ?thesis by (simp add: model_name_def)
qed

section \<open>The outcome of a run\<close>

lemma wait_result: "wait_training_job poll counter = Inr s \<Longrightarrow> job_ended s"
proof (induction poll counter rule: wait_training_job.induct)
  case (1 poll counter)
  from 1(2) show ?case
    by (subst (asm) wait_training_job.simps) (auto intro: 1(1) split: sum.splits if_splits)
qed

text \<open>The first answer that ends a job, when it comes in time; until then the requests do not fail.\<close>

definition first_end :: "(nat \<Rightarrow> string res) \<Rightarrow> string \<Rightarrow> bool" where
  "first_end poll s \<longleftrightarrow> job_ended s \<and>
     (\<exists>k \<le> 1200. poll k = Inr s \<and> (\<forall>j < k. \<exists>s'. poll j = Inr s' \<and> \<not> job_ended s'))"

lemma wait_first_end: "wait_training_job poll 0 = Inr s \<longleftrightarrow> first_end poll s"
proof -
  obtain k where k: "k \<le> 1201" "\<forall>j < k. \<exists>s. poll j = Inr s \<and> \<not> job_ended s"
      "k = 1201 \<or> (\<exists>e. poll k = Inl e) \<or> (\<exists>s. poll k = Inr s \<and> job_ended s)"
      "wait_training_job poll 0 = (case poll k of Inl e \<Rightarrow> Inl e | Inr s \<Rightarrow> if k = 1201 then Inl RuntimeError else Inr s)"
    using wait_from [of 0 0 poll] by auto
  show ?thesis
  proof
    assume "wait_training_job poll 0 = Inr s"
    then show "first_end poll s"
      using k by (auto simp: first_end_def split: sum.splits if_splits intro!: exI [of _ k])
  next
    assume "first_end poll s"
    then obtain m where m: "m \<le> 1200" "poll m = Inr s" "job_ended s" "\<forall>j < m. \<exists>s'. poll j = Inr s' \<and> \<not> job_ended s'"
      by (auto simp: first_end_def)
    have "\<not> k < m" using k(3) m(1,4) by force
    moreover have "\<not> m < k" using k(2) m(2,3) by force
    ultimately have "k = m" by simp
    then show "wait_training_job poll 0 = Inr s" using k(4) m(1,2) by simp
  qed
qed

text \<open>
  C29: When the configuration of a job can be made and the service accepts it, the first answer that ends the job
  decides the run: if the job has failed or was stopped, the run ends without an error and without an update, and in
  no other case; it updates the service exactly when the job has completed and its output has exactly one model, and
  then with that model; a completed job with another number of models is a \<open>RuntimeError\<close>.
\<close>

theorem training_run_outcome:
  assumes "training_job_config r = Inr config" and "create config = Inr ()"
  shows "\<exists>dir. s3_work_dir (ru_resources r) = Inr dir \<and>
    (let run = create_training_job create poll list_prefixes reload r;
         models = get_model_paths list_prefixes (s3_model_dir dir (ru_scene r) (ru_version r))
     in (run = Inr None) = (first_end poll ''Failed'' \<or> first_end poll ''Stopped'') \<and>
        (\<forall>y. (run = Inr (Some y)) =
          (first_end poll ''Completed'' \<and> length models = 1 \<and> reload (ru_resources r) models = Inr y)) \<and>
        (first_end poll ''Completed'' \<and> length models \<noteq> 1 \<longrightarrow> run = Inl RuntimeError))"
proof -
  obtain dir where dir: "s3_work_dir (ru_resources r) = Inr dir"
    using assms(1) by (auto simp: training_job_config_def s3_work_dir_def bindR_Inr_iff)
  let ?m = "get_model_paths list_prefixes (s3_model_dir dir (ru_scene r) (ru_version r))"
  have run: "create_training_job create poll list_prefixes reload r =
      bindR (wait_training_job poll 0) (\<lambda>s. if s = ''Completed'' then
        (if length ?m \<noteq> 1 then Inl RuntimeError else bindR (reload (ru_resources r) ?m) (\<lambda>x. Inr (Some x))) else Inr None)"
    by (simp add: create_training_job_def assms dir update_online_service_def raise_if_def if_distrib cong: if_cong)
  have ended: "s = ''Completed'' \<or> s = ''Failed'' \<or> s = ''Stopped''" if "wait_training_job poll 0 = Inr s" for s
    using that unfolding wait_first_end first_end_def job_ended_def by simp
  show ?thesis
    unfolding run Let_def wait_first_end [symmetric] using dir ended
    by (cases "wait_training_job poll 0") (auto simp: bindR_Inr_iff)
qed

definition flow_demo_runner :: flow_runner where
  "flow_demo_runner = \<lparr>ru_scene = ''demo'', ru_redirect = False, ru_resources = demo_resources, ru_version = ''v'',
     ru_job_name = ''demo-v-train'', ru_region = ''cn-north-1''\<rparr>"

lemma demo_failed_first: "first_end (\<lambda>_. Inr ''Failed'') ''Failed''"
  by (auto simp: first_end_def job_ended_def)

text \<open>A job that fails at once, and one that completes with one model.\<close>

lemma training_run_outcome_witness:
  "create_training_job (\<lambda>_. Inr ()) (\<lambda>_. Inr ''Failed'') (\<lambda>_ _. None) (\<lambda>_ models. Inr models) flow_demo_runner = Inr None \<and>
   (\<exists>x. create_training_job (\<lambda>_. Inr ()) (\<lambda>_. Inr ''Completed'')
      (\<lambda>_ start. Some [start @ ''widedeep/'']) (\<lambda>_ models. Inr models) flow_demo_runner = Inr (Some x) \<and>
     map fst x = [''widedeep''])"
proof -
  let ?l = "\<lambda>_ start. Some [start @ ''widedeep/'']"
  have wait: "wait_training_job (\<lambda>_. Inr ''Completed'') 0 = Inr ''Completed''"
    by (subst wait_training_job.simps) (simp add: job_ended_def)
  have "case training_job_config flow_demo_runner of Inl e \<Rightarrow> False | Inr c \<Rightarrow> True" by code_simp
  then obtain c where c: "training_job_config flow_demo_runner = Inr c" by (auto split: sum.splits)
  have dir: "s3_work_dir (ru_resources flow_demo_runner) = Inr ''s3://bucket/work''" by code_simp
  have path: "s3_model_dir ''s3://bucket/work'' (ru_scene flow_demo_runner) (ru_version flow_demo_runner) =
      ''s3://bucket/work/flow/scene/demo/model/export/v''"
    by (simp add: s3_model_dir_def flow_demo_runner_def path_join_def startswith_def endswith_def)
  have url: "url_parse ''s3://bucket/work/flow/scene/demo/model/export/v'' =
      (''s3'', ''bucket'', ''/work/flow/scene/demo/model/export/v'')"
    by (simp add: url_parse_def split_scheme_def scheme_char_def name_start_def is_lower_def is_upper_def is_digit_def
        to_lower_def split_netloc_def startswith_def)
  let ?models = "get_model_paths ?l (s3_model_dir ''s3://bucket/work'' (ru_scene flow_demo_runner) (ru_version flow_demo_runner))"
  have models: "map fst ?models = [''widedeep'']"
    unfolding path by (simp add: get_model_paths_def url strip_def dict_set_def)
  have one: "length ?models = 1" using arg_cong [OF models, of length] by simp
  have failed: "create_training_job (\<lambda>_. Inr ()) (\<lambda>_. Inr ''Failed'') (\<lambda>_ _. None) (\<lambda>_ models. Inr models) flow_demo_runner = Inr None"
    using training_run_outcome [OF c refl, of "\<lambda>_. Inr ''Failed''" "\<lambda>_ _. None" "\<lambda>_ models. Inr models"] demo_failed_first
    by (simp only: Let_def) blast
  obtain d where d: "s3_work_dir (ru_resources flow_demo_runner) = Inr d"
    "\<forall>y. (create_training_job (\<lambda>_. Inr ()) (\<lambda>_. Inr ''Completed'') ?l (\<lambda>_ models. Inr models) flow_demo_runner = Inr (Some y)) =
      (first_end (\<lambda>_. Inr ''Completed'') ''Completed'' \<and>
       length (get_model_paths ?l (s3_model_dir d (ru_scene flow_demo_runner) (ru_version flow_demo_runner))) = 1 \<and>
       (Inr (get_model_paths ?l (s3_model_dir d (ru_scene flow_demo_runner) (ru_version flow_demo_runner))) :: string dict res) = Inr y)"
    using training_run_outcome [OF c refl, of "\<lambda>_. Inr ''Completed''" ?l "\<lambda>_ models. Inr models"]
    unfolding Let_def by blast
  have deq: "d = ''s3://bucket/work''" using d(1) dir by (simp only: sum.inject)
  have "create_training_job (\<lambda>_. Inr ()) (\<lambda>_. Inr ''Completed'') ?l (\<lambda>_ models. Inr models) flow_demo_runner = Inr (Some ?models)"
    using d(2) [unfolded deq, THEN spec [of _ ?models]] by (simp only: wait [unfolded wait_first_end] one simp_thms)
  with failed models show ?thesis by (intro conjI exI [of _ ?models])
qed

end
