(* ===== verification/Offline.thy ===== *)
theory Offline
  imports SageMaker
begin

text \<open>
  \<open>metasporeflow/offline/scheduler_manager.py\<close>, the offline executors of the three deployments
  (\<open>local_offline_executor.py\<close>, \<open>k8s_cluster_offline_executor.py\<close>, \<open>sage_maker_offline_executor.py\<close>) and
  \<open>executors/flow_executor_factory.py\<close>.
\<close>

section \<open>The deployment\<close>

datatype deployment = Local | K8sCluster | SageMaker

definition deploy_modes :: "(string \<times> deployment) list" where
  "deploy_modes = [(''Local'', Local), (''K8sCluster'', K8sCluster), (''SageMaker'', SageMaker)]"

text \<open>A mode that is not known raises a \<open>ValueError\<close>, that of the format of its message.\<close>

definition get_flow_deploy_mode :: "flow_resources \<Rightarrow> deployment res" where
  "get_flow_deploy_mode m =
     bindR (find_by_type m ''MetaSporeFlow'') (\<lambda>r.
       case res_data r of
         MetaSporeFlow _ None \<Rightarrow> Inr Local
       | MetaSporeFlow _ (Some d) \<Rightarrow> (case map_of deploy_modes d of None \<Rightarrow> Inl ValueError | Some x \<Rightarrow> Inr x)
       | _ \<Rightarrow> Inl AttributeError)"

section \<open>The manager of the schedulers\<close>

text \<open>Everything outside that the managers ask: the graph functions, the cluster, the YAML writer, the commands.\<close>

record outside =
  os_is_dag :: "(string \<times> string) list \<Rightarrow> bool"
  os_topo :: "(string \<times> string) list \<Rightarrow> string list"
  os_configmap :: "string \<Rightarrow> string \<Rightarrow> (string list option \<times> string list option) res"
  os_dump :: "pyval \<Rightarrow> string"
  os_ok :: "string list \<Rightarrow> string \<Rightarrow> bool"
  os_others :: "string \<Rightarrow> bool"
  os_python :: string
  os_home :: string
  os_cwd :: string

text \<open>Only the manager of the local deployment has the name of a container; reading it elsewhere fails.\<close>

definition create_scheduler :: "outside \<Rightarrow> string option \<Rightarrow> task dict \<Rightarrow> flow_resource \<Rightarrow> scheduler res" where
  "create_scheduler os container tasks conf =
     (if res_kind conf = ''OfflineCrontabScheduler'' then
        raise_if (container = None) AttributeError (new_scheduler (os_is_dag os) (os_topo os) conf tasks)
      else if res_kind conf = ''OfflineK8sCronjobScheduler'' \<or> res_kind conf = ''OfflineSageMakerScheduler'' then
        new_scheduler (os_is_dag os) (os_topo os) conf tasks
      else Inl Exception)"

definition get_schedulers :: "outside \<Rightarrow> string option \<Rightarrow> flow_resources \<Rightarrow> task dict \<Rightarrow> scheduler dict res" where
  "get_schedulers os container m tasks =
     foldR (\<lambda>conf d. bindR (create_scheduler os container tasks conf) (\<lambda>s. Inr (dict_set (res_name conf) s d)))
       (find_all m ''OfflineScheduler'') []"

record flow_world =
  fw_effects :: "effect list"
  fw_machine :: machine

definition exec_effect :: "outside \<Rightarrow> effect \<Rightarrow> flow_world \<Rightarrow> flow_world res" where
  "exec_effect os e w =
     (case e of
        RunInput argv inp True \<Rightarrow>
          raise_if (\<not> os_ok os argv inp) CalledProcessError (Inr (w\<lparr>fw_effects := fw_effects w @ [e]\<rparr>))
      | _ \<Rightarrow> Inr (w\<lparr>fw_effects := fw_effects w @ [e]\<rparr>))"

definition scheduler_env :: "outside \<Rightarrow> flow_resources \<Rightarrow> scheduler \<Rightarrow> sage_env" where
  "scheduler_env os m s = \<lparr>se_resources = m, se_scheduler = s, se_python = os_python os, se_home = os_home os\<rparr>"

definition publish_scheduler :: "outside \<Rightarrow> string option \<Rightarrow> flow_resources \<Rightarrow> scheduler \<Rightarrow> flow_world \<Rightarrow> flow_world res" where
  "publish_scheduler os container m s w =
     (if sd_type s = ''OfflineCrontabScheduler'' then
        (case container of None \<Rightarrow> Inl AttributeError | Some c \<Rightarrow> foldR (exec_effect os) (publish_crontab c s) w)
      else if sd_type s = ''OfflineK8sCronjobScheduler'' then
        bindR (publish_k8s (os_configmap os) (os_dump os) s) (\<lambda>es. foldR (exec_effect os) es w)
      else
        bindR (publish_sage (os_ok os) (scheduler_env os m s) (fw_machine w)) (\<lambda>x. Inr (w\<lparr>fw_machine := x\<rparr>)))"

text \<open>The crontab scheduler inherits a \<open>destroy\<close> that does nothing.\<close>

definition destroy_scheduler :: "outside \<Rightarrow> flow_resources \<Rightarrow> scheduler \<Rightarrow> flow_world \<Rightarrow> flow_world res" where
  "destroy_scheduler os m s w =
     (if sd_type s = ''OfflineCrontabScheduler'' then Inr w
      else if sd_type s = ''OfflineK8sCronjobScheduler'' then
        bindR (destroy_k8s (os_configmap os) (os_dump os) s) (\<lambda>es. foldR (exec_effect os) es w)
      else
        bindR (destroy_sage (os_ok os) (os_others os) (scheduler_env os m s) (fw_machine w)) (\<lambda>x. Inr (w\<lparr>fw_machine := x\<rparr>)))"

definition manager_start :: "outside \<Rightarrow> string option \<Rightarrow> flow_resources \<Rightarrow> task dict \<Rightarrow> flow_world \<Rightarrow> flow_world res" where
  "manager_start os container m tasks w =
     bindR (get_schedulers os container m tasks) (\<lambda>d. foldR (\<lambda>(_, s). publish_scheduler os container m s) d w)"

definition manager_stop :: "outside \<Rightarrow> string option \<Rightarrow> flow_resources \<Rightarrow> task dict \<Rightarrow> flow_world \<Rightarrow> flow_world res" where
  "manager_stop os container m tasks w =
     bindR (get_schedulers os container m tasks) (\<lambda>d. foldR (\<lambda>(_, s). destroy_scheduler os m s) d w)"

definition local_container :: "flow_resources \<Rightarrow> (string \<times> string) res" where
  "local_container m =
     bindR (find_by_name m ''offline_local_flow'') (\<lambda>r.
       case res_data r of OfflineLocalFlow img name \<Rightarrow> Inr (img, name) | _ \<Rightarrow> Inl AttributeError)"

definition local_manager_start :: "outside \<Rightarrow> flow_resources \<Rightarrow> task dict \<Rightarrow> flow_world \<Rightarrow> flow_world res" where
  "local_manager_start os m tasks w =
     bindR (local_container m) (\<lambda>(_, c).
     bindR (exec_effect os (Run (docker_exec c ''crontab -r'')) w) (manager_start os (Some c) m tasks))"

section \<open>The executors\<close>

text \<open>
  The container of the local deployment: \<open>active n\<close> is the answer of the (n+1)-st inspection. After the container
  has been created there are at most ten more.
\<close>

primrec wait_container :: "(nat \<Rightarrow> bool) \<Rightarrow> nat \<Rightarrow> nat \<Rightarrow> unit res" where
  "wait_container active i 0 = Inl Exception"
| "wait_container active i (Suc n) =
     (if active i then Inr () else if n = 0 then Inl Exception else wait_container active (Suc i) n)"

fun shared_volume :: "flow_data \<Rightarrow> string option res" where
  "shared_volume (MetaSporeFlow v _) = Inr v"
| "shared_volume _ = Inl AttributeError"

definition create_container_cmd :: "string \<Rightarrow> string option \<Rightarrow> string \<Rightarrow> string \<Rightarrow> string list" where
  "create_container_cmd cwd shared name img =
     [''docker'', ''run'', ''--volume'', cwd @ ''/volumes:'' @ (case shared of None \<Rightarrow> ''None'' | Some v \<Rightarrow> v),
      ''--network=host'', ''-itd'', ''--name'', name, img]"

definition init_local_container ::
  "outside \<Rightarrow> (nat \<Rightarrow> bool) \<Rightarrow> string option \<Rightarrow> string \<Rightarrow> string \<Rightarrow> flow_world \<Rightarrow> flow_world res" where
  "init_local_container os active shared img name w =
     (if active 0 then Inr w
      else
        bindR (exec_effect os (Run (create_container_cmd (os_cwd os) shared name img)) w) (\<lambda>w.
        bindR (wait_container active 1 10) (\<lambda>_. Inr w)))"

text \<open>The flow of the local deployment is looked up by a fixed name.\<close>

definition local_up :: "outside \<Rightarrow> (nat \<Rightarrow> bool) \<Rightarrow> flow_resources \<Rightarrow> flow_world \<Rightarrow> flow_world res" where
  "local_up os active m w =
     bindR (local_container m) (\<lambda>(img, name).
     bindR (find_by_name m ''demo_metaspore_flow'') (\<lambda>r.
     bindR (shared_volume (res_data r)) (\<lambda>shared.
     bindR (create_tasks (find_all m ''OfflineTask'')) (\<lambda>tasks.
     bindR (init_local_container os active shared img name w) (local_manager_start os m tasks)))))"

text \<open>Stopping, then stopping again when the container is still active, and removing.\<close>

definition local_down :: "outside \<Rightarrow> bool \<Rightarrow> string \<Rightarrow> flow_world \<Rightarrow> flow_world res" where
  "local_down os active name w =
     foldR (exec_effect os)
       (Run [''docker stop '' @ name] # (if active then [Run [''docker stop '' @ name]] else []) @ [Run [''docker rm '' @ name]]) w"

definition cluster_up :: "outside \<Rightarrow> flow_resources \<Rightarrow> flow_world \<Rightarrow> flow_world res" where
  "cluster_up os m w =
     bindR (create_tasks (find_all m ''OfflineTask'')) (\<lambda>tasks. manager_start os None m tasks w)"

definition cluster_down :: "outside \<Rightarrow> flow_resources \<Rightarrow> flow_world \<Rightarrow> flow_world res" where
  "cluster_down os m w =
     bindR (create_tasks (find_all m ''OfflineTask'')) (\<lambda>tasks. manager_stop os None m tasks w)"

text \<open>The status of the SageMaker deployment is that of its only scheduler, which must be of that kind.\<close>

definition sage_offline_status ::
  "outside \<Rightarrow> (string \<Rightarrow> (string \<times> string) list list) \<Rightarrow> (string \<Rightarrow> string option) \<Rightarrow> flow_resources \<Rightarrow> machine \<Rightarrow> sage_status res" where
  "sage_offline_status os list_jobs describe m w =
     bindR (create_tasks (find_all m ''OfflineTask'')) (\<lambda>tasks.
     bindR (get_schedulers os None m tasks) (\<lambda>d.
       case d of
         [(_, s)] \<Rightarrow>
           if sd_type s = ''OfflineSageMakerScheduler'' then get_status list_jobs describe (scheduler_env os m s) w
           else Inl AttributeError
       | _ \<Rightarrow> Inl RuntimeError))"

section \<open>What the local deployment leaves in the crontab\<close>

lemma exec_runs:
  assumes "\<And>a i. RunInput a i True \<notin> set es"
  shows "foldR (exec_effect os) es w = Inr (w\<lparr>fw_effects := fw_effects w @ es\<rparr>)"
  using assms
  by (induction es arbitrary: w) (auto simp: exec_effect_def split: effect.splits bool.splits)

lemma publish_crontab_runs:
  assumes "sd_type s = ''OfflineCrontabScheduler''"
  shows "publish_scheduler os (Some c) m s w = Inr (w\<lparr>fw_effects := fw_effects w @ publish_crontab c s\<rparr>)"
proof -
  have "RunInput a i True \<notin> set (publish_crontab c s)" for a i
    by (simp add: publish_crontab_def copy_tmp_to_docker_container_def)
  then show ?thesis by (simp add: publish_scheduler_def assms exec_runs)
qed

lemma publish_all_entries:
  assumes "list_all (\<lambda>(_, s). sd_type s = ''OfflineCrontabScheduler'' \<and> plain_entry s) d"
    and "crontab_effects c (fw_effects w) tab = Some lines"
  shows "\<exists>w'. foldR (\<lambda>(_, s). publish_scheduler os (Some c) m s) d w = Inr w' \<and>
    crontab_effects c (fw_effects w') tab = Some (lines @ map (crontab_line \<circ> snd) d)"
  using assms
proof (induction d arbitrary: w lines)
  case (Cons x d)
  obtain n s where x: "x = (n, s)" by (cases x)
  have s: "sd_type s = ''OfflineCrontabScheduler''" "plain_entry s" using Cons.prems(1) by (auto simp: x)
  let ?w = "w\<lparr>fw_effects := fw_effects w @ publish_crontab c s\<rparr>"
  have "crontab_effects c (fw_effects ?w) tab = Some (lines @ [crontab_line s])"
    using Cons.prems(2) publish_adds_entry [OF s(2)] by (simp add: crontab_effects_append)
  from Cons.IH [OF _ this] show ?case using Cons.prems(1) by (simp add: x publish_crontab_runs [OF s(1)])
qed simp

text \<open>
  C28: Starting the schedulers of the local deployment leaves one entry per scheduler in the crontab of the container,
  in their order, whatever was in it before; so starting again changes nothing there.
\<close>

theorem local_start_crontab:
  assumes "local_container m = Inr (img, c)" and "get_schedulers os (Some c) m tasks = Inr d"
    and "list_all (\<lambda>(_, s). sd_type s = ''OfflineCrontabScheduler'' \<and> plain_entry s) d"
    and "fw_effects w = []"
  shows "\<exists>w'. local_manager_start os m tasks w = Inr w' \<and>
    crontab_effects c (fw_effects w') tab = Some (map (crontab_line \<circ> snd) d)"
proof -
  let ?w = "w\<lparr>fw_effects := [Run (docker_exec c ''crontab -r'')]\<rparr>"
  have "crontab_effects c (fw_effects ?w) tab = Some []"
    by (simp add: docker_exec_def crontab_command_effect_def)
  from publish_all_entries [OF assms(3) this] show ?thesis
    using assms by (simp add: local_manager_start_def manager_start_def exec_effect_def)
qed

text \<open>A local flow with two schedulers.\<close>

definition local_resources :: flow_resources where
  "local_resources =
     (case foldR (\<lambda>(n, d). add_resource class_name class_mro n (n @ ''.yml'') d)
        [(''offline_local_flow'', OfflineLocalFlow ''image'' ''offline''),
         (''prepare'', OfflinePythonTask ''p.py'' ''p.yml''), (''train'', OfflinePythonTask ''t.py'' ''t.yml''),
         (''daily'', OfflineCrontabScheduler ''0 2 * * *'' [(''prepare'', [''train''])]),
         (''hourly'', OfflineCrontabScheduler ''5 * * * *'' [(''train'', [''prepare''])])] new_manager of
        Inl e \<Rightarrow> new_manager | Inr m \<Rightarrow> freeze m)"

definition local_outside :: outside where
  "local_outside = \<lparr>os_is_dag = two_layers, os_topo = layer_sort, os_configmap = (\<lambda>_ _. Inl CalledProcessError),
     os_dump = (\<lambda>_. []), os_ok = (\<lambda>_ _. True), os_others = (\<lambda>_. False), os_python = ''python3'',
     os_home = ''/home/me'', os_cwd = ''/work''\<rparr>"

lemma local_start_crontab_witness:
  "\<exists>tasks w'. create_tasks (find_all local_resources ''OfflineTask'') = Inr tasks \<and>
     local_manager_start local_outside local_resources tasks \<lparr>fw_effects = [], fw_machine = demo_machine\<rparr> = Inr w' \<and>
     crontab_effects ''offline'' (fw_effects w') [''1 1 * * * old''] =
       Some [''0 2 * * * sh /opt/.tmp/daily.sh >> /tmp/daily.log'', ''5 * * * * sh /opt/.tmp/hourly.sh >> /tmp/hourly.log'']"
proof -
  let ?g = "get_schedulers local_outside (Some ''offline'') local_resources"
  have container: "local_container local_resources = Inr (''image'', ''offline'')" by code_simp
  have run: "case bindR (create_tasks (find_all local_resources ''OfflineTask'')) ?g of
      Inl e \<Rightarrow> False
    | Inr d \<Rightarrow> list_all (\<lambda>(_, s). sd_type s = ''OfflineCrontabScheduler'' \<and> plain_entry s) d \<and>
        map (crontab_line \<circ> snd) d =
          [''0 2 * * * sh /opt/.tmp/daily.sh >> /tmp/daily.log'', ''5 * * * * sh /opt/.tmp/hourly.sh >> /tmp/hourly.log'']"
    by code_simp
  then obtain tasks d where d: "create_tasks (find_all local_resources ''OfflineTask'') = Inr tasks" "?g tasks = Inr d"
      "list_all (\<lambda>(_, s). sd_type s = ''OfflineCrontabScheduler'' \<and> plain_entry s) d"
      "map (crontab_line \<circ> snd) d =
        [''0 2 * * * sh /opt/.tmp/daily.sh >> /tmp/daily.log'', ''5 * * * * sh /opt/.tmp/hourly.sh >> /tmp/hourly.log'']"
    by (cases "create_tasks (find_all local_resources ''OfflineTask'')") (auto split: sum.splits)
  have "fw_effects \<lparr>fw_effects = [], fw_machine = demo_machine\<rparr> = []" by simp
  from local_start_crontab [OF container d(2,3) this, of "[''1 1 * * * old'']"] show ?thesis
    using d(1) unfolding d(4) by blast
qed

text \<open>Waiting for the container.\<close>

lemma wait_container_iff:
  "wait_container active i n = Inr () \<longleftrightarrow> (\<exists>j < n. active (i + j))"
proof (induction n arbitrary: i)
  case (Suc n)
  have "(\<exists>j < Suc n. active (i + j)) \<longleftrightarrow> active i \<or> (\<exists>j < n. active (Suc i + j))"
    by (metis add.right_neutral add_Suc add_Suc_right less_Suc_eq_0_disj)
  then show ?case using Suc [of "Suc i"] by auto
qed simp

text \<open>A crontab scheduler in a flow for the cluster or for SageMaker stops every command of the flow.\<close>

lemma crontab_needs_local:
  assumes "conf \<in> set (find_all m ''OfflineScheduler'')" and "res_kind conf = ''OfflineCrontabScheduler''"
  shows "\<exists>e. manager_start os None m tasks w = Inl e \<and> manager_stop os None m tasks w = Inl e"
proof -
  have fails: "\<exists>e. foldR (\<lambda>conf d. bindR (create_scheduler os None tasks conf) (\<lambda>s. Inr (dict_set (res_name conf) s d))) cs d = Inl e"
    if "conf \<in> set cs" for cs d
    using that
  proof (induction cs arbitrary: d)
    case (Cons c cs)
    then show ?case
      using assms(2) by (cases "create_scheduler os None tasks c") (auto simp: create_scheduler_def)
  qed simp
  obtain e where "get_schedulers os None m tasks = Inl e"
    unfolding get_schedulers_def using fails [OF assms(1)] by blast
  then show ?thesis by (simp add: manager_start_def manager_stop_def)
qed

end
