(* ===== verification/ServiceConfig.thy ===== *)
theory ServiceConfig
  imports Flow
begin

text \<open>
  \<open>metasporeflow/online/service_config.py\<close>, with the data of \<open>online_flow.py\<close> and \<open>common.py\<close> that it uses: the
  parts of the configuration of the online service, the lists that they are added to, and the mapping that is
  written. The lists of a generated configuration are the defaults of the attributes of its classes, so one set of
  lists serves all configurations that a process generates: they are the state \<open>shared\<close>. The order of the keys
  in a written mapping is not kept.
\<close>

section \<open>The online part of a flow\<close>

type_synonym columns = "pyval dict list"

record data_source =
  ds_table :: string
  ds_service :: string
  ds_collection :: string
  ds_columns :: "columns option"
  ds_max_reservation :: int

record feature_info =
  fi_user :: data_source
  fi_item :: data_source
  fi_summary :: data_source
  fi_request :: columns
  fi_user_key :: string
  fi_item_key :: string
  fi_items_key :: string
  fi_items_split :: string

text \<open>
  The services and the models are read as plain dictionaries: a key that is not there is \<open>None\<close>, and reading it
  raises a \<open>KeyError\<close>, since the defaults of the classes \<open>ServiceInfo\<close>, \<open>RandomModelInfo\<close>, ... are not used.
  Keys without a default in those classes are taken to be there.
\<close>

record service_info =
  si_kind :: "string option"
  si_options :: "pyval dict option"
  si_collection :: "string list option"

record random_model =
  rm_name :: string
  rm_bound :: int
  rm_source :: data_source
  rm_service :: "string option"
  rm_key :: "string option"
  rm_value :: "string option"

record cf_model =
  cf_name :: string
  cf_source :: data_source
  cf_service :: "string option"
  cf_related :: "string option"
  cf_key :: "string option"
  cf_value :: "string option"

record cross_feature =
  cr_name :: string
  cr_join :: string
  cr_fields :: "string list"

record rank_model =
  rk_name :: string
  rk_model :: string
  rk_service :: "string option"
  rk_columns :: "pyval list"
  rk_cross :: "cross_feature list"

record experiment_info =
  ei_name :: string
  ei_then :: "string list"
  ei_when :: "string list"

record scene_info =
  si_name :: string
  si_layers :: "string list"
  si_recalls :: "string list"

record online_flow =
  of_source :: "feature_info option"
  of_random :: "random_model list"
  of_cf :: "cf_model list"
  of_rank :: "rank_model list"
  of_services :: "service_info dict"
  of_experiments :: "experiment_info list"
  of_layers :: "(string \<times> pyval dict) list"
  of_scenes :: "scene_info list"

section \<open>The parts of a configuration\<close>

record source_conf =
  so_name :: string
  so_kind :: string
  so_options :: "pyval dict option"

record table_conf =
  tc_name :: string
  tc_source :: string
  tc_table :: "string option"
  tc_columns :: columns

record condition_conf =
  cd_left :: string
  cd_right :: string
  cd_type :: string

text \<open>The tables of a feature are taken out of it when it is written for the first time.\<close>

record feature_conf =
  fe_name :: string
  fe_depend :: "string list option"
  fe_select :: "string list"
  fe_condition :: "condition_conf list"

record field_action =
  fa_names :: "string list"
  fa_types :: "string list"
  fa_fields :: "string list"
  fa_input :: "string list"
  fa_func :: string
  fa_options :: "pyval dict"
  fa_columns :: "pyval list"

record algo_conf =
  al_name :: string
  al_task :: string
  al_feature :: "string list"
  al_options :: "pyval dict"
  al_actions :: "field_action list"
  al_output :: "string list"

record transform_conf =
  tf_name :: string
  tf_option :: "pyval dict"

record chain_conf =
  ch_then :: "string list"
  ch_when :: "string list option"
  ch_transforms :: "transform_conf list"

record experiment_conf =
  ex_name :: string
  ex_options :: "pyval dict"
  ex_chains :: "chain_conf list"

record layer_conf =
  la_name :: string
  la_bucketizer :: string
  la_experiments :: "(string \<times> pyval) list"

record scene_conf =
  sn_name :: string
  sn_chains :: "chain_conf list"
  sn_columns :: columns

record service_conf =
  sv_name :: string
  sv_tasks :: "string list"
  sv_options :: "pyval dict"
  sv_pre :: "transform_conf list"
  sv_columns :: columns

record shared =
  sh_tables :: "table_conf list"
  sh_features :: "feature_conf list"
  sh_algos :: "algo_conf list"
  sh_layers :: "layer_conf list"
  sh_experiments :: "experiment_conf list"
  sh_scenes :: "scene_conf list"
  sh_services :: "service_conf list"

definition no_shared :: shared where
  "no_shared = \<lparr>sh_tables = [], sh_features = [], sh_algos = [], sh_layers = [], sh_experiments = [], sh_scenes = [],
     sh_services = []\<rparr>"

section \<open>Sources\<close>

definition default_uri :: string where
  "default_uri = ''mongodb://root:example@${MONGO_HOST:172.17.0.1}:${MONGO_PORT:27017}/jpa?authSource=admin''"

text \<open>Only a MongoDB service keeps an option, its \<open>uri\<close>.\<close>

definition get_source_option :: "service_info dict \<Rightarrow> string \<Rightarrow> pyval dict res" where
  "get_source_option services name =
     (case (name, dict_get services name) of
        ([], _) \<Rightarrow> Inr []
      | (_, None) \<Rightarrow> Inr []
      | (_, Some s) \<Rightarrow>
          (case (si_options s, si_kind s) of
             (Some os, Some kind) \<Rightarrow>
               if map to_lower kind = ''mongodb''
               then Inr [(''uri'', case dict_get os ''uri'' of None \<Rightarrow> PStr default_uri | Some v \<Rightarrow> v)]
               else Inr []
           | _ \<Rightarrow> Inl KeyError))"

definition opt_truth :: "pyval dict \<Rightarrow> string \<Rightarrow> bool" where
  "opt_truth os k = (case dict_get os k of None \<Rightarrow> False | Some v \<Rightarrow> py_truth v)"

text \<open>\<open>str(value).startswith(p)\<close> of an option that is there, given \<open>str\<close>.\<close>

definition opt_starts :: "(pyval \<Rightarrow> string) \<Rightarrow> pyval dict \<Rightarrow> string \<Rightarrow> string \<Rightarrow> bool" where
  "opt_starts str os k p = (case dict_get os k of None \<Rightarrow> False | Some v \<Rightarrow> startswith (str v) p)"

definition opt_default :: "string \<Rightarrow> pyval \<Rightarrow> pyval dict \<Rightarrow> pyval dict" where
  "opt_default k v os = (if opt_truth os k then os else dict_set k v os)"

definition new_source :: "(pyval \<Rightarrow> string) \<Rightarrow> string \<Rightarrow> string \<Rightarrow> pyval dict \<Rightarrow> source_conf res" where
  "new_source str name kind os =
     (let k = map to_lower kind
      in if k = ''mongodb'' then
           raise_if (\<not> opt_truth os ''uri'' \<or> \<not> opt_starts str os ''uri'' ''mongodb://'') ValueError
             (Inr \<lparr>so_name = name, so_kind = ''MongoDB'', so_options = Some os\<rparr>)
         else if k = ''jdbc'' then
           raise_if (\<not> opt_truth os ''uri'' \<or> \<not> opt_starts str os ''uri'' ''jdbc:'') ValueError
             (let os = opt_default ''password'' (PStr ''example'') (opt_default ''user'' (PStr ''root'') os);
                  mysql = opt_starts str os ''uri'' ''jdbc:mysql'';
                  os = (if mysql then opt_default ''driver'' (PStr ''com.mysql.cj.jdbc.Driver'') os else os)
              in raise_if (mysql \<and> map_option str (dict_get os ''driver'') \<noteq> Some ''com.mysql.cj.jdbc.Driver'') ValueError
                   (Inr \<lparr>so_name = name, so_kind = ''JDBC'', so_options = Some os\<rparr>))
         else if k = ''redis'' then
           Inr \<lparr>so_name = name, so_kind = ''Redis'',
             so_options = Some (if opt_truth os ''standalone'' \<or> opt_truth os ''sentinel'' \<or> opt_truth os ''cluster'' then os
               else dict_set ''standalone'' (PDict [(''host'', PStr ''localhost''), (''port'', PInt 6379)]) os)\<rparr>
         else Inr \<lparr>so_name = name, so_kind = ''Request'', so_options = Some os\<rparr>)"

definition request_source :: source_conf where
  "request_source = \<lparr>so_name = ''request'', so_kind = ''Request'', so_options = None\<rparr>"

definition add_source :: "(pyval \<Rightarrow> string) \<Rightarrow> service_info dict \<Rightarrow> string \<Rightarrow> service_info \<Rightarrow> string \<Rightarrow> source_conf res" where
  "add_source str services service info name =
     (case si_kind info of
        None \<Rightarrow> Inl KeyError
      | Some kind \<Rightarrow> bindR (get_source_option services service) (new_source str name kind))"

definition service_sources :: "(pyval \<Rightarrow> string) \<Rightarrow> service_info dict \<Rightarrow> string \<times> service_info \<Rightarrow> source_conf list res" where
  "service_sources str services = (\<lambda>(name, info).
     (case si_collection info of
        None \<Rightarrow> bindR (add_source str services name info name) (\<lambda>s. Inr [s])
      | Some dbs \<Rightarrow> mapR (\<lambda>db. add_source str services name info (name @ ''_'' @ db)) dbs))"

definition process_feature_source :: "(pyval \<Rightarrow> string) \<Rightarrow> online_flow \<Rightarrow> source_conf list res" where
  "process_feature_source str c =
     raise_if (of_services c = []) ValueError
       (bindR (mapR (service_sources str (of_services c)) (of_services c)) (\<lambda>ss. Inr (request_source # concat ss)))"

section \<open>Adding to the shared lists\<close>

text \<open>
  A step of the generation: its result, and the lists after it, which keep what was added before an exception. The
  operators that join steps are for any state.
\<close>

type_synonym 'a gen = "shared \<Rightarrow> 'a res \<times> shared"

definition liftG :: "'a res \<Rightarrow> 's \<Rightarrow> 'a res \<times> 's" where
  "liftG r = (\<lambda>sh. (r, sh))"

abbreviation retG :: "'a \<Rightarrow> 's \<Rightarrow> 'a res \<times> 's" where
  "retG x \<equiv> liftG (Inr x)"

definition bindG :: "('s \<Rightarrow> 'a res \<times> 's) \<Rightarrow> ('a \<Rightarrow> 's \<Rightarrow> 'b res \<times> 's) \<Rightarrow> 's \<Rightarrow> 'b res \<times> 's" where
  "bindG m f = (\<lambda>sh. case m sh of (Inl e, sh') \<Rightarrow> (Inl e, sh') | (Inr x, sh') \<Rightarrow> f x sh')"

primrec foldG :: "('a \<Rightarrow> 'b \<Rightarrow> 's \<Rightarrow> 'b res \<times> 's) \<Rightarrow> 'a list \<Rightarrow> 'b \<Rightarrow> 's \<Rightarrow> 'b res \<times> 's" where
  "foldG f [] b = retG b"
| "foldG f (x # xs) b = bindG (f x b) (foldG f xs)"

definition add_table :: "table_conf \<Rightarrow> unit gen" where
  "add_table t = (\<lambda>sh. (Inr (), sh\<lparr>sh_tables := sh_tables sh @ [t]\<rparr>))"

definition add_feature :: "feature_conf \<Rightarrow> unit gen" where
  "add_feature f = (\<lambda>sh. (Inr (), sh\<lparr>sh_features := sh_features sh @ [f]\<rparr>))"

definition add_algo :: "algo_conf \<Rightarrow> unit gen" where
  "add_algo a = (\<lambda>sh. (Inr (), sh\<lparr>sh_algos := sh_algos sh @ [a]\<rparr>))"

definition add_service :: "service_conf \<Rightarrow> unit gen" where
  "add_service s = (\<lambda>sh. (Inr (), sh\<lparr>sh_services := sh_services sh @ [s]\<rparr>))"

definition add_experiment :: "experiment_conf \<Rightarrow> unit gen" where
  "add_experiment e = (\<lambda>sh. (Inr (), sh\<lparr>sh_experiments := sh_experiments sh @ [e]\<rparr>))"

definition add_layer :: "layer_conf \<Rightarrow> unit gen" where
  "add_layer l = (\<lambda>sh. (Inr (), sh\<lparr>sh_layers := sh_layers sh @ [l]\<rparr>))"

definition add_scene :: "scene_conf \<Rightarrow> unit gen" where
  "add_scene s = (\<lambda>sh. (Inr (), sh\<lparr>sh_scenes := sh_scenes sh @ [s]\<rparr>))"

section \<open>The written mapping\<close>

definition strs :: "string list \<Rightarrow> pyval" where
  "strs xs = PList (map PStr xs)"

definition one_or_all :: "string list \<Rightarrow> pyval" where
  "one_or_all xs = (case xs of [x] \<Rightarrow> PStr x | _ \<Rightarrow> strs xs)"

definition entry_if :: "bool \<Rightarrow> string \<Rightarrow> pyval \<Rightarrow> pyval dict" where
  "entry_if b k v = (if b then [(k, v)] else [])"

definition column_dicts :: "columns \<Rightarrow> pyval" where
  "column_dicts cs = PList (map PDict cs)"

definition source_dict :: "source_conf \<Rightarrow> pyval dict" where
  "source_dict s = [(''name'', PStr (so_name s)), (''kind'', PStr (so_kind s))] @
     (case so_options s of None \<Rightarrow> [] | Some os \<Rightarrow> [(''options'', PDict os)])"

definition table_dict :: "table_conf \<Rightarrow> pyval dict" where
  "table_dict t = [(''name'', PStr (tc_name t)), (''source'', PStr (tc_source t))] @
     (case tc_table t of None \<Rightarrow> [] | Some x \<Rightarrow> [(''table'', PStr x)]) @ [(''columns'', column_dicts (tc_columns t))]"

definition condition_dict :: "condition_conf \<Rightarrow> pyval dict" where
  "condition_dict c =
     (let d = [(cd_left c, PStr (cd_right c))]
      in if cd_type c \<noteq> ''inner'' then dict_set ''type'' (PStr (cd_type c)) d else d)"

definition feature_from :: "feature_conf \<Rightarrow> string list" where
  "feature_from f = (case fe_depend f of None \<Rightarrow> [] | Some ds \<Rightarrow> ds)"

definition feature_dict :: "feature_conf \<Rightarrow> pyval dict" where
  "feature_dict f = [(''name'', PStr (fe_name f)), (''from'', strs (feature_from f)), (''select'', strs (fe_select f)),
     (''condition'', PList (map (\<lambda>c. PDict (condition_dict c)) (fe_condition f)))]"

text \<open>Writing a feature takes its tables out of it.\<close>

definition feature_written :: "feature_conf \<Rightarrow> feature_conf" where
  "feature_written f = f\<lparr>fe_depend := None\<rparr>"

definition action_dict :: "field_action \<Rightarrow> pyval dict" where
  "action_dict a =
     [if length (fa_names a) = 1 then (''name'', PStr (hd (fa_names a))) else (''names'', strs (fa_names a)),
      if length (fa_types a) = 1 then (''type'', PStr (hd (fa_types a))) else (''types'', strs (fa_types a))] @
     entry_if (fa_fields a \<noteq> []) ''fields'' (one_or_all (fa_fields a)) @
     entry_if (fa_input a \<noteq> []) ''input'' (one_or_all (fa_input a)) @
     entry_if (fa_func a \<noteq> []) ''func'' (PStr (fa_func a)) @
     entry_if (fa_columns a \<noteq> []) ''algoColumns'' (PList (fa_columns a)) @
     entry_if (fa_options a \<noteq> []) ''options'' (PDict (fa_options a))"

definition algo_dict :: "algo_conf \<Rightarrow> pyval dict" where
  "algo_dict a =
     [(''name'', PStr (al_name a)), (''fieldActions'', PList (map (\<lambda>f. PDict (action_dict f)) (al_actions a)))] @
     entry_if (al_task a \<noteq> []) ''taskName'' (PStr (al_task a)) @
     entry_if (al_feature a \<noteq> []) ''feature'' (one_or_all (al_feature a)) @
     [(''output'', strs (al_output a))] @
     entry_if (al_options a \<noteq> []) ''options'' (PDict (al_options a))"

definition transform_dict :: "transform_conf \<Rightarrow> pyval dict" where
  "transform_dict t = [(''name'', PStr (tf_name t))] @ entry_if (tf_option t \<noteq> []) ''option'' (PDict (tf_option t))"

definition chain_dict :: "chain_conf \<Rightarrow> pyval dict" where
  "chain_dict c = [(''then'', one_or_all (ch_then c))] @
     (case ch_when c of None \<Rightarrow> [] | Some ws \<Rightarrow> [(''when'', one_or_all ws)]) @
     [(''transforms'', PList (map (\<lambda>t. PDict (transform_dict t)) (ch_transforms c)))]"

definition chain_dicts :: "chain_conf list \<Rightarrow> pyval" where
  "chain_dicts cs = PList (map (\<lambda>c. PDict (chain_dict c)) cs)"

definition experiment_dict :: "experiment_conf \<Rightarrow> pyval dict" where
  "experiment_dict e = [(''name'', PStr (ex_name e)), (''options'', PDict (ex_options e)), (''chains'', chain_dicts (ex_chains e))]"

definition layer_dict :: "layer_conf \<Rightarrow> pyval dict" where
  "layer_dict l = [(''name'', PStr (la_name l)), (''bucketizer'', PStr (la_bucketizer l)),
     (''experiments'', PList (map (\<lambda>(n, ratio). PDict ((''name'', PStr n) # entry_if (ratio \<noteq> PNone) ''ratio'' ratio))
        (la_experiments l)))]"

definition scene_dict :: "scene_conf \<Rightarrow> pyval dict" where
  "scene_dict s = [(''name'', PStr (sn_name s)), (''chains'', chain_dicts (sn_chains s)), (''columns'', column_dicts (sn_columns s))]"

definition service_conf_dict :: "service_conf \<Rightarrow> pyval dict" where
  "service_conf_dict s =
     [(''name'', PStr (sv_name s)), (''tasks'', strs (sv_tasks s)), (''options'', PDict (sv_options s))] @
     entry_if (sv_columns s \<noteq> []) ''columns'' (column_dicts (sv_columns s)) @
     entry_if (sv_pre s \<noteq> []) ''preTransforms'' (PList (map (\<lambda>t. PDict (transform_dict t)) (sv_pre s)))"

definition section_of :: "string \<Rightarrow> ('a \<Rightarrow> pyval dict) \<Rightarrow> 'a list \<Rightarrow> pyval dict" where
  "section_of name f xs = entry_if (xs \<noteq> []) name (PList (map (\<lambda>x. PDict (f x)) xs))"

definition feature_service_dict :: "source_conf list \<Rightarrow> shared \<Rightarrow> pyval dict" where
  "feature_service_dict srcs sh =
     section_of ''source'' source_dict srcs @ section_of ''sourceTable'' table_dict (sh_tables sh) @
     section_of ''feature'' feature_dict (sh_features sh) @ section_of ''algoTransform'' algo_dict (sh_algos sh)"

definition recommend_service_dict :: "shared \<Rightarrow> pyval dict" where
  "recommend_service_dict sh =
     section_of ''layers'' layer_dict (sh_layers sh) @ section_of ''experiments'' experiment_dict (sh_experiments sh) @
     section_of ''scenes'' scene_dict (sh_scenes sh) @ section_of ''services'' service_conf_dict (sh_services sh)"

definition service_config_dict :: "source_conf list \<Rightarrow> shared \<Rightarrow> pyval dict" where
  "service_config_dict srcs sh =
     [(''feature-service'', PDict (feature_service_dict srcs sh)),
      (''recommend-service'', PDict (recommend_service_dict sh))]"

definition written :: "shared \<Rightarrow> shared" where
  "written sh = sh\<lparr>sh_features := map feature_written (sh_features sh)\<rparr>"

section \<open>What a step adds does not depend on what is there\<close>

definition sh_app :: "shared \<Rightarrow> shared \<Rightarrow> shared" where
  "sh_app a b = \<lparr>sh_tables = sh_tables a @ sh_tables b, sh_features = sh_features a @ sh_features b,
     sh_algos = sh_algos a @ sh_algos b, sh_layers = sh_layers a @ sh_layers b,
     sh_experiments = sh_experiments a @ sh_experiments b, sh_scenes = sh_scenes a @ sh_scenes b,
     sh_services = sh_services a @ sh_services b\<rparr>"

lemma sh_app_assoc: "sh_app (sh_app a b) c = sh_app a (sh_app b c)"
  by (simp add: sh_app_def)

lemma sh_app_none [simp]: "sh_app a no_shared = a" "sh_app no_shared a = a"
  by (simp_all add: sh_app_def no_shared_def)

definition appends :: "'a gen \<Rightarrow> bool" where
  "appends m \<longleftrightarrow> (\<forall>sh. m sh = (fst (m no_shared), sh_app sh (snd (m no_shared))))"

named_theorems appending \<open>steps that only append\<close>

lemma appendsD: "appends m \<Longrightarrow> m sh = (fst (m no_shared), sh_app sh (snd (m no_shared)))"
  unfolding appends_def by (rule spec)

lemma appends_lift [appending]: "appends (liftG r)"
  by (simp add: appends_def liftG_def)

lemma appends_bind [appending]:
  assumes m: "appends m" and f: "\<And>x. appends (f x)"
  shows "appends (bindG m f)"
proof -
  have "bindG m f sh = (fst (bindG m f no_shared), sh_app sh (snd (bindG m f no_shared)))" for sh
  proof (cases "m no_shared")
    case (Pair r a)
    have m': "m sh = (r, sh_app sh a)" using appendsD [OF m, of sh] Pair by simp
    show ?thesis
    proof (cases r)
      case (Inr x)
      have "f x (sh_app sh a) = (fst (f x a), sh_app sh (snd (f x a)))"
        by (simp add: appendsD [OF f, of x "sh_app sh a"] appendsD [OF f, of x a] sh_app_assoc)
      then show ?thesis using Inr m' Pair by (simp add: bindG_def)
    qed (use m' Pair in \<open>simp add: bindG_def\<close>)
  qed
  then show ?thesis unfolding appends_def by (rule allI)
qed

lemma appends_fold [appending]: "(\<And>x b. appends (f x b)) \<Longrightarrow> appends (foldG f xs b)"
  by (induction xs arbitrary: b) (simp_all add: appending)

lemma appends_add [appending]:
  "appends (add_table t)" "appends (add_feature f)" "appends (add_algo a)" "appends (add_service s)"
  "appends (add_experiment e)" "appends (add_layer l)" "appends (add_scene n)"
  by (simp_all add: appends_def sh_app_def no_shared_def add_table_def add_feature_def add_algo_def add_service_def
      add_experiment_def add_layer_def add_scene_def)

lemma appends_if [appending]: "appends m \<Longrightarrow> appends n \<Longrightarrow> appends (if b then m else n)"
  by simp

lemma appends_option [appending]: "appends m \<Longrightarrow> (\<And>x. appends (f x)) \<Longrightarrow> appends (case v of None \<Rightarrow> m | Some x \<Rightarrow> f x)"
  by (cases v) simp_all

lemma appends_prod [appending]: "(\<And>x y. appends (f x y)) \<Longrightarrow> appends (case p of (x, y) \<Rightarrow> f x y)"
  by (cases p) simp

lemma appends_list [appending]: "appends m \<Longrightarrow> (\<And>x xs. appends (f x xs)) \<Longrightarrow> appends (case v of [] \<Rightarrow> m | x # xs \<Rightarrow> f x xs)"
  by (cases v) simp_all

section \<open>What holds after a step that does not fail\<close>

definition wp :: "('s \<Rightarrow> 'a res \<times> 's) \<Rightarrow> ('a \<Rightarrow> 's \<Rightarrow> bool) \<Rightarrow> 's \<Rightarrow> bool" where
  "wp m Q sh = (case m sh of (Inl _, _) \<Rightarrow> True | (Inr x, sh') \<Rightarrow> Q x sh')"

lemma wp_simps [simp]:
  "wp (liftG (Inl e)) Q sh"
  "wp (retG x) Q sh = Q x sh"
  "wp (bindG m f) R sh = wp m (\<lambda>x. wp (f x) R) sh"
  by (auto simp: wp_def liftG_def bindG_def split: prod.splits sum.splits)

lemma wp_if [simp]: "wp (if b then m else n) Q sh = (if b then wp m Q sh else wp n Q sh)"
  by simp

lemma wp_lift: "wp (liftG r) Q sh = (case r of Inl _ \<Rightarrow> True | Inr x \<Rightarrow> Q x sh)"
  by (auto simp: wp_def liftG_def split: sum.splits)

lemma wp_add:
  "wp (add_table t) Q sh = Q () (sh\<lparr>sh_tables := sh_tables sh @ [t]\<rparr>)"
  "wp (add_feature f) Q sh = Q () (sh\<lparr>sh_features := sh_features sh @ [f]\<rparr>)"
  "wp (add_algo a) Q sh = Q () (sh\<lparr>sh_algos := sh_algos sh @ [a]\<rparr>)"
  "wp (add_service s) Q sh = Q () (sh\<lparr>sh_services := sh_services sh @ [s]\<rparr>)"
  "wp (add_experiment e) Q sh = Q () (sh\<lparr>sh_experiments := sh_experiments sh @ [e]\<rparr>)"
  "wp (add_layer l) Q sh = Q () (sh\<lparr>sh_layers := sh_layers sh @ [l]\<rparr>)"
  "wp (add_scene n) Q sh = Q () (sh\<lparr>sh_scenes := sh_scenes sh @ [n]\<rparr>)"
  by (simp_all add: wp_def add_table_def add_feature_def add_algo_def add_service_def add_experiment_def
      add_layer_def add_scene_def)

lemma wp_mono: "wp m Q sh \<Longrightarrow> (\<And>x s. Q x s \<Longrightarrow> Q' x s) \<Longrightarrow> wp m Q' sh"
  by (auto simp: wp_def split: prod.splits sum.splits)

lemma wpD: "wp m Q sh \<Longrightarrow> m sh = (Inr x, sh') \<Longrightarrow> Q x sh'"
  by (simp add: wp_def)

lemma wp_fold:
  assumes "I b sh" and "\<And>x b sh. x \<in> set xs \<Longrightarrow> I b sh \<Longrightarrow> wp (f x b) I sh"
  shows "wp (foldG f xs b) I sh"
  using assms
proof (induction xs arbitrary: b sh)
  case (Cons x xs)
  have "wp (f x b) I sh" using Cons.prems by simp
  then show ?case using Cons.IH Cons.prems(2) by (auto intro: wp_mono)
qed simp

end
