(* ===== verification/Generator.thy ===== *)
theory Generator
  imports ServiceConfig
begin

text \<open>
  \<open>metasporeflow/online/online_generator.py\<close>: the configuration of the online service from the data of a flow.
\<close>

section \<open>Keys and columns\<close>

definition columns_has_key :: "columns \<Rightarrow> string \<Rightarrow> bool" where
  "columns_has_key cols key \<longleftrightarrow> key \<noteq> [] \<and> list_ex (\<lambda>f. dict_get f key \<noteq> None) cols"

definition columns_of :: "data_source \<Rightarrow> columns" where
  "columns_of ds = (case ds_columns ds of None \<Rightarrow> [] | Some cs \<Rightarrow> cs)"

definition field_names :: "columns \<Rightarrow> string list" where
  "field_names cols = concat (map (map fst) cols)"

text \<open>The type of a key is that of its last occurrence; keys without one are strings.\<close>

definition key_type :: "string \<Rightarrow> columns \<Rightarrow> pyval" where
  "key_type key cols = foldl (\<lambda>t f. case dict_get f key of None \<Rightarrow> t | Some v \<Rightarrow> v) (PStr ''str'') cols"

definition key_types_agree :: "string \<Rightarrow> pyval \<Rightarrow> columns \<Rightarrow> bool" where
  "key_types_agree key t cols \<longleftrightarrow> list_all (\<lambda>f. case dict_get f key of None \<Rightarrow> True | Some v \<Rightarrow> v = t) cols"

record keys =
  ky_user :: string
  ky_items :: string
  ky_item :: string
  ky_request :: columns
  ky_user_type :: pyval
  ky_item_type :: pyval
  ky_user_fields :: "string list"
  ky_item_fields :: "string list"
  ky_summary_fields :: "string list"
  ky_max_reservation :: int
  ky_split :: string

definition or_name :: "string \<Rightarrow> string \<Rightarrow> string" where
  "or_name n d = (if n = [] then d else n)"

definition init_feature_info :: "feature_info \<Rightarrow> keys res" where
  "init_feature_info fi =
     (let user = or_name (fi_user_key fi) ''user_id''; items = or_name (fi_items_key fi) ''user_bhv_item_seq'';
          item = or_name (fi_item_key fi) ''item_id'';
          ucols = columns_of (fi_user fi); icols = columns_of (fi_item fi); scols = columns_of (fi_summary fi);
          request = (if fi_request fi = [] then [[(user, PStr ''str'')], [(item, PStr ''str'')]] else fi_request fi)
      in raise_if (\<not> columns_has_key ucols user \<or> \<not> columns_has_key ucols items) ValueError
         (raise_if (\<not> columns_has_key icols item) ValueError
         (raise_if (\<not> columns_has_key scols item) ValueError
         (raise_if (\<not> columns_has_key request user) ValueError
         (raise_if (\<not> columns_has_key request item) ValueError
         (raise_if (\<not> key_types_agree user (key_type user ucols) request) ValueError
         (raise_if (\<not> key_types_agree item (key_type item icols) scols) ValueError
           (Inr \<lparr>ky_user = user, ky_items = items, ky_item = item, ky_request = request,
                 ky_user_type = key_type user ucols, ky_item_type = key_type item icols,
                 ky_user_fields = field_names ucols, ky_item_fields = field_names icols,
                 ky_summary_fields = field_names scols, ky_max_reservation = ds_max_reservation (fi_summary fi),
                 ky_split = or_name (fi_items_split fi) [CHR 0x01]\<rparr>))))))))"

section \<open>Tables\<close>

definition dotted :: "string \<Rightarrow> string \<Rightarrow> string" where
  "dotted a b = a @ ''.'' @ b"

text \<open>The columns of a table are those of its data source, and \<open>default_columns\<close> when there are none.\<close>

definition append_source_table :: "source_conf list \<Rightarrow> string \<Rightarrow> data_source \<Rightarrow> columns \<Rightarrow> unit gen" where
  "append_source_table srcs name ds default_columns =
     (let source = (if ds_collection ds = [] then ds_service ds else ds_service ds @ ''_'' @ ds_collection ds);
          columns = (if columns_of ds = [] then default_columns else columns_of ds)
      in if source \<notin> set (map so_name srcs) \<or> columns = [] then liftG (Inl ValueError)
         else add_table \<lparr>tc_name = name, tc_source = source, tc_table = Some (ds_table ds), tc_columns = columns\<rparr>)"

definition process_feature_sourceTable :: "online_flow \<Rightarrow> source_conf list \<Rightarrow> keys gen" where
  "process_feature_sourceTable c srcs =
     (case of_source c of
        None \<Rightarrow> liftG (Inl ValueError)
      | Some fi \<Rightarrow>
          bindG (liftG (init_feature_info fi)) (\<lambda>k.
          bindG (append_source_table srcs ''source_table_user'' (fi_user fi) []) (\<lambda>_.
          bindG (append_source_table srcs ''source_table_item'' (fi_item fi) []) (\<lambda>_.
          bindG (append_source_table srcs ''source_table_summary'' (fi_summary fi) []) (\<lambda>_.
          bindG (add_table \<lparr>tc_name = ''source_table_request'', tc_source = ''request'', tc_table = None,
                   tc_columns = ky_request k\<rparr>) (\<lambda>_. retG k))))))"

section \<open>Features of the user and the items\<close>

definition action_of :: "string list \<Rightarrow> string list \<Rightarrow> string \<Rightarrow> field_action" where
  "action_of names types func =
     \<lparr>fa_names = names, fa_types = types, fa_fields = [], fa_input = [], fa_func = func, fa_options = [], fa_columns = []\<rparr>"

definition left_join :: "string \<Rightarrow> string \<Rightarrow> condition_conf" where
  "left_join a b = \<lparr>cd_left = a, cd_right = b, cd_type = ''left''\<rparr>"

definition inner_join :: "string \<Rightarrow> string \<Rightarrow> condition_conf" where
  "inner_join a b = \<lparr>cd_left = a, cd_right = b, cd_type = ''inner''\<rparr>"

definition add_user_profile :: "keys \<Rightarrow> unit gen" where
  "add_user_profile k =
     bindG (add_feature
       \<lparr>fe_name = ''feature_user'', fe_depend = Some [''source_table_request'', ''source_table_user''],
        fe_select = map (dotted ''source_table_user'') (ky_user_fields k),
        fe_condition = [left_join (dotted ''source_table_request'' (ky_user k)) (dotted ''source_table_user'' (ky_user k))]\<rparr>) (\<lambda>_.
     add_algo
       \<lparr>al_name = ''algotransform_user'', al_task = ''UserProfile'', al_feature = [''feature_user''], al_options = [],
        al_actions =
          [(action_of [dotted ''typeTransform'' (ky_user k)] [''str''] ''typeTransform'')\<lparr>fa_fields := [ky_user k]\<rparr>,
           (action_of [''item_ids''] [''list_str''] ''splitRecentIds'')
             \<lparr>fa_options := [(''splitor'', PStr (ky_split k))], fa_fields := [ky_items k]\<rparr>,
           (action_of [ky_user k, ky_item k, ''item_score''] [''str'', ''str'', ''double''] ''recentWeight'')
             \<lparr>fa_input := [dotted ''typeTransform'' (ky_user k), ''item_ids'']\<rparr>],
        al_output = [ky_user k, ky_item k, ''item_score'']\<rparr>)"

definition add_item_summary :: "keys \<Rightarrow> unit gen" where
  "add_item_summary k = add_feature
     \<lparr>fe_name = ''feature_item_summary'', fe_depend = Some [''source_table_request'', ''source_table_summary''],
      fe_select = map (dotted ''source_table_summary'') (ky_summary_fields k),
      fe_condition = [left_join (dotted ''source_table_request'' (ky_item k)) (dotted ''source_table_summary'' (ky_item k))]\<rparr>"

section \<open>Recall and rank models\<close>

definition item_output :: "keys \<Rightarrow> string list" where
  "item_output k = [ky_user k, ky_item k, ''score'', ''origin_scores'']"

definition list_struct :: pyval where
  "list_struct = PDict [(''list_struct'', PDict [(''item_id'', PStr ''str''), (''score'', PStr ''double'')])]"

definition two_columns :: "string \<Rightarrow> pyval \<Rightarrow> string \<Rightarrow> pyval \<Rightarrow> columns" where
  "two_columns k tk v tv = [[(k, tk)], [(v, tv)]]"

definition model_columns :: "data_source \<Rightarrow> columns \<Rightarrow> columns" where
  "model_columns ds default_columns = (case ds_columns ds of None \<Rightarrow> default_columns | Some cs \<Rightarrow> cs)"

definition max_reservation :: "int \<Rightarrow> pyval dict" where
  "max_reservation n = [(''maxReservation'', PInt n)]"

definition plain_service :: "string \<Rightarrow> string \<Rightarrow> service_conf" where
  "plain_service name task =
     \<lparr>sv_name = name, sv_tasks = [task], sv_options = max_reservation 200, sv_pre = [], sv_columns = []\<rparr>"

text \<open>The names of the services that exist; \<open>self.service_dict\<close> maps each to itself.\<close>

definition add_named_service :: "service_conf \<Rightarrow> string dict \<Rightarrow> string dict gen" where
  "add_named_service s sd = bindG (add_service s) (\<lambda>_. retG (dict_set (sv_name s) (sv_name s) sd))"

definition to_item_score :: "keys \<Rightarrow> field_action" where
  "to_item_score k = action_of [dotted ''toItemScore'' (ky_user k), ''item_score''] [''str'', ''map_str_double''] ''toItemScore''"

definition collect_item :: "keys \<Rightarrow> field_action" where
  "collect_item k = (action_of (item_output k) [''str'', ''str'', ''double'', ''map_str_double''] ''recallCollectItem'')
     \<lparr>fa_input := [dotted ''toItemScore'' (ky_user k), ''item_score'']\<rparr>"

definition set_one :: "string \<Rightarrow> field_action" where
  "set_one name = (action_of [name] [''double''] ''setValue'')\<lparr>fa_options := [(''value'', PFloat (FFin 1))]\<rparr>"

definition matcher :: "string \<Rightarrow> string \<Rightarrow> string \<Rightarrow> keys \<Rightarrow> field_action list \<Rightarrow> algo_conf" where
  "matcher name feature model k actions =
     \<lparr>al_name = name, al_task = ''ItemMatcher'', al_feature = [feature], al_options = [(''algo-name'', PStr model)],
      al_actions = actions, al_output = item_output k\<rparr>"

text \<open>The parts of a random model: random hash numbers, their join with the table of the model, the matcher.\<close>

definition random_numbers :: "random_model \<Rightarrow> algo_conf" where
  "random_numbers m =
     \<lparr>al_name = ''algotransform_random_'' @ rm_name m, al_task = [], al_feature = [], al_options = [],
      al_actions = [(action_of [''hash_id''] [''int''] ''randomGenerator'')
          \<lparr>fa_options := [(''bound'', PInt (if rm_bound m \<le> 0 then 10 else rm_bound m))]\<rparr>, set_one ''score''],
      al_output = [''hash_id'', ''score'']\<rparr>"

definition random_feature :: "keys \<Rightarrow> random_model \<Rightarrow> string \<Rightarrow> string \<Rightarrow> feature_conf" where
  "random_feature k m key val =
     \<lparr>fe_name = ''feature_random_'' @ rm_name m,
      fe_depend = Some [''source_table_request'', al_name (random_numbers m), rm_name m],
      fe_select = [dotted ''source_table_request'' (ky_user k), dotted (al_name (random_numbers m)) ''score'', dotted (rm_name m) val],
      fe_condition = [inner_join (dotted (al_name (random_numbers m)) ''hash_id'') (dotted (rm_name m) key)]\<rparr>"

definition random_algo :: "keys \<Rightarrow> random_model \<Rightarrow> string \<Rightarrow> string \<Rightarrow> algo_conf" where
  "random_algo k m key val = matcher (''algotransform_recall_'' @ rm_name m) (fe_name (random_feature k m key val)) (rm_name m) k
     [(to_item_score k)\<lparr>fa_fields := [ky_user k, val, ''score'']\<rparr>, collect_item k]"

definition add_one_random_recall ::
  "source_conf list \<Rightarrow> keys \<Rightarrow> random_model \<Rightarrow> string dict \<Rightarrow> (string \<times> string dict) gen" where
  "add_one_random_recall srcs k m sd =
     (case (rm_key m, rm_value m) of
        (Some key, Some val) \<Rightarrow>
          (let columns = model_columns (rm_source m) (two_columns key (PStr ''int'') val list_struct);
               task = al_name (random_algo k m key val)
           in if \<not> columns_has_key columns key \<or> \<not> columns_has_key columns val then liftG (Inl ValueError)
              else
                bindG (append_source_table srcs (rm_name m) (rm_source m) columns) (\<lambda>_.
                bindG (add_algo (random_numbers m)) (\<lambda>_.
                bindG (add_feature (random_feature k m key val)) (\<lambda>_.
                bindG (add_algo (random_algo k m key val)) (\<lambda>_.
                bindG (case rm_service m of
                    Some (c # cs) \<Rightarrow> add_named_service (plain_service (c # cs) task) sd
                  | _ \<Rightarrow> retG sd) (\<lambda>sd'. retG (task, sd')))))))
      | _ \<Rightarrow> liftG (Inl KeyError))"

text \<open>Only the first of the random models is used.\<close>

definition add_random_recalls :: "source_conf list \<Rightarrow> keys \<Rightarrow> random_model list \<Rightarrow> (string dict \<times> string dict) gen" where
  "add_random_recalls srcs k ms =
     (case ms of
        [] \<Rightarrow> retG ([], [])
      | m # _ \<Rightarrow>
          if rm_name m = [] then liftG (Inl ValueError)
          else bindG (add_one_random_recall srcs k m []) (\<lambda>(task, sd). retG ([(rm_name m, task)], sd)))"

text \<open>The service of a model is the one that it names, or else the default.\<close>

definition named_or :: "string option \<Rightarrow> string \<Rightarrow> string" where
  "named_or s d = (case s of Some (c # cs) \<Rightarrow> c # cs | _ \<Rightarrow> d)"

definition str_keys :: "string \<Rightarrow> columns \<Rightarrow> bool" where
  "str_keys key cols = list_all (\<lambda>f. case dict_get f key of None \<Rightarrow> True | Some t \<Rightarrow> t = PStr ''str'') cols"

text \<open>The parts of a collaborative filter: recall for the items of the user, and for the item of the request.\<close>

definition cf_feature :: "keys \<Rightarrow> cf_model \<Rightarrow> feature_conf" where
  "cf_feature k m =
     \<lparr>fe_name = ''feature_cf_'' @ cf_name m, fe_depend = Some [''algotransform_user'', cf_name m],
      fe_select = [dotted ''algotransform_user'' (ky_user k), dotted ''algotransform_user'' ''item_score'', dotted (cf_name m) ''value''],
      fe_condition = [left_join (dotted ''algotransform_user'' (ky_item k)) (dotted (cf_name m) ''key'')]\<rparr>"

definition related_feature :: "keys \<Rightarrow> cf_model \<Rightarrow> feature_conf" where
  "related_feature k m =
     \<lparr>fe_name = ''feature_related_cf_'' @ cf_name m, fe_depend = Some [''source_table_request'', cf_name m],
      fe_select = [dotted ''source_table_request'' (ky_user k), dotted (cf_name m) ''value''],
      fe_condition = [left_join (dotted ''source_table_request'' (ky_item k)) (dotted (cf_name m) ''key'')]\<rparr>"

definition cf_algo :: "keys \<Rightarrow> cf_model \<Rightarrow> algo_conf" where
  "cf_algo k m = matcher (''algotransform_'' @ cf_name m) (fe_name (cf_feature k m)) (cf_name m) k
     [(to_item_score k)\<lparr>fa_fields := [ky_user k, ''value'', ''item_score'']\<rparr>, collect_item k]"

definition related_algo :: "keys \<Rightarrow> cf_model \<Rightarrow> algo_conf" where
  "related_algo k m = matcher (''algotransform_related_'' @ cf_name m) (fe_name (related_feature k m)) (cf_name m) k
     [(to_item_score k)\<lparr>fa_input := [''setValue.item_score''], fa_fields := [ky_user k, ''value'']\<rparr>,
      collect_item k, set_one ''setValue.item_score'']"

definition add_one_cf_recall :: "source_conf list \<Rightarrow> keys \<Rightarrow> cf_model \<Rightarrow> string dict \<Rightarrow> string dict gen" where
  "add_one_cf_recall srcs k m sd =
     (if cf_name m = [] then liftG (Inl ValueError)
      else case (cf_key m, cf_value m) of
        (Some key, Some val) \<Rightarrow>
          (let columns = model_columns (cf_source m) (two_columns key (PStr ''str'') val list_struct)
           in if \<not> columns_has_key columns key then liftG (Inl ValueError)
              else if \<not> str_keys key columns then liftG (Inl AssertionError)
              else if \<not> columns_has_key columns val then liftG (Inl ValueError)
              else
                bindG (append_source_table srcs (cf_name m) (cf_source m) columns) (\<lambda>_.
                bindG (add_feature (cf_feature k m)) (\<lambda>_.
                bindG (add_feature (related_feature k m)) (\<lambda>_.
                bindG (add_algo (cf_algo k m)) (\<lambda>_.
                bindG (add_algo (related_algo k m)) (\<lambda>_.
                bindG (add_named_service
                  (plain_service (named_or (cf_service m) (''recall_'' @ cf_name m)) (al_name (cf_algo k m))) sd) (\<lambda>sd.
                add_named_service
                  (plain_service (named_or (cf_related m) (''related_'' @ cf_name m)) (al_name (related_algo k m))) sd)))))))
      | _ \<Rightarrow> liftG (Inl KeyError))"

definition add_cf_recalls :: "source_conf list \<Rightarrow> keys \<Rightarrow> cf_model list \<Rightarrow> string dict \<Rightarrow> string dict gen" where
  "add_cf_recalls srcs k = foldG (add_one_cf_recall srcs k)"

definition scored_columns :: "keys \<Rightarrow> columns" where
  "scored_columns k = [[(ky_user k, ky_user_type k)], [(ky_item k, ky_item_type k)], [(''score'', PStr ''double'')],
     [(''origin_scores'', PStr ''map_str_double'')]]"

definition summary_transform :: transform_conf where
  "summary_transform = \<lparr>tf_name = ''summary'', tf_option = []\<rparr>"

definition rank_actions :: "keys \<Rightarrow> rank_model \<Rightarrow> field_action list" where
  "rank_actions k m =
     (let item = dotted ''typeTransform'' (ky_item k)
      in map (\<lambda>c. (action_of [cr_name c] [''str''] ''concatField'')
           \<lparr>fa_options := [(''join'', PStr (cr_join c))], fa_fields := cr_fields c\<rparr>) (rk_cross m) @
         [(action_of [ky_user k, item] [''str'', ''str''] ''typeTransform'')\<lparr>fa_fields := [ky_user k, ky_item k]\<rparr>,
          (action_of [ky_item k, ''score'', ''origin_scores''] [''str'', ''float'', ''map_str_double''] ''rankCollectItem'')
            \<lparr>fa_input := [item, ''rankScore''], fa_fields := [''origin_scores'']\<rparr>,
          (action_of [''rankScore''] [''float''] ''predictScore'')
            \<lparr>fa_columns := (if rk_columns m = []
                then [PDict [(''dnn_sparse'', PList [PStr (ky_item k)])], PDict [(''lr_sparse'', PList [PStr (ky_item k)])]]
                else rk_columns m),
             fa_options := [(''modelName'', PStr (rk_model m)), (''targetKey'', PStr ''output''), (''targetIndex'', PInt 0)],
             fa_input := item # map cr_name (rk_cross m)\<rparr>])"

definition rank_service :: "rank_model \<Rightarrow> string" where
  "rank_service m = named_or (rk_service m) (''rank_'' @ rk_name m)"

definition rank_feature :: "keys \<Rightarrow> rank_model \<Rightarrow> feature_conf" where
  "rank_feature k m =
     \<lparr>fe_name = ''feature_rank_'' @ rk_name m,
      fe_depend = Some [''source_table_user'', ''source_table_item'', rank_service m],
      fe_select = map (dotted ''source_table_user'') (ky_user_fields k) @ map (dotted ''source_table_item'') (ky_item_fields k) @
        [dotted (''rank_'' @ rk_name m) ''origin_scores''],
      fe_condition = [inner_join (dotted ''source_table_user'' (ky_user k)) (dotted (rank_service m) (ky_user k)),
        inner_join (dotted ''source_table_item'' (ky_item k)) (dotted (rank_service m) (ky_item k))]\<rparr>"

definition rank_algo :: "keys \<Rightarrow> rank_model \<Rightarrow> algo_conf" where
  "rank_algo k m =
     \<lparr>al_name = ''algotransform_rank_'' @ rk_name m, al_task = ''AlgoInference'', al_feature = [fe_name (rank_feature k m)],
      al_options = [(''algo-name'', PStr (rk_name m)), (''host'', PStr ''${MODEL_HOST:localhost}''),
        (''port'', PStr ''${MODEL_PORT:50000}'')],
      al_actions = rank_actions k m, al_output = item_output k\<rparr>"

definition add_one_rank_recall :: "keys \<Rightarrow> rank_model \<Rightarrow> string dict \<Rightarrow> string dict gen" where
  "add_one_rank_recall k m sd =
     (if rk_name m = [] \<or> rk_model m = [] then liftG (Inl ValueError)
      else
        bindG (add_feature (rank_feature k m)) (\<lambda>_.
        bindG (add_algo (rank_algo k m)) (\<lambda>_.
        add_named_service
          \<lparr>sv_name = rank_service m, sv_tasks = [al_name (rank_algo k m)], sv_options = max_reservation 200,
           sv_pre = [summary_transform], sv_columns = scored_columns k\<rparr> sd)))"

definition add_rank_models :: "keys \<Rightarrow> rank_model list \<Rightarrow> string dict \<Rightarrow> string dict gen" where
  "add_rank_models k = foldG (add_one_rank_recall k)"

section \<open>Experiments, layers and scenes\<close>

definition experiment_services :: "string dict \<Rightarrow> string list \<Rightarrow> string list res" where
  "experiment_services sd = mapR (\<lambda>n. case dict_get sd n of None \<Rightarrow> Inl ValueError | Some s \<Rightarrow> Inr s)"

definition experiment_transforms :: "transform_conf list" where
  "experiment_transforms =
     [\<lparr>tf_name = ''cutOff'', tf_option = []\<rparr>,
      \<lparr>tf_name = ''updateField'', tf_option = [(''input'', PList [PStr ''score'', PStr ''origin_scores'']),
         (''output'', PList [PStr ''origin_scores'']), (''updateOperator'', PStr ''putOriginScores'')]\<rparr>]"

definition process_experiments :: "string dict \<Rightarrow> experiment_info list \<Rightarrow> string list gen" where
  "process_experiments sd es =
     foldG (\<lambda>e names.
       bindG (liftG (experiment_services sd (ei_then e))) (\<lambda>thens.
       bindG (liftG (experiment_services sd (ei_when e))) (\<lambda>whens.
       bindG (add_experiment \<lparr>ex_name = ei_name e, ex_options = max_reservation 200,
         ex_chains = [\<lparr>ch_then = thens, ch_when = Some whens, ch_transforms = experiment_transforms\<rparr>]\<rparr>) (\<lambda>_.
       retG (ei_name e # names))))) es []"

definition process_layers :: "string list \<Rightarrow> (string \<times> pyval dict) list \<Rightarrow> string list gen" where
  "process_layers experiments ls =
     foldG (\<lambda>l names. case l of (name, data) \<Rightarrow>
       if \<not> list_all (\<lambda>(e, _). e \<in> set experiments) data then liftG (Inl ValueError)
       else bindG (add_layer \<lparr>la_name = name, la_bucketizer = ''random'', la_experiments = data\<rparr>) (\<lambda>_.
         retG (name # names))) ls []"

definition iteminfo_name :: string where "iteminfo_name = ''iteminfo_summary''"

definition scene_transforms :: "keys \<Rightarrow> string list \<Rightarrow> transform_conf list" where
  "scene_transforms k recalls =
     [\<lparr>tf_name = ''cutOff'', tf_option = [(''dupFields'', PList [PStr (ky_user k), PStr (ky_item k)]),
        (''or_filter_data'', PStr ''source_table_request''), (''or_field_list'', PList [PStr (ky_item k)])]\<rparr>] @
     (if recalls = [] then []
      else [\<lparr>tf_name = ''additionalRecall'', tf_option = [(''recall_list'', PList (map PStr recalls)), (''min_request'', PInt 10)]\<rparr>]) @
     [\<lparr>tf_name = ''addItemInfo'', tf_option = [(''service_name'', PStr iteminfo_name)]\<rparr>]"

text \<open>Layers that do not exist are left out; an additional recall that does not exist is an error.\<close>

definition scene_recalls :: "string dict \<Rightarrow> string list \<Rightarrow> string list res" where
  "scene_recalls rd names =
     raise_if (names \<noteq> [] \<and> rd = []) ValueError
       (mapR (\<lambda>n. case dict_get rd n of None \<Rightarrow> Inl ValueError | Some t \<Rightarrow> Inr t) names)"

definition iteminfo_service :: "keys \<Rightarrow> service_conf" where
  "iteminfo_service k =
     \<lparr>sv_name = iteminfo_name, sv_tasks = [''feature_itemInfo_summary''], sv_options = max_reservation (ky_max_reservation k),
      sv_pre = [summary_transform], sv_columns = scored_columns k\<rparr>"

definition iteminfo_feature :: "keys \<Rightarrow> feature_conf" where
  "iteminfo_feature k =
     \<lparr>fe_name = ''feature_itemInfo_summary'', fe_depend = Some [iteminfo_name, ''source_table_summary''],
      fe_select = map (dotted ''source_table_summary'') (ky_summary_fields k) @
        map (dotted iteminfo_name) (filter (\<lambda>f. f \<noteq> ky_user k \<and> f \<noteq> ky_item k) (field_names (scored_columns k))),
      fe_condition = [left_join (dotted iteminfo_name (ky_item k)) (dotted ''source_table_summary'' (ky_item k))]\<rparr>"

definition process_scenes :: "keys \<Rightarrow> string dict \<Rightarrow> string list \<Rightarrow> scene_info list \<Rightarrow> unit gen" where
  "process_scenes k rd layers scenes =
     bindG (add_service (iteminfo_service k)) (\<lambda>_.
     bindG (add_feature (iteminfo_feature k)) (\<lambda>_.
     foldG (\<lambda>s _.
       bindG (liftG (scene_recalls rd (si_recalls s))) (\<lambda>recalls.
       add_scene
         \<lparr>sn_name = si_name s,
          sn_chains = [\<lparr>ch_then = filter (\<lambda>l. l \<in> set layers) (si_layers s), ch_when = None,
            ch_transforms = scene_transforms k recalls\<rparr>],
          sn_columns = [[(ky_user k, ky_user_type k)], [(ky_item k, ky_item_type k)]]\<rparr>)) scenes ()))"

section \<open>The configuration\<close>

definition gen_service_config :: "(pyval \<Rightarrow> string) \<Rightarrow> online_flow \<Rightarrow> source_conf list gen" where
  "gen_service_config str c =
     bindG (liftG (process_feature_source str c)) (\<lambda>srcs.
     bindG (process_feature_sourceTable c srcs) (\<lambda>k.
     bindG (add_user_profile k) (\<lambda>_.
     bindG (add_item_summary k) (\<lambda>_.
     bindG (add_random_recalls srcs k (of_random c)) (\<lambda>(rd, sd).
     bindG (add_cf_recalls srcs k (of_cf c) sd) (\<lambda>sd.
     bindG (add_rank_models k (of_rank c) sd) (\<lambda>sd.
     bindG (process_experiments sd (of_experiments c)) (\<lambda>es.
     bindG (process_layers es (of_layers c)) (\<lambda>ls.
     bindG (process_scenes k rd ls (of_scenes c)) (\<lambda>_.
     retG srcs))))))))))"

text \<open>The text of the configuration, from a YAML writer; writing takes the tables out of the features.\<close>

definition gen_server_config :: "(pyval \<Rightarrow> string) \<Rightarrow> (pyval \<Rightarrow> string) \<Rightarrow> online_flow \<Rightarrow> string gen" where
  "gen_server_config yaml str c =
     bindG (gen_service_config str c) (\<lambda>srcs sh. (Inr (yaml (PDict (service_config_dict srcs sh))), written sh))"

section \<open>A second generation\<close>

lemmas step_defs = append_source_table_def process_feature_sourceTable_def add_user_profile_def add_item_summary_def
  add_named_service_def add_one_random_recall_def add_random_recalls_def add_one_cf_recall_def add_cf_recalls_def
  add_one_rank_recall_def add_rank_models_def process_experiments_def process_layers_def process_scenes_def Let_def

lemma generation_appends: "appends (gen_service_config str c)"
  unfolding gen_service_config_def step_defs by (intro appending)

section \<open>The names of a configuration\<close>

definition tnames :: "shared \<Rightarrow> string set" where "tnames sh = set (map tc_name (sh_tables sh))"
definition fnames :: "shared \<Rightarrow> string set" where "fnames sh = set (map fe_name (sh_features sh))"
definition anames :: "shared \<Rightarrow> string set" where "anames sh = set (map al_name (sh_algos sh))"
definition snames :: "shared \<Rightarrow> string set" where "snames sh = set (map sv_name (sh_services sh))"
definition table_columns :: "table_conf \<Rightarrow> string list" where
  "table_columns t = map (dotted (tc_name t)) (field_names (tc_columns t))"

definition algo_columns :: "algo_conf \<Rightarrow> string list" where
  "algo_columns a = map (dotted (al_name a)) (al_output a)"

definition service_columns :: "service_conf \<Rightarrow> string list" where
  "service_columns v = map (dotted (sv_name v)) (field_names (sv_columns v))"

text \<open>The columns that exist: those of the tables, the outputs of the algorithms, and what services pass on.\<close>

definition cnames :: "shared \<Rightarrow> string set" where
  "cnames sh = set (concat (map table_columns (sh_tables sh))) \<union> set (concat (map algo_columns (sh_algos sh)))
     \<union> set (concat (map service_columns (sh_services sh)))"

definition enames :: "shared \<Rightarrow> string set" where "enames sh = set (map ex_name (sh_experiments sh))"
definition lnames :: "shared \<Rightarrow> string set" where "lnames sh = set (map la_name (sh_layers sh))"



text \<open>A feature reads from tables, algorithms and services; a column that it selects or joins on belongs to one
  of its sources and exists.\<close>

definition under :: "string list \<Rightarrow> string \<Rightarrow> bool" where
  "under ds s \<longleftrightarrow> list_ex (\<lambda>d. startswith s (d @ ''.'')) ds"

definition feature_columns :: "feature_conf \<Rightarrow> string list" where
  "feature_columns f = fe_select f @ map cd_left (fe_condition f) @ map cd_right (fe_condition f)"

definition feature_closed :: "string set \<Rightarrow> string set \<Rightarrow> feature_conf \<Rightarrow> bool" where
  "feature_closed ps cs f \<longleftrightarrow> set (feature_from f) \<subseteq> ps \<and> feature_from f \<noteq> [] \<and>
     list_all (\<lambda>c. under (feature_from f) c \<and> c \<in> cs) (feature_columns f)"

definition chain_closed :: "string set \<Rightarrow> chain_conf \<Rightarrow> bool" where
  "chain_closed ns c \<longleftrightarrow> set (ch_then c) \<subseteq> ns \<and> (case ch_when c of None \<Rightarrow> True | Some ws \<Rightarrow> set ws \<subseteq> ns)"

definition option_names :: "string \<Rightarrow> transform_conf \<Rightarrow> pyval list" where
  "option_names k t = (case dict_get (tf_option t) k of Some (PList vs) \<Rightarrow> vs | Some v \<Rightarrow> [v] | None \<Rightarrow> [])"

definition transform_closed :: "string set \<Rightarrow> string set \<Rightarrow> transform_conf \<Rightarrow> bool" where
  "transform_closed as ss t \<longleftrightarrow>
     set (option_names ''recall_list'' t) \<subseteq> PStr ` as \<and> set (option_names ''service_name'' t) \<subseteq> PStr ` ss"

definition experiment_closed :: "shared \<Rightarrow> experiment_conf \<Rightarrow> bool" where
  "experiment_closed nm e \<longleftrightarrow> list_all (chain_closed (snames nm)) (ex_chains e)"

definition scene_closed :: "shared \<Rightarrow> scene_conf \<Rightarrow> bool" where
  "scene_closed nm n \<longleftrightarrow> list_all (chain_closed (lnames nm)) (sn_chains n) \<and>
     list_all (\<lambda>c. list_all (transform_closed (anames nm) (snames nm)) (ch_transforms c)) (sn_chains n)"

text \<open>What refers to what, with the names that exist taken from the lists \<open>nm\<close>.\<close>

definition closed_in :: "source_conf list \<Rightarrow> shared \<Rightarrow> shared \<Rightarrow> bool" where
  "closed_in srcs nm sh \<longleftrightarrow>
     list_all (\<lambda>t. tc_source t \<in> set (map so_name srcs)) (sh_tables sh) \<and>
     list_all (feature_closed (tnames nm \<union> anames nm \<union> snames nm) (cnames nm)) (sh_features sh) \<and>
     list_all (\<lambda>a. set (al_feature a) \<subseteq> fnames nm) (sh_algos sh) \<and>
     list_all (\<lambda>s. set (sv_tasks s) \<subseteq> anames nm \<union> fnames nm) (sh_services sh) \<and>
     list_all (experiment_closed nm) (sh_experiments sh) \<and>
     list_all (\<lambda>l. set (map fst (la_experiments l)) \<subseteq> enames nm) (sh_layers sh) \<and>
     list_all (scene_closed nm) (sh_scenes sh)"

definition config_closed :: "source_conf list \<Rightarrow> shared \<Rightarrow> bool" where
  "config_closed srcs sh = closed_in srcs sh sh"
















section \<open>Every step keeps the configuration closed\<close>

definition base_tables :: "string list" where
  "base_tables = [''source_table_user'', ''source_table_item'', ''source_table_summary'', ''source_table_request'']"

definition base_columns :: "keys \<Rightarrow> string list" where
  "base_columns k = map (dotted ''source_table_user'') (ky_user_fields k) @
     map (dotted ''source_table_item'') (ky_item_fields k) @ map (dotted ''source_table_summary'') (ky_summary_fields k) @
     map (dotted ''source_table_request'') (field_names (ky_request k))"

definition keys_ok :: "keys \<Rightarrow> bool" where
  "keys_ok k \<longleftrightarrow> ky_user k \<in> set (ky_user_fields k) \<and> ky_item k \<in> set (ky_item_fields k) \<and>
     ky_item k \<in> set (ky_summary_fields k) \<and> {ky_user k, ky_item k} \<subseteq> set (field_names (ky_request k))"




definition user_columns :: "keys \<Rightarrow> string list" where
  "user_columns k = map (dotted ''algotransform_user'') [ky_user k, ky_item k, ''item_score'']"

definition ready :: "source_conf list \<Rightarrow> keys \<Rightarrow> shared \<Rightarrow> bool" where
  "ready srcs k sh \<longleftrightarrow> config_closed srcs sh \<and> list_all (\<lambda>t. t \<in> tnames sh) base_tables \<and>
     set (base_columns k) \<subseteq> cnames sh \<and> keys_ok k"

definition served :: "source_conf list \<Rightarrow> keys \<Rightarrow> string dict \<Rightarrow> shared \<Rightarrow> bool" where
  "served srcs k sd sh \<longleftrightarrow> ready srcs k sh \<and> ''algotransform_user'' \<in> anames sh \<and> set (user_columns k) \<subseteq> cnames sh \<and>
     snd ` set sd \<subseteq> snames sh"

lemma under_dotted [simp]: "d \<in> set ds \<Longrightarrow> under ds (dotted d f)"
  unfolding under_def list_ex_iff by (rule bexI [of _ d]) (simp_all add: dotted_def startswith_def)

lemma feature_closed_conf [simp]:
  "feature_closed ps cols \<lparr>fe_name = n, fe_depend = Some ds, fe_select = sel, fe_condition = cs\<rparr> \<longleftrightarrow>
     set ds \<subseteq> ps \<and> ds \<noteq> [] \<and> list_all (under ds) sel \<and> set sel \<subseteq> cols \<and>
     list_all (\<lambda>c. under ds (cd_left c) \<and> under ds (cd_right c)) cs \<and> set (map cd_left cs) \<union> set (map cd_right cs) \<subseteq> cols"
  by (auto simp: feature_closed_def feature_columns_def feature_from_def list_all_iff)

lemma list_all_dotted [simp]: "d \<in> set ds \<Longrightarrow> list_all (under ds) (map (dotted d) fs)"
  by (simp add: list_all_iff)








lemma served_table: "served srcs k sd sh \<Longrightarrow> t \<in> set base_tables \<Longrightarrow> t \<in> tnames sh"
  by (auto simp: served_def ready_def list_all_iff)
















lemma plain_service_simps [simp]: "sv_tasks (plain_service n t) = [t]" "sv_name (plain_service n t) = n"
  by (simp_all add: plain_service_def)






















text \<open>
  An example: three tables in MongoDB, a random model, a collaborative filter and a rank model, and a scene over two
  experiments.
\<close>

definition demo_table :: "string \<Rightarrow> string list \<Rightarrow> data_source" where
  "demo_table t cols = \<lparr>ds_table = t, ds_service = ''mongo'', ds_collection = ''jpa'',
     ds_columns = Some (map (\<lambda>c. [(c, PStr ''str'')]) cols), ds_max_reservation = 100\<rparr>"

definition demo_features :: feature_info where
  "demo_features = \<lparr>fi_user = demo_table ''user'' [''user_id'', ''user_bhv_item_seq''],
     fi_item = demo_table ''item'' [''item_id'', ''brand''], fi_summary = demo_table ''summary'' [''item_id'', ''title''],
     fi_request = [], fi_user_key = ''user_id'', fi_item_key = ''item_id'', fi_items_key = [], fi_items_split = []\<rparr>"

definition demo_flow :: online_flow where
  "demo_flow = \<lparr>of_source = Some demo_features,
     of_random = [\<lparr>rm_name = ''pop'', rm_bound = 0, rm_source = (demo_table ''pop'' [])\<lparr>ds_columns := None\<rparr>,
       rm_service = None, rm_key = Some ''key'', rm_value = Some ''value_list''\<rparr>],
     of_cf = [\<lparr>cf_name = ''itemcf'', cf_source = (demo_table ''itemcf'' [])\<lparr>ds_columns := None\<rparr>, cf_service = None,
       cf_related = None, cf_key = Some ''key'', cf_value = Some ''value''\<rparr>],
     of_rank = [\<lparr>rk_name = ''wide'', rk_model = ''widedeep'', rk_service = None, rk_columns = [],
       rk_cross = [\<lparr>cr_name = ''ub'', cr_join = ''#'', cr_fields = [''user_id'', ''brand'']\<rparr>]\<rparr>],
     of_services = [(''mongo'', \<lparr>si_kind = Some ''MongoDB'', si_options = Some [], si_collection = Some [''jpa'']\<rparr>)],
     of_experiments = [\<lparr>ei_name = ''cf'', ei_then = [''recall_itemcf''], ei_when = []\<rparr>,
       \<lparr>ei_name = ''rank'', ei_then = [''rank_wide''], ei_when = []\<rparr>],
     of_layers = [(''recall'', [(''cf'', PFloat (FFin 1))]), (''rank'', [(''rank'', PFloat (FFin 1))])],
     of_scenes = [\<lparr>si_name = ''guess'', si_layers = [''recall'', ''rank'', ''none''], si_recalls = [''pop'']\<rparr>]\<rparr>"

definition demo_str :: "pyval \<Rightarrow> string" where
  "demo_str v = (case v of PStr s \<Rightarrow> s | _ \<Rightarrow> [])"

definition demo_sources :: "source_conf list" where
  "demo_sources = [request_source,
     \<lparr>so_name = ''mongo_jpa'', so_kind = ''MongoDB'', so_options = Some [(''uri'', PStr default_uri)]\<rparr>]"

definition demo_keys :: keys where
  "demo_keys = \<lparr>ky_user = ''user_id'', ky_items = ''user_bhv_item_seq'', ky_item = ''item_id'',
     ky_request = [[(''user_id'', PStr ''str'')], [(''item_id'', PStr ''str'')]],
     ky_user_type = PStr ''str'', ky_item_type = PStr ''str'', ky_user_fields = [''user_id'', ''user_bhv_item_seq''],
     ky_item_fields = [''item_id'', ''brand''], ky_summary_fields = [''item_id'', ''title''],
     ky_max_reservation = 100, ky_split = [CHR 0x01]\<rparr>"

lemma demo_process_source: "process_feature_source demo_str demo_flow = Inr demo_sources"
  by code_simp

lemma demo_init_features: "init_feature_info demo_features = Inr demo_keys"
  by code_simp

text \<open>A step that does not fail, with a condition on its result.\<close>

definition tp :: "'a gen \<Rightarrow> ('a \<Rightarrow> shared \<Rightarrow> bool) \<Rightarrow> shared \<Rightarrow> bool" where
  "tp m Q sh = (case m sh of (Inl _, _) \<Rightarrow> False | (Inr x, sh') \<Rightarrow> Q x sh')"

lemma tp_bind [simp]: "tp (bindG m f) Q sh = tp m (\<lambda>x. tp (f x) Q) sh"
  by (auto simp: tp_def bindG_def split: prod.splits sum.splits)

lemma tp_simps [simp]:
  "tp (retG x) Q sh = Q x sh"
  "tp (add_table t) R sh = R () (sh\<lparr>sh_tables := sh_tables sh @ [t]\<rparr>)"
  "tp (add_feature g) R sh = R () (sh\<lparr>sh_features := sh_features sh @ [g]\<rparr>)"
  "tp (add_algo a) R sh = R () (sh\<lparr>sh_algos := sh_algos sh @ [a]\<rparr>)"
  "tp (add_service v) R sh = R () (sh\<lparr>sh_services := sh_services sh @ [v]\<rparr>)"
  "tp (add_experiment e) R sh = R () (sh\<lparr>sh_experiments := sh_experiments sh @ [e]\<rparr>)"
  "tp (add_layer l) R sh = R () (sh\<lparr>sh_layers := sh_layers sh @ [l]\<rparr>)"
  "tp (add_scene n) R sh = R () (sh\<lparr>sh_scenes := sh_scenes sh @ [n]\<rparr>)"
  by (simp_all add: tp_def liftG_def add_table_def add_feature_def add_algo_def add_service_def add_experiment_def
      add_layer_def add_scene_def)

lemma tp_mono: "tp m Q sh \<Longrightarrow> (\<And>x s. Q x s \<Longrightarrow> R x s) \<Longrightarrow> tp m R sh"
  by (auto simp: tp_def split: prod.splits sum.splits)

lemma demo_append:
  "tp (append_source_table demo_sources n (demo_table t cols) []) Q sh \<longleftrightarrow> cols \<noteq> [] \<and>
     Q () (sh\<lparr>sh_tables := sh_tables sh @ [\<lparr>tc_name = n, tc_source = ''mongo_jpa'', tc_table = Some t,
       tc_columns = columns_of (demo_table t cols)\<rparr>]\<rparr>)"
  by (cases cols) (simp_all add: append_source_table_def demo_table_def demo_sources_def Let_def columns_of_def tp_def liftG_def
      add_table_def)

lemma demo_append_default:
  "d \<noteq> [] \<Longrightarrow> tp (append_source_table demo_sources n ((demo_table t cols)\<lparr>ds_columns := None\<rparr>) d) Q sh \<longleftrightarrow>
     Q () (sh\<lparr>sh_tables := sh_tables sh @ [\<lparr>tc_name = n, tc_source = ''mongo_jpa'', tc_table = Some t,
       tc_columns = d\<rparr>]\<rparr>)"
  by (simp add: append_source_table_def demo_table_def demo_sources_def Let_def columns_of_def)

lemma demo_tables:
  "tp (process_feature_sourceTable demo_flow demo_sources) (\<lambda>k s. k = demo_keys \<and> sh_features s = sh_features sh) sh"
proof -
  have f: "of_source demo_flow = Some demo_features" by (simp add: demo_flow_def)
  have t: "fi_user demo_features = demo_table ''user'' [''user_id'', ''user_bhv_item_seq'']"
    "fi_item demo_features = demo_table ''item'' [''item_id'', ''brand'']"
    "fi_summary demo_features = demo_table ''summary'' [''item_id'', ''title'']"
    by (simp_all add: demo_features_def)
  show ?thesis
    by (simp add: process_feature_sourceTable_def f t demo_init_features demo_append)
qed

lemma demo_random:
  "tp (add_random_recalls demo_sources demo_keys (of_random demo_flow))
     (\<lambda>r s. r = ([(''pop'', ''algotransform_recall_pop'')], []) \<and> length (sh_features s) = Suc (length (sh_features sh))) sh"
  by (simp add: add_random_recalls_def demo_flow_def add_one_random_recall_def Let_def model_columns_def two_columns_def
      columns_has_key_def dict_get_def demo_append_default random_algo_def matcher_def)

lemma demo_cf:
  "tp (add_cf_recalls demo_sources demo_keys (of_cf demo_flow) [])
     (\<lambda>r s. r = [(''recall_itemcf'', ''recall_itemcf''), (''related_itemcf'', ''related_itemcf'')] \<and>
       length (sh_features s) = length (sh_features sh) + 2) sh"
  by (simp add: add_cf_recalls_def demo_flow_def add_one_cf_recall_def Let_def model_columns_def two_columns_def
      columns_has_key_def dict_get_def demo_append_default str_keys_def add_named_service_def named_or_def dict_set_def)

lemma demo_rank:
  "tp (add_rank_models demo_keys (of_rank demo_flow) sd)
     (\<lambda>r s. r = dict_set ''rank_wide'' ''rank_wide'' sd \<and> length (sh_features s) = Suc (length (sh_features sh))) sh"
  by (simp add: add_rank_models_def demo_flow_def add_one_rank_recall_def add_named_service_def rank_service_def named_or_def)

lemma demo_experiments:
  "tp (process_experiments [(''recall_itemcf'', ''recall_itemcf''), (''related_itemcf'', ''related_itemcf''),
       (''rank_wide'', ''rank_wide'')] (of_experiments demo_flow))
     (\<lambda>r s. r = [''rank'', ''cf''] \<and> sh_features s = sh_features sh) sh"
  by (simp add: process_experiments_def demo_flow_def experiment_services_def dict_get_def)

lemma demo_layers:
  "tp (process_layers [''rank'', ''cf''] (of_layers demo_flow))
     (\<lambda>r s. r = [''rank'', ''recall''] \<and> sh_features s = sh_features sh) sh"
  by (simp add: process_layers_def demo_flow_def)

lemma demo_scenes:
  "tp (process_scenes demo_keys [(''pop'', ''algotransform_recall_pop'')] [''rank'', ''recall''] (of_scenes demo_flow))
     (\<lambda>r s. length (sh_features s) = Suc (length (sh_features sh))) sh"
  by (simp add: process_scenes_def demo_flow_def scene_recalls_def dict_get_def)

lemma tp_user_profile: "tp (add_user_profile k) (\<lambda>_ s. length (sh_features s) = Suc (length (sh_features sh))) sh"
  by (simp add: add_user_profile_def)

lemma tp_item_summary: "tp (add_item_summary k) (\<lambda>_ s. length (sh_features s) = Suc (length (sh_features sh))) sh"
  by (simp add: add_item_summary_def)

lemma demo_generation:
  obtains srcs sh where "gen_service_config demo_str demo_flow no_shared = (Inr srcs, sh)" "length (sh_features sh) = 7"
proof -
  have sd: "dict_set ''rank_wide'' ''rank_wide'' [(''recall_itemcf'', ''recall_itemcf''), (''related_itemcf'', ''related_itemcf'')] =
     [(''recall_itemcf'', ''recall_itemcf''), (''related_itemcf'', ''related_itemcf''), (''rank_wide'', ''rank_wide'')]"
    by (simp add: dict_set_def)
  have "tp (gen_service_config demo_str demo_flow) (\<lambda>_ s. length (sh_features s) = 7) no_shared"
    unfolding gen_service_config_def demo_process_source tp_bind tp_simps case_prod_unfold
    apply (rule tp_mono [OF demo_tables], clarify)
    apply (rule tp_mono [OF tp_user_profile])
    apply (rule tp_mono [OF tp_item_summary])
    apply (rule tp_mono [OF demo_random], elim conjE, simp only: fst_conv snd_conv)
    apply (rule tp_mono [OF demo_cf], elim conjE, simp only:)
    apply (rule tp_mono [OF demo_rank], elim conjE, simp only: sd)
    apply (rule tp_mono [OF demo_experiments], elim conjE, simp only:)
    apply (rule tp_mono [OF demo_layers], elim conjE, simp only:)
    apply (rule tp_mono [OF demo_scenes])
    apply (simp add: no_shared_def)
    done
  then show thesis using that by (auto simp: tp_def split: prod.splits sum.splits)
qed


section \<open>A second generation\<close>

lemma wp_bindI: "wp m (\<lambda>x. wp (f x) Q) sh \<Longrightarrow> wp (bindG m f) Q sh"
  by simp

lemma wp_True: "wp m (\<lambda>_ _. True) sh"
  by (auto simp: wp_def split: prod.splits sum.splits)

lemma features_stay: "sh_features sh \<noteq> [] \<Longrightarrow> appends m \<Longrightarrow> wp m (\<lambda>_ s. sh_features s \<noteq> []) sh"
  using appendsD [of m sh] by (auto simp: wp_def sh_app_def split: sum.splits)

lemma has_features:
  assumes "gen_service_config str c no_shared = (Inr srcs, sh)"
  shows "sh_features sh \<noteq> []"
proof -
  have "wp (gen_service_config str c) (\<lambda>_ s. sh_features s \<noteq> []) no_shared"
    unfolding gen_service_config_def
    apply (rule wp_bindI, rule wp_mono [OF wp_True])
    apply (rule wp_bindI, rule wp_mono [OF wp_True])
    apply (rule wp_bindI, rule wp_mono [where Q = "\<lambda>_ s. sh_features s \<noteq> []"])
     apply (simp add: add_user_profile_def wp_add)
    apply (erule features_stay)
    unfolding step_defs by (intro appending)
  from wpD [OF this assms] show ?thesis .
qed

lemma written_not_closed: "sh_features sh \<noteq> [] \<Longrightarrow> \<not> config_closed srcs (sh_app (written sh) b)"
proof
  assume "sh_features sh \<noteq> []" and c: "config_closed srcs (sh_app (written sh) b)"
  then obtain x xs where "sh_features sh = x # xs" by (cases "sh_features sh") auto
  then have "sh_features (sh_app (written sh) b) = feature_written x # map feature_written xs @ sh_features b"
    by (simp add: sh_app_def written_def)
  moreover have "\<exists>ps cs. list_all (feature_closed ps cs) (sh_features (sh_app (written sh) b))"
    using c unfolding config_closed_def closed_in_def by blast
  ultimately have "\<exists>ps cs. feature_closed ps cs (feature_written x)" by auto
  then show False by (auto simp: feature_closed_def feature_from_def feature_written_def)
qed

text \<open>
  C39: the lists of a configuration are shared by all configurations of a process, and writing one takes the tables out
  of its features: when the same flow is generated again after its configuration has been written, everything is in
  the lists twice, the features of the first time now read from nothing, and the configuration is no longer closed.
\<close>

theorem second_generation_repeats:
  assumes "gen_service_config str c no_shared = (Inr srcs, sh)"
  shows "\<exists>sh'. gen_service_config str c (written sh) = (Inr srcs, sh') \<and> sh' = sh_app (written sh) sh \<and>
     map feature_from (sh_features sh') = map (\<lambda>_. []) (sh_features sh) @ map feature_from (sh_features sh) \<and>
     \<not> config_closed srcs sh'"
proof -
  let ?s = "sh_app (written sh) sh"
  have g: "gen_service_config str c (written sh) = (Inr srcs, ?s)"
    using appendsD [OF generation_appends, of str c "written sh"] assms by simp
  have f: "map feature_from (sh_features ?s) = map (\<lambda>_. []) (sh_features sh) @ map feature_from (sh_features sh)"
    by (simp add: sh_app_def written_def feature_from_def feature_written_def)
  show ?thesis
    by (rule exI [of _ ?s]) (intro conjI g f refl written_not_closed has_features [OF assms])
qed

theorem second_generation_repeats_witness:
  "\<exists>srcs sh sh'. gen_service_config demo_str demo_flow no_shared = (Inr srcs, sh) \<and>
     gen_service_config demo_str demo_flow (written sh) = (Inr srcs, sh') \<and> length (sh_features sh') = 14 \<and>
     \<not> config_closed srcs sh'"
proof -
  obtain srcs sh where g: "gen_service_config demo_str demo_flow no_shared = (Inr srcs, sh)" "length (sh_features sh) = 7"
    by (rule demo_generation)
  obtain sh' where "gen_service_config demo_str demo_flow (written sh) = (Inr srcs, sh')" "sh' = sh_app (written sh) sh"
    "\<not> config_closed srcs sh'"
    using second_generation_repeats [OF g(1)] by auto
  then show ?thesis using g by (auto simp: sh_app_def written_def)
qed

section \<open>Services that cannot be used\<close>

lemma mapR_fails: "x \<in> set xs \<Longrightarrow> f x = Inl e \<Longrightarrow> \<exists>e'. mapR f xs = Inl e'"
  by (induction xs) (auto simp: bindR_def split: sum.splits)

lemma jdbc_source_fails:
  assumes "dict_get services name = Some info" and "si_kind info = Some kind" and "map to_lower kind = ''jdbc''"
  shows "\<exists>e. add_source str services name info source = Inl e"
  using assms
  by (cases name; cases "si_options info")
    (auto simp: add_source_def get_source_option_def new_source_def opt_truth_def dict_get_def)

text \<open>
  of the options of a service only the \<open>uri\<close> of MongoDB is passed on, so a flow with a service of kind \<open>JDBC\<close>
  never has a configuration, whatever its options are: the source is always refused for its missing \<open>uri\<close>.
\<close>

theorem jdbc_never_generates:
  assumes "distinct (map fst (of_services c))" and "(name, info) \<in> set (of_services c)"
    and "si_kind info = Some kind" and "map to_lower kind = ''jdbc''" and "si_collection info \<noteq> Some []"
  shows "\<exists>e sh'. gen_service_config str c sh = (Inl e, sh')"
proof -
  have "dict_get (of_services c) name = Some info" using assms(1,2) by (simp add: dict_get_def)
  note fails = jdbc_source_fails [OF this assms(3,4)]
  have "\<exists>e. service_sources str (of_services c) (name, info) = Inl e"
  proof (cases "si_collection info")
    case None
    then show ?thesis using fails [of str name] by (auto simp: service_sources_def)
  next
    case (Some dbs)
    then obtain d ds where "dbs = d # ds" using assms(5) by (cases dbs) auto
    then show ?thesis using fails [of str "name @ ''_'' @ d"] Some by (auto simp: service_sources_def simp del: append_Cons)
  qed
  then obtain e where "mapR (service_sources str (of_services c)) (of_services c) = Inl e"
    using mapR_fails [OF assms(2)] by blast
  then have "\<exists>e. process_feature_source str c = Inl e"
    by (cases "of_services c = []") (simp_all add: process_feature_source_def)
  then show ?thesis by (auto simp: gen_service_config_def bindG_def liftG_def)
qed

theorem jdbc_never_generates_witness:
  "\<exists>e sh'. gen_service_config demo_str (demo_flow\<lparr>of_services := [(''sql'', \<lparr>si_kind = Some ''JDBC'',
     si_options = Some [(''uri'', PStr ''jdbc:mysql://host/db'')], si_collection = None\<rparr>)]\<rparr>) no_shared = (Inl e, sh')"
  by (rule jdbc_never_generates [where name = "''sql''" and kind = "''JDBC''"]) (simp, simp, simp, code_simp, simp)

text \<open>Only the first random model counts; an additional recall of another one is an error.\<close>

lemma first_random_only: "add_random_recalls srcs k (m # ms) = add_random_recalls srcs k [m]"
  by (simp add: add_random_recalls_def)

text \<open>A rank model with a service of its own reads a column from a source that is not among its tables.\<close>

lemma own_service_not_closed:
  "\<not> feature_closed ps cs (rank_feature demo_keys (hd (of_rank demo_flow)\<lparr>rk_service := Some ''mine''\<rparr>))"
proof -
  have "\<not> list_all (under [''source_table_user'', ''source_table_item'', ''mine''])
      [dotted ''rank_wide'' ''origin_scores'']"
    by code_simp
  then show ?thesis by (auto simp: rank_feature_def demo_flow_def rank_service_def named_or_def)
qed

text \<open>A collaborative filter with names of its own reads columns that its table does not have.\<close>

definition own_names_filter :: cf_model where
  "own_names_filter = hd (of_cf demo_flow)\<lparr>cf_key := Some ''item'', cf_value := Some ''similar''\<rparr>"

lemma own_cf_columns_not_closed:
  "tp (add_one_cf_recall demo_sources demo_keys own_names_filter [])
     (\<lambda>_ s. cf_feature demo_keys own_names_filter \<in> set (sh_features s) \<and>
       dotted (cf_name own_names_filter) ''value'' \<in> set (feature_columns (cf_feature demo_keys own_names_filter)) \<and>
       dotted (cf_name own_names_filter) ''value'' \<notin> cnames s) no_shared"
  by (simp add: own_names_filter_def demo_flow_def add_one_cf_recall_def Let_def model_columns_def two_columns_def
      columns_has_key_def dict_get_def demo_append_default str_keys_def add_named_service_def named_or_def dict_set_def
      feature_columns_def cf_feature_def cnames_def no_shared_def table_columns_def algo_columns_def service_columns_def
      field_names_def dotted_def cf_algo_def related_algo_def matcher_def plain_service_def item_output_def demo_keys_def)

section \<open>The keys\<close>

text \<open>
  the keys of a configuration are columns of the tables that they join: the user key and the key of the recent
  items of the user table, the item key of the item and summary tables, both of the request; and their types agree.
\<close>

theorem keys_are_columns:
  assumes "init_feature_info fi = Inr k"
  shows "ky_user k \<in> set (ky_user_fields k) \<and> ky_items k \<in> set (ky_user_fields k) \<and>
     ky_item k \<in> set (ky_item_fields k) \<and> ky_item k \<in> set (ky_summary_fields k) \<and>
     {ky_user k, ky_item k} \<subseteq> set (field_names (ky_request k)) \<and>
     key_types_agree (ky_user k) (ky_user_type k) (ky_request k) \<and>
     key_types_agree (ky_item k) (ky_item_type k) (columns_of (fi_summary fi))"
proof -
  have "key \<in> set (field_names cols)" if "columns_has_key cols key" for cols key
    using that by (force simp: columns_has_key_def field_names_def list_ex_iff dict_get_def dest!: map_of_SomeD)
  then show ?thesis
    using assms by (auto simp: init_feature_info_def Let_def raise_if_Inr_iff)
qed

theorem keys_are_columns_witness:
  "ky_user demo_keys \<in> set (ky_user_fields demo_keys) \<and> ky_item demo_keys \<in> set (ky_summary_fields demo_keys)"
  using keys_are_columns [OF demo_init_features] by blast

end
