(* ===== verification/Compose.thy ===== *)
theory Compose
  imports ServiceConfig
begin

text \<open>
  \<open>metasporeflow/online/compose_config.py\<close> and the part of \<open>online_generator.py\<close> that makes the containers of the
  online service: \<open>gen_docker_compose\<close> and \<open>gen_k8s_config\<close>. As with the lists of a configuration, the services
  of a compose file and the environment of a service are defaults of their classes: one dictionary each serves all
  compose files that a process makes.
\<close>

section \<open>The containers of a flow\<close>

text \<open>
  A docker of the flow file is a dictionary; the two that the code adds are objects of \<open>DockerInfo\<close>. No operation
  reads the environment that a flow gives to a container.
\<close>

record docker_info =
  di_image :: "string option"
  di_ports :: "int list option"
  di_volumes :: "string dict option"
  di_environment :: "pyval dict option"
  di_options :: "pyval dict option"

datatype docker = DockerDict docker_info | DockerObject

record online_service =
  ol_container :: string
  ol_image :: string
  ol_command :: "pyval option"
  ol_ports :: "int list option"
  ol_volumes :: "string list option"
  ol_depends :: "string list option"
  ol_environment :: "pyval dict option"
  ol_restart :: string
  ol_health :: "pyval option"

text \<open>
  \<open>cm_env\<close> is the environment of all services without one of their own; \<open>cm_env_written\<close> has the names of those
  that write it.
\<close>

record compose_state =
  cm_services :: "online_service dict"
  cm_env :: "pyval dict"
  cm_env_written :: "string list"

definition no_compose :: compose_state where
  "no_compose = \<lparr>cm_services = [], cm_env = [], cm_env_written = []\<rparr>"

section \<open>Adding a service\<close>

text \<open>What the kind of a service, told by its name, gives to it.\<close>

record kind_defaults =
  kd_image :: "string option"
  kd_ports :: "int list option"
  kd_command :: "pyval option"
  kd_volumes :: "string list option"
  kd_environment :: "pyval dict option"
  kd_depends :: "string list option"
  kd_restart :: string
  kd_health :: "pyval option"

definition no_defaults :: kind_defaults where
  "no_defaults = \<lparr>kd_image = None, kd_ports = None, kd_command = None, kd_volumes = None, kd_environment = None,
     kd_depends = None, kd_restart = ''on-failure'', kd_health = None\<rparr>"

definition recommend_image :: string where
  "recommend_image = ''swr.cn-southwest-2.myhuaweicloud.com/dmetasoul-repo/recommend-service-11:1.0.14''"

definition serving_image :: string where
  "serving_image = ''swr.cn-southwest-2.myhuaweicloud.com/dmetasoul-repo/metaspore-serving-release:cpu-v1.0.1'' @
     ''@sha256:99b62896bf2904b1e2814eb247e1e644f83b9c90128454d96261088bb24ec80a''"

definition volume_directory :: string where
  "volume_directory = ''${DOCKER_VOLUME_DIRECTORY:-.}''"

definition kind_of :: "string \<Rightarrow> kind_defaults" where
  "kind_of name =
     (if name = ''recommend'' then no_defaults\<lparr>kd_ports := Some [13013], kd_image := Some recommend_image,
        kd_command := Some (PStr (''java -Xmx2048M -Xms2048M -Xmn768M -XX:MaxMetaspaceSize=256M -XX:MetaspaceSize=256M '' @
          ''-jar recommend-service-1.0-SNAPSHOT.jar'')), kd_depends := Some [''consul'']\<rparr>
      else if name = ''consul'' then no_defaults\<lparr>kd_ports := Some [8500, 8600, 8300],
        kd_environment := Some [(''CONSUL_LOCAL_CONFIG'',
          PStr ([CHR ''{'', CHR 0x5C, CHR 0x22] @ ''skip_leave_on_interrupt'' @ [CHR 0x5C, CHR 0x22] @ '': true}''))],
        kd_image := Some (''consul:1.13.1@sha256:4f54d5ddb23771cf79d9ad543d1e258b7da802198bc5dbc3ff85992cc091a50e''),
        kd_command := Some (PStr (''consul agent -server -bootstrap-expect 1 -data-dir=/consul/data '' @
          ''-bind=127.0.0.1 -client=0.0.0.0 -ui''))\<rparr>
      else if startswith name ''model'' then no_defaults\<lparr>kd_ports := Some [50000], kd_image := Some serving_image,
        kd_command := Some (PStr (''/opt/metaspore-serving/bin/metaspore-serving-bin '' @
          ''-grpc_listen_port 50000 -init_load_path /data/models'')),
        kd_volumes := Some [volume_directory @ ''/volumes/serving_models:/data/models'']\<rparr>
      else if startswith name ''mongo'' then no_defaults\<lparr>kd_ports := Some [27017], kd_image := Some ''mongo:6.0.1'',
        kd_restart := ''always''\<rparr>
      else if startswith name ''redis'' then no_defaults\<lparr>kd_ports := Some [6379], kd_image := Some ''redis:7.0.4'',
        kd_restart := ''always''\<rparr>
      else if startswith name ''mysql'' then no_defaults\<lparr>kd_ports := Some [3306], kd_image := Some ''mysql:8.0.30'',
        kd_restart := ''always''\<rparr>
      else if name = ''etcd'' then no_defaults\<lparr>kd_volumes := Some [volume_directory @ ''/volumes/etcd:/etcd''],
        kd_environment := Some [(''ETCD_AUTO_COMPACTION_MODE'', PStr ''revision''),
          (''ETCD_AUTO_COMPACTION_RETENTION'', PInt 1000), (''ETCD_QUOTA_BACKEND_BYTES'', PInt 4294967296)],
        kd_image := Some ''quay.io/coreos/etcd:v3.5.0'',
        kd_command := Some (PStr (''etcd -advertise-client-urls=http://127.0.0.1:2379 '' @
          ''-listen-client-urls http://0.0.0.0:2379 --data-dir /etcd''))\<rparr>
      else if name = ''minio'' then no_defaults\<lparr>kd_volumes := Some [volume_directory @ ''/volumes/minio:/minio_data''],
        kd_environment := Some [(''MINIO_ACCESS_KEY'', PStr ''minioadmin''), (''MINIO_SECRET_KEY'', PStr ''minioadmin'')],
        kd_image := Some ''minio/minio:RELEASE.2020-12-03T00-03-10Z'', kd_command := Some (PStr ''minio server /minio_data''),
        kd_health := Some (PDict [(''test'', PList (map PStr [''CMD'', ''curl'', ''-f'', ''http://localhost:9000/minio/health/live''])),
          (''interval'', PStr ''30s''), (''timeout'', PStr ''20s''), (''retries'', PInt 3)])\<rparr>
      else if startswith name ''milvus'' then no_defaults\<lparr>kd_ports := Some [19530],
        kd_environment := Some [(''ETCD_ENDPOINTS'', PStr ''etcd:2379''), (''MINIO_ADDRESS'', PStr ''minio:9000'')],
        kd_image := Some ''milvusdb/milvus:v2.0.1'',
        kd_command := Some (PList (map PStr [''milvus'', ''run'', ''standalone''])),
        kd_volumes := Some [volume_directory @ ''/volumes/milvus:/var/lib/milvus''], kd_depends := Some [''etcd'', ''minio'']\<rparr>
      else no_defaults)"

text \<open>
  The image, ports and volumes that \<open>gen_docker_compose\<close> gives take precedence; a service that is added because
  another one depends on it is given nothing. Every such service is of a kind with an image.
\<close>

type_synonym given_settings = "(string \<times> int list \<times> string list) option"

definition new_service :: "string \<Rightarrow> string \<Rightarrow> given_settings \<Rightarrow> online_service" where
  "new_service name container g =
     (let d = kind_of name
      in \<lparr>ol_container = container,
          ol_image = (case g of Some (img, _) \<Rightarrow> img | None \<Rightarrow> (case kd_image d of Some i \<Rightarrow> i | None \<Rightarrow> [])),
          ol_command = kd_command d,
          ol_ports = (case g of Some (_, ports, _) \<Rightarrow> Some ports | None \<Rightarrow> kd_ports d),
          ol_volumes = (case g of Some (_, _, volumes) \<Rightarrow> Some volumes | None \<Rightarrow> kd_volumes d),
          ol_depends = kd_depends d, ol_environment = kd_environment d, ol_restart = kd_restart d, ol_health = kd_health d\<rparr>)"

definition put_service :: "string \<Rightarrow> online_service \<Rightarrow> compose_state \<Rightarrow> compose_state" where
  "put_service name s cm = cm\<lparr>cm_services := dict_set name s (cm_services cm), cm_env_written := remove1 name (cm_env_written cm)\<rparr>"

definition depends_of :: "string \<Rightarrow> string list" where
  "depends_of name = (case kd_depends (kind_of name) of None \<Rightarrow> [] | Some ds \<Rightarrow> ds)"

text \<open>A service that is waited for waits for none itself, so the recursion of the code is one level deep.\<close>

lemma depends_depth: "d \<in> set (depends_of name) \<Longrightarrow> depends_of d = [] \<and> d \<noteq> []"
  by (auto simp: depends_of_def kind_of_def no_defaults_def startswith_def split: if_splits)

function add_online_service :: "string \<Rightarrow> string \<Rightarrow> given_settings \<Rightarrow> compose_state \<Rightarrow> compose_state" where
  "add_online_service name container g cm =
     (if name = [] then cm
      else put_service name (new_service name container g)
        (foldl (\<lambda>cm d. if dict_get (cm_services cm) d = None
             then add_online_service d (''contain_'' @ d @ ''_service'') None cm else cm) cm (depends_of name)))"
  by pat_completeness auto
termination
proof (relation "measure (\<lambda>(name, _). length (depends_of name))", goal_cases)
  case (2 name container g cm x d)
  then have "depends_of d = []" "depends_of name \<noteq> []" using depends_depth [of d name] by auto
  then show ?case by simp
qed simp

declare add_online_service.simps [simp del]

section \<open>The compose file of a flow\<close>

definition is_model :: "string \<Rightarrow> bool" where
  "is_model name = startswith name ''model''"

definition with_defaults :: "docker dict \<Rightarrow> docker dict" where
  "with_defaults ds =
     (let ds = (if dict_get ds ''recommend'' = None then ds @ [(''recommend'', DockerObject)] else ds)
      in if list_ex (\<lambda>(n, _). is_model n) ds then ds else ds @ [(''model'', DockerObject)])"

definition docker_volumes :: "string \<Rightarrow> string \<Rightarrow> docker_info \<Rightarrow> string list" where
  "docker_volumes cwd name info =
     (let vs = (case di_volumes info of None \<Rightarrow> [] | Some vs \<Rightarrow> map (\<lambda>(_, v). cwd @ ''/volumes/'' @ v) vs)
      in if vs = [] \<and> is_model name then [cwd @ ''/volumes/output/model:/data/models''] else vs)"

text \<open>An object of \<open>DockerInfo\<close> has no \<open>in\<close>.\<close>

definition add_docker :: "string \<Rightarrow> string \<times> docker \<Rightarrow> unit \<Rightarrow> compose_state \<Rightarrow> unit res \<times> compose_state" where
  "add_docker cwd = (\<lambda>(name, d) _ cm.
     case d of
       DockerObject \<Rightarrow> (Inl TypeError, cm)
     | DockerDict info \<Rightarrow>
         (case (di_image info, di_ports info) of
            (Some img, Some ports) \<Rightarrow>
              (Inr (), add_online_service name (''container_'' @ name @ ''_service'')
                 (Some (img, ports, docker_volumes cwd name info)) cm)
          | _ \<Rightarrow> (Inl KeyError, cm)))"

definition to_upper :: "char \<Rightarrow> char" where
  "to_upper c = (if is_lower c then char_of (of_char c - 32 :: nat) else c)"

definition host_key :: "string \<Rightarrow> string" where
  "host_key name = map to_upper name @ ''_HOST''"

definition port_key :: "string \<Rightarrow> string" where
  "port_key name = map to_upper name @ ''_PORT''"

text \<open>The recommend service has no environment of its own, so it is the common one that grows.\<close>

definition address_entries :: "string \<times> online_service \<Rightarrow> pyval dict" where
  "address_entries = (\<lambda>(name, s).
     if name = ''recommend'' then []
     else case ol_ports s of Some (p # _) \<Rightarrow> [(host_key name, PStr name), (port_key name, PInt p)] | _ \<Rightarrow> [])"

definition add_envs :: "compose_state \<Rightarrow> compose_state" where
  "add_envs cm =
     (let es = concat (map address_entries (cm_services cm))
      in if es = [] then cm
         else cm\<lparr>cm_env := dict_update (cm_env cm) es, cm_env_written := ''recommend'' # remove1 ''recommend'' (cm_env_written cm)\<rparr>)"

definition gen_docker_compose :: "string \<Rightarrow> docker dict \<Rightarrow> compose_state \<Rightarrow> unit res \<times> compose_state" where
  "gen_docker_compose cwd ds =
     bindG (foldG (add_docker cwd) (with_defaults ds) ()) (\<lambda>_ cm.
       if dict_get (cm_services cm) ''recommend'' = None then (Inl ValueError, cm) else (Inr (), add_envs cm))"

definition online_service_dict :: "compose_state \<Rightarrow> string \<Rightarrow> online_service \<Rightarrow> pyval dict" where
  "online_service_dict cm name s =
     [(''container_name'', PStr (ol_container s)), (''image'', PStr (ol_image s)), (''restart'', PStr (ol_restart s))] @
     (case ol_command s of None \<Rightarrow> [] | Some c \<Rightarrow> [(''command'', c)]) @
     (case ol_ports s of None \<Rightarrow> []
      | Some ps \<Rightarrow> [(''ports'', PList (map (\<lambda>p. PStr (str_int p @ '':'' @ str_int p)) ps))]) @
     (case ol_volumes s of None \<Rightarrow> [] | Some vs \<Rightarrow> [(''volumes'', strs vs)]) @
     (case ol_depends s of None \<Rightarrow> [] | Some ds \<Rightarrow> [(''depends_on'', strs ds)]) @
     (case ol_health s of None \<Rightarrow> [] | Some h \<Rightarrow> [(''healthcheck'', h)]) @
     (case ol_environment s of
        Some e \<Rightarrow> [(''environment'', PDict e)]
      | None \<Rightarrow> if name \<in> set (cm_env_written cm) then [(''environment'', PDict (cm_env cm))] else [])"

definition compose_dict :: "compose_state \<Rightarrow> pyval dict" where
  "compose_dict cm = (''version'', PStr ''3.5'') #
     entry_if (cm_services cm \<noteq> []) ''services''
       (PDict (map (\<lambda>(n, s). (n, PDict (online_service_dict cm n s))) (cm_services cm)))"

section \<open>The Kubernetes deployments of a flow\<close>

definition k8s_data :: "string \<Rightarrow> docker_info \<Rightarrow> pyval dict res" where
  "k8s_data name info =
     (let vs = (case di_volumes info of None \<Rightarrow> [] | Some vs \<Rightarrow> dict_update [] (map (\<lambda>(k, v). (''volume_'' @ k, PStr v)) vs))
      in bindR (case di_ports info of
             None \<Rightarrow> Inr vs | Some [] \<Rightarrow> Inl IndexError | Some (p # _) \<Rightarrow> Inr (dict_set ''port'' (PInt p) vs)) (\<lambda>d.
         let d = (case di_options info of None \<Rightarrow> d | Some os \<Rightarrow> dict_update d os);
             d = (case di_image info of None \<Rightarrow> d | Some i \<Rightarrow> dict_set ''image'' (PStr i) d)
         in Inr (dict_set ''name'' (PStr (name @ ''-k8s-service'')) d)))"

definition k8s_datas :: "(string \<times> docker_info) list \<Rightarrow> pyval dict dict res" where
  "k8s_datas ds = mapR (\<lambda>(n, info). bindR (k8s_data n info) (\<lambda>d. Inr (n, d))) ds"

definition read_key :: "string \<Rightarrow> pyval dict \<Rightarrow> pyval res" where
  "read_key k d = (case dict_get d k of None \<Rightarrow> Inl KeyError | Some v \<Rightarrow> Inr v)"

definition data_for :: "pyval dict dict \<Rightarrow> string \<Rightarrow> pyval dict" where
  "data_for ds name = (case dict_get ds name of None \<Rightarrow> [] | Some d \<Rightarrow> d)"

definition set_default :: "string \<Rightarrow> pyval \<Rightarrow> pyval dict \<Rightarrow> pyval dict" where
  "set_default k v d = (if dict_get d k = None then dict_set k v d else d)"

text \<open>The data of the three services: consul, recommend, model.\<close>

definition gen_k8s_config :: "(string \<times> docker_info) list \<Rightarrow> (pyval dict \<times> pyval dict \<times> pyval dict) res" where
  "gen_k8s_config ds =
     (if ds = [] then Inr ([], [], [])
      else bindR (k8s_datas ds) (\<lambda>m.
        let consul = set_default ''port'' (PInt 8500) (data_for m ''consul'') in
        bindR (read_key ''port'' consul) (\<lambda>port.
        bindR (read_key ''name'' consul) (\<lambda>name.
        let recommend = dict_set ''consul_service'' name (dict_set ''consul_port'' port (data_for m ''recommend''));
            model = dict_set ''consul_service'' name (dict_set ''consul_port'' port (data_for m ''model'')) in
        bindR (read_key ''name'' model) (\<lambda>mname.
        bindR (read_key ''port'' model) (\<lambda>mport.
        Inr (consul, dict_set ''model_port'' mport (dict_set ''model_service'' mname recommend), model)))))))"

section \<open>What a compose file contains\<close>

definition dep_name :: "string \<Rightarrow> string" where
  "dep_name d = ''contain_'' @ d @ ''_service''"

definition add_dep :: "compose_state \<Rightarrow> string \<Rightarrow> compose_state" where
  "add_dep cm d = (if dict_get (cm_services cm) d = None then put_service d (new_service d (dep_name d) None) cm else cm)"

lemma add_online_service_eq:
  "add_online_service name container g cm =
     (if name = [] then cm else put_service name (new_service name container g) (foldl add_dep cm (depends_of name)))"
proof -
  have "add_online_service d (''contain_'' @ d @ ''_service'') None cm = put_service d (new_service d (dep_name d) None) cm"
    if "d \<in> set (depends_of name)" for d cm
    using depends_depth [OF that] by (simp add: add_online_service.simps [of d] dep_name_def)
  then have "foldl (\<lambda>cm d. if dict_get (cm_services cm) d = None
        then add_online_service d (''contain_'' @ d @ ''_service'') None cm else cm) cm (depends_of name) =
      foldl add_dep cm (depends_of name)"
    by (intro foldl_cong) (simp_all add: add_dep_def)
  then show ?thesis by (simp add: add_online_service.simps [of name])
qed

definition service_names :: "compose_state \<Rightarrow> string set" where
  "service_names cm = fst ` set (cm_services cm)"

definition waits_for :: "online_service \<Rightarrow> string list" where
  "waits_for s = (case ol_depends s of None \<Rightarrow> [] | Some ds \<Rightarrow> ds)"

definition waits_present :: "compose_state \<Rightarrow> bool" where
  "waits_present cm \<longleftrightarrow> list_all (\<lambda>(_, s). set (waits_for s) \<subseteq> service_names cm) (cm_services cm)"

lemma get_iff_name: "dict_get (cm_services cm) n = None \<longleftrightarrow> n \<notin> service_names cm"
  by (simp add: dict_get_def map_of_eq_None_iff service_names_def)

lemma put_service_names: "service_names (put_service n s cm) = insert n (service_names cm)"
  by (simp add: put_service_def service_names_def dict_set_def dom_update)

lemma dict_set_members: "(k', v') \<in> set (dict_set k v d) \<Longrightarrow> (k', v') = (k, v) \<or> (k', v') \<in> set d"
  unfolding dict_set_def by (induction d) (auto split: if_splits)

lemma put_service_waits:
  assumes "waits_present cm" and "set (waits_for s) \<subseteq> insert n (service_names cm)"
  shows "waits_present (put_service n s cm)"
proof -
  have "set (waits_for s') \<subseteq> insert n (service_names cm)"
    if "(n', s') \<in> set (dict_set n s (cm_services cm))" for n' s'
    using dict_set_members [OF that] assms unfolding waits_present_def list_all_iff by blast
  then show ?thesis
    unfolding waits_present_def put_service_names list_all_iff by (auto simp: put_service_def)
qed

lemma ol_depends_new: "waits_for (new_service n c g) = depends_of n"
  by (simp add: waits_for_def new_service_def depends_of_def Let_def)

lemma add_deps:
  assumes "waits_present cm" and "\<forall>d \<in> set ds. depends_of d = []"
  shows "waits_present (foldl add_dep cm ds) \<and> service_names (foldl add_dep cm ds) = service_names cm \<union> set ds"
  using assms
proof (induction ds arbitrary: cm)
  case (Cons d ds)
  have "waits_present (add_dep cm d) \<and> service_names (add_dep cm d) = insert d (service_names cm)"
    using Cons.prems put_service_waits [of cm "new_service d (dep_name d) None" d]
    by (auto simp: add_dep_def put_service_names ol_depends_new get_iff_name)
  then show ?case using Cons.IH [of "add_dep cm d"] Cons.prems(2) by auto
qed simp

lemma add_online_waits:
  assumes "waits_present cm"
  shows "waits_present (add_online_service n c g cm)"
proof -
  have d: "\<forall>d \<in> set (depends_of n). depends_of d = []" using depends_depth by blast
  show ?thesis
    using add_deps [OF assms d] put_service_waits [of "foldl add_dep cm (depends_of n)" "new_service n c g" n] assms
    by (auto simp: add_online_service_eq ol_depends_new)
qed

lemma add_docker_waits: "waits_present cm \<Longrightarrow> waits_present (snd (add_docker cwd d u cm))"
  by (auto simp: add_docker_def add_online_waits split: prod.splits docker.splits option.splits)

lemma foldG_state:
  assumes "P s" and "\<And>x b s. P s \<Longrightarrow> P (snd (f x b s))"
  shows "P (snd (foldG f xs b s))"
  using assms(1)
proof (induction xs arbitrary: b s)
  case (Cons x xs)
  have "P (snd (f x b s))" by (rule assms(2) [OF Cons.prems])
  then show ?case using Cons.IH by (auto simp: bindG_def split: prod.splits sum.splits)
qed (simp add: liftG_def)

lemma gen_docker_waits: "waits_present cm \<Longrightarrow> waits_present (snd (gen_docker_compose cwd ds cm))"
proof -
  assume "waits_present cm"
  then have "waits_present (snd (foldG (add_docker cwd) (with_defaults ds) () cm))"
    by (rule foldG_state) (rule add_docker_waits)
  then show ?thesis
    by (auto simp: gen_docker_compose_def bindG_def add_envs_def Let_def waits_present_def service_names_def
        split: prod.splits sum.splits)
qed

text \<open>
  C19: in every compose file that a process makes, also after earlier ones and after generations that failed, each
  container waits only for containers that are in the file.
\<close>

theorem compose_waits_for_present:
  "waits_present (foldl (\<lambda>cm ds. snd (gen_docker_compose cwd ds cm)) no_compose dss)"
proof -
  have "waits_present (foldl (\<lambda>cm ds. snd (gen_docker_compose cwd ds cm)) cm dss)" if "waits_present cm" for cm
    using that by (induction dss arbitrary: cm) (auto simp: gen_docker_waits)
  moreover have "waits_present no_compose" by (simp add: waits_present_def no_compose_def)
  ultimately show ?thesis .
qed

lemma objects_refused:
  assumes "dict_get ds ''recommend'' = None \<or> \<not> list_ex (\<lambda>(n, _). is_model n) ds"
  shows "\<exists>e. fst (gen_docker_compose cwd ds cm) = Inl e"
proof -
  have obj: "\<exists>n. (n, DockerObject) \<in> set (with_defaults ds)"
    using assms by (auto simp: with_defaults_def Let_def list_ex_iff is_model_def startswith_def)
  have "\<exists>e. fst (foldG (add_docker cwd) xs () cm) = Inl e" if "(n, DockerObject) \<in> set xs" for n xs cm
    using that
  proof (induction xs arbitrary: cm)
    case (Cons x xs)
    show ?case
    proof (cases "add_docker cwd x () cm")
      case (Pair r cm')
      show ?thesis
      proof (cases r)
        case (Inr v)
        then have "x \<noteq> (n, DockerObject)" using Pair by (auto simp: add_docker_def)
        then show ?thesis using Cons Pair Inr by (simp add: bindG_def)
      next
        case (Inl e)
        then show ?thesis using Pair by (simp add: bindG_def)
      qed
    qed
  qed simp
  then obtain e where "fst (foldG (add_docker cwd) (with_defaults ds) () cm) = Inl e" using obj by blast
  then show ?thesis
    by (cases "foldG (add_docker cwd) (with_defaults ds) () cm") (simp add: gen_docker_compose_def bindG_def)
qed

text \<open>
  a flow must list a container named \<open>recommend\<close> and one whose name begins with \<open>model\<close>: the defaults
  that stand in for them are refused, since an object of \<open>DockerInfo\<close> has no \<open>in\<close>.
\<close>

theorem default_containers_refused:
  assumes "dict_get ds ''recommend'' = None \<or> \<not> list_ex (\<lambda>(n, _). is_model n) ds"
  shows "\<exists>e. fst (gen_docker_compose cwd ds cm) = Inl e"
  using assms by (rule objects_refused)

theorem default_containers_refused_witness:
  "\<exists>e. fst (gen_docker_compose ''/w'' [(''mongo'', DockerDict \<lparr>di_image = Some ''mongo:6.0.1'', di_ports = Some [27017],
     di_volumes = None, di_environment = None, di_options = None\<rparr>)] no_compose) = Inl e"
  by (rule default_containers_refused) (simp add: dict_get_def)

subsection \<open>The containers of the flow\<close>

lemma get_put_service: "dict_get (cm_services (put_service m s cm)) n = (if n = m then Some s else dict_get (cm_services cm) n)"
  by (simp add: put_service_def pydict.get_put)

lemma add_deps_keep: "dict_get (cm_services cm) n = Some s \<Longrightarrow> dict_get (cm_services (foldl add_dep cm ds)) n = Some s"
proof (induction ds arbitrary: cm)
  case (Cons d ds)
  then have "dict_get (cm_services (add_dep cm d)) n = Some s"
    by (cases "n = d") (simp_all add: add_dep_def get_put_service)
  then show ?case using Cons.IH by simp
qed simp

lemma add_online_other:
  "n \<noteq> m \<Longrightarrow> dict_get (cm_services cm) n = Some s \<Longrightarrow> dict_get (cm_services (add_online_service m c g cm)) n = Some s"
  by (simp add: add_online_service_eq get_put_service add_deps_keep)

lemma add_online_same:
  "n \<noteq> [] \<Longrightarrow> dict_get (cm_services (add_online_service n c g cm)) n = Some (new_service n c g)"
  by (simp add: add_online_service_eq get_put_service)

definition service_of :: "string \<Rightarrow> string \<Rightarrow> docker_info \<Rightarrow> online_service option" where
  "service_of cwd n info = (case (di_image info, di_ports info) of
     (Some img, Some ports) \<Rightarrow>
       Some (new_service n (''container_'' @ n @ ''_service'') (Some (img, ports, docker_volumes cwd n info)))
   | _ \<Rightarrow> None)"

lemma service_environment: "service_of cwd n info = Some s \<Longrightarrow> ol_environment s = kd_environment (kind_of n)"
  by (auto simp: service_of_def new_service_def Let_def split: option.splits)

lemma add_docker_ok:
  assumes "add_docker cwd (n, d) () cm = (Inr u, cm')" and "n \<noteq> []"
  shows "\<exists>info s. d = DockerDict info \<and> service_of cwd n info = Some s \<and> dict_get (cm_services cm') n = Some s"
    and "m \<noteq> n \<Longrightarrow> dict_get (cm_services cm) m = Some s \<Longrightarrow> dict_get (cm_services cm') m = Some s"
  using assms
  by (auto simp: add_docker_def service_of_def add_online_same add_online_other split: docker.splits option.splits)

lemma add_dockers_ok:
  assumes "foldG (add_docker cwd) ds () cm = (Inr u, cm')" and "distinct (map fst ds)" and "[] \<notin> fst ` set ds"
  shows "(\<forall>(n, d) \<in> set ds. \<exists>info s. d = DockerDict info \<and> service_of cwd n info = Some s \<and>
           dict_get (cm_services cm') n = Some s) \<and>
         (\<forall>m s. m \<notin> fst ` set ds \<longrightarrow> dict_get (cm_services cm) m = Some s \<longrightarrow> dict_get (cm_services cm') m = Some s)"
  using assms
proof (induction ds arbitrary: cm)
  case (Cons nd ds)
  obtain n d where nd: "nd = (n, d)" by (cases nd)
  obtain cm1 where s: "add_docker cwd (n, d) () cm = (Inr (), cm1)" "foldG (add_docker cwd) ds () cm1 = (Inr u, cm')"
    using Cons.prems(1) by (auto simp: nd bindG_def split: prod.splits sum.splits)
  have n: "n \<noteq> []" "n \<notin> fst ` set ds" using Cons.prems(2,3) by (auto simp: nd)
  note ih = Cons.IH [OF s(2)] and a = add_docker_ok [OF s(1) n(1)]
  have ih1: "\<forall>(n, d) \<in> set ds. \<exists>info s. d = DockerDict info \<and> service_of cwd n info = Some s \<and>
           dict_get (cm_services cm') n = Some s"
    and ih2: "\<And>m s. m \<notin> fst ` set ds \<Longrightarrow> dict_get (cm_services cm1) m = Some s \<Longrightarrow> dict_get (cm_services cm') m = Some s"
    using ih Cons.prems(2,3) by (simp_all add: nd)
  show ?case using ih1 ih2 a n(2) by (auto simp: nd)
qed (simp add: liftG_def)

lemma with_defaults_id:
  assumes "fst (gen_docker_compose cwd ds cm) = Inr u"
  shows "with_defaults ds = ds"
proof -
  have "\<not> (dict_get ds ''recommend'' = None \<or> \<not> list_ex (\<lambda>(n, _). is_model n) ds)"
    using objects_refused [of ds cwd cm] assms by (intro notI) simp
  then show ?thesis by (simp add: with_defaults_def Let_def)
qed

text \<open>
  C20: a compose file that is made has a service for every container of the flow, with the image, the ports and the
  volumes of the flow and what its kind adds, whatever was in the file of an earlier generation. The environment that
  the flow gives to a container is not among its settings: the service has that of its kind, or none.
\<close>

theorem compose_services_of_flow:
  assumes "gen_docker_compose cwd ds cm = (Inr (), cm')" and "distinct (map fst ds)" and "[] \<notin> fst ` set ds"
  shows "\<forall>(n, d) \<in> set ds. \<exists>info s. d = DockerDict info \<and> service_of cwd n info = Some s \<and>
     dict_get (cm_services cm') n = Some s \<and> ol_environment s = kd_environment (kind_of n)"
proof -
  have w: "with_defaults ds = ds" by (rule with_defaults_id [where cwd = cwd and cm = cm]) (simp add: assms(1))
  obtain cm1 where "foldG (add_docker cwd) ds () cm = (Inr (), cm1)" "cm_services cm' = cm_services cm1"
    using assms(1)
    by (auto simp: gen_docker_compose_def w bindG_def add_envs_def Let_def split: prod.splits sum.splits if_splits)
  with add_dockers_ok [OF this(1) assms(2,3)] show ?thesis using service_environment by fastforce
qed

text \<open>Whatever environments a flow gives to its containers, the compose file is the same.\<close>

definition set_environment :: "pyval dict option \<Rightarrow> docker \<Rightarrow> docker" where
  "set_environment e d = (case d of DockerDict info \<Rightarrow> DockerDict (info\<lparr>di_environment := e\<rparr>) | DockerObject \<Rightarrow> DockerObject)"

lemma docker_environment_ignored:
  "add_docker cwd (n, set_environment e d) u cm = add_docker cwd (n, d) u cm"
proof (cases d)
  case (DockerDict info)
  have "docker_volumes cwd n (info\<lparr>di_environment := e\<rparr>) = docker_volumes cwd n info" by (simp add: docker_volumes_def)
  then show ?thesis by (simp add: DockerDict set_environment_def add_docker_def split: option.split)
qed (simp add: set_environment_def)

lemma key_eq:
  "host_key a \<noteq> port_key b" "port_key a \<noteq> host_key b"
  "(host_key a = host_key b) = (map to_upper a = map to_upper b)"
  "(port_key a = port_key b) = (map to_upper a = map to_upper b)"
  by (simp_all add: host_key_def port_key_def)

lemma map_of_only: "(k, v) \<in> set es \<Longrightarrow> (\<And>v'. (k, v') \<in> set es \<Longrightarrow> v' = v) \<Longrightarrow> map_of (rev es) k = Some v"
  by (metis map_of_SomeD set_rev weak_map_of_SomeI)

text \<open>
  C21: the recommend service is told where every other service is: its environment has the name and the first port of
  each service with a port, when no two names are equal in upper case.
\<close>

theorem compose_addresses:
  assumes "gen_docker_compose cwd ds cm = (Inr (), cm')"
    and "distinct (map (\<lambda>(n, _). map to_upper n) (cm_services cm'))"
    and "(n, s) \<in> set (cm_services cm')" and "n \<noteq> ''recommend''" and "ol_ports s = Some (p # ps)"
  shows "dict_get (cm_env cm') (host_key n) = Some (PStr n) \<and> dict_get (cm_env cm') (port_key n) = Some (PInt p) \<and>
     ''recommend'' \<in> set (cm_env_written cm')"
proof -
  obtain cm1 where c: "cm' = add_envs cm1"
    using assms(1) by (auto simp: gen_docker_compose_def bindG_def split: prod.splits sum.splits if_splits)
  let ?es = "concat (map address_entries (cm_services cm'))"
  have s: "cm_services cm' = cm_services cm1" by (simp add: c add_envs_def Let_def)
  have x: "address_entries (n, s) = [(host_key n, PStr n), (port_key n, PInt p)]"
    using assms(4,5) by (simp add: address_entries_def)
  have e: "(host_key n, PStr n) \<in> set ?es" "(port_key n, PInt p) \<in> set ?es"
    using assms(3) x by (force simp del: append_Cons)+
  have u: "n' = n \<and> s' = s" if "(n', s') \<in> set (cm_services cm')" "map to_upper n' = map to_upper n" for n' s'
  proof -
    have "inj_on (\<lambda>(n, _). map to_upper n) (set (cm_services cm'))" using assms(2) by (simp add: distinct_map)
    from inj_onD [OF this _ that(1) assms(3)] that(2) show ?thesis by simp
  qed
  have only: "(k, v) \<in> set (address_entries (n, s))" if kv: "(k, v) \<in> set ?es" "k = host_key n \<or> k = port_key n" for k v
  proof -
    obtain n' s' where m: "(n', s') \<in> set (cm_services cm')" "(k, v) \<in> set (address_entries (n', s'))"
      using kv(1) by (auto simp del: append_Cons)
    then have "k = host_key n' \<or> k = port_key n'"
      by (auto simp: address_entries_def split: if_splits option.splits list.splits)
    then have "map to_upper n' = map to_upper n" using kv(2) by (auto simp: key_eq)
    with u [OF m(1)] m(2) show ?thesis by simp
  qed
  have h: "v = PStr n" if hv: "(host_key n, v) \<in> set ?es" for v
    using only [OF hv] x by (simp add: key_eq)
  have q: "v = PInt p" if hv: "(port_key n, v) \<in> set ?es" for v
    using only [OF hv] x by (simp add: key_eq)
  have m: "map_of (rev ?es) (host_key n) = Some (PStr n)" "map_of (rev ?es) (port_key n) = Some (PInt p)"
    using map_of_only [OF e(1) h] map_of_only [OF e(2) q] by blast+
  have "?es \<noteq> []" using e(1) by (metis empty_iff empty_set)
  then have a: "cm' = cm1\<lparr>cm_env := dict_update (cm_env cm1) ?es,
      cm_env_written := ''recommend'' # remove1 ''recommend'' (cm_env_written cm1)\<rparr>"
    unfolding s by (simp only: c add_envs_def Let_def if_False)
  have "cm_env cm' = dict_update (cm_env cm1) ?es" "''recommend'' \<in> set (cm_env_written cm')"
    using arg_cong [OF a, of cm_env] arg_cong [OF a, of cm_env_written] by simp_all
  then show ?thesis by (simp only: dict_update_def pydict.get_put_all m option.case simp_thms)
qed

subsection \<open>An example\<close>

definition demo_docker :: "string \<Rightarrow> int list \<Rightarrow> docker" where
  "demo_docker img ports = DockerDict \<lparr>di_image = Some img, di_ports = Some ports, di_volumes = None,
     di_environment = Some [(''TZ'', PStr ''UTC'')], di_options = None\<rparr>"

definition demo_dockers :: "docker dict" where
  "demo_dockers = [(''recommend'', demo_docker ''r:1'' [13013]), (''model'', demo_docker ''m:1'' [50000]),
     (''mongo'', demo_docker ''mongo:6'' [27017])]"

definition composed :: compose_state where
  "composed = snd (gen_docker_compose ''/w'' demo_dockers no_compose)"

lemma demo_composed: "gen_docker_compose ''/w'' demo_dockers no_compose = (Inr (), composed)"
proof -
  have "fst (gen_docker_compose ''/w'' demo_dockers no_compose) = Inr ()" by code_simp
  then show ?thesis by (simp add: composed_def prod_eq_iff)
qed

theorem compose_services_of_flow_witness:
  "\<exists>s. dict_get (cm_services composed) ''mongo'' = Some s \<and> ol_image s = ''mongo:6'' \<and> ol_ports s = Some [27017] \<and>
     ol_restart s = ''always'' \<and> ol_environment s = None"
  using compose_services_of_flow [OF demo_composed]
  by (auto simp: demo_dockers_def demo_docker_def service_of_def new_service_def kind_of_def no_defaults_def startswith_def)

theorem compose_addresses_witness:
  "dict_get (cm_env composed) ''MODEL_HOST'' = Some (PStr ''model'') \<and> dict_get (cm_env composed) ''MODEL_PORT'' = Some (PInt 50000)"
proof -
  let ?s = "new_service ''model'' ''container_model_service'' (Some (''m:1'', [50000], [''/w/volumes/output/model:/data/models'']))"
  have d: "distinct (map (\<lambda>(n, _). map to_upper n) (cm_services composed))" by code_simp
  have m: "(''model'', ?s) \<in> set (cm_services composed)" by code_simp
  have p: "ol_ports ?s = Some [50000]" by (simp add: new_service_def Let_def)
  have k: "host_key ''model'' = ''MODEL_HOST''" "port_key ''model'' = ''MODEL_PORT''" by code_simp+
  have "''model'' \<noteq> ''recommend''" by simp
  from compose_addresses [OF demo_composed d m this p] show ?thesis unfolding k by (intro conjI; elim conjE)
qed

end
