(* ===== verification/Online.thy ===== *)
theory Online
  imports Generator Compose
begin

text \<open>
  The executors of the online flow: \<open>metasporeflow/online/online_executor.py\<close> on local containers and
  \<open>online_k8s_executor.py\<close> on Kubernetes, with \<open>check_service.py\<close> and \<open>cloud_consul.py\<close>, which they call.
  The answers of the containers, of consul and of the service are arguments, and what the executors do outside is a
  list of events. Texts that are only printed are left out.
\<close>

section \<open>Asking the service\<close>

text \<open>A request fails, or it has a status code and a body, which may not be JSON.\<close>

datatype reply = NoReply | Reply int "pyval option"

definition healthRecommendService :: "reply \<Rightarrow> pyval res" where
  "healthRecommendService r =
     (case r of
        NoReply \<Rightarrow> Inr (PStr ''WAIT'')
      | Reply code body \<Rightarrow>
          if code \<noteq> 200 then Inr (PStr ''WAIT'')
          else (case body of
            None \<Rightarrow> Inr (PStr ''DOWN'')
          | Some PNone \<Rightarrow> Inr (PStr ''DOWN'')
          | Some (PDict d) \<Rightarrow>
              (let status = (case dict_get d ''status'' of None \<Rightarrow> PStr ''DOWN'' | Some v \<Rightarrow> v)
               in Inr (if status = PStr ''OUT_OF_SERVICE'' then PStr ''WAIT'' else status))
          | Some _ \<Rightarrow> Inl AttributeError))"

fun py_len :: "pyval \<Rightarrow> nat res" where
  "py_len (PList xs) = Inr (length xs)"
| "py_len (PTuple xs) = Inr (length xs)"
| "py_len (PDict d) = Inr (length d)"
| "py_len (PStr s) = Inr (length s)"
| "py_len _ = Inl TypeError"

definition tryRecommendService :: "reply \<Rightarrow> pyval res" where
  "tryRecommendService r =
     (case r of
        NoReply \<Rightarrow> Inr (PStr ''DOWN'')
      | Reply code body \<Rightarrow>
          if code \<noteq> 200 then Inr (PStr ''DOWN'')
          else (case body of
            None \<Rightarrow> Inr (PStr ''DOWN'')
          | Some PNone \<Rightarrow> Inr (PStr ''DOWN'')
          | Some (PDict d) \<Rightarrow>
              (if dict_get d ''code'' \<noteq> Some (PStr ''SUCCESS'') then Inr (PStr ''DOWN'')
               else bindR (py_len (case dict_get d ''data'' of None \<Rightarrow> PList [] | Some v \<Rightarrow> v)) (\<lambda>n.
                 Inr (PStr (if n = 0 then ''WAIT'' else ''UP''))))
          | Some _ \<Rightarrow> Inl TypeError))"

section \<open>Loops that try again\<close>

text \<open>
  A try succeeds, or it does not, with an exception that is kept or without one. Number \<open>i\<close> of the tries, with \<open>num\<close>
  tries left; the result is the number of the one that succeeds. When none is left the last exception is printed
  before the \<open>RuntimeError\<close>: \<open>traceback.print_exception\<close> with the exception as its only argument, which is a
  \<open>TypeError\<close> before Python 3.10. \<open>one\<close> says that one argument is enough.
\<close>

datatype attempt = Accepted | Declined | Raised

primrec try_again :: "bool \<Rightarrow> (nat \<Rightarrow> attempt) \<Rightarrow> bool \<Rightarrow> nat \<Rightarrow> nat \<Rightarrow> nat res" where
  "try_again one tries raised i 0 = Inl (if raised \<and> \<not> one then TypeError else RuntimeError)"
| "try_again one tries raised i (Suc num) =
     (case tries i of
        Accepted \<Rightarrow> Inr i
      | Declined \<Rightarrow> try_again one tries raised (Suc i) num
      | Raised \<Rightarrow> try_again one tries True (Suc i) num)"

definition max_wait :: nat where "max_wait = 300"

text \<open>An answer that is not JSON is an exception, too; the JSON \<open>null\<close> and any other status code are not.\<close>

definition refresh_attempt :: "reply \<Rightarrow> attempt" where
  "refresh_attempt r =
     (case r of
        NoReply \<Rightarrow> Raised
      | Reply code body \<Rightarrow>
          if code \<noteq> 200 then Declined
          else (case body of None \<Rightarrow> Raised | Some v \<Rightarrow> if v = PNone then Declined else Accepted))"

definition notifyRecommendService :: "bool \<Rightarrow> (nat \<Rightarrow> reply) \<Rightarrow> nat res" where
  "notifyRecommendService one replies = try_again one (\<lambda>i. refresh_attempt (replies i)) False 0 max_wait"

text \<open>\<open>setConfig\<close> keeps the exception of a failed call and answers \<open>False\<close>, as consul may do.\<close>

definition putServiceConfig :: "bool \<Rightarrow> (nat \<Rightarrow> attempt) \<Rightarrow> nat res" where
  "putServiceConfig one put = try_again one put False 0 max_wait"

text \<open>The wait for a container has no end of its own: \<open>None\<close> is a wait that does not return.\<close>

partial_function (option) wait_active :: "(nat \<Rightarrow> bool) \<Rightarrow> nat \<Rightarrow> nat option" where
  "wait_active active n = (if active n then Some n else wait_active active (Suc n))"

declare wait_active.simps [code]

lemma try_again_ok:
  "try_again one t raised i n = Inr j \<longleftrightarrow> i \<le> j \<and> j < i + n \<and> t j = Accepted \<and> (\<forall>k. i \<le> k \<and> k < j \<longrightarrow> t k \<noteq> Accepted)"
proof (induction n arbitrary: i raised)
  case (Suc n)
  show ?case
  proof (cases "t i = Accepted")
    case True
    then show ?thesis by (auto simp: le_less)
  next
    case False
    have "(\<forall>k. Suc i \<le> k \<and> k < j \<longrightarrow> t k \<noteq> Accepted) \<longleftrightarrow> (\<forall>k. i \<le> k \<and> k < j \<longrightarrow> t k \<noteq> Accepted)"
      using False by (metis Suc_leD Suc_leI le_neq_implies_less)
    then show ?thesis using False Suc.IH [of _ "Suc i"] by (auto simp: le_less Suc_le_eq split: attempt.splits)
  qed
qed simp

text \<open>The error when no try succeeds.\<close>

definition exhausted :: "bool \<Rightarrow> bool \<Rightarrow> exn" where
  "exhausted one raised = (if raised \<and> \<not> one then TypeError else RuntimeError)"

lemma try_again_exhausted:
  "list_all (\<lambda>k. t k \<noteq> Accepted) [i..<i + n] \<Longrightarrow>
     try_again one t raised i n = Inl (exhausted one (raised \<or> list_ex (\<lambda>k. t k = Raised) [i..<i + n]))"
proof (induction n arbitrary: i raised)
  case (Suc n)
  have u: "[i..<i + Suc n] = i # [Suc i..<Suc i + n]" by (simp add: upt_conv_Cons)
  have "t i \<noteq> Accepted" "list_all (\<lambda>k. t k \<noteq> Accepted) [Suc i..<Suc i + n]"
    using Suc.prems unfolding u by simp_all
  then show ?case unfolding u using Suc.IH [of "Suc i"] by (cases "t i") simp_all
qed (simp add: exhausted_def)

lemma try_again_300:
  "(try_again one t False 0 300 = Inr i) = (i < 300 \<and> t i = Accepted \<and> list_all (\<lambda>k. t k \<noteq> Accepted) [0..<i])"
  "(try_again one t False 0 300 = Inl e) =
     (list_all (\<lambda>k. t k \<noteq> Accepted) [0..<300] \<and> e = exhausted one (list_ex (\<lambda>k. t k = Raised) [0..<300]))"
proof -
  show "(try_again one t False 0 300 = Inr i) = (i < 300 \<and> t i = Accepted \<and> list_all (\<lambda>k. t k \<noteq> Accepted) [0..<i])"
    by (auto simp: try_again_ok list_all_iff)
  show "(try_again one t False 0 300 = Inl e) =
     (list_all (\<lambda>k. t k \<noteq> Accepted) [0..<300] \<and> e = exhausted one (list_ex (\<lambda>k. t k = Raised) [0..<300]))"
  proof (cases "list_all (\<lambda>k. t k \<noteq> Accepted) [0..<300]")
    case True
    then show ?thesis using try_again_exhausted [of t 0 300 one False] by auto
  next
    case False
    then obtain k where k: "k < 300" "t k = Accepted" by (auto simp: list_all_iff)
    define j where "j = (LEAST j. t j = Accepted)"
    have "t j = Accepted" "j \<le> k" "\<forall>l < j. t l \<noteq> Accepted"
      unfolding j_def using LeastI [of "\<lambda>j. t j = Accepted", OF k(2)] Least_le [of "\<lambda>j. t j = Accepted", OF k(2)]
        not_less_Least by auto
    then have "try_again one t False 0 300 = Inr j" using k by (auto simp: try_again_ok)
    then show ?thesis using False by auto
  qed
qed

lemma wait_active_later: "active m \<Longrightarrow> n \<le> m \<Longrightarrow> \<exists>j. wait_active active n = Some j"
proof (induction "m - n" arbitrary: n)
  case 0
  then show ?case by (simp add: wait_active.simps [of active n])
next
  case (Suc d)
  then have "\<exists>j. wait_active active (Suc n) = Some j" by simp
  then show ?case by (simp add: wait_active.simps [of active n])
qed

lemma wait_active_Some: "wait_active active n = Some j \<Longrightarrow> n \<le> j \<and> active j"
proof (rule wait_active.raw_induct [where P = "\<lambda>active n j. n \<le> j \<and> active j"], goal_cases)
  case (1 w act m y)
  then show ?case by (cases "act m") (auto dest!: 1(2) dest: Suc_leD)
qed

text \<open>The wait returns exactly when the container becomes active, however late that is.\<close>

lemma wait_active_returns: "(\<exists>j. wait_active active n = Some j) \<longleftrightarrow> (\<exists>m. n \<le> m \<and> active m)"
  using wait_active_later wait_active_Some by blast

text \<open>
  C33: the configuration is put into consul exactly when one of the first 300 tries succeeds, and then by the first
  that does; the service is notified exactly when one of 300 requests is answered with a value. Otherwise both fail
  after 300 tries: with a \<open>RuntimeError\<close>, but with a \<open>TypeError\<close> instead when one of the tries has raised an exception
  and the Python is older than 3.10, because the exception cannot be printed.
\<close>

theorem put_config_tries:
  "(putServiceConfig one put = Inr i) = (i < 300 \<and> put i = Accepted \<and> list_all (\<lambda>k. put k \<noteq> Accepted) [0..<i]) \<and>
   (putServiceConfig one put = Inl e) = (list_all (\<lambda>k. put k \<noteq> Accepted) [0..<300] \<and>
      e = (if list_ex (\<lambda>k. put k = Raised) [0..<300] \<and> \<not> one then TypeError else RuntimeError)) \<and>
   (notifyRecommendService one replies = Inr i) = (i < 300 \<and> refresh_attempt (replies i) = Accepted \<and>
      list_all (\<lambda>k. refresh_attempt (replies k) \<noteq> Accepted) [0..<i]) \<and>
   (notifyRecommendService one replies = Inl e) = (list_all (\<lambda>k. refresh_attempt (replies k) \<noteq> Accepted) [0..<300] \<and>
      e = (if list_ex (\<lambda>k. refresh_attempt (replies k) = Raised) [0..<300] \<and> \<not> one then TypeError else RuntimeError))"
  unfolding putServiceConfig_def notifyRecommendService_def max_wait_def exhausted_def [symmetric]
  by (intro conjI) (rule try_again_300)+

text \<open>With Python 3.8 an unreachable consul ends in a \<open>TypeError\<close>.\<close>

lemma unreachable_consul: "putServiceConfig False (\<lambda>_. Raised) = Inl TypeError"
  using try_again_exhausted [of "\<lambda>_. Raised" 0 300 False False]
  by (auto simp: putServiceConfig_def max_wait_def exhausted_def list_all_iff list_ex_iff intro: exI [of _ 0])

section \<open>The executor on local containers\<close>

record answers =
  an_cwd :: string
  an_yaml :: "pyval \<Rightarrow> string"
  an_str :: "pyval \<Rightarrow> string"
  an_run :: "string \<Rightarrow> bool"
  an_active :: "string \<Rightarrow> nat \<Rightarrow> bool"
  an_print_one :: bool
  an_put :: "nat \<Rightarrow> attempt"
  an_refresh :: "nat \<Rightarrow> reply"
  an_health :: reply
  an_try :: "string \<Rightarrow> reply"

datatype online_event = WroteFile string | DockerCompose string | PutConfig string | Refreshed
  | Kubectl string string

text \<open>The lists that the classes share, and what has been done.\<close>

record process =
  pr_compose :: compose_state
  pr_shared :: shared
  pr_events :: "online_event list"

record local_flow =
  lf_dockers :: "docker dict"
  lf_online :: online_flow

definition in_compose :: "(compose_state \<Rightarrow> 'a res \<times> compose_state) \<Rightarrow> process \<Rightarrow> 'a res \<times> process" where
  "in_compose m p = (case m (pr_compose p) of (r, cm) \<Rightarrow> (r, p\<lparr>pr_compose := cm\<rparr>))"

definition in_shared :: "'a gen \<Rightarrow> process \<Rightarrow> 'a res \<times> process" where
  "in_shared m p = (case m (pr_shared p) of (r, sh) \<Rightarrow> (r, p\<lparr>pr_shared := sh\<rparr>))"

definition event :: "online_event \<Rightarrow> process \<Rightarrow> process" where
  "event e p = p\<lparr>pr_events := pr_events p @ [e]\<rparr>"

definition service_named :: "process \<Rightarrow> string \<Rightarrow> online_service res" where
  "service_named p n = (case dict_get (cm_services (pr_compose p)) n of None \<Rightarrow> Inl KeyError | Some s \<Rightarrow> Inr s)"

definition first_port :: "online_service \<Rightarrow> int res" where
  "first_port s = (case ol_ports s of Some (n # _) \<Rightarrow> Inr n | _ \<Rightarrow> Inl IndexError)"

definition gen_compose :: "answers \<Rightarrow> local_flow \<Rightarrow> process \<Rightarrow> unit res \<times> process" where
  "gen_compose a f = in_compose (gen_docker_compose (an_cwd a) (lf_dockers f))"

definition write_compose :: "answers \<Rightarrow> process \<Rightarrow> process" where
  "write_compose a p = event (WroteFile (an_yaml a (PDict (compose_dict (pr_compose p))))) p"

text \<open>The names of the containers of consul and of the service; their ports are read, too.\<close>

definition two_containers :: "process \<Rightarrow> (string \<times> string) res" where
  "two_containers p =
     bindR (service_named p ''consul'') (\<lambda>c. bindR (first_port c) (\<lambda>_.
     bindR (service_named p ''recommend'') (\<lambda>r. bindR (first_port r) (\<lambda>_.
     Inr (ol_container c, ol_container r)))))"

definition put_config :: "answers \<Rightarrow> local_flow \<Rightarrow> process \<Rightarrow> unit res \<times> process" where
  "put_config a f =
     bindG (in_shared (gen_server_config (an_yaml a) (an_str a) (lf_online f))) (\<lambda>text.
     bindG (liftG (putServiceConfig (an_print_one a) (an_put a))) (\<lambda>_ p. (Inr (), event (PutConfig text) p)))"

definition execute_up :: "answers \<Rightarrow> local_flow \<Rightarrow> process \<Rightarrow> (unit res \<times> process) option" where
  "execute_up a f p =
     (case gen_compose a f p of
        (Inl e, p) \<Rightarrow> Some (Inl e, p)
      | (Inr _, p) \<Rightarrow>
          (let p = write_compose a p
           in case two_containers p of
                Inl e \<Rightarrow> Some (Inl e, p)
              | Inr (consul, recommend) \<Rightarrow>
                  (let p = event (DockerCompose ''up -d'') p
                   in if \<not> an_run a ''up -d'' then Some (Inr (), p)
                      else case wait_active (an_active a consul) 0 of
                          None \<Rightarrow> None
                        | Some n \<Rightarrow>
                            (case put_config a f p of
                               (Inl e, p) \<Rightarrow> Some (Inl e, p)
                             | (Inr _, p) \<Rightarrow>
                                 (case wait_active (an_active a recommend) n of
                                    None \<Rightarrow> None
                                  | Some _ \<Rightarrow>
                                      Some (bindG (liftG (notifyRecommendService (an_print_one a) (an_refresh a))) (\<lambda>_ p.
                                        (Inr (), event Refreshed p)) p))))))"

definition execute_down :: "answers \<Rightarrow> local_flow \<Rightarrow> process \<Rightarrow> unit res \<times> process" where
  "execute_down a f =
     bindG (gen_compose a f) (\<lambda>_ p. (Inr (), event (DockerCompose ''down'') (write_compose a p)))"

text \<open>The status of a container; one that is not up leaves only the status \<open>WAIT\<close>.\<close>

definition report :: "answers \<Rightarrow> string \<Rightarrow> online_service \<Rightarrow> pyval dict \<Rightarrow> pyval dict res" where
  "report a key s info =
     (if \<not> an_active a (ol_container s) 0 then Inr (dict_set ''status'' (PStr ''WAIT'') info)
      else bindR (first_port s) (\<lambda>port.
        Inr (dict_set (key @ ''_port'') (PInt port) (dict_set (key @ ''_image'') (PStr (ol_image s))
          (dict_set key (PStr (key @ '' docker container:'' @ ol_container s)) info)))))"

definition container_status :: "answers \<Rightarrow> process \<Rightarrow> pyval dict res" where
  "container_status a p =
     bindR (service_named p ''consul'') (\<lambda>c. bindR (service_named p ''recommend'') (\<lambda>r.
     bindR (service_named p ''model'') (\<lambda>m. bindR (first_port r) (\<lambda>_.
     bindR (report a ''consul'' c [(''status'', PStr ''UP'')]) (\<lambda>info.
     bindR (report a ''recommend'' r info) (\<lambda>info.
     bindR (report a ''model'' m info) (\<lambda>info.
     Inr (if dict_get info ''consul'' = None \<and> dict_get info ''recommend'' = None \<and> dict_get info ''model'' = None
          then dict_set ''status'' (PStr ''DOWN'') info else info))))))))"

text \<open>The scene that is tried is the first in the list of scenes, which all configurations share.\<close>

definition service_status :: "answers \<Rightarrow> local_flow \<Rightarrow> pyval dict \<Rightarrow> process \<Rightarrow> pyval dict res \<times> process" where
  "service_status a f info =
     bindG (in_shared (gen_service_config (an_str a) (lf_online f))) (\<lambda>_ p.
       case sh_scenes (pr_shared p) of
         [] \<Rightarrow> (Inr (dict_set ''status'' (PStr ''DOWN'') info), p)
       | n # _ \<Rightarrow> (bindR (tryRecommendService (an_try a (sn_name n))) (\<lambda>v. Inr (dict_set ''status'' v info)), p))"

definition execute_status :: "answers \<Rightarrow> local_flow \<Rightarrow> process \<Rightarrow> pyval dict res \<times> process" where
  "execute_status a f =
     bindG (gen_compose a f) (\<lambda>_ p.
     bindG (liftG (container_status a p)) (\<lambda>info.
       if dict_get info ''status'' \<noteq> Some (PStr ''UP'') then liftG (Inr info)
       else bindG (liftG (healthRecommendService (an_health a))) (\<lambda>v.
         if v \<noteq> PStr ''UP'' then liftG (Inr (dict_set ''status'' v info))
         else service_status a f (dict_set ''status'' v info))) p)"

datatype update_result = Updated | NotUpdated string

definition execute_update :: "answers \<Rightarrow> local_flow \<Rightarrow> process \<Rightarrow> update_result res \<times> process" where
  "execute_update a f =
     bindG (gen_compose a f) (\<lambda>_ p.
       case service_named p ''consul'' of
         Inl e \<Rightarrow> (Inl e, p)
       | Inr c \<Rightarrow>
           if \<not> an_active a (ol_container c) 0 then (Inr (NotUpdated ''consul docker is not up!''), p)
           else (case in_shared (gen_server_config (an_yaml a) (an_str a) (lf_online f)) p of
               (Inl _, p) \<Rightarrow> (Inr (NotUpdated ''recommend service config generate fail''), p)
             | (Inr text, p) \<Rightarrow>
                 (case first_port c of
                    Inl e \<Rightarrow> (Inl e, p)
                  | Inr _ \<Rightarrow>
                      (case putServiceConfig (an_print_one a) (an_put a) of
                         Inl _ \<Rightarrow> (Inr (NotUpdated ''put service config to consul fail''), p)
                       | Inr _ \<Rightarrow> (Inr Updated, event (PutConfig text) p)))))"

text \<open>Without a new flow a reload takes the containers down.\<close>

definition execute_reload :: "answers \<Rightarrow> local_flow \<Rightarrow> local_flow option \<Rightarrow> process \<Rightarrow> (unit res \<times> process) option" where
  "execute_reload a f new p =
     (case new of
        None \<Rightarrow> Some (execute_down a f p)
      | Some f' \<Rightarrow>
          (case execute_down a f' p of
             (Inl e, p) \<Rightarrow> Some (Inl e, p)
           | (Inr _, p) \<Rightarrow> execute_up a f' p))"

text \<open>\<open>LocalFlowExecutor.execute_reload\<close> gives no flow.\<close>

definition local_flow_reload :: "answers \<Rightarrow> local_flow \<Rightarrow> process \<Rightarrow> (unit res \<times> process) option" where
  "local_flow_reload a f = execute_reload a f None"

section \<open>What the executor promises\<close>

lemma bindG_Inr_iff: "bindG m f s = (Inr y, s') \<longleftrightarrow> (\<exists>x t. m s = (Inr x, t) \<and> f x t = (Inr y, s'))"
  by (auto simp: bindG_def split: prod.splits sum.splits)

lemma liftG_Inr_iff: "liftG r s = (Inr x, t) \<longleftrightarrow> r = Inr x \<and> t = s"
  by (auto simp: liftG_def)

lemma events_in_compose [simp]: "pr_events (snd (in_compose m p)) = pr_events p"
  "in_compose m p = (r, p') \<Longrightarrow> pr_events p' = pr_events p"
  by (auto simp: in_compose_def split: prod.splits)

lemma events_in_shared [simp]: "in_shared m p = (r, p') \<Longrightarrow> pr_events p' = pr_events p"
  by (auto simp: in_shared_def split: prod.splits)



text \<open>Nothing bounds the wait for consul: if it never becomes active the call does not return.\<close>

lemma up_may_hang:
  assumes "gen_compose a f p = (Inr (), p1)" and "two_containers (write_compose a p1) = Inr (consul, recommend)"
    and "an_run a ''up -d''" and "\<not> (\<exists>n. an_active a consul n)"
  shows "execute_up a f p = None"
proof -
  have "wait_active (an_active a consul) 0 = None"
    using wait_active_Some [of "an_active a consul" 0] assms(4) by (cases "wait_active (an_active a consul) 0") auto
  then show ?thesis using assms by (simp add: execute_up_def Let_def)
qed

lemma report_status:
  assumes "report a key s info = Inr info'" and "key \<in> {''consul'', ''recommend'', ''model''}"
  shows "dict_get info' ''status'' =
      (if an_active a (ol_container s) 0 then dict_get info ''status'' else Some (PStr ''WAIT''))"
  using assms
  by (auto simp: report_def bindR_Inr_iff pydict.get_put split: if_splits)

lemma container_status_up:
  assumes "container_status a p = Inr info" and "service_named p ''consul'' = Inr c"
    and "service_named p ''recommend'' = Inr r" and "service_named p ''model'' = Inr m"
  shows "dict_get info ''status'' = Some (PStr ''UP'') \<longleftrightarrow>
     an_active a (ol_container c) 0 \<and> an_active a (ol_container r) 0 \<and> an_active a (ol_container m) 0"
proof -
  obtain i1 i2 i3 where i: "report a ''consul'' c [(''status'', PStr ''UP'')] = Inr i1" "report a ''recommend'' r i1 = Inr i2"
    "report a ''model'' m i2 = Inr i3"
    "info = (if dict_get i3 ''consul'' = None \<and> dict_get i3 ''recommend'' = None \<and> dict_get i3 ''model'' = None
          then dict_set ''status'' (PStr ''DOWN'') i3 else i3)"
    using assms by (auto simp: container_status_def bindR_Inr_iff)
  have s: "dict_get i3 ''status'' = (if an_active a (ol_container m) 0 then
      (if an_active a (ol_container r) 0 then (if an_active a (ol_container c) 0 then Some (PStr ''UP'') else Some (PStr ''WAIT''))
       else Some (PStr ''WAIT'')) else Some (PStr ''WAIT''))"
    using report_status [OF i(1)] report_status [OF i(2)] report_status [OF i(3)] by (simp add: dict_get_def)
  have "dict_get i3 ''model'' \<noteq> None" if "an_active a (ol_container m) 0"
    using i(3) that by (auto simp: report_def bindR_Inr_iff pydict.get_put)
  then show ?thesis using s i(4) by (auto simp: pydict.get_put)
qed

text \<open>
  C14: the status of a local flow is \<open>UP\<close> exactly when the containers of consul, of the service and of the model are
  active, the service says that it is healthy, and trying the first scene of the configuration gives a result.
\<close>

theorem status_up:
  assumes "execute_status a f p = (Inr info, p')"
  shows "\<exists>c r m. service_named p' ''consul'' = Inr c \<and> service_named p' ''recommend'' = Inr r \<and> service_named p' ''model'' = Inr m \<and>
     (dict_get info ''status'' = Some (PStr ''UP'')) =
       (an_active a (ol_container c) 0 \<and> an_active a (ol_container r) 0 \<and> an_active a (ol_container m) 0 \<and>
        healthRecommendService (an_health a) = Inr (PStr ''UP'') \<and>
        (case sh_scenes (pr_shared p') of
           [] \<Rightarrow> False
         | n # _ \<Rightarrow> tryRecommendService (an_try a (sn_name n)) = Inr (PStr ''UP'')))"
proof -
  obtain p1 info1 where g: "gen_compose a f p = (Inr (), p1)" and cs: "container_status a p1 = Inr info1"
    and rest: "(if dict_get info1 ''status'' \<noteq> Some (PStr ''UP'') then liftG (Inr info1)
       else bindG (liftG (healthRecommendService (an_health a))) (\<lambda>v.
         if v \<noteq> PStr ''UP'' then liftG (Inr (dict_set ''status'' v info1))
         else service_status a f (dict_set ''status'' v info1))) p1 = (Inr info, p')"
    using assms unfolding execute_status_def bindG_Inr_iff [where m = "gen_compose a f"]
      bindG_Inr_iff [where m = "liftG (container_status a x)" for x] liftG_Inr_iff by auto
  obtain c r m where n: "service_named p1 ''consul'' = Inr c" "service_named p1 ''recommend'' = Inr r"
    "service_named p1 ''model'' = Inr m"
    using cs by (auto simp: container_status_def bindR_Inr_iff)
  have compose: "pr_compose p' = pr_compose p1"
    using rest by (auto simp: liftG_def bindG_def service_status_def in_shared_def bindR_def
        split: if_splits sum.splits prod.splits list.splits)
  then have n': "service_named p' s = service_named p1 s" for s by (simp add: service_named_def)
  note up = container_status_up [OF cs n]
  have "(dict_get info ''status'' = Some (PStr ''UP'')) \<longleftrightarrow>
     dict_get info1 ''status'' = Some (PStr ''UP'') \<and> healthRecommendService (an_health a) = Inr (PStr ''UP'') \<and>
        (case sh_scenes (pr_shared p') of
           [] \<Rightarrow> False
         | n # _ \<Rightarrow> tryRecommendService (an_try a (sn_name n)) = Inr (PStr ''UP''))"
    using rest
    by (auto simp: liftG_def bindG_def service_status_def bindR_def pydict.get_put
        split: if_splits sum.splits prod.splits list.splits)
  then show ?thesis unfolding up n' using n by blast
qed

subsection \<open>An example\<close>

definition all_well :: answers where
  "all_well = \<lparr>an_cwd = ''/w'', an_yaml = (\<lambda>_. ''yaml''), an_str = demo_str, an_run = (\<lambda>_. True), an_active = (\<lambda>_ _. True),
     an_print_one = True, an_put = (\<lambda>i. if i = 2 then Accepted else if i = 1 then Declined else Raised), an_refresh = (\<lambda>i. if i < 5 then NoReply else Reply 200 (Some (PList []))),
     an_health = Reply 200 (Some (PDict [(''status'', PStr ''UP'')])),
     an_try = (\<lambda>_. Reply 200 (Some (PDict [(''code'', PStr ''SUCCESS''), (''data'', PList [PInt 1])])))\<rparr>"

definition demo_local :: local_flow where
  "demo_local = \<lparr>lf_dockers = demo_dockers, lf_online = demo_flow\<rparr>"

definition new_process :: process where
  "new_process = \<lparr>pr_compose = no_compose, pr_shared = no_shared, pr_events = []\<rparr>"

definition composed_process :: process where
  "composed_process = \<lparr>pr_compose = composed, pr_shared = no_shared, pr_events = []\<rparr>"

lemma demo_compose: "gen_compose all_well demo_local new_process = (Inr (), composed_process)"
  using demo_composed
  by (simp add: gen_compose_def in_compose_def all_well_def demo_local_def new_process_def composed_process_def)

lemma demo_sel: "lf_online demo_local = demo_flow" "an_str all_well = demo_str" "pr_shared composed_process = no_shared"
  by (simp_all add: demo_local_def all_well_def composed_process_def)

lemma demo_service: "service_named composed_process n =
    (case dict_get (cm_services composed) n of None \<Rightarrow> Inl KeyError | Some s \<Rightarrow> Inr s)"
  by (simp add: service_named_def composed_process_def)

lemma demo_services:
  "map (\<lambda>n. case dict_get (cm_services composed) n of None \<Rightarrow> ([], None) | Some s \<Rightarrow> (ol_container s, ol_ports s))
     [''consul'', ''recommend'', ''model''] =
   [(''contain_consul_service'', Some [8500, 8600, 8300]), (''container_recommend_service'', Some [13013]),
    (''container_model_service'', Some [50000])]"
  by code_simp

lemma demo_three:
  obtains c r m where "service_named composed_process ''consul'' = Inr c" "service_named composed_process ''recommend'' = Inr r"
    "service_named composed_process ''model'' = Inr m" "first_port c = Inr 8500" "first_port r = Inr 13013" "first_port m = Inr 50000"
  using demo_services by (auto simp: demo_service first_port_def split: option.splits)

lemma demo_scene:
  assumes "gen_service_config demo_str demo_flow sh = (Inr srcs, sh')"
  shows "sh_scenes sh' \<noteq> []"
proof -
  have last_step: "wp (process_scenes k rd ls (of_scenes demo_flow)) (\<lambda>_ s. sh_scenes s \<noteq> []) s" for k rd ls s
    by (simp add: process_scenes_def demo_flow_def wp_add wp_lift split: sum.split)
  have skip: "(\<And>x s. wp (f x) Q s) \<Longrightarrow> wp (bindG m f) Q s" for m :: "'x gen" and f :: "'x \<Rightarrow> 'y gen" and Q s
    by (rule wp_bindI, rule wp_mono [OF wp_True])
  have "wp (gen_service_config demo_str demo_flow) (\<lambda>_ s. sh_scenes s \<noteq> []) sh"
    unfolding gen_service_config_def case_prod_unfold
    by (rule skip,
      rule skip,
      rule skip,
      rule skip,
      rule skip,
      rule skip,
      rule skip,
      rule skip,
      rule skip, rule wp_bindI, rule wp_mono [OF last_step], simp)
  from wpD [OF this assms] show ?thesis .
qed

theorem status_up_witness:
  "\<exists>info p'. execute_status all_well demo_local new_process = (Inr info, p') \<and>
     dict_get info ''status'' = Some (PStr ''UP'')"
proof -
  obtain srcs sh where g: "gen_service_config demo_str demo_flow no_shared = (Inr srcs, sh)"
    by (rule demo_generation)
  obtain n ns where n: "sh_scenes sh = n # ns" using demo_scene [OF g] by (cases "sh_scenes sh") auto
  obtain c r m where s: "service_named composed_process ''consul'' = Inr c" "service_named composed_process ''recommend'' = Inr r"
    "service_named composed_process ''model'' = Inr m" "first_port c = Inr 8500" "first_port r = Inr 13013" "first_port m = Inr 50000"
    by (rule demo_three)
  have cs: "\<exists>info. container_status all_well composed_process = Inr info \<and> dict_get info ''status'' = Some (PStr ''UP'')"
    by (simp add: container_status_def s report_def all_well_def pydict.get_put) (simp add: dict_get_def)
  have h: "healthRecommendService (an_health all_well) = Inr (PStr ''UP'')"
    by (simp add: all_well_def healthRecommendService_def dict_get_def)
  have t: "tryRecommendService (an_try all_well x) = Inr (PStr ''UP'')" for x
    by (simp add: all_well_def tryRecommendService_def dict_get_def)
  obtain info p' where e: "execute_status all_well demo_local new_process = (Inr info, p')" and sh: "sh_scenes (pr_shared p') = n # ns"
    using cs g n t
    by (auto simp: execute_status_def bindG_def demo_compose liftG_def h service_status_def in_shared_def demo_sel
        pydict.get_put)
  show ?thesis
    using status_up [OF e] e sh h t by (auto simp: all_well_def)
qed




text \<open>A model container that is not called \<open>model\<close> is accepted by the compose file, but has no status.\<close>

lemma status_needs_model:
  assumes "gen_compose a f p = (Inr (), p1)" and "dict_get (cm_services (pr_compose p1)) ''model'' = None"
  shows "\<exists>e. fst (execute_status a f p) = Inl e"
proof -
  have "\<exists>e. container_status a p1 = Inl e"
    using assms(2) by (auto simp: container_status_def service_named_def bindR_def split: sum.split option.split)
  then show ?thesis using assms(1) by (auto simp: execute_status_def bindG_def liftG_def)
qed

text \<open>
  an update of a running local flow never raises once its compose file is made and consul has a port: it puts the
  new configuration into consul, or says why not, and then leaves what is there.
\<close>

theorem update_total:
  assumes "gen_compose a f p = (Inr (), p1)" and "service_named p1 ''consul'' = Inr c" and "first_port c = Inr n"
  shows "\<exists>r p'. execute_update a f p = (Inr r, p') \<and>
     (r = Updated \<longrightarrow> an_active a (ol_container c) 0 \<and> (\<exists>cfg. pr_events p' = pr_events p @ [PutConfig cfg])) \<and>
     (r \<noteq> Updated \<longrightarrow> pr_events p' = pr_events p)"
proof -
  have e: "pr_events p1 = pr_events p" using assms(1) by (simp add: gen_compose_def)
  have f: "\<And>m r p2. in_shared m p1 = (r, p2) \<Longrightarrow> pr_events p2 = pr_events p" using e by simp
  show ?thesis
    using assms(2,3) e
    by (cases "in_shared (gen_server_config (an_yaml a) (an_str a) (lf_online f)) p1")
      (auto simp: execute_update_def bindG_def assms(1) event_def dest: f split: sum.split)
qed

theorem update_total_witness:
  "\<exists>r p'. execute_update all_well demo_local new_process = (Inr r, p') \<and> (r \<noteq> Updated \<longrightarrow> pr_events p' = [])"
proof -
  obtain c r m where s: "service_named composed_process ''consul'' = Inr c" "service_named composed_process ''recommend'' = Inr r"
    "service_named composed_process ''model'' = Inr m" "first_port c = Inr 8500" "first_port r = Inr 13013" "first_port m = Inr 50000"
    by (rule demo_three)
  show ?thesis using update_total [OF demo_compose s(1,4)] by (auto simp: new_process_def)
qed

section \<open>The executor on Kubernetes\<close>

definition consul_default :: "pyval dict" where
  "consul_default = [(''port'', PInt 8500), (''name'', PStr ''consul-k8s-service''), (''image'', PStr ''consul:1.13.1''),
     (''domain'', PStr ''huawei.dmetasoul.com''), (''namespace'', PStr ''default'')]"

definition recommend_default :: "pyval dict" where
  "recommend_default = [(''port'', PInt 13013), (''name'', PStr ''recommend-k8s-service''),
     (''image'', PStr ''swr.cn-southwest-2.myhuaweicloud.com/dmetasoul-repo/recommend-service:1.0.0''),
     (''consul_port'', PInt 8500), (''consul_service'', PStr ''consul-k8s-service''), (''model_port'', PInt 50000),
     (''model_service'', PStr ''model-k8s-service''), (''mongo_port'', PInt 27017), (''mongo_service'', PStr ''127.0.0.1''),
     (''domain'', PStr ''huawei.dmetasoul.com''), (''namespace'', PStr ''default'')]"

definition model_default :: "pyval dict" where
  "model_default = [(''name'', PStr ''model-k8s-service''), (''port'', PInt 50000),
     (''image'', PStr ''swr.cn-southwest-2.myhuaweicloud.com/dmetasoul-repo/metaspore-serving-release:cpu-v1.0.1''),
     (''consul_port'', PInt 8500), (''consul_service'', PStr ''consul-k8s-service''),
     (''watch_image'', PStr ''swr.cn-southwest-2.myhuaweicloud.com/dmetasoul-repo/consul-watch-load:v1.0.0''),
     (''watch_port'', PInt 8080), (''consul_key'', PStr ''dev/''),
     (''endpoint_url'', PStr ''http://obs.cn-southwest-2.myhuaweicloud.com''), (''aws_secret'', PStr ''aws-secret''),
     (''namespace'', PStr ''default'')]"

text \<open>A key of the default is taken when the data does not have it, or has \<open>None\<close>.\<close>

definition fill_default :: "pyval dict \<Rightarrow> pyval dict \<Rightarrow> pyval dict" where
  "fill_default def data =
     foldl (\<lambda>d (k, v). if not_none (dict_get d k) = None then dict_set k v d else d) data def"

text \<open>
  \<open>ka_text\<close> fills the template of a service; that a command on a file fails is only printed, so it is not asked here.
\<close>

record kube_answers =
  ka_text :: "string \<Rightarrow> pyval dict \<Rightarrow> string"
  ka_active :: "string \<Rightarrow> string \<Rightarrow> bool"

definition k8s_file :: "answers \<Rightarrow> string \<Rightarrow> string" where
  "k8s_file a service = an_cwd a @ ''/k8s-'' @ service @ ''.yaml''"

text \<open>The events of a service that is brought up or down; a service without a text does nothing.\<close>

definition k8s_service :: "answers \<Rightarrow> kube_answers \<Rightarrow> string \<Rightarrow> string \<Rightarrow> pyval dict \<Rightarrow> online_event list" where
  "k8s_service a ka service command data =
     (if ka_text ka service data = [] then []
      else if command = ''up'' then
        [WroteFile (k8s_file a service), Kubectl ''delete'' (k8s_file a service), Kubectl ''create'' (k8s_file a service)]
      else if command = ''down'' then [WroteFile (k8s_file a service), Kubectl ''delete'' (k8s_file a service)]
      else [])"

record k8s_flow =
  kf_dockers :: "(string \<times> docker_info) list"
  kf_online :: online_flow

definition events :: "online_event list \<Rightarrow> process \<Rightarrow> process" where
  "events es p = p\<lparr>pr_events := pr_events p @ es\<rparr>"

definition k8s_execute_up :: "answers \<Rightarrow> kube_answers \<Rightarrow> k8s_flow \<Rightarrow> process \<Rightarrow> unit res \<times> process" where
  "k8s_execute_up a ka f =
     bindG (liftG (gen_k8s_config (kf_dockers f))) (\<lambda>(consul, recommend, model) p.
       put_config a \<lparr>lf_dockers = [], lf_online = kf_online f\<rparr>
         (events (k8s_service a ka ''consul-server'' ''up'' (fill_default consul_default consul) @
            k8s_service a ka ''model-serving'' ''up'' (fill_default model_default model) @
            k8s_service a ka ''recommend-service'' ''up'' (fill_default recommend_default recommend)) p))"

definition k8s_execute_down :: "answers \<Rightarrow> kube_answers \<Rightarrow> k8s_flow \<Rightarrow> process \<Rightarrow> unit res \<times> process" where
  "k8s_execute_down a ka f =
     bindG (liftG (gen_k8s_config (kf_dockers f))) (\<lambda>(consul, recommend, model) p.
       (Inr (), events (k8s_service a ka ''recommend-service'' ''down'' (fill_default recommend_default recommend) @
            k8s_service a ka ''model-serving'' ''down'' (fill_default model_default model) @
            k8s_service a ka ''consul-server'' ''down'' (fill_default consul_default consul)) p))"

text \<open>The status asks in the namespace \<open>saas-demo\<close> when the data names none.\<close>

definition k8s_report :: "answers \<Rightarrow> kube_answers \<Rightarrow> string \<Rightarrow> pyval dict \<Rightarrow> pyval dict \<Rightarrow> pyval dict res" where
  "k8s_report a ka key data info =
     bindR (read_key ''name'' data) (\<lambda>name.
       let data = set_default ''namespace'' (PStr ''saas-demo'') data in
       bindR (read_key ''namespace'' data) (\<lambda>ns.
         if \<not> ka_active ka (an_str a name) (an_str a ns) then Inr (dict_set ''status'' (PStr ''WAIT'') info)
         else bindR (read_key ''image'' data) (\<lambda>img. bindR (read_key ''port'' data) (\<lambda>port.
           Inr (dict_set (key @ ''_namespace'') ns (dict_set (key @ ''_port'') port (dict_set (key @ ''_image'') img
             (dict_set key (PStr (key @ '' k8s service:'' @ an_str a name)) info))))))))"

definition k8s_container_status :: "answers \<Rightarrow> kube_answers \<Rightarrow> k8s_flow \<Rightarrow> pyval dict res" where
  "k8s_container_status a ka f =
     bindR (gen_k8s_config (kf_dockers f)) (\<lambda>(consul, recommend, model).
     bindR (k8s_report a ka ''consul'' consul [(''status'', PStr ''UP'')]) (\<lambda>info.
     bindR (k8s_report a ka ''recommend'' recommend info) (\<lambda>info.
     bindR (k8s_report a ka ''model'' model info) (\<lambda>info.
     Inr (if dict_get info ''consul'' = None \<and> dict_get info ''recommend'' = None \<and> dict_get info ''model'' = None
          then dict_set ''status'' (PStr ''DOWN'') info else info)))))"

definition k8s_execute_status :: "answers \<Rightarrow> kube_answers \<Rightarrow> k8s_flow \<Rightarrow> process \<Rightarrow> pyval dict res \<times> process" where
  "k8s_execute_status a ka f =
     bindG (liftG (k8s_container_status a ka f)) (\<lambda>info.
       if dict_get info ''status'' \<noteq> Some (PStr ''UP'') then liftG (Inr info)
       else bindG (liftG (healthRecommendService (an_health a))) (\<lambda>v.
         if v \<noteq> PStr ''UP'' then liftG (Inr (dict_set ''status'' v info))
         else service_status a \<lparr>lf_dockers = [], lf_online = kf_online f\<rparr> (dict_set ''status'' v info)))"

definition k8s_execute_update :: "answers \<Rightarrow> kube_answers \<Rightarrow> k8s_flow \<Rightarrow> process \<Rightarrow> update_result res \<times> process" where
  "k8s_execute_update a ka f p =
     (case bindR (gen_k8s_config (kf_dockers f)) (\<lambda>(consul, _, _).
         bindR (read_key ''name'' consul) (\<lambda>name.
         bindR (read_key ''namespace'' (set_default ''namespace'' (PStr ''saas-demo'') consul)) (\<lambda>ns.
         Inr (ka_active ka (an_str a name) (an_str a ns))))) of
        Inl e \<Rightarrow> (Inl e, p)
      | Inr up \<Rightarrow>
          if \<not> up then (Inr (NotUpdated ''consul k8s service is not up!''), p)
          else (case in_shared (gen_server_config (an_yaml a) (an_str a) (kf_online f)) p of
              (Inl _, p) \<Rightarrow> (Inr (NotUpdated ''recommend service config generate fail''), p)
            | (Inr text, p) \<Rightarrow>
                (case putServiceConfig (an_print_one a) (an_put a) of
                   Inl _ \<Rightarrow> (Inr (NotUpdated ''put service config to consul fail''), p)
                 | Inr _ \<Rightarrow> (Inr Updated, event (PutConfig text) p))))"

text \<open>Unlike that of the local executor, a reload with a new flow does not go down first.\<close>

definition k8s_execute_reload :: "answers \<Rightarrow> kube_answers \<Rightarrow> k8s_flow \<Rightarrow> k8s_flow option \<Rightarrow> process \<Rightarrow> unit res \<times> process" where
  "k8s_execute_reload a ka f new =
     (case new of None \<Rightarrow> k8s_execute_down a ka f | Some f' \<Rightarrow> k8s_execute_up a ka f')"

text \<open>Filling keeps what is there and takes the rest from the default.\<close>

lemma fill_default_get:
  assumes "distinct (map fst def)"
  shows "dict_get (fill_default def d) k =
     (if not_none (dict_get d k) = None then (case map_of def k of None \<Rightarrow> dict_get d k | Some v \<Rightarrow> Some v) else dict_get d k)"
  using assms
proof (induction def arbitrary: d)
  case (Cons kv def)
  obtain k' v where kv: "kv = (k', v)" by (cases kv)
  let ?d = "if not_none (dict_get d k') = None then dict_set k' v d else d"
  have f: "fill_default (kv # def) d = fill_default def ?d" by (simp add: fill_default_def kv)
  have "k' \<notin> fst ` set def" using Cons.prems by (auto simp: kv)
  then have "map_of def k' = None" by (simp add: map_of_eq_None_iff)
  moreover have "dict_get (fill_default def ?d) k =
     (if not_none (dict_get ?d k) = None then (case map_of def k of None \<Rightarrow> dict_get ?d k | Some v \<Rightarrow> Some v) else dict_get ?d k)"
    using Cons by (auto simp: kv)
  ultimately show ?case unfolding f by (auto simp: kv pydict.get_put not_none_def split: option.splits pyval.splits)
qed (simp add: fill_default_def)

text \<open>
  C40: a deployment that names no namespace is brought up in \<open>default\<close>, but its status is asked in \<open>saas-demo\<close>: a
  cluster with just the services that came up is reported \<open>DOWN\<close>.
\<close>

theorem k8s_status_asks_elsewhere:
  assumes "gen_k8s_config ds = Inr (consul, recommend, model)"
    and "list_all (\<lambda>d. dict_get d ''namespace'' = None) [consul, recommend, model]"
    and "read_key ''name'' recommend = Inr rname"
    and "\<forall>s ns. ka_active ka s ns \<longrightarrow> ns = an_str a (PStr ''default'')"
    and "an_str a (PStr ''default'') \<noteq> an_str a (PStr ''saas-demo'')"
  shows "dict_get (fill_default consul_default consul) ''namespace'' = Some (PStr ''default'') \<and>
    k8s_container_status a ka \<lparr>kf_dockers = ds, kf_online = c\<rparr> = Inr [(''status'', PStr ''DOWN'')]"
proof -
  obtain cname mname where n: "read_key ''name'' consul = Inr cname" "read_key ''name'' model = Inr mname"
  proof (cases "ds = []")
    case True
    then show thesis using assms(1,3) by (simp add: gen_k8s_config_def read_key_def dict_get_def)
  next
    case False
    then obtain m port where "read_key ''name'' (set_default ''port'' (PInt 8500) (data_for m ''consul'')) = Inr port"
      "consul = set_default ''port'' (PInt 8500) (data_for m ''consul'')" "\<exists>mname. read_key ''name'' model = Inr mname"
      using assms(1) by (auto simp: gen_k8s_config_def bindR_Inr_iff Let_def)
    then show thesis using that by blast
  qed
  have f: "dict_get (fill_default consul_default consul) ''namespace'' = Some (PStr ''default'')"
    using assms(2) by (subst fill_default_get) (simp_all add: consul_default_def not_none_def)
  have out: "\<not> ka_active ka s (an_str a (PStr ''saas-demo''))" for s using assms(4,5) by auto
  have r: "k8s_report a ka key d info = Inr (dict_set ''status'' (PStr ''WAIT'') info)"
    if "read_key ''name'' d = Inr nm" "dict_get d ''namespace'' = None" for key d nm info
    using that out by (simp add: k8s_report_def set_default_def read_key_def pydict.get_put)
  have "k8s_container_status a ka \<lparr>kf_dockers = ds, kf_online = c\<rparr> = Inr [(''status'', PStr ''DOWN'')]"
    using assms(2) r [OF n(1)] r [OF n(2)] r [OF assms(3)]
    by (simp add: k8s_container_status_def assms(1)) (simp add: dict_get_def dict_set_def)
  with f show ?thesis by blast
qed

definition demo_kube :: "(string \<times> docker_info) list" where
  "demo_kube = map (\<lambda>(n, p). (n, \<lparr>di_image = Some n, di_ports = Some [p], di_volumes = None, di_environment = None,
      di_options = None\<rparr>))
     [(''consul'', 8500), (''recommend'', 13013), (''model'', 50000)]"

theorem k8s_status_asks_elsewhere_witness:
  "k8s_container_status all_well \<lparr>ka_text = (\<lambda>_ _. ''t''), ka_active = (\<lambda>_ ns. ns = ''default'')\<rparr>
     \<lparr>kf_dockers = demo_kube, kf_online = demo_flow\<rparr> = Inr [(''status'', PStr ''DOWN'')]"
proof -
  have "(case gen_k8s_config demo_kube of Inl _ \<Rightarrow> None | Inr (c, r, m) \<Rightarrow>
      Some (map (\<lambda>d. dict_get d ''namespace'' = None) [c, r, m], map_option demo_str (dict_get r ''name''))) =
    Some ([True, True, True], Some ''recommend-k8s-service'')" by code_simp
  then obtain c r m v where g: "gen_k8s_config demo_kube = Inr (c, r, m)" and n: "read_key ''name'' r = Inr v"
    and d: "list_all (\<lambda>d. dict_get d ''namespace'' = None) [c, r, m]"
    by (auto simp: read_key_def split: sum.splits)
  show ?thesis
    using k8s_status_asks_elsewhere [OF g d n, of "\<lparr>ka_text = (\<lambda>_ _. ''t''), ka_active = (\<lambda>_ ns. ns = ''default'')\<rparr>" all_well demo_flow]
    by (simp add: all_well_def demo_str_def)
qed

end
