(* ===== verification/Spec2Isabelle.thy ===== *)
theory Spec2Isabelle
  imports Shell Launcher JobRunner Metric Updaters Uniquifier Embedding Model Trainer
    Agent Storage Estimator Fitting Experiment Features Retrieval Towers Milvus Flow Schedulers SageMaker Runner
    Offline ServiceConfig Generator Compose Online
begin

text \<open>
  A verification development for MetaSpore, a platform for training and serving recommendation models
  (\<open>src/python\<close> with parts of \<open>src/cpp\<close>).

  \<^bold>\<open>The program.\<close> \<open>python/metaspore\<close> is the library that runs inside a Spark job: a process of the job is
  a coordinator, a server or a worker of a parameter server; a worker runs a PyTorch module whose sparse
  parameters live on the servers. An estimator describes a training run; its launcher starts the processes, hands
  the settings to the agents and drives them; fitting gives a model that transforms data frames. Two-tower
  retrieval is built on this: it trains two modules, indexes the embeddings of the items with faiss or in Milvus
  and answers queries. \<open>python/ps/job.py\<close> is the command line that starts such a job through \<open>spark-submit\<close>.
  \<open>python/metasporeflow\<close> deploys whole flows: it loads their YAML files, schedules the training tasks on a local
  container, on Kubernetes or on SageMaker, and puts the result online.

  \<^bold>\<open>Conventions.\<close> \<open>Prelude\<close> has the base: an exception is a value of \<open>exn\<close> (its class only), a call that may
  raise gives \<open>exn + 'a\<close>, sequenced with \<open>bindR\<close>, \<open>raise_if\<close>, \<open>mapR\<close> and \<open>foldR\<close>; a dynamic Python value is a
  \<open>pyval\<close>; strings are lists of the first 256 characters. \<open>Dict\<close> has dictionaries in insertion order and the
  locale \<open>kv_store\<close>, interpreted on them and on the registry of agents. A definition bears the name of the
  function or method that it models, where Isabelle allows it; arguments that are functions stand for code that
  is not in the repository (torch, Spark, boto3, networkx, the shell, YAML), and what a theorem needs of them is
  an assumption of that theorem, with a witness in which a concrete function satisfies it. Floating-point numbers
  are real or rational numbers without rounding; machine integers are words or carry their bound.

  \<^bold>\<open>The command line.\<close>
    \<^item> \<open>Utils\<close>: \<open>name_utils.py\<close>, \<open>url_utils.py\<close>, \<open>job_utils.py\<close>; which names are accepted, what is removed
      from a pair of names, which sizes are valid and how they are merged.
    \<^item> \<open>Shell\<close>: \<open>shell_utils.py\<close>; quoted commands are read back by a reader of bash words.
    \<^item> \<open>JobRunner\<close> (\<open>ps/job.py\<close>) and \<open>Launcher\<close> (\<open>ps_launcher.py\<close>): what a successful parse guarantees, the
      precedence of the layers of the Spark configuration, the session that is always stopped. This theory has
      the property that joins the two: the options written by the one are those read by the other.

  \<^bold>\<open>The parameter server.\<close>
    \<^item> \<open>Agent\<close>: \<open>agent.py\<close>; the object of an agent, the registry, the start of a worker as a step relation, and
      the protocol that pushes metrics to the coordinator, over sequences of interleaved operations, in which a
      worker may push again before the callback of its last push. The second \<open>handle_request\<close> of the class hides
      the first, so a request with another command than \<open>PushMetric\<close> ends in an \<open>AttributeError\<close>.
    \<^item> \<open>Metric\<close>: \<open>metric.py\<close> and the buffer routines of \<open>model_metric_buffer.cpp\<close>; the AUC as a ranking of
      pairs, merging against one process that sees everything, packing of the states.
    \<^item> \<open>Updaters\<close>: \<open>updater.py\<close>, \<open>initializer.py\<close>; every sparse update is the dense update of the gathered rows,
      through the locale \<open>row_slots\<close> of the slices of a state tensor. Quotients are over the reals: FTRL with
      \<open>alpha = 0.0\<close>, which its constructor accepts, is outside the model of the step.
    \<^item> \<open>Uniquifier\<close>: the open-addressing table of \<open>hash_uniquifier.cpp\<close> on 64-bit words; it ends and is correct
      below \<open>2 ^ 31\<close> codes. \<open>Embedding\<close>: \<open>embedding.py\<close>, from the constructor to the rows of a minibatch, on the
      interface \<open>uniquifier\<close>; the module that reduces the bags keeps the mode of the constructor.
    \<^item> \<open>Model\<close> and \<open>Trainer\<close>: \<open>model.py\<close>, \<open>distributed_tensor.py\<close>, \<open>distributed_trainer.py\<close>; the programs of
      the ranks between their barriers, with the locale \<open>phased_run\<close> for all interleavings.

  \<^bold>\<open>Training.\<close>
    \<^item> \<open>Storage\<close>: \<open>s3_utils.py\<close>, \<open>file_utils.py\<close> over a store of objects and files, with the locale \<open>dir_store\<close>.
    \<^item> \<open>Estimator\<close> and \<open>Fitting\<close>: \<open>estimator.py\<close>; the checks of the settings, the launcher, the distribution to
      the workers, fit and transform, and what a fitted model is given.
    \<^item> \<open>Experiment\<close>: \<open>experiment.py\<close>; submission of jobs to the scheduler and the check of online jobs.
    \<^item> \<open>Features\<close>: \<open>feature_group.py\<close>, \<open>schema_utils.py\<close>, \<open>input.py\<close>, \<open>output.py\<close>, \<open>cast.py\<close>, \<open>spark.py\<close>.

  \<^bold>\<open>Retrieval\<close> (\<open>two_tower_retrieval.py\<close>).
    \<^item> \<open>Retrieval\<close>: the faiss index: partition files, their writing by the workers as a step relation, loading.
    \<^item> \<open>Towers\<close>: module, settings and checks, launchers, fit, transform, columns and texts of a result.
    \<^item> \<open>Milvus\<close>: the index in a collection; the calls to the service are events, and a small machine of the
      service (\<open>protocol_step\<close>) is the specification that every interleaving of the workers must follow.

  \<^bold>\<open>Flows\<close> (\<open>metasporeflow\<close>).
    \<^item> \<open>Flow\<close>: \<open>resources/\<close>; the manager of the resources and the loading of a flow file with the files it uses.
    \<^item> \<open>Schedulers\<close>: the data of a flow, tasks and their order, the scripts of the three schedulers, and a reader
      of scripts (\<open>run_script\<close>) that tells which tasks run when one fails. The reader knows lines, \<open>&&\<close> and
      \<open>set -e\<close>, not quoting, so what is proved of it is for paths without characters that bash interprets.
    \<^item> \<open>SageMaker\<close>: the scheduler that installs itself in the crontab of the user. \<open>Runner\<close>: what the crontab
      starts, with the arguments that it reads from the words of its entry, its lock as a step relation, its
      bounded wait, and the endpoint that serves the model.
    \<^item> \<open>Offline\<close>: creation, start and stop of the schedulers in the three deployments.
    \<^item> \<open>ServiceConfig\<close>: \<open>online/service_config.py\<close> and the data of \<open>online_flow.py\<close>. The classes of the
      configuration have lists as defaults, which all objects of a process share, so these lists are the state
      \<open>shared\<close>, and the operations that append to them are steps on it (\<open>bindG\<close>, \<open>foldG\<close>), with the predicate
      \<open>appends\<close> of the steps that only append and a weakest precondition \<open>wp\<close>. \<open>Generator\<close>: \<open>online_generator.py\<close>;
      every name and every column that the first configuration uses is defined in it (for flows without rank
      models that name their own service, whose generated feature reads a service that does not exist), and what a
      second generation in the same process does.
    \<^item> \<open>Compose\<close>: \<open>compose_config.py\<close> and the generation of the compose file and of the data for Kubernetes; the
      environment that a flow gives to a container is not used by the code.
      \<open>Online\<close>: the executors \<open>online_executor.py\<close> and \<open>online_k8s_executor.py\<close> with \<open>check_service.py\<close> and
      \<open>cloud_consul.py\<close>; the answers of docker, kubectl, consul and the service are arguments, and what is done
      outside is a list of events: the order of coming up, what the status \<open>UP\<close> means, the bounded tries. The
      functions that try end a failure with \<open>traceback.print_exception(ex)\<close>, which Python accepts from 3.10 on
      and refuses with a \<open>TypeError\<close> before, so the version is an argument.

  \<^bold>\<open>Bounds.\<close> Loops of the code are recursive functions with a termination proof: the wait for a training job has
  at most 1202 polls and that for an endpoint 7202, consul and the service are tried 300 times, the probes of the
  hash table end because a free bucket is reached. Loading a flow has no bound in the code and is a partial
  function; it is proved to return when the files are finitely many. So is the wait for a container
  (\<open>wait_active\<close>), which returns exactly when the container becomes active. The waits of a worker start are a step relation, where not returning is a state
  without a step of the caller.

  \<^bold>\<open>Not modelled.\<close> Printing and logging; the content of tensors beyond the operations above, and the backward
  pass, which are torch; the algorithm library \<open>algos/\<close> and \<open>nn/\<close>, which consists of torch modules and Spark
  pipelines; the export to ONNX; argparse, YAML, pickle, boto3 and the Spark calls themselves; of
  \<open>metasporeflow/online\<close> the monitor, the texts of the templates and the entry point of the SageMaker image;
  tracking and the command-line wrapper; the C++ server, feature extraction and serving,
  the Java services, demos and notebooks.
\<close>

section \<open>From the job runner to the launcher\<close>

text \<open>
  \<open>job.py\<close> writes the options of the agent on the command line that \<open>ps_launcher.py\<close> parses.
\<close>

lemma argv_pairs_conf:
  assumes "\<forall>(n, v) \<in> set d. \<not> startswith n ''-'' \<and> n \<noteq> []"
  shows "argv_pairs (conf_args env d) =
    Inr (map (\<lambda>(n, v). (''--conf'', n @ EQ # normalize_option_value env v)) d)"
  using assms
proof (induction d)
  case (Cons nv d)
  obtain n v where nv: "nv = (n, v)" by (cases nv)
  have "\<not> startswith (n @ EQ # normalize_option_value env v) ''-''"
    using Cons.prems by (cases n) (auto simp: nv startswith_def)
  moreover have "option_name ''--conf'' = Inr ''--conf''" by (simp add: option_name_def)
  ultimately show ?case using Cons by (simp add: conf_args_def nv)
qed (simp add: conf_args_def)

lemma ps_argv_launcher:
  assumes "\<not> startswith cls ''-''" "\<not> startswith job ''-''"
    and "level \<in> set SPARK_LOG_LEVELS" and "0 < w" "0 < s"
    and "\<forall>(n, v) \<in> set d. \<not> startswith n ''-'' \<and> n \<noteq> []"
  shows "ps_argv ([''--agent-class'', cls, ''--worker-count'', str_int w, ''--server-count'', str_int s,
      ''--job-name'', job, ''--spark-log-level'', level] @ conf_args env d) =
    Inr \<lparr>pa_agent_class = cls, pa_worker_count = w, pa_server_count = s, pa_job_name = job,
         pa_keep_session = False, pa_spark_log_level = level,
         pa_conf = (if d = [] then None
                    else Some (map (\<lambda>(n, v). n @ EQ # normalize_option_value env v) d))\<rparr>"
proof -
  have dash: "\<not> startswith (str_int i) ''-''" if "0 < i" for i
    using that str_nat_digits [of "nat i"]
    by (cases "str_nat (nat i)") (auto simp: str_int_def startswith_def)
  have lv: "\<not> startswith level ''-''" using assms(3) by (auto simp: SPARK_LOG_LEVELS_def startswith_def)
  have c: "map_of (rev (map (\<lambda>(n, v). (''--conf'', g n v)) d)) k = None" if "k \<noteq> ''--conf''" for k g
    using that by (auto simp: map_of_eq_None_iff)
  have f: "filter (\<lambda>(n, v). n = ''--conf'') (map (\<lambda>(n, v). (''--conf'', g n v)) d) =
      map (\<lambda>(n, v). (''--conf'', g n v)) d" for g :: "string \<Rightarrow> pyval \<Rightarrow> string"
    by (induction d) auto
  have g: "map snd (map (\<lambda>(n, v). (''--conf'', g n v)) d) = map (\<lambda>(n, v). g n v) d"
    for g :: "string \<Rightarrow> pyval \<Rightarrow> string"
    by (induction d) auto
  show ?thesis
    using assms(1-5) dash lv
    by (auto simp: ps_argv_def option_name_def argv_pairs_conf [OF assms(6)] required_option_def
        required_int_def map_add_def c f g simp del: map_map)
qed

lemma launcher_conf_distinct:
  assumes "launcher_conf r = Inr d"
  shows "distinct (map fst d)"
proof -
  obtain ag kvs where "d = dict_update (dict_update [] ag) (map (\<lambda>(n, v). (n, PStr v)) kvs)"
    using assms by (auto simp: launcher_conf_def bindR_Inr_iff dest!: foldR_add_conf_item)
  then show ?thesis by (simp add: dict_keys_update)
qed

definition plain_name :: "string \<Rightarrow> bool" where
  "plain_name n \<longleftrightarrow> n \<noteq> [] \<and> \<not> startswith n ''-'' \<and> EQ \<notin> set n"

text \<open>C37: the launcher receives what the job runner sent: the argument list that \<open>job.py\<close> builds for
  a checked job is accepted by the command-line parser of \<open>ps_launcher.py\<close>, which ends up with the
  same agent class and node counts and with exactly the configured agent options, in order, each value
  as it reads after being written as an option.\<close>

theorem agent_options_transmitted:
  assumes "parse_args env a = Inr r" and "agent_class a = Some cls" and "cls \<noteq> []"
    and "launcher_conf r = Inr d" and "list_all (\<lambda>(n, v). plain_name n) d"
    and "r_worker_count r = PInt w" and "r_server_count r = PInt s"
    and "\<not> startswith cls ''-''" and "\<not> startswith (get_job_name env ts r) ''-''"
    and "spark_log_level a \<in> set SPARK_LOG_LEVELS"
  shows "\<exists>path argv l. get_ps_launcher_config env ts r = Inr (path # argv) \<and>
     bindR (ps_argv argv) ps_parse_args = Inr l \<and>
     l_agent_class l = cls \<and> l_worker_count l = w \<and> l_server_count l = s \<and>
     l_agent_attributes l = map (\<lambda>(n, v). (n, unnormalize_option_value (normalize_option_value env v))) d"
proof -
  have pos: "0 < w" "0 < s" and r: "r_args r = a"
    using parse_args_facts [OF assms(1)] assms(6,7) by simp_all
  have names: "\<forall>(n, v) \<in> set d. \<not> startswith n ''-'' \<and> n \<noteq> []" "\<forall>(n, v) \<in> set d. EQ \<notin> set n"
    using assms(5) by (auto simp: list_all_iff plain_name_def)
  have "get_agent_attributes
      (if d = [] then None else Some (map (\<lambda>(n, v). n @ EQ # normalize_option_value env v) d)) =
    Inr (map (\<lambda>(n, v). (n, unnormalize_option_value (normalize_option_value env v))) d)"
  proof -
    have "map (\<lambda>(n, v). n @ EQ # v) (map (\<lambda>(n, v). (n, normalize_option_value env v)) d) =
        map (\<lambda>(n, v). n @ EQ # normalize_option_value env v) d" by auto
    moreover have "\<forall>(n, v) \<in> set (map (\<lambda>(n, v). (n, normalize_option_value env v)) d). EQ \<notin> set n"
      using names(2) by auto
    moreover have "distinct (map fst [] @ map fst (map (\<lambda>(n, v). (n, normalize_option_value env v)) d))"
      using launcher_conf_distinct [OF assms(4)] by (simp add: comp_def case_prod_unfold)
    ultimately show ?thesis
      using get_agent_attributes_items [of "map (\<lambda>(n, v). (n, normalize_option_value env v)) d" "[]"]
        dict_rebuild [of "[]" "map (\<lambda>(n, v). (n, normalize_option_value env v)) d" unnormalize_option_value]
      by (auto simp: get_agent_attributes_def comp_def case_prod_unfold)
  qed
  moreover have "truthy (agent_class (r_args r))" using assms(2,3) r by (simp add: truthy_def)
  ultimately show ?thesis
    using ps_argv_launcher [OF assms(8,9,10) pos names(1), of env] assms(2,4,6,7) r pos
    by (auto simp: get_ps_launcher_config_def py_str_def ps_parse_args_def ps_node_count_def)
qed

lemma demo_launcher_conf: "launcher_conf demo_runner = Inr [(''lr'', PStr ''5'')]"
  by (simp add: launcher_conf_def demo_runner_def demo_args_def opt_items_def add_conf_item_def
      option_item_def dict_set_def)

theorem agent_options_transmitted_witness:
  "\<exists>path argv l. get_ps_launcher_config demo_env ''now'' demo_runner = Inr (path # argv) \<and>
     bindR (ps_argv argv) ps_parse_args = Inr l \<and>
     l_agent_class l = ''m.A'' \<and> l_worker_count l = 2 \<and> l_server_count l = 1 \<and>
     l_agent_attributes l = map (\<lambda>(n, v). (n, unnormalize_option_value (normalize_option_value demo_env v)))
       [(''lr'', PStr ''5'')]"
  by (rule agent_options_transmitted [OF demo_parse _ _ demo_launcher_conf])
    (simp_all add: demo_args_def demo_runner_def plain_name_def startswith_def get_job_name_def
      SPARK_LOG_LEVELS_def Let_def)

text \<open>which option values survive the trip through the command line: null, Booleans and integers
  always; a string exactly when it is none of \<open>null\<close>, \<open>true\<close>, \<open>false\<close> and does not read as an integer
  or a float, so a version such as \<open>1.10\<close> or a numeric identifier arrives as a number.\<close>

theorem option_value_roundtrip:
  "unnormalize_option_value (normalize_option_value env PNone) = PNone \<and>
   unnormalize_option_value (normalize_option_value env (PBool b)) = PBool b \<and>
   unnormalize_option_value (normalize_option_value env (PInt i)) = PInt i \<and>
   (unnormalize_option_value (normalize_option_value env (PStr s)) = PStr s \<longleftrightarrow>
      s \<notin> {''null'', ''true'', ''false''} \<and> py_int s = None \<and> py_float s = None)"
proof -
  have "unnormalize_option_value s = PStr s \<longleftrightarrow>
      s \<notin> {''null'', ''true'', ''false''} \<and> py_int s = None \<and> py_float s = None"
    by (auto simp: unnormalize_option_value_def split: option.splits)
  then show ?thesis by (simp add: normalize_option_value_def py_str_def)
qed

end
